(* ===== verification/Prelude.thy ===== *)
theory Prelude
  imports Main "HOL-Library.List_Lexorder" "HOL-Library.Product_Lexorder" "HOL-Library.Char_ord"
begin

text \<open>
  Shared ground of the development: the collections of hints the component theories use, the
  list operations that stand for the relational queries of the repositories, and programs that
  thread a state and may raise an error, with a calculus for what they preserve.
\<close>

section \<open>Collections of hints\<close>

named_theorems prog_simps \<open>symbolic execution of programs\<close>
named_theorems preserve_intros \<open>composition rules for preserved predicates\<close>
named_theorems op_defs \<open>definitions of the repository and service operations\<close>
named_theorems wp_simps \<open>weakest preconditions of programs\<close>

section \<open>Tables as lists of rows\<close>

text \<open>
  \<open>select_first\<close> is \<open>SELECT .. WHERE p LIMIT 1\<close>, \<open>update_where\<close> is \<open>UPDATE .. SET f WHERE p\<close>,
  \<open>delete_where\<close> is \<open>DELETE .. WHERE p\<close>, \<open>count_where\<close> is \<open>SELECT count(*) WHERE p\<close>.
\<close>

abbreviation select_first :: "('r \<Rightarrow> bool) \<Rightarrow> 'r list \<Rightarrow> 'r option" where
  "select_first p rs \<equiv> List.find p rs"

definition update_where :: "('r \<Rightarrow> bool) \<Rightarrow> ('r \<Rightarrow> 'r) \<Rightarrow> 'r list \<Rightarrow> 'r list" where
  "update_where p f rs = map (\<lambda>r. if p r then f r else r) rs"

definition delete_where :: "('r \<Rightarrow> bool) \<Rightarrow> 'r list \<Rightarrow> 'r list" where
  "delete_where p rs = filter (\<lambda>r. \<not> p r) rs"

text \<open>\<open>FROM xs INNER JOIN ys ON p\<close>.\<close>

definition inner_join :: "('a \<Rightarrow> 'b \<Rightarrow> bool) \<Rightarrow> 'a list \<Rightarrow> 'b list \<Rightarrow> ('a \<times> 'b) list" where
  "inner_join p xs ys = concat (map (\<lambda>x. map (Pair x) (filter (p x) ys)) xs)"

definition count_where :: "('r \<Rightarrow> bool) \<Rightarrow> 'r list \<Rightarrow> nat" where
  "count_where p rs = length (filter p rs)"

lemma set_inner_join [simp]:
  "set (inner_join p xs ys) = {(x, y). x \<in> set xs \<and> y \<in> set ys \<and> p x y}"
  by (auto simp: inner_join_def)

lemma inner_join_Cons:
  "inner_join p (x # xs) ys = map (Pair x) (filter (p x) ys) @ inner_join p xs ys"
  by (simp add: inner_join_def)

lemma distinct_filter_single:
  assumes "distinct (map k ys)" and "\<And>y y'. q y \<Longrightarrow> q y' \<Longrightarrow> k y = k y'"
  shows "filter q ys = [] \<or> (\<exists>y. filter q ys = [y])"
proof (cases "filter q ys")
  case (Cons y zs)
  have d: "distinct (map k (filter q ys))" using assms(1) by (rule distinct_map_filter)
  have "zs = []"
  proof (cases zs)
    case (Cons z zs')
    have "set (filter q ys) = insert y (insert z (set zs'))" using \<open>filter q ys = y # zs\<close> Cons by simp
    then have "q y" "q z" by auto
    then have "k y = k z" by (rule assms(2))
    with d \<open>filter q ys = y # zs\<close> Cons show ?thesis by simp
  qed
  with Cons show ?thesis by simp
qed simp

lemma inner_join_key_subset: "set (map (\<lambda>(x, y). kx x) (inner_join p xs ys)) \<subseteq> set (map kx xs)"
  by auto

lemma distinct_inner_join:
  assumes "distinct (map kx xs)" and "distinct (map ky ys)"
    and "\<And>x y y'. p x y \<Longrightarrow> p x y' \<Longrightarrow> ky y = ky y'"
  shows "distinct (map (\<lambda>(x, y). kx x) (inner_join p xs ys))"
  using assms(1)
proof (induction xs)
  case Nil
  show ?case by (simp add: inner_join_def)
next
  case (Cons x xs)
  then have IH: "distinct (map (\<lambda>(x, y). kx x) (inner_join p xs ys))"
    and new: "kx x \<notin> set (map (\<lambda>(x, y). kx x) (inner_join p xs ys))"
    using inner_join_key_subset [of kx p xs ys] by auto
  from distinct_filter_single [OF assms(2), of "p x"] assms(3)
  consider "filter (p x) ys = []" | y where "filter (p x) ys = [y]" by blast
  then show ?case
  proof cases
    case 1
    then show ?thesis using IH by (simp add: inner_join_Cons)
  next
    case 2
    then show ?thesis using IH new by (simp only: inner_join_Cons list.map append_Cons append_Nil
          prod.case distinct.simps) simp
  qed
qed

lemma map_filter_update_where [simp]:
  assumes "\<And>r. k (f r) = k r" and "\<And>r. q (f r) = q r"
  shows "map k (filter q (update_where p f rs)) = map k (filter q rs)"
  by (induction rs) (auto simp: update_where_def assms)

lemma find_SomeD: "List.find p xs = Some x \<Longrightarrow> x \<in> set xs \<and> p x"
  by (auto simp: find_Some_iff)

lemma find_NoneD: "List.find p xs = None \<Longrightarrow> x \<in> set xs \<Longrightarrow> \<not> p x"
  by (auto simp: find_None_iff)

lemma find_append [simp]:
  "List.find p (xs @ ys) = (case List.find p xs of None \<Rightarrow> List.find p ys | Some x \<Rightarrow> Some x)"
  by (induction xs) auto

lemma find_cong_set: "(\<And>x. x \<in> set xs \<Longrightarrow> p x = q x) \<Longrightarrow> List.find p xs = List.find q xs"
  by (induction xs) auto

lemma distinct_key_eq:
  "distinct (map k xs) \<Longrightarrow> x \<in> set xs \<Longrightarrow> y \<in> set xs \<Longrightarrow> k x = k y \<Longrightarrow> x = y"
  by (auto simp: distinct_map dest: inj_onD)

lemma find_unique_key:
  assumes "distinct (map k xs)" and "x \<in> set xs" and "p x" and "\<And>y. p y \<Longrightarrow> k y = k x"
  shows "List.find p xs = Some x"
proof (cases "List.find p xs")
  case None
  with assms(2,3) show ?thesis by (auto dest: find_NoneD)
next
  case (Some y)
  then have "y \<in> set xs" and "p y" by (auto dest: find_SomeD)
  with assms have "y = x" by (blast dest: distinct_key_eq)
  with Some show ?thesis by simp
qed

lemma set_update_where [simp]:
  "set (update_where p f rs) = {if p r then f r else r | r. r \<in> set rs}"
  by (auto simp: update_where_def)

lemma in_update_where:
  "x \<in> set (update_where p f rs) \<longleftrightarrow> (\<exists>r\<in>set rs. x = (if p r then f r else r))"
  by (auto simp: update_where_def)

lemma map_update_where [simp]:
  "(\<And>r. k (f r) = k r) \<Longrightarrow> map k (update_where p f rs) = map k rs"
  by (auto simp: update_where_def)

lemma length_update_where [simp]: "length (update_where p f rs) = length rs"
  by (simp add: update_where_def)

lemma update_where_append [simp]:
  "update_where p f (xs @ ys) = update_where p f xs @ update_where p f ys"
  by (simp add: update_where_def)

lemma update_where_idle:
  "(\<And>r. r \<in> set rs \<Longrightarrow> \<not> p r) \<Longrightarrow> update_where p f rs = rs"
  by (induction rs) (auto simp: update_where_def)

lemma filter_update_where_frame:
  assumes "\<And>r. r \<in> set rs \<Longrightarrow> p r \<Longrightarrow> \<not> q r \<and> \<not> q (f r)"
  shows "filter q (update_where p f rs) = filter q rs"
  using assms by (induction rs) (auto simp: update_where_def)

lemma find_update_where_frame:
  assumes "\<And>r. r \<in> set rs \<Longrightarrow> p r \<Longrightarrow> \<not> q r \<and> \<not> q (f r)"
  shows "List.find q (update_where p f rs) = List.find q rs"
  using assms by (induction rs) (auto simp: update_where_def)

lemma count_where_append [simp]:
  "count_where p (xs @ ys) = count_where p xs + count_where p ys"
  by (simp add: count_where_def)

lemma count_where_Cons [simp]:
  "count_where p (x # xs) = (if p x then 1 else 0) + count_where p xs"
  by (simp add: count_where_def)

lemma count_where_Nil [simp]: "count_where p [] = 0"
  by (simp add: count_where_def)

lemma count_update_where_le:
  assumes "\<And>r. r \<in> set rs \<Longrightarrow> q (if p r then f r else r) \<Longrightarrow> q r"
  shows "count_where q (update_where p f rs) \<le> count_where q rs"
  using assms by (induction rs) (auto simp: update_where_def)

lemma count_update_where_eq:
  assumes "\<And>r. r \<in> set rs \<Longrightarrow> p r \<Longrightarrow> q (f r) = q r"
  shows "count_where q (update_where p f rs) = count_where q rs"
  using assms by (induction rs) (auto simp: update_where_def)

lemma count_where_pos: "0 < count_where p rs \<longleftrightarrow> (\<exists>r\<in>set rs. p r)"
  by (induction rs) auto

lemma two_matching_rows:
  assumes "distinct (map k rs)" and "1 < count_where p rs" and "x \<in> set rs"
  shows "\<exists>y\<in>set rs. p y \<and> k y \<noteq> k x"
proof (rule ccontr)
  assume "\<not> ?thesis"
  then have only: "\<And>y. y \<in> set rs \<Longrightarrow> p y \<Longrightarrow> y = x"
    using assms(1,3) by (metis distinct_key_eq)
  have "distinct rs"
    using assms(1) by (simp add: distinct_map)
  then have "length (filter p rs) = card (set (filter p rs))"
    by (metis distinct_card distinct_filter)
  also have "\<dots> \<le> card {x}"
    by (rule card_mono) (auto dest: only)
  finally show False
    using assms(2) by (simp add: count_where_def)
qed

section \<open>Ordered queries\<close>

text \<open>
  \<open>ORDER BY created_at DESC, id DESC LIMIT n\<close>: the key of a row is the pair of its creation
  instant and its id, compared lexicographically.
\<close>

definition order_desc :: "('r \<Rightarrow> 'k::linorder) \<Rightarrow> 'r list \<Rightarrow> 'r list" where
  "order_desc k rs = rev (sort_key k rs)"

lemma set_order_desc [simp]: "set (order_desc k rs) = set rs"
  by (simp add: order_desc_def)

lemma length_order_desc [simp]: "length (order_desc k rs) = length rs"
  by (simp add: order_desc_def)

lemma sorted_order_desc: "sorted_wrt (\<lambda>x y. k y \<le> k x) (order_desc k rs)"
proof -
  have "sorted (map k (sort_key k rs))" by simp
  then show ?thesis
    by (simp add: order_desc_def sorted_wrt_rev sorted_map)
qed

lemma distinct_order_desc: "distinct (map k rs) \<Longrightarrow> distinct (map k (order_desc k rs))"
proof -
  assume "distinct (map k rs)"
  then have "inj_on k (set rs)" and "distinct rs" by (auto simp: distinct_map)
  then show ?thesis by (simp add: order_desc_def distinct_map)
qed

section \<open>Programs with state and errors\<close>

type_synonym ('s, 'e, 'a) prog = "'s \<Rightarrow> ('e + 'a) \<times> 's"

definition ret :: "'a \<Rightarrow> ('s, 'e, 'a) prog" where
  "ret x = (\<lambda>s. (Inr x, s))"

definition throw :: "'e \<Rightarrow> ('s, 'e, 'a) prog" where
  "throw e = (\<lambda>s. (Inl e, s))"

definition bindP :: "('s, 'e, 'a) prog \<Rightarrow> ('a \<Rightarrow> ('s, 'e, 'b) prog) \<Rightarrow> ('s, 'e, 'b) prog" where
  "bindP m k = (\<lambda>s. case m s of (Inl e, t) \<Rightarrow> (Inl e, t) | (Inr x, t) \<Rightarrow> k x t)"

definition thenP :: "('s, 'e, 'a) prog \<Rightarrow> ('s, 'e, 'b) prog \<Rightarrow> ('s, 'e, 'b) prog" where
  "thenP m n = bindP m (\<lambda>_. n)"

definition getsP :: "('s \<Rightarrow> 'a) \<Rightarrow> ('s, 'e, 'a) prog" where
  "getsP f = (\<lambda>s. (Inr (f s), s))"

definition modifyP :: "('s \<Rightarrow> 's) \<Rightarrow> ('s, 'e, unit) prog" where
  "modifyP f = (\<lambda>s. (Inr (), f s))"

definition guardP :: "bool \<Rightarrow> 'e \<Rightarrow> ('s, 'e, unit) prog" where
  "guardP b e = (if b then ret () else throw e)"

definition whenP :: "bool \<Rightarrow> ('s, 'e, unit) prog \<Rightarrow> ('s, 'e, unit) prog" where
  "whenP b m = (if b then m else ret ())"

text \<open>\<open>catchP m h\<close> is \<open>try { m } catch (e) { h e }\<close>: what \<open>m\<close> wrote before it raised stays.\<close>

definition catchP :: "('s, 'e, 'a) prog \<Rightarrow> ('e \<Rightarrow> ('s, 'e, 'a) prog) \<Rightarrow> ('s, 'e, 'a) prog" where
  "catchP m h = (\<lambda>s. case m s of (Inl e, t) \<Rightarrow> h e t | (Inr x, t) \<Rightarrow> (Inr x, t))"

fun forP :: "'a list \<Rightarrow> ('a \<Rightarrow> ('s, 'e, unit) prog) \<Rightarrow> ('s, 'e, unit) prog" where
  "forP [] f = ret ()"
| "forP (x # xs) f = thenP (f x) (forP xs f)"

abbreviation result :: "('s, 'e, 'a) prog \<Rightarrow> 's \<Rightarrow> 'e + 'a" where
  "result m s \<equiv> fst (m s)"

abbreviation final :: "('s, 'e, 'a) prog \<Rightarrow> 's \<Rightarrow> 's" where
  "final m s \<equiv> snd (m s)"

lemma ret_apply [prog_simps, simp]: "ret x s = (Inr x, s)"
  by (simp add: ret_def)

lemma throw_apply [prog_simps, simp]: "throw e s = (Inl e, s)"
  by (simp add: throw_def)

lemma getsP_apply [prog_simps, simp]: "getsP f s = (Inr (f s), s)"
  by (simp add: getsP_def)

lemma modifyP_apply [prog_simps, simp]: "modifyP f s = (Inr (), f s)"
  by (simp add: modifyP_def)

lemma guardP_apply [prog_simps]: "guardP b e s = (if b then (Inr (), s) else (Inl e, s))"
  by (simp add: guardP_def)

lemma whenP_apply [prog_simps]: "whenP b m s = (if b then m s else (Inr (), s))"
  by (simp add: whenP_def)

lemma bindP_apply [prog_simps]:
  "bindP m k s = (case m s of (Inl e, t) \<Rightarrow> (Inl e, t) | (Inr x, t) \<Rightarrow> k x t)"
  by (simp add: bindP_def)

lemma thenP_apply [prog_simps]:
  "thenP m n s = (case m s of (Inl e, t) \<Rightarrow> (Inl e, t) | (Inr _, t) \<Rightarrow> n t)"
  by (simp add: thenP_def bindP_def)

lemma catchP_apply [prog_simps]:
  "catchP m h s = (case m s of (Inl e, t) \<Rightarrow> h e t | (Inr x, t) \<Rightarrow> (Inr x, t))"
  by (simp add: catchP_def)

lemma bindP_InrE:
  assumes "bindP m k s = (Inr y, u)"
  obtains x t where "m s = (Inr x, t)" and "k x t = (Inr y, u)"
  using assms by (auto simp: bindP_def split: prod.splits sum.splits)

lemma thenP_InrE:
  assumes "thenP m n s = (Inr y, u)"
  obtains x t where "m s = (Inr x, t)" and "n t = (Inr y, u)"
  using assms by (auto simp: thenP_def elim: bindP_InrE)

lemma bindP_assoc: "bindP (bindP m k) l = bindP m (\<lambda>x. bindP (k x) l)"
  by (auto simp: bindP_def fun_eq_iff split: prod.splits sum.splits)

subsection \<open>What a program preserves\<close>

definition preserves :: "('s \<Rightarrow> bool) \<Rightarrow> ('s, 'e, 'a) prog \<Rightarrow> bool" where
  "preserves P m \<longleftrightarrow> (\<forall>s. P s \<longrightarrow> P (final m s))"

lemma preservesI: "(\<And>s r t. P s \<Longrightarrow> m s = (r, t) \<Longrightarrow> P t) \<Longrightarrow> preserves P m"
  by (metis preserves_def prod.collapse)

lemma preservesD: "preserves P m \<Longrightarrow> P s \<Longrightarrow> P (final m s)"
  by (simp add: preserves_def)

lemma preserves_run: "preserves P m \<Longrightarrow> m s = (r, t) \<Longrightarrow> P s \<Longrightarrow> P t"
  by (metis preserves_def snd_conv)

lemma preserves_ret [preserve_intros]: "preserves P (ret x)"
  by (simp add: preserves_def)

lemma preserves_throw [preserve_intros]: "preserves P (throw e)"
  by (simp add: preserves_def)

lemma preserves_getsP [preserve_intros]: "preserves P (getsP f)"
  by (simp add: preserves_def)

lemma preserves_modifyP [preserve_intros]: "(\<And>s. P s \<Longrightarrow> P (f s)) \<Longrightarrow> preserves P (modifyP f)"
  by (simp add: preserves_def)

lemma preserves_guardP [preserve_intros]: "preserves P (guardP b e)"
  by (simp add: preserves_def guardP_def)

lemma preserves_bindP [preserve_intros]:
  "preserves P m \<Longrightarrow> (\<And>x. preserves P (k x)) \<Longrightarrow> preserves P (bindP m k)"
  by (force simp: preserves_def bindP_def split: prod.splits sum.splits)

lemma preserves_thenP [preserve_intros]:
  "preserves P m \<Longrightarrow> preserves P n \<Longrightarrow> preserves P (thenP m n)"
  by (simp add: thenP_def preserves_bindP)

lemma preserves_catchP [preserve_intros]:
  "preserves P m \<Longrightarrow> (\<And>e. preserves P (h e)) \<Longrightarrow> preserves P (catchP m h)"
  by (force simp: preserves_def catchP_def split: prod.splits sum.splits)

lemma preserves_whenP [preserve_intros]: "(b \<Longrightarrow> preserves P m) \<Longrightarrow> preserves P (whenP b m)"
  by (simp add: preserves_def whenP_def)

lemma preserves_if [preserve_intros]:
  "(b \<Longrightarrow> preserves P m) \<Longrightarrow> (\<not> b \<Longrightarrow> preserves P n) \<Longrightarrow> preserves P (if b then m else n)"
  by simp

lemma preserves_option [preserve_intros]:
  "(x = None \<Longrightarrow> preserves P m) \<Longrightarrow> (\<And>y. x = Some y \<Longrightarrow> preserves P (k y)) \<Longrightarrow>
   preserves P (case x of None \<Rightarrow> m | Some y \<Rightarrow> k y)"
  by (cases x) auto

lemma preserves_prod [preserve_intros]:
  "(\<And>a b. x = (a, b) \<Longrightarrow> preserves P (k a b)) \<Longrightarrow> preserves P (case x of (a, b) \<Rightarrow> k a b)"
  by (cases x) auto

lemma preserves_Let [preserve_intros]: "preserves P (k x) \<Longrightarrow> preserves P (let y = x in k y)"
  by simp

lemma preserves_forP [preserve_intros]:
  "(\<And>x. x \<in> set xs \<Longrightarrow> preserves P (f x)) \<Longrightarrow> preserves P (forP xs f)"
  by (induction xs) (auto intro: preserve_intros)

subsection \<open>Weakest preconditions\<close>

text \<open>
  \<open>wp m Q E w\<close>: from the state \<open>w\<close>, the program \<open>m\<close> either returns with \<open>Q\<close> of its result and its
  final state, or raises with \<open>E\<close> of its error and its final state. The equations compute it
  through the constructs.
\<close>

definition wp ::
  "('s, 'e, 'a) prog \<Rightarrow> ('a \<Rightarrow> 's \<Rightarrow> bool) \<Rightarrow> ('e \<Rightarrow> 's \<Rightarrow> bool) \<Rightarrow> 's \<Rightarrow> bool" where
  "wp m Q E s = (case m s of (Inl e, t) \<Rightarrow> E e t | (Inr x, t) \<Rightarrow> Q x t)"

lemma wp_ret [wp_simps]: "wp (ret x) Q E = Q x"
  by (simp add: wp_def fun_eq_iff)

lemma wp_throw [wp_simps]: "wp (throw e) Q E = E e"
  by (simp add: wp_def fun_eq_iff)

lemma wp_bindP [wp_simps]: "wp (bindP m k) Q E = wp m (\<lambda>x. wp (k x) Q E) E"
  by (auto simp: wp_def bindP_def fun_eq_iff split: prod.splits sum.splits)

lemma wp_thenP [wp_simps]: "wp (thenP m n) Q E = wp m (\<lambda>_. wp n Q E) E"
  by (simp add: thenP_def wp_bindP)

lemma wp_getsP [wp_simps]: "wp (getsP f) Q E = (\<lambda>s. Q (f s) s)"
  by (simp add: wp_def fun_eq_iff)

lemma wp_modifyP [wp_simps]: "wp (modifyP f) Q E = (\<lambda>s. Q () (f s))"
  by (simp add: wp_def fun_eq_iff)

lemma wp_guardP [wp_simps]: "wp (guardP b e) Q E = (\<lambda>s. if b then Q () s else E e s)"
  by (simp add: wp_def guardP_def fun_eq_iff)

lemma wp_whenP [wp_simps]: "wp (whenP b m) Q E = (\<lambda>s. if b then wp m Q E s else Q () s)"
  by (simp add: wp_def whenP_def fun_eq_iff)

lemma wp_catchP [wp_simps]: "wp (catchP m h) Q E = wp m Q (\<lambda>e. wp (h e) Q E)"
  by (auto simp: wp_def catchP_def fun_eq_iff split: prod.splits sum.splits)

lemma wp_if [wp_simps]: "wp (if b then m else n) Q E = (\<lambda>s. if b then wp m Q E s else wp n Q E s)"
  by (simp add: fun_eq_iff)

lemma wp_option [wp_simps]:
  "wp (case x of None \<Rightarrow> m | Some y \<Rightarrow> k y) Q E =
    (\<lambda>s. case x of None \<Rightarrow> wp m Q E s | Some y \<Rightarrow> wp (k y) Q E s)"
  by (cases x) auto

lemma wp_sum [wp_simps]:
  "wp (case x of Inl a \<Rightarrow> f a | Inr b \<Rightarrow> g b) Q E =
    (\<lambda>s. case x of Inl a \<Rightarrow> wp (f a) Q E s | Inr b \<Rightarrow> wp (g b) Q E s)"
  by (cases x) auto

lemma wp_prod [wp_simps]: "wp (case x of (a, b) \<Rightarrow> k a b) Q E = (\<lambda>s. case x of (a, b) \<Rightarrow> wp (k a b) Q E s)"
  by (cases x) auto

lemma wp_Inr: "wp m Q E s \<Longrightarrow> m s = (Inr x, t) \<Longrightarrow> Q x t"
  by (simp add: wp_def)

lemma wp_Inl: "wp m Q E s \<Longrightarrow> m s = (Inl e, t) \<Longrightarrow> E e t"
  by (simp add: wp_def)

lemma wp_mono:
  "wp m Q E s \<Longrightarrow> (\<And>x t. m s = (Inr x, t) \<Longrightarrow> Q x t \<Longrightarrow> Q' x t) \<Longrightarrow>
   (\<And>e t. m s = (Inl e, t) \<Longrightarrow> E e t \<Longrightarrow> E' e t) \<Longrightarrow> wp m Q' E' s"
  by (auto simp: wp_def split: prod.splits sum.splits)

lemma wp_conj: "wp m Q E s \<Longrightarrow> wp m Q' E s \<Longrightarrow> wp m (\<lambda>x t. Q x t \<and> Q' x t) E s"
  by (auto simp: wp_def split: prod.splits sum.splits)

lemma wp_True [simp]: "wp m (\<lambda>_ _. True) (\<lambda>_ _. True) s"
  by (auto simp: wp_def split: prod.splits sum.splits)

lemma preserves_wp: "preserves P m \<longleftrightarrow> (\<forall>s. P s \<longrightarrow> wp m (\<lambda>_. P) (\<lambda>_. P) s)"
proof -
  have "wp m (\<lambda>_. P) (\<lambda>_. P) s = P (final m s)" for s
    by (cases "m s"; cases "fst (m s)") (auto simp: wp_def)
  then show ?thesis by (simp add: preserves_def)
qed

lemma wp_preserves: "preserves P m \<Longrightarrow> P s \<Longrightarrow> wp m (\<lambda>_. P) (\<lambda>_. P) s"
  by (simp add: preserves_wp)

end
