(* ===== verification/Contracts.thy ===== *)
theory Contracts
  imports Prelude
begin

text \<open>
  The frozen catalogs of \<^verbatim>\<open>packages/contracts\<close>: role and permission keys with the role to
  permission matrix (\<^verbatim>\<open>access.ts\<close>), the plan catalog (\<^verbatim>\<open>plans.ts\<close>), the error codes, and the
  errors the API throws (\<^verbatim>\<open>apps/api/src/lib/errors.ts\<close> and the \<^verbatim>\<open>*.errors.ts\<close> files), with the
  classification of driver errors (\<^verbatim>\<open>lib/pg-errors.ts\<close>).
\<close>

section \<open>Roles and permissions\<close>

datatype role_key = Owner | Admin | Member | Viewer

definition ROLE_KEY_ORDER :: "role_key list" where
  "ROLE_KEY_ORDER = [Owner, Admin, Member, Viewer]"

datatype permission_key =
    OrgRead | OrgUpdate
  | MembersRead | MembersInvite | MembersChangeRole | MembersRemove
  | InvitationsRead | InvitationsCreate | InvitationsRevoke
  | RolesRead | PermissionsRead
  | ProjectsRead | ProjectsCreate | ProjectsUpdate | ProjectsDelete
  | ApiKeysRead | ApiKeysCreate | ApiKeysRevoke
  | AuditEventsRead
  | PlanRead | PlanChangeDemo
  | SessionsRead | SessionsRevoke

fun PERMISSION_KEYS :: "permission_key \<Rightarrow> string" where
  "PERMISSION_KEYS OrgRead = ''org.read''"
| "PERMISSION_KEYS OrgUpdate = ''org.update''"
| "PERMISSION_KEYS MembersRead = ''members.read''"
| "PERMISSION_KEYS MembersInvite = ''members.invite''"
| "PERMISSION_KEYS MembersChangeRole = ''members.change_role''"
| "PERMISSION_KEYS MembersRemove = ''members.remove''"
| "PERMISSION_KEYS InvitationsRead = ''invitations.read''"
| "PERMISSION_KEYS InvitationsCreate = ''invitations.create''"
| "PERMISSION_KEYS InvitationsRevoke = ''invitations.revoke''"
| "PERMISSION_KEYS RolesRead = ''roles.read''"
| "PERMISSION_KEYS PermissionsRead = ''permissions.read''"
| "PERMISSION_KEYS ProjectsRead = ''projects.read''"
| "PERMISSION_KEYS ProjectsCreate = ''projects.create''"
| "PERMISSION_KEYS ProjectsUpdate = ''projects.update''"
| "PERMISSION_KEYS ProjectsDelete = ''projects.delete''"
| "PERMISSION_KEYS ApiKeysRead = ''api_keys.read''"
| "PERMISSION_KEYS ApiKeysCreate = ''api_keys.create''"
| "PERMISSION_KEYS ApiKeysRevoke = ''api_keys.revoke''"
| "PERMISSION_KEYS AuditEventsRead = ''audit_events.read''"
| "PERMISSION_KEYS PlanRead = ''plan.read''"
| "PERMISSION_KEYS PlanChangeDemo = ''plan.change_demo''"
| "PERMISSION_KEYS SessionsRead = ''sessions.read''"
| "PERMISSION_KEYS SessionsRevoke = ''sessions.revoke''"

definition PERMISSION_KEY_LIST :: "permission_key list" where
  "PERMISSION_KEY_LIST =
    [OrgRead, OrgUpdate,
     MembersRead, MembersInvite, MembersChangeRole, MembersRemove,
     InvitationsRead, InvitationsCreate, InvitationsRevoke,
     RolesRead, PermissionsRead,
     ProjectsRead, ProjectsCreate, ProjectsUpdate, ProjectsDelete,
     ApiKeysRead, ApiKeysCreate, ApiKeysRevoke,
     AuditEventsRead,
     PlanRead, PlanChangeDemo,
     SessionsRead, SessionsRevoke]"

fun ROLE_PERMISSIONS :: "role_key \<Rightarrow> permission_key list" where
  "ROLE_PERMISSIONS Owner = PERMISSION_KEY_LIST"
| "ROLE_PERMISSIONS Admin =
    [OrgRead, OrgUpdate,
     MembersRead, MembersInvite, MembersChangeRole, MembersRemove,
     InvitationsRead, InvitationsCreate, InvitationsRevoke,
     RolesRead, PermissionsRead,
     ProjectsRead, ProjectsCreate, ProjectsUpdate, ProjectsDelete,
     ApiKeysRead, ApiKeysCreate, ApiKeysRevoke,
     AuditEventsRead,
     PlanRead,
     SessionsRead, SessionsRevoke]"
| "ROLE_PERMISSIONS Member =
    [OrgRead,
     MembersRead,
     RolesRead, PermissionsRead,
     ProjectsRead, ProjectsCreate, ProjectsUpdate,
     PlanRead]"
| "ROLE_PERMISSIONS Viewer =
    [OrgRead,
     ProjectsRead,
     PlanRead]"

lemma PERMISSION_KEY_LIST_complete: "set PERMISSION_KEY_LIST = UNIV"
proof -
  have "p \<in> set PERMISSION_KEY_LIST" for p
    by (cases p) (simp_all add: PERMISSION_KEY_LIST_def)
  then show ?thesis by auto
qed

lemma distinct_PERMISSION_KEY_LIST: "distinct PERMISSION_KEY_LIST"
  by (simp add: PERMISSION_KEY_LIST_def)

lemma inj_PERMISSION_KEYS: "PERMISSION_KEYS p = PERMISSION_KEYS q \<Longrightarrow> p = q"
proof -
  have "distinct (map PERMISSION_KEYS PERMISSION_KEY_LIST)"
    by (simp add: PERMISSION_KEY_LIST_def)
  then show "PERMISSION_KEYS p = PERMISSION_KEYS q \<Longrightarrow> p = q"
    by (auto simp: distinct_map PERMISSION_KEY_LIST_complete dest: injD)
qed

fun ROLE_IDS :: "role_key \<Rightarrow> string" where
  "ROLE_IDS Owner = ''role_owner''"
| "ROLE_IDS Admin = ''role_admin''"
| "ROLE_IDS Member = ''role_member''"
| "ROLE_IDS Viewer = ''role_viewer''"

lemma ROLE_IDS_eq_iff [simp]: "ROLE_IDS a = ROLE_IDS b \<longleftrightarrow> a = b"
  by (cases a; cases b; simp)

declare ROLE_IDS.simps [simp del]

section \<open>Plans and entitlements\<close>

datatype plan_key = Free | Pro | Business

definition PLAN_KEY_LIST :: "plan_key list" where
  "PLAN_KEY_LIST = [Free, Pro, Business]"

definition DEFAULT_PLAN_KEY :: plan_key where
  "DEFAULT_PLAN_KEY = Free"

datatype entitlement_key =
  MaxMembers | MaxProjects | ApiKeysAccess | MaxApiKeys | AuditLogAccess | AuditRetentionDays

record entitlement_values =
  max_members :: nat
  max_projects :: nat
  api_keys_access :: bool
  max_api_keys :: nat
  audit_log_access :: bool
  audit_retention_days :: nat

record plan_catalog_entry =
  pc_key :: plan_key
  pc_name :: string
  pc_description :: string
  pc_entitlements :: entitlement_values

fun PLAN_CATALOG :: "plan_key \<Rightarrow> plan_catalog_entry" where
  "PLAN_CATALOG Free =
    \<lparr>pc_key = Free, pc_name = ''Free'',
     pc_description = ''Starter demo plan with the smallest quotas and no premium features.'',
     pc_entitlements =
       \<lparr>max_members = 3, max_projects = 3, api_keys_access = False, max_api_keys = 0,
        audit_log_access = False, audit_retention_days = 0\<rparr>\<rparr>"
| "PLAN_CATALOG Pro =
    \<lparr>pc_key = Pro, pc_name = ''Pro'',
     pc_description = ''Growth demo plan with larger quotas, API keys, and audit access.'',
     pc_entitlements =
       \<lparr>max_members = 10, max_projects = 20, api_keys_access = True, max_api_keys = 5,
        audit_log_access = True, audit_retention_days = 30\<rparr>\<rparr>"
| "PLAN_CATALOG Business =
    \<lparr>pc_key = Business, pc_name = ''Business'',
     pc_description = ''Scale demo plan with the largest quotas and longest audit retention.'',
     pc_entitlements =
       \<lparr>max_members = 50, max_projects = 100, api_keys_access = True, max_api_keys = 25,
        audit_log_access = True, audit_retention_days = 90\<rparr>\<rparr>"

definition entitlementsForPlan :: "plan_key \<Rightarrow> entitlement_values" where
  "entitlementsForPlan k = pc_entitlements (PLAN_CATALOG k)"

lemma entitlementsForPlan_simps [simp]:
  "max_members (entitlementsForPlan Free) = 3"
  "max_projects (entitlementsForPlan Free) = 3"
  "api_keys_access (entitlementsForPlan Free) = False"
  "max_api_keys (entitlementsForPlan Free) = 0"
  "audit_log_access (entitlementsForPlan Free) = False"
  by (simp_all add: entitlementsForPlan_def)

section \<open>API key scopes\<close>

datatype api_key_scope = ProjectsReadScope

section \<open>Errors\<close>

datatype error_code =
    VALIDATION_ERROR | BAD_REQUEST | UNAUTHORIZED | FORBIDDEN | NOT_FOUND | CONFLICT
  | RATE_LIMITED | SERVICE_UNAVAILABLE | INTERNAL_ERROR | INVALID_CREDENTIALS
  | EMAIL_ALREADY_REGISTERED | INVALID_REFRESH_TOKEN | TOKEN_REUSE_DETECTED | CSRF_REQUIRED
  | ORGANIZATION_NOT_FOUND | ORGANIZATION_SLUG_TAKEN | MEMBER_NOT_FOUND | LAST_OWNER_REQUIRED
  | PROJECT_NOT_FOUND | QUOTA_EXCEEDED | ENTITLEMENT_REQUIRED | PLAN_STATE_MISSING
  | API_KEY_NOT_FOUND | API_KEY_UNAUTHORIZED | API_KEY_SCOPE_REQUIRED
  | INVITATION_INVALID | INVITATION_EXPIRED | INVITATION_REVOKED | INVITATION_ALREADY_ACCEPTED
  | INVITATION_EMAIL_MISMATCH
  | EMAIL_VERIFICATION_TOKEN_INVALID | EMAIL_VERIFICATION_TOKEN_EXPIRED
  | EMAIL_VERIFICATION_TOKEN_USED
  | PASSWORD_RESET_TOKEN_INVALID | PASSWORD_RESET_TOKEN_EXPIRED | PASSWORD_RESET_TOKEN_USED
  | REGISTRATION_TOKEN_INVALID | REGISTRATION_TOKEN_EXPIRED | REGISTRATION_TOKEN_USED

datatype error_details =
    NoDetails
  | QuotaDetails entitlement_key nat nat \<comment> \<open>quota, limit, current\<close>
  | EntitlementDetails entitlement_key
  | ScopeDetails api_key_scope

text \<open>
  A driver error is the object the PostgreSQL driver (or Drizzle around it) throws: an optional
  SQLSTATE code, an optional constraint name, an optional cause.
\<close>

datatype driver_error = DriverError "string option" "string option" "driver_error option"

datatype error =
    AppError error_code nat string error_details
  | DbError driver_error
  | ThrownError string \<comment> \<open>a plain \<open>new Error(message)\<close>\<close>
  | ZodError "string list" \<comment> \<open>a request a schema refuses, with the paths of its issues\<close>

subsection \<open>Unique violations (\<open>lib/pg-errors.ts\<close>)\<close>

definition PG_UNIQUE_VIOLATION :: string where
  "PG_UNIQUE_VIOLATION = ''23505''"

definition MAX_CAUSE_DEPTH :: nat where
  "MAX_CAUSE_DEPTH = 5"

fun find_violation :: "nat \<Rightarrow> driver_error option \<Rightarrow> driver_error option" where
  "find_violation 0 e = None"
| "find_violation (Suc n) None = None"
| "find_violation (Suc n) (Some (DriverError code constraint cause)) =
     (if code = Some PG_UNIQUE_VIOLATION then Some (DriverError code constraint cause)
      else find_violation n cause)"

fun findUniqueViolation :: "error \<Rightarrow> driver_error option" where
  "findUniqueViolation (DbError e) = find_violation MAX_CAUSE_DEPTH (Some e)"
| "findUniqueViolation (AppError c s m d) = None"
| "findUniqueViolation (ThrownError m) = None"
| "findUniqueViolation (ZodError issues) = None"

definition isUniqueViolation :: "error \<Rightarrow> bool" where
  "isUniqueViolation e = (findUniqueViolation e \<noteq> None)"

fun uniqueViolationConstraint :: "error \<Rightarrow> string option" where
  "uniqueViolationConstraint e =
    (case findUniqueViolation e of
       None \<Rightarrow> None
     | Some (DriverError _ constraint _) \<Rightarrow>
         Some (case constraint of None \<Rightarrow> '''' | Some c \<Rightarrow> c))"

text \<open>What the store throws: Drizzle wraps the driver's error as a cause.\<close>

definition uniqueViolation :: "string \<Rightarrow> error" where
  "uniqueViolation c =
    DbError (DriverError None None (Some (DriverError (Some PG_UNIQUE_VIOLATION) (Some c) None)))"

definition foreignKeyViolation :: "string \<Rightarrow> error" where
  "foreignKeyViolation c =
    DbError (DriverError None None (Some (DriverError (Some ''23503'') (Some c) None)))"

lemma uniqueViolation_simps [simp]:
  "isUniqueViolation (uniqueViolation c)"
  "uniqueViolationConstraint (uniqueViolation c) = Some c"
  "\<not> isUniqueViolation (foreignKeyViolation c)"
  "uniqueViolationConstraint (foreignKeyViolation c) = None"
  by (simp_all add: isUniqueViolation_def uniqueViolation_def foreignKeyViolation_def
      MAX_CAUSE_DEPTH_def PG_UNIQUE_VIOLATION_def eval_nat_numeral)

lemma AppError_not_unique [simp]:
  "\<not> isUniqueViolation (AppError c s m d)" "\<not> isUniqueViolation (ThrownError t)"
  "uniqueViolationConstraint (AppError c s m d) = None"
  "uniqueViolationConstraint (ThrownError t) = None"
  by (simp_all add: isUniqueViolation_def)

lemma violation_neq_AppError [simp]:
  "uniqueViolation c \<noteq> AppError a b m d" "foreignKeyViolation c \<noteq> AppError a b m d"
  "AppError a b m d \<noteq> uniqueViolation c" "AppError a b m d \<noteq> foreignKeyViolation c"
  by (simp_all add: uniqueViolation_def foreignKeyViolation_def)

subsection \<open>The errors of the API\<close>

definition rateLimitedError :: error where
  "rateLimitedError =
    AppError RATE_LIMITED 429 ''Too many requests. Please slow down and try again later.'' NoDetails"

definition rateLimitStoreUnavailableError :: error where
  "rateLimitStoreUnavailableError =
    AppError SERVICE_UNAVAILABLE 503
      ''The service is temporarily unavailable. Please try again shortly.'' NoDetails"

definition invalidCursorError :: error where
  "invalidCursorError = AppError BAD_REQUEST 400 ''Invalid cursor.'' NoDetails"

definition organizationNotFoundError :: error where
  "organizationNotFoundError = AppError ORGANIZATION_NOT_FOUND 404 ''Organization not found.'' NoDetails"

definition organizationSlugTakenError :: error where
  "organizationSlugTakenError =
    AppError ORGANIZATION_SLUG_TAKEN 409 ''That organization slug is already taken.'' NoDetails"

definition memberNotFoundError :: error where
  "memberNotFoundError = AppError MEMBER_NOT_FOUND 404 ''Member not found.'' NoDetails"

definition lastOwnerRequiredError :: error where
  "lastOwnerRequiredError =
    AppError LAST_OWNER_REQUIRED 409
      ''An organization must always have at least one active Owner.'' NoDetails"

definition permissionDeniedError :: error where
  "permissionDeniedError =
    AppError FORBIDDEN 403 ''You do not have permission to perform this action.'' NoDetails"

definition projectNotFoundError :: error where
  "projectNotFoundError = AppError PROJECT_NOT_FOUND 404 ''Project not found.'' NoDetails"

definition quotaExceededError :: "entitlement_key \<Rightarrow> nat \<Rightarrow> nat \<Rightarrow> error" where
  "quotaExceededError quota limit current =
    AppError QUOTA_EXCEEDED 409 ''Your plan quota has been reached.'' (QuotaDetails quota limit current)"

definition entitlementRequiredError :: "entitlement_key \<Rightarrow> error" where
  "entitlementRequiredError entitlement =
    AppError ENTITLEMENT_REQUIRED 403 ''Your plan does not include this feature.''
      (EntitlementDetails entitlement)"

definition planStateMissingError :: error where
  "planStateMissingError =
    AppError PLAN_STATE_MISSING 500 ''Organization plan state is unavailable.'' NoDetails"

definition apiKeyNotFoundError :: error where
  "apiKeyNotFoundError = AppError API_KEY_NOT_FOUND 404 ''API key not found.'' NoDetails"

definition apiKeyUnauthorizedError :: error where
  "apiKeyUnauthorizedError =
    AppError API_KEY_UNAUTHORIZED 401 ''API key authentication failed.'' NoDetails"

definition apiKeyScopeRequiredError :: "api_key_scope \<Rightarrow> error" where
  "apiKeyScopeRequiredError scope =
    AppError API_KEY_SCOPE_REQUIRED 403 ''This API key is missing a required scope.'' (ScopeDetails scope)"

definition apiKeyRateLimitedError :: error where
  "apiKeyRateLimitedError =
    AppError RATE_LIMITED 429 ''Too many requests. Please slow down and try again later.'' NoDetails"

definition invitationInvalidError :: error where
  "invitationInvalidError = AppError INVITATION_INVALID 404 ''Invitation not found.'' NoDetails"

definition invitationExpiredError :: error where
  "invitationExpiredError = AppError INVITATION_EXPIRED 410 ''This invitation has expired.'' NoDetails"

definition invitationRevokedError :: error where
  "invitationRevokedError =
    AppError INVITATION_REVOKED 409 ''This invitation has been revoked.'' NoDetails"

definition invitationAlreadyAcceptedError :: error where
  "invitationAlreadyAcceptedError =
    AppError INVITATION_ALREADY_ACCEPTED 409 ''This invitation has already been accepted.'' NoDetails"

definition invitationEmailMismatchError :: error where
  "invitationEmailMismatchError =
    AppError INVITATION_EMAIL_MISMATCH 403
      ''This invitation was issued to a different email address.'' NoDetails"

definition duplicatePendingInvitationError :: error where
  "duplicatePendingInvitationError =
    AppError CONFLICT 409 ''A pending invitation already exists for this email.'' NoDetails"

definition alreadyActiveMemberError :: error where
  "alreadyActiveMemberError =
    AppError CONFLICT 409 ''This email already belongs to an active member of the organization.'' NoDetails"

lemmas error_defs =
  rateLimitedError_def rateLimitStoreUnavailableError_def invalidCursorError_def
  organizationNotFoundError_def organizationSlugTakenError_def memberNotFoundError_def
  lastOwnerRequiredError_def permissionDeniedError_def projectNotFoundError_def
  quotaExceededError_def entitlementRequiredError_def planStateMissingError_def
  apiKeyNotFoundError_def apiKeyUnauthorizedError_def apiKeyScopeRequiredError_def
  apiKeyRateLimitedError_def invitationInvalidError_def invitationExpiredError_def
  invitationRevokedError_def invitationAlreadyAcceptedError_def
  invitationEmailMismatchError_def duplicatePendingInvitationError_def
  alreadyActiveMemberError_def

end
