(* ===== verification/Primitives.thy ===== *)
theory Primitives
  imports Contracts
begin

text \<open>
  The primitives of \<^verbatim>\<open>packages/shared\<close> and \<^verbatim>\<open>packages/auth-core\<close>: alphabet sampling,
  prefixed identifiers, request ids, e-mail normalisation, redaction, opaque tokens, and the
  access-token verification with its rotation window. A string is a list of UTF-16 code units
  below 256 (Latin-1), so that length, slicing and indexing count as the code does. SHA-256,
  Argon2 and the JWT library are parameters, collected in the record \<open>crypto\<close>.
\<close>

section \<open>Strings\<close>

definition indexOf :: "char \<Rightarrow> string \<Rightarrow> nat option" where
  "indexOf c s = (if c \<in> set s then Some (length (takeWhile (\<lambda>x. x \<noteq> c) s)) else None)"

fun startsWith :: "string \<Rightarrow> string \<Rightarrow> bool" where
  "startsWith s [] = True"
| "startsWith [] (p # ps) = False"
| "startsWith (c # s) (p # ps) = (c = p \<and> startsWith s ps)"

lemma startsWith_append [simp]: "startsWith (p @ s) p"
  by (induction p) auto

lemma indexOf_append:
  "c \<notin> set p \<Longrightarrow> indexOf c (p @ c # s) = Some (length p)"
proof -
  assume "c \<notin> set p"
  then have "takeWhile (\<lambda>x. x \<noteq> c) (p @ c # s) = p" by (induction p) auto
  then show ?thesis by (simp add: indexOf_def)
qed

lemma indexOf_SomeD:
  assumes "indexOf c s = Some i"
  shows "i < length s" and "s ! i = c" and "c \<notin> set (take i s)"
    and "s = take i s @ c # drop (Suc i) s"
proof -
  let ?p = "takeWhile (\<lambda>x. x \<noteq> c) s"
  from assms have c: "c \<in> set s" and i: "i = length ?p"
    by (auto simp: indexOf_def split: if_splits)
  have s: "s = ?p @ dropWhile (\<lambda>x. x \<noteq> c) s" by simp
  from c have "dropWhile (\<lambda>x. x \<noteq> c) s \<noteq> []"
    by (auto simp: dropWhile_eq_Nil_conv)
  then obtain d where d: "dropWhile (\<lambda>x. x \<noteq> c) s = c # d"
    by (metis (mono_tags, lifting) hd_Cons_tl hd_dropWhile)
  with s have eq: "s = ?p @ c # d" by simp
  have t: "take i s = ?p" unfolding i by (metis append_eq_conv_conj eq)
  from eq i show "i < length s" by (metis length_append length_Cons less_add_Suc1 add_Suc_right)
  from eq i show "s ! i = c" by (metis nth_append_length)
  show "c \<notin> set (take i s)" unfolding t by (auto dest: set_takeWhileD)
  have "drop (Suc i) s = d" using eq i
    by (metis append_eq_conv_conj append.assoc append_Cons append_Nil length_append_singleton)
  then show "s = take i s @ c # drop (Suc i) s" using eq t by simp
qed

text \<open>\<open>trim\<close> removes the white space of the language, \<open>toLowerCase\<close> maps A-Z and the
  capital letters of the Latin-1 supplement.\<close>

definition is_white :: "char \<Rightarrow> bool" where
  "is_white c = (let n = of_char c :: nat in (9 \<le> n \<and> n \<le> 13) \<or> n = 32 \<or> n = 160)"

definition trim :: "string \<Rightarrow> string" where
  "trim s = rev (dropWhile is_white (rev (dropWhile is_white s)))"

definition lower_char :: "char \<Rightarrow> char" where
  "lower_char c =
    (let n = of_char c :: nat in
     if (65 \<le> n \<and> n \<le> 90) \<or> (192 \<le> n \<and> n \<le> 222 \<and> n \<noteq> 215) then char_of (n + 32) else c)"

definition toLowerCase :: "string \<Rightarrow> string" where
  "toLowerCase s = map lower_char s"

fun str_includes :: "string \<Rightarrow> string \<Rightarrow> bool" where
  "str_includes [] needle = (needle = [])"
| "str_includes (c # s) needle = (startsWith (c # s) needle \<or> str_includes s needle)"

text \<open>Decimal rendering of a number, as string interpolation does.\<close>

fun show_nat :: "nat \<Rightarrow> string" where
  "show_nat n = (if n < 10 then [char_of (48 + n)] else show_nat (n div 10) @ [char_of (48 + n mod 10)])"

declare show_nat.simps [simp del]

section \<open>Sampling an alphabet (\<open>random-alphabet.ts\<close>)\<close>

definition BYTE_DOMAIN_SIZE :: nat where
  "BYTE_DOMAIN_SIZE = 256"

definition assertUniformAlphabet :: "string \<Rightarrow> string \<Rightarrow> error + unit" where
  "assertUniformAlphabet alphabet label =
    (if length alphabet = 0 \<or> BYTE_DOMAIN_SIZE mod length alphabet \<noteq> 0
     then Inl (ThrownError (label @ '': alphabet length '' @ show_nat (length alphabet) @
       '' does not divide '' @ show_nat BYTE_DOMAIN_SIZE @
       '', so modulo reduction would bias the output. Use a length that divides 256 (e.g. 32) or switch to rejection sampling.''))
     else Inr ())"

text \<open>\<open>charAt\<close> gives the empty string out of range; the bytes are the CSPRNG's.\<close>

definition charAt :: "string \<Rightarrow> nat \<Rightarrow> string" where
  "charAt s i = (if i < length s then [s ! i] else [])"

fun randomAlphabetString :: "string \<Rightarrow> nat list \<Rightarrow> string" where
  "randomAlphabetString alphabet [] = []"
| "randomAlphabetString alphabet (byte # bytes) =
     charAt alphabet (byte mod length alphabet) @ randomAlphabetString alphabet bytes"

lemma card_residue_class:
  assumes "0 < n" and "i < n"
  shows "card {b. b < k * n \<and> b mod n = i} = k"
proof -
  have "{b. b < k * n \<and> b mod n = i} = (\<lambda>q. q * n + i) ` {..<k}"
  proof (intro equalityI subsetI)
    fix b assume b: "b \<in> {b. b < k * n \<and> b mod n = i}"
    then have "b div n < k" by (simp add: less_mult_imp_div_less)
    moreover have "b = (b div n) * n + i" using b by (metis (mono_tags) div_mult_mod_eq mem_Collect_eq)
    ultimately show "b \<in> (\<lambda>q. q * n + i) ` {..<k}" by blast
  next
    fix b assume "b \<in> (\<lambda>q. q * n + i) ` {..<k}"
    then obtain q where q: "q < k" and b: "b = q * n + i" by blast
    have "q * n + i < (q + 1) * n" using assms by simp
    also have "\<dots> \<le> k * n" using q by (intro mult_right_mono) auto
    finally show "b \<in> {b. b < k * n \<and> b mod n = i}" using b assms by simp
  qed
  moreover have "inj_on (\<lambda>q. q * n + i) {..<k}"
    using assms by (auto simp: inj_on_def)
  ultimately show ?thesis by (simp add: card_image)
qed

text \<open>
  An accepted alphabet without repeated characters is sampled uniformly: each of its characters
  is the image of exactly \<open>256 / length\<close> byte values.
\<close>

lemma uniform_alphabet_sampling:
  assumes "assertUniformAlphabet alphabet label = Inr ()" and "distinct alphabet"
    and "c \<in> set alphabet"
  shows "card {b. b < BYTE_DOMAIN_SIZE \<and> charAt alphabet (b mod length alphabet) = [c]}
    = BYTE_DOMAIN_SIZE div length alphabet"
proof -
  let ?n = "length alphabet"
  from assms(1) have n: "0 < ?n" and dvd: "BYTE_DOMAIN_SIZE mod ?n = 0"
    by (auto simp: assertUniformAlphabet_def split: if_splits)
  from assms(3) obtain i where i: "i < ?n" "alphabet ! i = c" by (auto simp: in_set_conv_nth)
  have "charAt alphabet (b mod ?n) = [c] \<longleftrightarrow> b mod ?n = i" for b
    using i n assms(2) by (auto simp: charAt_def nth_eq_iff_index_eq)
  moreover have "(BYTE_DOMAIN_SIZE div ?n) * ?n = BYTE_DOMAIN_SIZE"
    using dvd by (simp add: dvd_eq_mod_eq_0 dvd_div_mult_self)
  ultimately show ?thesis
    using card_residue_class [OF n i(1), of "BYTE_DOMAIN_SIZE div ?n"] by simp
qed

section \<open>Prefixed identifiers (\<open>ids.ts\<close>)\<close>

definition ID_PREFIXES :: "string list" where
  "ID_PREFIXES =
    [''user'', ''org'', ''mem'', ''role'', ''perm'', ''inv'', ''prj'', ''oplan'', ''key'',
     ''sess'', ''rtok'', ''evtok'', ''prtok'', ''preg'', ''evt'', ''sevt'']"

definition ALPHABET :: string where
  "ALPHABET = ''0123456789ABCDEFGHJKMNPQRSTVWXYZ''"

definition DEFAULT_RANDOM_LENGTH :: nat where
  "DEFAULT_RANDOM_LENGTH = 26"

definition isValidPrefix :: "string \<Rightarrow> bool" where
  "isValidPrefix prefix = (prefix \<in> set ID_PREFIXES)"

text \<open>The identifier made of a prefix and the bytes the CSPRNG delivered.\<close>

definition makeId :: "string \<Rightarrow> nat list \<Rightarrow> error + string" where
  "makeId prefix bytes =
    (if \<not> isValidPrefix prefix
     then Inl (ThrownError (''Unknown ID prefix: \"'' @ prefix @ ''\"''))
     else Inr (prefix @ ''_'' @ randomAlphabetString ALPHABET bytes))"

definition parseId :: "string \<Rightarrow> (string \<times> string) option" where
  "parseId s =
    (case indexOf (CHR ''_'') s of
       None \<Rightarrow> None
     | Some i \<Rightarrow>
         if i = 0 then None
         else (let prefix = take i s; random = drop (i + 1) s in
               if \<not> isValidPrefix prefix \<or> length random = 0 then None
               else Some (prefix, random)))"

definition isValidId :: "string \<Rightarrow> string option \<Rightarrow> bool" where
  "isValidId s expectedPrefix =
    (case parseId s of
       None \<Rightarrow> False
     | Some (prefix, random) \<Rightarrow> expectedPrefix = None \<or> expectedPrefix = Some prefix)"

lemma ALPHABET_length [simp]: "length ALPHABET = 32"
  by (simp add: ALPHABET_def)

lemma length_randomAlphabetString [simp]:
  "0 < length alphabet \<Longrightarrow> length (randomAlphabetString alphabet bytes) = length bytes"
  by (induction bytes) (auto simp: charAt_def)

lemma set_randomAlphabetString: "set (randomAlphabetString alphabet bytes) \<subseteq> set alphabet"
  by (induction bytes) (auto simp: charAt_def split: if_splits)

lemma prefix_has_no_separator: "isValidPrefix prefix \<Longrightarrow> CHR ''_'' \<notin> set prefix \<and> prefix \<noteq> []"
  by (auto simp: isValidPrefix_def ID_PREFIXES_def)

lemma parseId_makeId:
  assumes "isValidPrefix prefix" and "bytes \<noteq> []"
  shows "\<exists>s. makeId prefix bytes = Inr s \<and>
    parseId s = Some (prefix, randomAlphabetString ALPHABET bytes)"
proof -
  let ?r = "randomAlphabetString ALPHABET bytes"
  from assms have "indexOf (CHR ''_'') (prefix @ CHR ''_'' # ?r) = Some (length prefix)"
    by (intro indexOf_append) (auto dest: prefix_has_no_separator)
  moreover have "length ?r = length bytes" by simp
  then have "?r \<noteq> []" using assms(2) by (metis length_0_conv)
  moreover have "prefix \<noteq> []"
    using assms(1) by (auto dest: prefix_has_no_separator)
  ultimately show ?thesis
    using assms(1) by (simp add: makeId_def parseId_def Let_def)
qed

lemma parseId_SomeD:
  assumes "parseId s = Some (prefix, random)"
  shows "s = prefix @ ''_'' @ random \<and> isValidPrefix prefix \<and> random \<noteq> []"
  using assms indexOf_SomeD(4) [of "CHR ''_''" s]
  by (auto simp: parseId_def Let_def split: option.splits if_splits)

section \<open>Request ids (\<open>request-id.ts\<close>)\<close>

definition REQUEST_ID_MAX_LENGTH :: nat where
  "REQUEST_ID_MAX_LENGTH = 128"

definition safe_request_char :: "char \<Rightarrow> bool" where
  "safe_request_char c =
    (let n = of_char c :: nat in
     (65 \<le> n \<and> n \<le> 90) \<or> (97 \<le> n \<and> n \<le> 122) \<or> (48 \<le> n \<and> n \<le> 57) \<or>
     c = CHR ''.'' \<or> c = CHR ''_'' \<or> c = CHR ''-'')"

definition isSafeRequestId :: "string \<Rightarrow> bool" where
  "isSafeRequestId candidate =
    (1 \<le> length candidate \<and> length candidate \<le> REQUEST_ID_MAX_LENGTH \<and>
     list_all safe_request_char candidate)"

datatype header_value = Absent | Single string | Repeated "string list"

definition header_candidate :: "header_value \<Rightarrow> string option" where
  "header_candidate h =
    (case h of Absent \<Rightarrow> None | Single s \<Rightarrow> Some s
     | Repeated vs \<Rightarrow> (case vs of [] \<Rightarrow> None | v # _ \<Rightarrow> Some v))"

text \<open>\<open>uuid\<close> is what \<open>randomUUID()\<close> returned.\<close>

definition generateRequestId :: "string \<Rightarrow> string" where
  "generateRequestId uuid = ''req_'' @ uuid"

definition resolveRequestId :: "string \<Rightarrow> header_value \<Rightarrow> string" where
  "resolveRequestId uuid h =
    (case header_candidate h of
       None \<Rightarrow> generateRequestId uuid
     | Some candidate \<Rightarrow>
         if isSafeRequestId candidate then candidate else generateRequestId uuid)"

section \<open>E-mail normalisation and redaction\<close>

definition normalizeEmail :: "string \<Rightarrow> string" where
  "normalizeEmail email = toLowerCase (trim email)"

definition REDACTION_MASK :: string where
  "REDACTION_MASK = ''[REDACTED]''"

definition redactSecret :: "string option \<Rightarrow> string" where
  "redactSecret v = (case v of None \<Rightarrow> '''' | Some s \<Rightarrow> if length s = 0 then '''' else REDACTION_MASK)"

definition redactAuthorizationHeader :: "string \<Rightarrow> string" where
  "redactAuthorizationHeader header =
    (case indexOf (CHR '' '') header of
       None \<Rightarrow> REDACTION_MASK
     | Some i \<Rightarrow> if i = 0 then REDACTION_MASK else take i header @ '' '' @ REDACTION_MASK)"

end
