(* ===== verification/SecurityMetadata.thy ===== *)
theory SecurityMetadata
  imports Primitives
begin

text \<open>
  JSON values and the sanitisation of event metadata
  (\<^verbatim>\<open>apps/api/src/lib/security-metadata.ts\<close>): forbidden keys are dropped at every depth,
  long strings cut, deep structure replaced by a marker. An object is the list of its entries in
  insertion order; its keys are distinct. Numbers are integers, the only ones the code writes.
\<close>

datatype json =
    JNull
  | JBool bool
  | JNum int
  | JStr string
  | JArr "json list"
  | JObj "(string \<times> json) list"

type_synonym metadata = "(string \<times> json) list"

definition FORBIDDEN_KEY_SUBSTRINGS :: "string list" where
  "FORBIDDEN_KEY_SUBSTRINGS =
    [''password'', ''token'', ''secret'', ''authorization'', ''cookie'', ''hash'', ''credential'',
     ''otp'', ''apikey'', ''api_key'', ''ipaddress'', ''useragent'', ''sessionid'']"

definition SAFE_IDENTIFIER_KEYS :: "string list" where
  "SAFE_IDENTIFIER_KEYS =
    [''apikeyid'', ''targetapikeyid'', ''actorapikeyid'', ''targetkeyid'', ''membershipid'',
     ''actormembershipid'', ''targetmembershipid'', ''userid'', ''actoruserid'', ''targetuserid'',
     ''projectid'', ''targetprojectid'', ''invitationid'', ''targetinvitationid'',
     ''organizationid'', ''targetorganizationid'']"

definition MAX_DEPTH :: nat where
  "MAX_DEPTH = 4"

definition MAX_STRING_LENGTH :: nat where
  "MAX_STRING_LENGTH = 1024"

definition isForbiddenKey :: "string \<Rightarrow> bool" where
  "isForbiddenKey key =
    (let lower = toLowerCase key in
     if lower \<in> set SAFE_IDENTIFIER_KEYS then False
     else list_ex (\<lambda>needle. str_includes lower needle) FORBIDDEN_KEY_SUBSTRINGS)"

text \<open>
  The horizontal ellipsis U+2026 is one code unit; it lies outside the 256 values of \<open>char\<close> and
  is written as the control code 133.
\<close>

definition ELLIPSIS :: string where
  "ELLIPSIS = [char_of (133 :: nat)]"

definition TRUNCATED :: json where
  "TRUNCATED = JStr ''[TRUNCATED]''"

definition cut_string :: "string \<Rightarrow> string" where
  "cut_string s = (if length s > MAX_STRING_LENGTH then take MAX_STRING_LENGTH s @ ELLIPSIS else s)"

fun sanitizeValue :: "json \<Rightarrow> nat \<Rightarrow> json"
  and sanitizeArray :: "json list \<Rightarrow> nat \<Rightarrow> json list"
  and sanitizeObject :: "(string \<times> json) list \<Rightarrow> nat \<Rightarrow> (string \<times> json) list" where
  "sanitizeValue v depth =
    (if depth > MAX_DEPTH then TRUNCATED
     else (case v of
        JStr s \<Rightarrow> JStr (cut_string s)
      | JArr xs \<Rightarrow> JArr (sanitizeArray xs (depth + 1))
      | JObj kvs \<Rightarrow> JObj (sanitizeObject kvs (depth + 1))
      | JNull \<Rightarrow> JNull
      | JBool b \<Rightarrow> JBool b
      | JNum n \<Rightarrow> JNum n))"
| "sanitizeArray [] depth = []"
| "sanitizeArray (x # xs) depth = sanitizeValue x depth # sanitizeArray xs depth"
| "sanitizeObject [] depth = []"
| "sanitizeObject ((key, v) # kvs) depth =
    (if isForbiddenKey key then sanitizeObject kvs depth
     else (key, sanitizeValue v depth) # sanitizeObject kvs depth)"

definition sanitizeSecurityMetadata :: "metadata \<Rightarrow> metadata" where
  "sanitizeSecurityMetadata m = sanitizeObject m 1"

declare sanitizeValue.simps [simp del]

text \<open>What the sanitised value must satisfy: no forbidden key at any depth.\<close>

fun clean :: "json \<Rightarrow> bool"
  and clean_list :: "json list \<Rightarrow> bool"
  and clean_obj :: "(string \<times> json) list \<Rightarrow> bool" where
  "clean JNull = True"
| "clean (JBool b) = True"
| "clean (JNum n) = True"
| "clean (JStr s) = (length s \<le> MAX_STRING_LENGTH + 1)"
| "clean (JArr xs) = clean_list xs"
| "clean (JObj kvs) = clean_obj kvs"
| "clean_list [] = True"
| "clean_list (x # xs) = (clean x \<and> clean_list xs)"
| "clean_obj [] = True"
| "clean_obj ((k, v) # kvs) = (\<not> isForbiddenKey k \<and> clean v \<and> clean_obj kvs)"

lemma length_cut_string: "length (cut_string s) \<le> MAX_STRING_LENGTH + 1"
  by (simp add: cut_string_def ELLIPSIS_def)

lemma cut_string_idem [simp]: "cut_string (cut_string s) = cut_string s"
  by (auto simp: cut_string_def ELLIPSIS_def)

lemma sanitize_clean:
  "clean (sanitizeValue v d)" "clean_list (sanitizeArray xs d)" "clean_obj (sanitizeObject kvs d)"
proof (induction v d and xs d and kvs d rule: sanitizeValue_sanitizeArray_sanitizeObject.induct)
  case (1 v depth)
  then show ?case
    using length_cut_string
    by (subst sanitizeValue.simps)
      (auto simp: TRUNCATED_def MAX_STRING_LENGTH_def split: json.split)
qed auto

lemma sanitize_idem:
  "sanitizeValue (sanitizeValue v d) d = sanitizeValue v d"
  "sanitizeArray (sanitizeArray xs d) d = sanitizeArray xs d"
  "sanitizeObject (sanitizeObject kvs d) d = sanitizeObject kvs d"
proof (induction v d and xs d and kvs d rule: sanitizeValue_sanitizeArray_sanitizeObject.induct)
  case (1 v depth)
  then show ?case
    by (auto simp: sanitizeValue.simps TRUNCATED_def split: json.splits)
qed auto

lemma clean_obj_keys: "clean_obj kvs \<Longrightarrow> (k, v) \<in> set kvs \<Longrightarrow> \<not> isForbiddenKey k \<and> clean v"
  by (induction kvs) auto

lemma sanitizeObject_lookup:
  "map_of (sanitizeObject kvs d) k =
    (if isForbiddenKey k then None else map_option (\<lambda>v. sanitizeValue v d) (map_of kvs k))"
  by (induction kvs) auto

lemma sanitizeValue_short [simp]:
  "d \<le> MAX_DEPTH \<Longrightarrow> length s \<le> MAX_STRING_LENGTH \<Longrightarrow> sanitizeValue (JStr s) d = JStr s"
  by (simp add: sanitizeValue.simps cut_string_def)

lemma clean_sanitized [simp]: "clean_obj (sanitizeSecurityMetadata md)"
  by (simp add: sanitizeSecurityMetadata_def sanitize_clean)

end
