(* ===== verification/Database.thy ===== *)
theory Database
  imports SecurityMetadata
begin

text \<open>
  The store the repositories work on (\<^verbatim>\<open>packages/db/src/schema/*.ts\<close>): one record per table
  row, the tables with their primary keys, unique indexes and foreign keys, and the world around
  the store that a request sees (clocks, randomness, the limiter's memory, the mailer). A SQL
  statement is a function on the tables followed by the check of every constraint of the schema,
  as immediate constraints are; a transaction rolls the tables back when its body raises.
\<close>

section \<open>Instants\<close>

text \<open>
  A \<open>timestamptz\<close> column holds microseconds; a \<open>Date\<close> of the language holds milliseconds. A
  column default is the store's clock with its microseconds, a value the code writes is a
  \<open>Date\<close>, and reading a column back as a \<open>Date\<close> drops the microseconds.
\<close>

type_synonym timestamptz = int
type_synonym date = int

definition toDate :: "timestamptz \<Rightarrow> date" where
  "toDate t = t div 1000"

definition fromDate :: "date \<Rightarrow> timestamptz" where
  "fromDate d = d * 1000"

lemma toDate_fromDate [simp]: "toDate (fromDate d) = d"
  by (simp add: toDate_def fromDate_def)

lemma fromDate_less_iff [simp]: "fromDate a < fromDate b \<longleftrightarrow> a < b"
  by (simp add: fromDate_def)

lemma fromDate_le_iff [simp]: "fromDate a \<le> fromDate b \<longleftrightarrow> a \<le> b"
  by (simp add: fromDate_def)

lemma toDate_le_iff: "toDate t \<le> d \<longleftrightarrow> t < fromDate (d + 1)"
  by (auto simp: toDate_def fromDate_def)

section \<open>Rows\<close>

datatype user_status = UserActive | UserDisabled
datatype actor_type = UserActor | SystemActor | AnonymousActor | ApiKeyActorType
datatype organization_type = Personal | Team
datatype organization_status = OrgActive | OrgArchived | OrgSuspended
datatype membership_status = MemActive | MemRemoved
datatype invitation_status = InvPending | InvAccepted | InvRevoked | InvExpired

record user_row =
  u_id :: string
  u_email :: string
  u_normalizedEmail :: string
  u_passwordHash :: string
  u_displayName :: string
  u_status :: user_status
  u_emailVerifiedAt :: "timestamptz option"
  u_createdAt :: timestamptz
  u_updatedAt :: timestamptz
  u_deletedAt :: "timestamptz option"

record session_row =
  s_id :: string
  s_userId :: string
  s_ipAddress :: "string option"
  s_userAgent :: "string option"
  s_expiresAt :: timestamptz
  s_revokedAt :: "timestamptz option"
  s_revokedReason :: "string option"
  s_createdAt :: timestamptz
  s_updatedAt :: timestamptz

record refresh_token_row =
  rt_id :: string
  rt_sessionId :: string
  rt_tokenHash :: string
  rt_familyId :: string
  rt_parentTokenId :: "string option"
  rt_replacementTokenId :: "string option"
  rt_usedAt :: "timestamptz option"
  rt_expiresAt :: timestamptz
  rt_revokedAt :: "timestamptz option"
  rt_revokedReason :: "string option"
  rt_createdAt :: timestamptz

text \<open>The e-mail verification and password reset token tables have the same columns.\<close>

record token_row =
  tok_id :: string
  tok_userId :: string
  tok_tokenHash :: string
  tok_expiresAt :: timestamptz
  tok_usedAt :: "timestamptz option"
  tok_invalidatedAt :: "timestamptz option"
  tok_createdAt :: timestamptz

record pending_registration_row =
  preg_id :: string
  preg_email :: string
  preg_normalizedEmail :: string
  preg_passwordHash :: string
  preg_displayName :: string
  preg_tokenHash :: string
  preg_invitationId :: "string option"
  preg_expiresAt :: timestamptz
  preg_usedAt :: "timestamptz option"
  preg_invalidatedAt :: "timestamptz option"
  preg_createdAt :: timestamptz

record security_event_row =
  se_id :: string
  se_userId :: "string option"
  se_sessionId :: "string option"
  se_organizationId :: "string option"
  se_actorType :: actor_type
  se_eventType :: string
  se_metadata :: metadata
  se_ipAddress :: "string option"
  se_userAgent :: "string option"
  se_requestId :: "string option"
  se_createdAt :: timestamptz

record role_row =
  role_id :: string
  role_key :: role_key
  role_name :: string
  role_description :: string

record organization_row =
  org_id :: string
  org_name :: string
  org_slug :: string
  org_type :: organization_type
  org_status :: organization_status
  org_createdByUserId :: string
  org_createdAt :: timestamptz
  org_updatedAt :: timestamptz
  org_archivedAt :: "timestamptz option"

record membership_row =
  mem_id :: string
  mem_userId :: string
  mem_organizationId :: string
  mem_roleId :: string
  mem_status :: membership_status
  mem_invitedByUserId :: "string option"
  mem_joinedAt :: timestamptz
  mem_removedAt :: "timestamptz option"
  mem_removedByUserId :: "string option"
  mem_createdAt :: timestamptz
  mem_updatedAt :: timestamptz

record permission_row =
  perm_id :: string
  perm_key :: permission_key
  perm_name :: string
  perm_description :: string

record role_permission_row =
  rp_roleId :: string
  rp_permissionId :: string

record organization_plan_row =
  op_id :: string
  op_organizationId :: string
  op_planKey :: plan_key
  op_assignedAt :: timestamptz
  op_changedByUserId :: "string option"
  op_createdAt :: timestamptz
  op_updatedAt :: timestamptz

record project_row =
  prj_id :: string
  prj_organizationId :: string
  prj_name :: string
  prj_createdByUserId :: string
  prj_deletedAt :: "timestamptz option"
  prj_deletedByUserId :: "string option"
  prj_createdAt :: timestamptz
  prj_updatedAt :: timestamptz

record api_key_row =
  key_id :: string
  key_organizationId :: string
  key_name :: string
  key_displayPrefix :: string
  key_secretHash :: string
  key_scopes :: "api_key_scope list"
  key_expiresAt :: "timestamptz option"
  key_lastUsedAt :: "timestamptz option"
  key_revokedAt :: "timestamptz option"
  key_revokedByUserId :: "string option"
  key_createdByUserId :: string
  key_createdAt :: timestamptz
  key_updatedAt :: timestamptz

record invitation_row =
  inv_id :: string
  inv_organizationId :: string
  inv_invitedEmail :: string
  inv_invitedEmailNormalized :: string
  inv_roleId :: string
  inv_tokenHash :: string
  inv_status :: invitation_status
  inv_invitedByUserId :: string
  inv_acceptedByUserId :: "string option"
  inv_revokedByUserId :: "string option"
  inv_expiresAt :: timestamptz
  inv_acceptedAt :: "timestamptz option"
  inv_revokedAt :: "timestamptz option"
  inv_createdAt :: timestamptz
  inv_updatedAt :: timestamptz

section \<open>Tables and constraints\<close>

record database =
  users :: "user_row list"
  sessions :: "session_row list"
  refreshTokens :: "refresh_token_row list"
  emailVerificationTokens :: "token_row list"
  passwordResetTokens :: "token_row list"
  pendingRegistrations :: "pending_registration_row list"
  securityEvents :: "security_event_row list"
  roles :: "role_row list"
  organizations :: "organization_row list"
  memberships :: "membership_row list"
  permissions :: "permission_row list"
  rolePermissions :: "role_permission_row list"
  organizationPlans :: "organization_plan_row list"
  projects :: "project_row list"
  apiKeys :: "api_key_row list"
  invitations :: "invitation_row list"

definition references :: "string list \<Rightarrow> string list \<Rightarrow> bool" where
  "references children parents = list_all (\<lambda>c. c \<in> set parents) children"

fun somes :: "'a option list \<Rightarrow> 'a list" where
  "somes [] = []"
| "somes (None # xs) = somes xs"
| "somes (Some x # xs) = x # somes xs"

lemma set_somes [simp]: "x \<in> set (somes xs) \<longleftrightarrow> Some x \<in> set xs"
  by (induction xs rule: somes.induct) auto

lemma references_iff [simp]: "references cs ps \<longleftrightarrow> set cs \<subseteq> set ps"
  by (auto simp: references_def list_all_iff)

text \<open>
  The unique constraints: primary keys first, then the unique indexes; the partial ones range
  over the rows their \<open>WHERE\<close> clause selects.
\<close>

definition active_membership :: "membership_row \<Rightarrow> bool" where
  "active_membership m = (mem_status m = MemActive)"

definition usable_registration :: "pending_registration_row \<Rightarrow> bool" where
  "usable_registration r = (preg_usedAt r = None \<and> preg_invalidatedAt r = None)"

definition active_personal :: "organization_row \<Rightarrow> bool" where
  "active_personal r = (org_type r = Personal \<and> org_status r = OrgActive)"

definition unique_constraints :: "(string \<times> (database \<Rightarrow> bool)) list" where
  "unique_constraints =
    [(''users_pkey'', \<lambda>d. distinct (map u_id (users d))),
     (''uq_users_normalized_email'', \<lambda>d. distinct (map u_normalizedEmail (users d))),
     (''sessions_pkey'', \<lambda>d. distinct (map s_id (sessions d))),
     (''refresh_tokens_pkey'', \<lambda>d. distinct (map rt_id (refreshTokens d))),
     (''uq_refresh_tokens_token_hash'', \<lambda>d. distinct (map rt_tokenHash (refreshTokens d))),
     (''email_verification_tokens_pkey'', \<lambda>d. distinct (map tok_id (emailVerificationTokens d))),
     (''uq_email_verification_tokens_token_hash'',
        \<lambda>d. distinct (map tok_tokenHash (emailVerificationTokens d))),
     (''password_reset_tokens_pkey'', \<lambda>d. distinct (map tok_id (passwordResetTokens d))),
     (''uq_password_reset_tokens_token_hash'',
        \<lambda>d. distinct (map tok_tokenHash (passwordResetTokens d))),
     (''pending_registrations_pkey'', \<lambda>d. distinct (map preg_id (pendingRegistrations d))),
     (''uq_pending_registrations_token_hash'',
        \<lambda>d. distinct (map preg_tokenHash (pendingRegistrations d))),
     (''uq_pending_registrations_usable_email'',
        \<lambda>d. distinct (map preg_normalizedEmail (filter usable_registration (pendingRegistrations d)))),
     (''security_events_pkey'', \<lambda>d. distinct (map se_id (securityEvents d))),
     (''roles_pkey'', \<lambda>d. distinct (map role_id (roles d))),
     (''uq_roles_key'', \<lambda>d. distinct (map role_key (roles d))),
     (''organizations_pkey'', \<lambda>d. distinct (map org_id (organizations d))),
     (''uq_organizations_slug'', \<lambda>d. distinct (map org_slug (organizations d))),
     (''uq_organizations_active_personal_owner'',
        \<lambda>d. distinct (map org_createdByUserId (filter active_personal (organizations d)))),
     (''memberships_pkey'', \<lambda>d. distinct (map mem_id (memberships d))),
     (''uq_memberships_active_user_org'',
        \<lambda>d. distinct (map (\<lambda>m. (mem_userId m, mem_organizationId m))
               (filter active_membership (memberships d)))),
     (''permissions_pkey'', \<lambda>d. distinct (map perm_id (permissions d))),
     (''uq_permissions_key'', \<lambda>d. distinct (map perm_key (permissions d))),
     (''uq_role_permissions_role_permission'',
        \<lambda>d. distinct (map (\<lambda>r. (rp_roleId r, rp_permissionId r)) (rolePermissions d))),
     (''organization_plans_pkey'', \<lambda>d. distinct (map op_id (organizationPlans d))),
     (''uq_organization_plans_organization'',
        \<lambda>d. distinct (map op_organizationId (organizationPlans d))),
     (''projects_pkey'', \<lambda>d. distinct (map prj_id (projects d))),
     (''api_keys_pkey'', \<lambda>d. distinct (map key_id (apiKeys d))),
     (''uq_api_keys_secret_hash'', \<lambda>d. distinct (map key_secretHash (apiKeys d))),
     (''invitations_pkey'', \<lambda>d. distinct (map inv_id (invitations d))),
     (''uq_invitations_token_hash'', \<lambda>d. distinct (map inv_tokenHash (invitations d))),
     (''uq_invitations_org_email_pending'',
        \<lambda>d. distinct (map (\<lambda>i. (inv_organizationId i, inv_invitedEmailNormalized i))
               (filter (\<lambda>i. inv_status i = InvPending) (invitations d))))]"

definition foreign_keys :: "(string \<times> (database \<Rightarrow> bool)) list" where
  "foreign_keys =
    [(''sessions_user_id_fk'', \<lambda>d. references (map s_userId (sessions d)) (map u_id (users d))),
     (''refresh_tokens_session_id_fk'',
        \<lambda>d. references (map rt_sessionId (refreshTokens d)) (map s_id (sessions d))),
     (''email_verification_tokens_user_id_fk'',
        \<lambda>d. references (map tok_userId (emailVerificationTokens d)) (map u_id (users d))),
     (''password_reset_tokens_user_id_fk'',
        \<lambda>d. references (map tok_userId (passwordResetTokens d)) (map u_id (users d))),
     (''security_events_user_id_fk'',
        \<lambda>d. references (somes (map se_userId (securityEvents d))) (map u_id (users d))),
     (''security_events_session_id_fk'',
        \<lambda>d. references (somes (map se_sessionId (securityEvents d))) (map s_id (sessions d))),
     (''organizations_created_by_user_id_fk'',
        \<lambda>d. references (map org_createdByUserId (organizations d)) (map u_id (users d))),
     (''memberships_user_id_fk'',
        \<lambda>d. references (map mem_userId (memberships d)) (map u_id (users d))),
     (''memberships_organization_id_fk'',
        \<lambda>d. references (map mem_organizationId (memberships d)) (map org_id (organizations d))),
     (''memberships_role_id_fk'',
        \<lambda>d. references (map mem_roleId (memberships d)) (map role_id (roles d))),
     (''memberships_invited_by_user_id_fk'',
        \<lambda>d. references (somes (map mem_invitedByUserId (memberships d))) (map u_id (users d))),
     (''memberships_removed_by_user_id_fk'',
        \<lambda>d. references (somes (map mem_removedByUserId (memberships d))) (map u_id (users d))),
     (''role_permissions_role_id_fk'',
        \<lambda>d. references (map rp_roleId (rolePermissions d)) (map role_id (roles d))),
     (''role_permissions_permission_id_fk'',
        \<lambda>d. references (map rp_permissionId (rolePermissions d)) (map perm_id (permissions d))),
     (''organization_plans_organization_id_fk'',
        \<lambda>d. references (map op_organizationId (organizationPlans d)) (map org_id (organizations d))),
     (''organization_plans_changed_by_user_id_fk'',
        \<lambda>d. references (somes (map op_changedByUserId (organizationPlans d))) (map u_id (users d))),
     (''projects_organization_id_fk'',
        \<lambda>d. references (map prj_organizationId (projects d)) (map org_id (organizations d))),
     (''projects_created_by_user_id_fk'',
        \<lambda>d. references (map prj_createdByUserId (projects d)) (map u_id (users d))),
     (''projects_deleted_by_user_id_fk'',
        \<lambda>d. references (somes (map prj_deletedByUserId (projects d))) (map u_id (users d))),
     (''api_keys_organization_id_fk'',
        \<lambda>d. references (map key_organizationId (apiKeys d)) (map org_id (organizations d))),
     (''api_keys_revoked_by_user_id_fk'',
        \<lambda>d. references (somes (map key_revokedByUserId (apiKeys d))) (map u_id (users d))),
     (''api_keys_created_by_user_id_fk'',
        \<lambda>d. references (map key_createdByUserId (apiKeys d)) (map u_id (users d))),
     (''invitations_organization_id_fk'',
        \<lambda>d. references (map inv_organizationId (invitations d)) (map org_id (organizations d))),
     (''invitations_role_id_fk'',
        \<lambda>d. references (map inv_roleId (invitations d)) (map role_id (roles d))),
     (''invitations_invited_by_user_id_fk'',
        \<lambda>d. references (map inv_invitedByUserId (invitations d)) (map u_id (users d))),
     (''invitations_accepted_by_user_id_fk'',
        \<lambda>d. references (somes (map inv_acceptedByUserId (invitations d))) (map u_id (users d))),
     (''invitations_revoked_by_user_id_fk'',
        \<lambda>d. references (somes (map inv_revokedByUserId (invitations d))) (map u_id (users d)))]"

definition db_violation :: "database \<Rightarrow> error option" where
  "db_violation d =
    (case List.find (\<lambda>(n, p). \<not> p d) unique_constraints of
       Some (n, _) \<Rightarrow> Some (uniqueViolation n)
     | None \<Rightarrow>
         (case List.find (\<lambda>(n, p). \<not> p d) foreign_keys of
            Some (n, _) \<Rightarrow> Some (foreignKeyViolation n)
          | None \<Rightarrow> None))"

definition db_ok :: "database \<Rightarrow> bool" where
  "db_ok d = (list_all (\<lambda>(n, p). p d) unique_constraints \<and> list_all (\<lambda>(n, p). p d) foreign_keys)"

lemma find_all: "List.find (\<lambda>x. \<not> q x) xs = None \<longleftrightarrow> list_all q xs"
  by (auto simp: find_None_iff list_all_iff)

lemma db_violation_None: "db_violation d = None \<longleftrightarrow> db_ok d"
proof -
  have "List.find (\<lambda>(n, p). \<not> p d) cs = None \<longleftrightarrow> list_all (\<lambda>(n, p). p d) cs"
    for cs :: "(string \<times> (database \<Rightarrow> bool)) list"
    using find_all [of "\<lambda>(n, p). p d" cs] by (simp add: case_prod_unfold)
  then show ?thesis
    unfolding db_violation_def db_ok_def
    by (metis (no_types, lifting) case_prod_unfold option.case_eq_if option.distinct(1))
qed

lemmas db_ok_iff = db_ok_def [unfolded unique_constraints_def foreign_keys_def, simplified]

subsection \<open>Replacing one table\<close>

text \<open>Which constraints a new content of one table has to satisfy for the whole to stay valid.\<close>

lemma db_ok_upd_securityEvents:
  assumes "db_ok d" and "distinct (map se_id es)"
    and "set (somes (map se_userId es)) \<subseteq> set (map u_id (users d))"
    and "set (somes (map se_sessionId es)) \<subseteq> set (map s_id (sessions d))"
  shows "db_ok (d\<lparr>securityEvents := es\<rparr>)"
  using assms unfolding db_ok_iff by simp

lemma db_ok_upd_memberships:
  assumes "db_ok d" and "distinct (map mem_id ms)"
    and "distinct (map (\<lambda>m. (mem_userId m, mem_organizationId m)) (filter active_membership ms))"
    and "set (map mem_userId ms) \<subseteq> set (map u_id (users d))"
    and "set (map mem_organizationId ms) \<subseteq> set (map org_id (organizations d))"
    and "set (map mem_roleId ms) \<subseteq> set (map role_id (roles d))"
    and "set (somes (map mem_invitedByUserId ms)) \<subseteq> set (map u_id (users d))"
    and "set (somes (map mem_removedByUserId ms)) \<subseteq> set (map u_id (users d))"
  shows "db_ok (d\<lparr>memberships := ms\<rparr>)"
  using assms unfolding db_ok_iff by simp

lemma db_ok_upd_organizationPlans:
  assumes "db_ok d" and "distinct (map op_id ps)" and "distinct (map op_organizationId ps)"
    and "set (map op_organizationId ps) \<subseteq> set (map org_id (organizations d))"
    and "set (somes (map op_changedByUserId ps)) \<subseteq> set (map u_id (users d))"
  shows "db_ok (d\<lparr>organizationPlans := ps\<rparr>)"
  using assms unfolding db_ok_iff by simp

lemma db_ok_upd_projects:
  assumes "db_ok d" and "distinct (map prj_id ps)"
    and "set (map prj_organizationId ps) \<subseteq> set (map org_id (organizations d))"
    and "set (map prj_createdByUserId ps) \<subseteq> set (map u_id (users d))"
    and "set (somes (map prj_deletedByUserId ps)) \<subseteq> set (map u_id (users d))"
  shows "db_ok (d\<lparr>projects := ps\<rparr>)"
  using assms unfolding db_ok_iff by simp

lemma db_ok_upd_apiKeys:
  assumes "db_ok d" and "distinct (map key_id ks)" and "distinct (map key_secretHash ks)"
    and "set (map key_organizationId ks) \<subseteq> set (map org_id (organizations d))"
    and "set (somes (map key_revokedByUserId ks)) \<subseteq> set (map u_id (users d))"
    and "set (map key_createdByUserId ks) \<subseteq> set (map u_id (users d))"
  shows "db_ok (d\<lparr>apiKeys := ks\<rparr>)"
  using assms unfolding db_ok_iff by simp

lemma db_ok_upd_passwordResetTokens:
  assumes "db_ok d" and "distinct (map tok_id ts)" and "distinct (map tok_tokenHash ts)"
    and "set (map tok_userId ts) \<subseteq> set (map u_id (users d))"
  shows "db_ok (d\<lparr>passwordResetTokens := ts\<rparr>)"
  using assms unfolding db_ok_iff by simp

lemma db_ok_upd_emailVerificationTokens:
  assumes "db_ok d" and "distinct (map tok_id ts)" and "distinct (map tok_tokenHash ts)"
    and "set (map tok_userId ts) \<subseteq> set (map u_id (users d))"
  shows "db_ok (d\<lparr>emailVerificationTokens := ts\<rparr>)"
  using assms unfolding db_ok_iff by simp

lemma db_ok_upd_refreshTokens:
  assumes "db_ok d" and "distinct (map rt_id ts)" and "distinct (map rt_tokenHash ts)"
    and "set (map rt_sessionId ts) \<subseteq> set (map s_id (sessions d))"
  shows "db_ok (d\<lparr>refreshTokens := ts\<rparr>)"
  using assms unfolding db_ok_iff by simp

text \<open>A session or user row may change in place: its id and what it references stay.\<close>

lemma db_ok_upd_sessions:
  assumes "db_ok d" and "map s_id ss = map s_id (sessions d)" and "map s_userId ss = map s_userId (sessions d)"
  shows "db_ok (d\<lparr>sessions := ss\<rparr>)"
proof -
  have "s_id ` set ss = s_id ` set (sessions d)" "s_userId ` set ss = s_userId ` set (sessions d)"
    by (metis assms(2,3) set_map)+
  then show ?thesis using assms unfolding db_ok_iff by simp
qed

lemma db_ok_upd_users:
  assumes "db_ok d" and "map u_id us = map u_id (users d)"
    and "map u_normalizedEmail us = map u_normalizedEmail (users d)"
  shows "db_ok (d\<lparr>users := us\<rparr>)"
proof -
  have "u_id ` set us = u_id ` set (users d)" by (metis assms(2) set_map)
  then show ?thesis using assms unfolding db_ok_iff by simp
qed

lemma db_ok_upd_pendingRegistrations:
  assumes "db_ok d" and "distinct (map preg_id rs)" and "distinct (map preg_tokenHash rs)"
    and "distinct (map preg_normalizedEmail (filter usable_registration rs))"
  shows "db_ok (d\<lparr>pendingRegistrations := rs\<rparr>)"
  using assms unfolding db_ok_iff by simp

lemma db_ok_new_session:
  assumes "db_ok d" and "s_id s \<notin> s_id ` set (sessions d)" and "s_userId s \<in> u_id ` set (users d)"
  shows "db_ok (d\<lparr>sessions := sessions d @ [s]\<rparr>)"
  using assms unfolding db_ok_iff by (simp add: subset_insertI2)

lemma db_ok_new_user:
  assumes "db_ok d" and "u_id u \<notin> u_id ` set (users d)"
    and "u_normalizedEmail u \<notin> u_normalizedEmail ` set (users d)"
  shows "db_ok (d\<lparr>users := users d @ [u]\<rparr>)"
  using assms unfolding db_ok_iff by (simp add: subset_insertI2)

lemma somes_snoc: "somes (xs @ [x]) = somes xs @ (case x of None \<Rightarrow> [] | Some y \<Rightarrow> [y])"
  by (induction xs rule: somes.induct) (auto split: option.split)

lemma db_ok_event:
  assumes "db_ok d" and "se_id e \<notin> set (map se_id (securityEvents d))"
    and "\<And>u. se_userId e = Some u \<Longrightarrow> u \<in> set (map u_id (users d))"
    and "\<And>s. se_sessionId e = Some s \<Longrightarrow> s \<in> set (map s_id (sessions d))"
  shows "db_ok (d\<lparr>securityEvents := securityEvents d @ [e]\<rparr>)"
proof (rule db_ok_upd_securityEvents [OF assms(1)])
  have old: "distinct (map se_id (securityEvents d))"
    "set (somes (map se_userId (securityEvents d))) \<subseteq> set (map u_id (users d))"
    "set (somes (map se_sessionId (securityEvents d))) \<subseteq> set (map s_id (sessions d))"
    using assms(1) unfolding db_ok_iff by simp_all
  show "distinct (map se_id (securityEvents d @ [e]))" using old(1) assms(2) by simp
  show "set (somes (map se_userId (securityEvents d @ [e]))) \<subseteq> set (map u_id (users d))"
    using old(2) assms(3) by (cases "se_userId e") (simp_all add: somes_snoc)
  show "set (somes (map se_sessionId (securityEvents d @ [e]))) \<subseteq> set (map s_id (sessions d))"
    using old(3) assms(4) by (cases "se_sessionId e") (simp_all add: somes_snoc)
qed

section \<open>The world of a request\<close>

text \<open>
  \<open>nowMs\<close> is the clock of the API process, \<open>pgNow\<close> the store's; both stand still during one
  operation. \<open>entropy\<close> is the CSPRNG's byte stream, read from \<open>entropyPos\<close>. The remaining fields
  are the limiter's two stores (a window's count and its end), whether Redis answers its n-th
  command (\<open>redisUp\<close>, \<open>redisCalls\<close>), whether the mailer answers, what was mailed, the
  failed-authentication suppression mark of the API-key authenticator, the memoised hash of the
  login's timing equaliser, and what was logged.
\<close>

record account_email =
  em_to :: string
  em_subject :: string
  em_text :: string

record world =
  db :: database
  nowMs :: date
  pgNow :: timestamptz
  entropy :: "nat \<Rightarrow> nat"
  entropyPos :: nat
  memWindows :: "string \<Rightarrow> (nat \<times> date) option"
  redisKeys :: "string \<Rightarrow> (nat \<times> date option) option"
  redisUp :: "nat \<Rightarrow> bool"
  redisCalls :: nat
  mailerUp :: bool
  outbox :: "account_email list"
  suppressionLastLoggedAtMs :: "date option"
  dummyHash :: "string option"
  logs :: "string list"

type_synonym 'a api = "(world, error, 'a) prog"

definition sql :: "(database \<Rightarrow> database) \<Rightarrow> unit api" where
  "sql f = (\<lambda>w. let d = f (db w) in
     (case db_violation d of
        Some e \<Rightarrow> (Inl e, w)
      | None \<Rightarrow> (Inr (), w\<lparr>db := d\<rparr>)))"

definition select :: "(database \<Rightarrow> 'a) \<Rightarrow> 'a api" where
  "select f = getsP (\<lambda>w. f (db w))"

definition transaction :: "'a api \<Rightarrow> 'a api" where
  "transaction m = (\<lambda>w. case m w of
     (Inl e, w') \<Rightarrow> (Inl e, w'\<lparr>db := db w\<rparr>)
   | (Inr x, w') \<Rightarrow> (Inr x, w'))"

definition randomBytes :: "nat \<Rightarrow> nat list api" where
  "randomBytes n =
    (\<lambda>w. (Inr (map (\<lambda>i. entropy w (entropyPos w + i) mod 256) [0..<n]),
         w\<lparr>entropyPos := entropyPos w + n\<rparr>))"

definition createId :: "string \<Rightarrow> string api" where
  "createId prefix =
    bindP (randomBytes DEFAULT_RANDOM_LENGTH) (\<lambda>bytes.
      case makeId prefix bytes of Inl e \<Rightarrow> throw e | Inr s \<Rightarrow> ret s)"

definition requireRow :: "string \<Rightarrow> 'a option \<Rightarrow> 'a api" where
  "requireRow context row =
    (case row of
       None \<Rightarrow> throw (ThrownError (''Expected a row from '' @ context @ '', got none''))
     | Some r \<Rightarrow> ret r)"

lemma sql_apply [prog_simps]:
  "sql f w =
    (if db_ok (f (db w)) then (Inr (), w\<lparr>db := f (db w)\<rparr>)
     else (Inl (the (db_violation (f (db w)))), w))"
proof (cases "db_violation (f (db w))")
  case None
  then have "db_ok (f (db w))" by (simp only: db_violation_None)
  with None show ?thesis by (simp add: sql_def)
next
  case (Some e)
  then have "\<not> db_ok (f (db w))" by (metis db_violation_None option.distinct(1))
  with Some show ?thesis by (simp add: sql_def)
qed

lemma select_apply [prog_simps]: "select f w = (Inr (f (db w)), w)"
  by (simp add: select_def)

lemma transaction_apply [prog_simps]:
  "transaction m w = (case m w of
     (Inl e, w') \<Rightarrow> (Inl e, w'\<lparr>db := db w\<rparr>) | (Inr x, w') \<Rightarrow> (Inr x, w'))"
  by (simp add: transaction_def)

lemma sql_InrD: "sql f w = (Inr u, w') \<Longrightarrow> w' = w\<lparr>db := f (db w)\<rparr> \<and> db_ok (f (db w))"
  by (auto simp: sql_apply split: if_splits)

lemma sql_ok: "db_ok (f (db w)) \<Longrightarrow> sql f w = (Inr (), w\<lparr>db := f (db w)\<rparr>)"
  by (simp add: sql_apply)

lemma transaction_InrD: "transaction m w = (Inr x, w') \<Longrightarrow> m w = (Inr x, w')"
  by (auto simp: transaction_apply split: prod.splits sum.splits)

lemma transaction_InlD: "transaction m w = (Inl e, w') \<Longrightarrow> db w' = db w"
  by (auto simp: transaction_apply split: prod.splits sum.splits)

lemma createId_db: "db (final (createId p) w) = db w"
  by (simp add: createId_def prog_simps randomBytes_def split: sum.splits)

text \<open>The identifier \<open>createId\<close> draws from the state's entropy, and the state after the draw.\<close>

definition newId :: "string \<Rightarrow> world \<Rightarrow> string" where
  "newId prefix w =
    prefix @ ''_'' @ randomAlphabetString ALPHABET
      (map (\<lambda>i. entropy w (entropyPos w + i) mod 256) [0..<DEFAULT_RANDOM_LENGTH])"

definition drawn :: "nat \<Rightarrow> world \<Rightarrow> world" where
  "drawn n w = w\<lparr>entropyPos := entropyPos w + n\<rparr>"

lemma newId_frame [simp]: "newId p (w\<lparr>db := d\<rparr>) = newId p w"
  by (simp add: newId_def)

lemma drawn_fields [simp]:
  "db (drawn n w) = db w" "nowMs (drawn n w) = nowMs w" "pgNow (drawn n w) = pgNow w"
  "memWindows (drawn n w) = memWindows w" "redisKeys (drawn n w) = redisKeys w"
  "mailerUp (drawn n w) = mailerUp w" "outbox (drawn n w) = outbox w" "logs (drawn n w) = logs w"
  "suppressionLastLoggedAtMs (drawn n w) = suppressionLastLoggedAtMs w" "dummyHash (drawn n w) = dummyHash w"
  by (simp_all add: drawn_def)

lemma createId_apply [prog_simps]:
  "isValidPrefix p \<Longrightarrow> createId p w = (Inr (newId p w), drawn DEFAULT_RANDOM_LENGTH w)"
  by (simp add: createId_def prog_simps randomBytes_def makeId_def newId_def drawn_def)

lemma valid_prefixes [simp]:
  "isValidPrefix ''user''" "isValidPrefix ''org''" "isValidPrefix ''mem''" "isValidPrefix ''inv''"
  "isValidPrefix ''prj''" "isValidPrefix ''oplan''" "isValidPrefix ''key''" "isValidPrefix ''sess''"
  "isValidPrefix ''rtok''" "isValidPrefix ''evtok''" "isValidPrefix ''prtok''"
  "isValidPrefix ''preg''" "isValidPrefix ''evt''" "isValidPrefix ''sevt''"
  by (simp_all add: isValidPrefix_def ID_PREFIXES_def)

lemma wp_sql [wp_simps]:
  "wp (sql f) Q E =
    (\<lambda>w. if db_ok (f (db w)) then Q () (w\<lparr>db := f (db w)\<rparr>) else E (the (db_violation (f (db w)))) w)"
  by (simp add: wp_def sql_apply fun_eq_iff)

lemma wp_select [wp_simps]: "wp (select f) Q E = (\<lambda>w. Q (f (db w)) w)"
  by (simp add: wp_def select_apply fun_eq_iff)

lemma wp_transaction [wp_simps]:
  "wp (transaction m) Q E = (\<lambda>w. wp m Q (\<lambda>e w'. E e (w'\<lparr>db := db w\<rparr>)) w)"
  by (auto simp: fun_eq_iff wp_def transaction_def split: prod.splits sum.splits)

lemma wp_createId [wp_simps]:
  "isValidPrefix p \<Longrightarrow> wp (createId p) Q E = (\<lambda>w. Q (newId p w) (drawn DEFAULT_RANDOM_LENGTH w))"
  by (simp add: wp_def createId_apply fun_eq_iff)

lemma wp_randomBytes [wp_simps]:
  "wp (randomBytes n) Q E =
    (\<lambda>w. Q (map (\<lambda>i. entropy w (entropyPos w + i) mod 256) [0..<n]) (drawn n w))"
  by (simp add: wp_def randomBytes_def drawn_def fun_eq_iff)

lemma wp_requireRow [wp_simps]:
  "wp (requireRow c row) Q E =
    (\<lambda>w. case row of None \<Rightarrow> E (ThrownError (''Expected a row from '' @ c @ '', got none'')) w
     | Some r \<Rightarrow> Q r w)"
  by (simp add: requireRow_def wp_simps fun_eq_iff split: option.split)

subsection \<open>Preservation of predicates on the tables\<close>

text \<open>\<open>keeps P m\<close>: the program \<open>m\<close> preserves the predicate \<open>P\<close> on the tables.\<close>

abbreviation keeps :: "(database \<Rightarrow> bool) \<Rightarrow> 'a api \<Rightarrow> bool" where
  "keeps P m \<equiv> preserves (\<lambda>w. P (db w)) m"

lemma keeps_sql: "(\<And>d. P d \<Longrightarrow> db_ok (f d) \<Longrightarrow> P (f d)) \<Longrightarrow> keeps P (sql f)"
  by (auto simp: preserves_def sql_apply)

lemma keeps_select [preserve_intros]: "preserves P (select f)"
  by (simp add: select_def preserves_getsP)

lemma keeps_transaction [preserve_intros]: "keeps P m \<Longrightarrow> keeps P (transaction m)"
  by (force simp: preserves_def transaction_def split: prod.splits sum.splits)

text \<open>
  A transaction keeps a predicate on the tables when its body establishes it again on success:
  the intermediate states of the body, and its failures, do not count.
\<close>

lemma keeps_transaction_wp:
  "(\<And>w. P (db w) \<Longrightarrow> wp m (\<lambda>_ w'. P (db w')) (\<lambda>_ _. True) w) \<Longrightarrow> keeps P (transaction m)"
  by (force simp: preserves_def wp_def transaction_def split: prod.splits sum.splits)

lemma keeps_randomBytes [preserve_intros]: "keeps P (randomBytes n)"
  by (simp add: preserves_def randomBytes_def)

lemma keeps_createId [preserve_intros]: "keeps P (createId p)"
  by (simp add: preserves_def createId_db)

lemma keeps_requireRow [preserve_intros]: "preserves P (requireRow c r)"
  by (simp add: requireRow_def preserve_intros split: option.split)

lemma keeps_db_ok_sql [preserve_intros]: "keeps db_ok (sql f)"
  by (rule keeps_sql)

section \<open>Cryptography and the access-token library\<close>

text \<open>
  The parameters of the model: SHA-256 in hexadecimal, Argon2id hashing (with the salt bytes) and
  verification (\<open>None\<close>: the library raises), and the JWT library's signing and verification.
  \<open>jwtVerify now token secret\<close> is the decoded payload, or the library's error message.
\<close>

datatype claim = StringClaim string | NumberClaim int | OtherClaim

record jwt_payload =
  p_sub :: "claim option"
  p_sessionId :: "claim option"
  p_type :: "claim option"
  p_iat :: "claim option"
  p_exp :: "claim option"

record crypto =
  sha256 :: "string \<Rightarrow> string"
  argonHash :: "nat list \<Rightarrow> string \<Rightarrow> string"
  argonVerify :: "string \<Rightarrow> string \<Rightarrow> bool option"
  jwtSign :: "string \<Rightarrow> jwt_payload \<Rightarrow> string"
  jwtVerify :: "date \<Rightarrow> string \<Rightarrow> string \<Rightarrow> string + jwt_payload"

definition hashOpaqueToken :: "crypto \<Rightarrow> string \<Rightarrow> string" where
  "hashOpaqueToken c rawToken = sha256 c rawToken"

definition verifyPassword :: "crypto \<Rightarrow> string \<Rightarrow> string \<Rightarrow> bool" where
  "verifyPassword c storedHash plainPassword =
    (case argonVerify c storedHash plainPassword of None \<Rightarrow> False | Some b \<Rightarrow> b)"

definition hashPassword :: "crypto \<Rightarrow> string \<Rightarrow> string api" where
  "hashPassword c plainPassword = bindP (randomBytes 16) (\<lambda>salt. ret (argonHash c salt plainPassword))"

lemma keeps_hashPassword [preserve_intros]: "keeps P (hashPassword c p)"
  by (simp add: hashPassword_def preserve_intros)

end
