(* ===== verification/Codec.thy ===== *)
theory Codec
  imports Database
begin

text \<open>
  The opaque page cursor (\<^verbatim>\<open>packages/shared/src/cursor.ts\<close>): base64url over UTF-8 over
  \<open>JSON.stringify\<close>, and back. Characters are Latin-1 code units; a decoded code point or byte
  outside them becomes the substitute \<open>CHR 0xBF\<close>. A number is read by its integer part.
\<close>

section \<open>base64url\<close>

definition B64 :: string where
  "B64 = ''ABCDEFGHIJKLMNOPQRSTUVWXYZabcdefghijklmnopqrstuvwxyz0123456789-_''"

fun base64url :: "nat list \<Rightarrow> string" where
  "base64url [] = []"
| "base64url [a] = [B64 ! (a div 4), B64 ! (a mod 4 * 16)]"
| "base64url [a, b] = [B64 ! (a div 4), B64 ! (a mod 4 * 16 + b div 16), B64 ! (b mod 16 * 4)]"
| "base64url (a # b # c # bs) =
     B64 ! (a div 4) # B64 ! (a mod 4 * 16 + b div 16) # B64 ! (b mod 16 * 4 + c div 64) #
     B64 ! (c mod 64) # base64url bs"

text \<open>The decoder also reads the standard alphabet, skips other characters and stops at \<open>=\<close>.\<close>

definition b64_val :: "char \<Rightarrow> nat option" where
  "b64_val c =
    (let n = of_char c :: nat in
     if 65 \<le> n \<and> n \<le> 90 then Some (n - 65)
     else if 97 \<le> n \<and> n \<le> 122 then Some (n - 71)
     else if 48 \<le> n \<and> n \<le> 57 then Some (n + 4)
     else if c = CHR ''-'' \<or> c = CHR ''+'' then Some 62
     else if c = CHR ''_'' \<or> c = CHR ''/'' then Some 63
     else None)"

fun sextets :: "nat list \<Rightarrow> nat list" where
  "sextets (s # t # u # v # ss) =
     (s * 4 + t div 16) # (t mod 16 * 16 + u div 4) # (u mod 4 * 64 + v) # sextets ss"
| "sextets [s, t, u] = [s * 4 + t div 16, t mod 16 * 16 + u div 4]"
| "sextets [s, t] = [s * 4 + t div 16]"
| "sextets _ = []"

definition base64url_decode :: "string \<Rightarrow> nat list" where
  "base64url_decode s = sextets (List.map_filter b64_val (takeWhile (\<lambda>c. c \<noteq> CHR ''='') s))"

lemma b64_val_nth: "n < 64 \<Longrightarrow> b64_val (B64 ! n) = Some n \<and> B64 ! n \<noteq> CHR ''=''"
proof -
  assume n: "n < 64"
  have vals: "map b64_val B64 = map Some [0..<64]"
    by (simp add: B64_def b64_val_def upt_rec)
  then have "length B64 = 64" by (metis length_map length_upt diff_zero)
  with n vals have v: "b64_val (B64 ! n) = Some n"
    by (metis add_0 length_upt nth_map nth_upt diff_zero)
  moreover have "b64_val (CHR ''='') = None"
    by (simp add: b64_val_def)
  ultimately show ?thesis by auto
qed

lemma base64url_vals:
  "\<forall>b\<in>set bs. b < 256 \<Longrightarrow> CHR ''='' \<notin> set (base64url bs) \<and>
   sextets (List.map_filter b64_val (base64url bs)) = bs"
proof (induction bs rule: base64url.induct)
  case (2 a)
  then have bounds: "a div 4 < 64" "a mod 4 * 16 < 64" and "a div 4 * 4 + a mod 4 * 16 div 16 = a"
    by auto
  then show ?case
    using b64_val_nth [OF bounds(1)] b64_val_nth [OF bounds(2)] by (auto simp: map_filter_simps)
next
  case (3 a b)
  then have bounds: "a div 4 < 64" "a mod 4 * 16 + b div 16 < 64" "b mod 16 * 4 < 64" by auto
  moreover have "a div 4 * 4 + (a mod 4 * 16 + b div 16) div 16 = a"
    "(a mod 4 * 16 + b div 16) mod 16 * 16 + b mod 16 * 4 div 4 = b"
    using 3 by auto
  ultimately show ?case
    using b64_val_nth [OF bounds(1)] b64_val_nth [OF bounds(2)] b64_val_nth [OF bounds(3)]
    by (auto simp: map_filter_simps)
next
  case (4 a b c bs)
  then have bounds: "a div 4 < 64" "a mod 4 * 16 + b div 16 < 64" "b mod 16 * 4 + c div 64 < 64"
    "c mod 64 < 64" and IH: "CHR ''='' \<notin> set (base64url bs)"
    "sextets (List.map_filter b64_val (base64url bs)) = bs" by auto
  moreover have "a div 4 * 4 + (a mod 4 * 16 + b div 16) div 16 = a"
    "(a mod 4 * 16 + b div 16) mod 16 * 16 + (b mod 16 * 4 + c div 64) div 4 = b"
    "(b mod 16 * 4 + c div 64) mod 4 * 64 + c mod 64 = c"
    using 4 by auto
  ultimately show ?case
    using b64_val_nth [OF bounds(1)] b64_val_nth [OF bounds(2)]
      b64_val_nth [OF bounds(3)] b64_val_nth [OF bounds(4)]
    by (auto simp: map_filter_simps)
qed (simp_all add: map_filter_simps)

lemma base64url_roundtrip:
  assumes "\<forall>b\<in>set bs. b < 256"
  shows "base64url_decode (base64url bs) = bs"
proof -
  have "\<forall>c\<in>set (base64url bs). c \<noteq> CHR ''=''"
    using base64url_vals [OF assms] by auto
  then have "takeWhile (\<lambda>c. c \<noteq> CHR ''='') (base64url bs) = base64url bs"
    by (simp only: takeWhile_eq_all_conv)
  then show ?thesis using base64url_vals [OF assms] by (simp only: base64url_decode_def)
qed

section \<open>UTF-8\<close>

definition SUBSTITUTE :: char where
  "SUBSTITUTE = char_of (191 :: nat)"

fun utf8_encode :: "string \<Rightarrow> nat list" where
  "utf8_encode [] = []"
| "utf8_encode (c # s) =
    (let n = of_char c :: nat in
     if n < 128 then n # utf8_encode s else (192 + n div 64) # (128 + n mod 64) # utf8_encode s)"

fun utf8_decode :: "nat list \<Rightarrow> string" where
  "utf8_decode [] = []"
| "utf8_decode [b] = [if b < 128 then char_of b else SUBSTITUTE]"
| "utf8_decode (b # b' # bs) =
    (if b < 128 then char_of b # utf8_decode (b' # bs)
     else if (b = 194 \<or> b = 195) \<and> 128 \<le> b' \<and> b' < 192
       then char_of ((b - 192) * 64 + (b' - 128)) # utf8_decode bs
     else SUBSTITUTE # utf8_decode (b' # bs))"

lemma utf8_decode_ascii: "b < 128 \<Longrightarrow> utf8_decode (b # bs) = char_of b # utf8_decode bs"
  by (cases bs) auto

lemma utf8_roundtrip [simp]: "utf8_decode (utf8_encode s) = s"
proof (induction s)
  case (Cons c s)
  let ?n = "of_char c :: nat"
  show ?case
  proof (cases "?n < 128")
    case True
    with Cons show ?thesis by (simp add: utf8_decode_ascii)
  next
    case False
    have "?n < 256" by simp
    with False consider "?n div 64 = 2" | "?n div 64 = 3" by linarith
    then show ?thesis
    proof cases
      case 1
      then have "128 + ?n mod 64 = ?n" using div_mult_mod_eq [of ?n 64] by simp
      then have "char_of (128 + ?n mod 64) = c" by (simp only: char_of_char)
      with 1 False Cons show ?thesis by simp
    next
      case 2
      then have "192 + ?n mod 64 = ?n" using div_mult_mod_eq [of ?n 64] by simp
      then have "char_of (192 + ?n mod 64) = c" by (simp only: char_of_char)
      with 2 False Cons show ?thesis by simp
    qed
  qed
qed simp

lemma utf8_bytes: "\<forall>b\<in>set (utf8_encode s). b < 256"
proof (induction s)
  case (Cons c s)
  have "(of_char c :: nat) div 64 < 4" using nat_of_char_less_256 [of c] by linarith
  with Cons show ?case by (auto simp: Let_def)
qed simp

section \<open>JSON text\<close>

definition hex_digit :: "nat \<Rightarrow> char" where
  "hex_digit n = ''0123456789abcdef'' ! n"

definition escape_char :: "char \<Rightarrow> string" where
  "escape_char c =
    (let n = of_char c :: nat in
     if n = 34 then [CHR 0x5C, CHR 0x22]
     else if n = 92 then [CHR 0x5C, CHR 0x5C]
     else if n = 8 then [CHR 0x5C, CHR ''b'']
     else if n = 12 then [CHR 0x5C, CHR ''f'']
     else if n = 10 then [CHR 0x5C, CHR ''n'']
     else if n = 13 then [CHR 0x5C, CHR ''r'']
     else if n = 9 then [CHR 0x5C, CHR ''t'']
     else if n < 32 then [CHR 0x5C, CHR ''u'', CHR ''0'', CHR ''0'', hex_digit (n div 16), hex_digit (n mod 16)]
     else [c])"

definition json_string :: "string \<Rightarrow> string" where
  "json_string s = CHR 0x22 # concat (map escape_char s) @ [CHR 0x22]"

definition show_int :: "int \<Rightarrow> string" where
  "show_int n = (if n < 0 then CHR ''-'' # show_nat (nat (- n)) else show_nat (nat n))"

fun stringify :: "json \<Rightarrow> string"
  and stringify_elems :: "json list \<Rightarrow> string"
  and stringify_members :: "(string \<times> json) list \<Rightarrow> string" where
  "stringify JNull = ''null''"
| "stringify (JBool b) = (if b then ''true'' else ''false'')"
| "stringify (JNum n) = show_int n"
| "stringify (JStr s) = json_string s"
| "stringify (JArr xs) = CHR ''['' # stringify_elems xs @ '']''"
| "stringify (JObj kvs) = CHR ''{'' # stringify_members kvs @ ''}''"
| "stringify_elems [] = []"
| "stringify_elems [x] = stringify x"
| "stringify_elems (x # y # ys) = stringify x @ CHR '','' # stringify_elems (y # ys)"
| "stringify_members [] = []"
| "stringify_members [(k, v)] = json_string k @ CHR '':'' # stringify v"
| "stringify_members ((k, v) # kv # kvs) =
     json_string k @ CHR '':'' # stringify v @ CHR '','' # stringify_members (kv # kvs)"

subsection \<open>Parsing\<close>

definition json_white :: "char \<Rightarrow> bool" where
  "json_white c = (let n = of_char c :: nat in n = 32 \<or> n = 9 \<or> n = 10 \<or> n = 13)"

abbreviation skip_ws :: "string \<Rightarrow> string" where
  "skip_ws s \<equiv> dropWhile json_white s"

definition is_digit :: "char \<Rightarrow> bool" where
  "is_digit c = (let n = of_char c :: nat in 48 \<le> n \<and> n \<le> 57)"

definition digits_val :: "string \<Rightarrow> nat" where
  "digits_val ds = foldl (\<lambda>a c. a * 10 + (of_char c - 48)) 0 ds"

definition hex_val :: "char \<Rightarrow> nat option" where
  "hex_val c =
    (let n = of_char c :: nat in
     if 48 \<le> n \<and> n \<le> 57 then Some (n - 48)
     else if 97 \<le> n \<and> n \<le> 102 then Some (n - 87)
     else if 65 \<le> n \<and> n \<le> 70 then Some (n - 55)
     else None)"

definition code_unit :: "nat \<Rightarrow> char" where
  "code_unit n = (if n < 256 then char_of n else SUBSTITUTE)"

definition simple_escape :: "char \<Rightarrow> char option" where
  "simple_escape c =
    (if c = CHR 0x22 \<or> c = CHR 0x5C \<or> c = CHR ''/'' then Some c
     else if c = CHR ''b'' then Some (char_of (8 :: nat))
     else if c = CHR ''f'' then Some (char_of (12 :: nat))
     else if c = CHR ''n'' then Some (char_of (10 :: nat))
     else if c = CHR ''r'' then Some (char_of (13 :: nat))
     else if c = CHR ''t'' then Some (char_of (9 :: nat))
     else None)"

definition hex4 :: "char \<Rightarrow> char \<Rightarrow> char \<Rightarrow> char \<Rightarrow> nat option" where
  "hex4 a b c d =
    (case (hex_val a, hex_val b, hex_val c, hex_val d) of
       (Some w, Some x, Some y, Some z) \<Rightarrow> Some (w * 4096 + x * 256 + y * 16 + z)
     | _ \<Rightarrow> None)"

definition cons_fst :: "char \<Rightarrow> (string \<times> string) option \<Rightarrow> (string \<times> string) option" where
  "cons_fst c r = map_option (\<lambda>(t, rest). (c # t, rest)) r"

text \<open>The characters of a string literal after its opening quote, and what follows it.\<close>

function parse_string :: "string \<Rightarrow> (string \<times> string) option" where
  "parse_string s =
    (case s of
       [] \<Rightarrow> None
     | c # r \<Rightarrow>
         if c = CHR 0x22 then Some ([], r)
         else if c = CHR 0x5C then
           (case r of
              [] \<Rightarrow> None
            | e # r' \<Rightarrow>
                if e = CHR ''u'' then
                  (case r' of
                     h1 # h2 # h3 # h4 # r'' \<Rightarrow>
                       (case hex4 h1 h2 h3 h4 of
                          None \<Rightarrow> None | Some n \<Rightarrow> cons_fst (code_unit n) (parse_string r''))
                   | _ \<Rightarrow> None)
                else (case simple_escape e of None \<Rightarrow> None | Some x \<Rightarrow> cons_fst x (parse_string r')))
         else if (of_char c :: nat) < 32 then None
         else cons_fst c (parse_string r))"
  by pat_completeness auto
termination by (relation "measure length") auto

declare parse_string.simps [simp del]

definition exponent_part :: "string \<Rightarrow> (int \<times> string) option" where
  "exponent_part s =
    (case s of
       [] \<Rightarrow> Some (0, s)
     | c # r \<Rightarrow>
         if c = CHR ''e'' \<or> c = CHR ''E'' then
           (let neg = (case r of x # _ \<Rightarrow> x = CHR ''-'' | [] \<Rightarrow> False);
                r' = (case r of x # y \<Rightarrow> if x = CHR ''-'' \<or> x = CHR ''+'' then y else r | [] \<Rightarrow> r);
                ds = takeWhile is_digit r'
            in if ds = [] then None
               else Some ((if neg then - int (digits_val ds) else int (digits_val ds)),
                          dropWhile is_digit r'))
         else Some (0, s))"

definition fraction_part :: "string \<Rightarrow> (string \<times> string) option" where
  "fraction_part s =
    (case s of
       [] \<Rightarrow> Some ([], s)
     | c # r \<Rightarrow>
         if c = CHR ''.'' then
           (if takeWhile is_digit r = [] then None
            else Some (takeWhile is_digit r, dropWhile is_digit r))
         else Some ([], s))"

definition scaled :: "nat \<Rightarrow> int \<Rightarrow> nat" where
  "scaled m e = (if 0 \<le> e then m * 10 ^ nat e else m div 10 ^ nat (- e))"

definition parse_number :: "string \<Rightarrow> (json \<times> string) option" where
  "parse_number s =
    (let neg = (case s of c # _ \<Rightarrow> c = CHR ''-'' | [] \<Rightarrow> False);
         s1 = (if neg then tl s else s);
         ds = takeWhile is_digit s1
     in if ds = [] \<or> (hd ds = CHR ''0'' \<and> 1 < length ds) then None
        else (case fraction_part (dropWhile is_digit s1) of
            None \<Rightarrow> None
          | Some (fd, r) \<Rightarrow>
              (case exponent_part r of
                 None \<Rightarrow> None
               | Some (e, r') \<Rightarrow>
                   (let v = int (scaled (digits_val (ds @ fd)) (e - int (length fd)))
                    in Some (JNum (if neg then - v else v), r')))))"

fun parse_value :: "nat \<Rightarrow> string \<Rightarrow> (json \<times> string) option"
  and parse_elems :: "nat \<Rightarrow> string \<Rightarrow> (json list \<times> string) option"
  and parse_members :: "nat \<Rightarrow> string \<Rightarrow> ((string \<times> json) list \<times> string) option" where
  "parse_value 0 s = None"
| "parse_value (Suc f) s =
    (case skip_ws s of
       [] \<Rightarrow> None
     | c # r \<Rightarrow>
         if c = CHR 0x22 then map_option (\<lambda>(t, r'). (JStr t, r')) (parse_string r)
         else if c = CHR ''['' then
           (case skip_ws r of
              [] \<Rightarrow> None
            | d # r' \<Rightarrow>
                if d = CHR '']'' then Some (JArr [], r')
                else map_option (\<lambda>(xs, r''). (JArr xs, r'')) (parse_elems f r))
         else if c = CHR ''{'' then
           (case skip_ws r of
              [] \<Rightarrow> None
            | d # r' \<Rightarrow>
                if d = CHR ''}'' then Some (JObj [], r')
                else map_option (\<lambda>(kvs, r''). (JObj kvs, r'')) (parse_members f r))
         else if startsWith (c # r) ''null'' then Some (JNull, drop 4 (c # r))
         else if startsWith (c # r) ''true'' then Some (JBool True, drop 4 (c # r))
         else if startsWith (c # r) ''false'' then Some (JBool False, drop 5 (c # r))
         else parse_number (c # r))"
| "parse_elems 0 s = None"
| "parse_elems (Suc f) s =
    (case parse_value f s of
       None \<Rightarrow> None
     | Some (x, r) \<Rightarrow>
         (case skip_ws r of
            [] \<Rightarrow> None
          | c # r' \<Rightarrow>
              if c = CHR '','' then map_option (\<lambda>(xs, r''). (x # xs, r'')) (parse_elems f r')
              else if c = CHR '']'' then Some ([x], r')
              else None))"
| "parse_members 0 s = None"
| "parse_members (Suc f) s =
    (case skip_ws s of
       [] \<Rightarrow> None
     | q # r0 \<Rightarrow>
         if q \<noteq> CHR 0x22 then None
         else (case parse_string r0 of
            None \<Rightarrow> None
          | Some (k, r1) \<Rightarrow>
              (case skip_ws r1 of
                 [] \<Rightarrow> None
               | c # r2 \<Rightarrow>
                   if c \<noteq> CHR '':'' then None
                   else (case parse_value f r2 of
                      None \<Rightarrow> None
                    | Some (v, r3) \<Rightarrow>
                        (case skip_ws r3 of
                           [] \<Rightarrow> None
                         | d # r4 \<Rightarrow>
                             if d = CHR '','' then
                               map_option (\<lambda>(kvs, r5). ((k, v) # kvs, r5)) (parse_members f r4)
                             else if d = CHR ''}'' then Some ([(k, v)], r4)
                             else None)))))"

definition json_parse :: "string \<Rightarrow> json option" where
  "json_parse s =
    (case parse_value (2 * length s + 2) s of
       None \<Rightarrow> None
     | Some (j, r) \<Rightarrow> if skip_ws r = [] then Some j else None)"

section \<open>Cursors\<close>

definition encodeCursor :: "metadata \<Rightarrow> string" where
  "encodeCursor payload = base64url (utf8_encode (stringify (JObj payload)))"

definition decodeCursor :: "string \<Rightarrow> json option" where
  "decodeCursor cursor = json_parse (utf8_decode (base64url_decode cursor))"

text \<open>Reading a property of a parsed value: the last of duplicate keys counts.\<close>

definition json_prop :: "json \<Rightarrow> string \<Rightarrow> json option" where
  "json_prop j k = (case j of JObj kvs \<Rightarrow> map_of (rev kvs) k | _ \<Rightarrow> None)"

end
