(* ===== verification/Pagination.thy ===== *)
theory Pagination
  imports Codec
begin

text \<open>
  Round trip of the JSON text and of the page cursor, and the keyset pagination every list
  endpoint uses: newest first by creation instant and id, one row more than the page to see
  whether another page follows, and a cursor that names the last row of the page.
\<close>

section \<open>Printing and parsing\<close>

lemma show_nat_props:
  "list_all is_digit (show_nat n) \<and> digits_val (show_nat n) = n \<and> show_nat n \<noteq> [] \<and>
   (hd (show_nat n) = CHR ''0'' \<longrightarrow> length (show_nat n) = 1)"
proof (induction n rule: show_nat.induct)
  case (1 n)
  show ?case
  proof (cases "n < 10")
    case True
    then have "(of_char (char_of (48 + n) :: char) :: nat) = 48 + n" by simp
    with True show ?thesis by (subst (1 2 3 4 5) show_nat.simps) (simp add: is_digit_def digits_val_def)
  next
    case False
    let ?q = "show_nat (n div 10)"
    have eq: "show_nat n = ?q @ [char_of (48 + n mod 10)]"
      using False by (subst show_nat.simps) simp
    have d: "(of_char (char_of (48 + n mod 10) :: char) :: nat) = 48 + n mod 10" by simp
    from False 1 have IH: "list_all is_digit ?q" "digits_val ?q = n div 10" "?q \<noteq> []"
      "hd ?q = CHR ''0'' \<longrightarrow> length ?q = 1" by auto
    have "hd ?q \<noteq> CHR ''0''"
    proof
      assume z: "hd ?q = CHR ''0''"
      with IH obtain c where "?q = [c]" by (cases ?q) auto
      with z have "?q = [CHR ''0'']" by simp
      with IH(2) have "n div 10 = 0" by (simp add: digits_val_def)
      with False show False by simp
    qed
    moreover have "is_digit (char_of (48 + n mod 10))"
    proof -
      have "n mod 10 < 10" by simp
      then show ?thesis unfolding is_digit_def Let_def d by linarith
    qed
    moreover have "digits_val (?q @ [char_of (48 + n mod 10)]) = n"
      using IH(2) d by (simp add: digits_val_def)
    ultimately show ?thesis unfolding eq using IH(1,3) by simp
  qed
qed

lemma takeWhile_digits:
  "list_all is_digit ds \<Longrightarrow> (rest = [] \<or> \<not> is_digit (hd rest)) \<Longrightarrow>
   takeWhile is_digit (ds @ rest) = ds \<and> dropWhile is_digit (ds @ rest) = rest"
  by (induction ds) (cases rest; auto)+

definition value_end :: "string \<Rightarrow> bool" where
  "value_end rest = (rest = [] \<or> hd rest = CHR '','' \<or> hd rest = CHR '']'' \<or> hd rest = CHR ''}'')"

lemma number_parts:
  assumes "value_end rest" and "list_all is_digit ds"
  shows "takeWhile is_digit (ds @ rest) = ds" "dropWhile is_digit (ds @ rest) = rest"
    "fraction_part rest = Some ([], rest)" "exponent_part rest = Some (0, rest)"
proof -
  have "rest = [] \<or> \<not> is_digit (hd rest)"
    using assms(1) by (auto simp: value_end_def is_digit_def Let_def)
  then show "takeWhile is_digit (ds @ rest) = ds" "dropWhile is_digit (ds @ rest) = rest"
    using takeWhile_digits [OF assms(2)] by auto
  show "fraction_part rest = Some ([], rest)" "exponent_part rest = Some (0, rest)"
    using assms(1)
    by (auto simp: value_end_def fraction_part_def exponent_part_def split: list.splits)
qed

lemma parse_number_show:
  assumes "value_end rest"
  shows "parse_number (show_int n @ rest) = Some (JNum n, rest)"
proof -
  define ds where "ds = show_nat (nat (if n < 0 then - n else n))"
  have digits: "list_all is_digit ds" and val: "digits_val ds = nat (if n < 0 then - n else n)"
    and ne: "ds \<noteq> []" and lead: "\<not> (ds = [] \<or> hd ds = CHR ''0'' \<and> 1 < length ds)"
    using show_nat_props [of "nat (if n < 0 then - n else n)"] unfolding ds_def by auto
  note parts = number_parts [OF assms digits]
  obtain c cs where c: "ds = c # cs" using ne by (cases ds) auto
  with digits have nneg: "c \<noteq> CHR ''-''" by (auto simp: is_digit_def Let_def)
  have s: "show_int n = (if n < 0 then CHR ''-'' # ds else ds)"
    by (simp add: show_int_def ds_def)
  show ?thesis
  proof (cases "n < 0")
    case True
    then show ?thesis unfolding s parse_number_def
      using lead by (simp only: Let_def if_True list.case list.sel append_Cons parts simp_thms
          option.case prod.case)
        (simp add: val scaled_def)
  next
    case False
    have neg: "(case ds @ rest of [] \<Rightarrow> False | x # _ \<Rightarrow> x = CHR ''-'') = False"
      using nneg by (simp add: c)
    show ?thesis unfolding s parse_number_def Let_def
      using lead False by (simp only: neg if_False parts option.case prod.case simp_thms)
        (simp add: val scaled_def)
  qed
qed

lemma hex_val_hex_digit: "k < 16 \<Longrightarrow> hex_val (hex_digit k) = Some k"
proof -
  have "\<forall>k\<in>set [0..<16]. hex_val (hex_digit k) = Some k"
    by code_simp
  then show "k < 16 \<Longrightarrow> hex_val (hex_digit k) = Some k" by simp
qed

lemma parse_string_escape:
  "parse_string (escape_char c @ r) = cons_fst c (parse_string r)"
proof -
  let ?n = "of_char c :: nat"
  have id: "char_of ?n = c" by simp
  consider "?n = 34" | "?n = 92" | "?n = 8" | "?n = 12" | "?n = 10" | "?n = 13" | "?n = 9"
    | "?n < 32 \<and> ?n \<notin> {8, 9, 10, 12, 13}" | "32 \<le> ?n \<and> ?n \<noteq> 34 \<and> ?n \<noteq> 92" by fastforce
  then show ?thesis
  proof cases
    case 1
    then have "?n = of_char (CHR 0x22)" by simp
    then have "c = CHR 0x22" by (simp only: of_char_eq_iff)
    then show ?thesis
      by (simp add: escape_char_def parse_string.simps [of "CHR 0x5C # _"] simple_escape_def)
  next
    case 2
    then have "?n = of_char (CHR 0x5C)" by simp
    then have "c = CHR 0x5C" by (simp only: of_char_eq_iff)
    then show ?thesis
      by (simp add: escape_char_def parse_string.simps [of "CHR 0x5C # _"] simple_escape_def)
  next
    case 8
    then have e: "escape_char c = [CHR 0x5C, CHR ''u'', CHR ''0'', CHR ''0'',
      hex_digit (?n div 16), hex_digit (?n mod 16)]" by (simp add: escape_char_def Let_def)
    have "hex_val (hex_digit (?n div 16)) = Some (?n div 16)"
      "hex_val (hex_digit (?n mod 16)) = Some (?n mod 16)" using 8 by (auto intro!: hex_val_hex_digit)
    moreover have "hex_val (CHR ''0'') = Some 0" by (simp add: hex_val_def)
    ultimately have "hex4 (CHR ''0'') (CHR ''0'') (hex_digit (?n div 16)) (hex_digit (?n mod 16)) = Some ?n"
      by (simp add: hex4_def)
    then show ?thesis unfolding e by (subst parse_string.simps) (simp add: code_unit_def)
  next
    case 9
    then have e: "escape_char c = [c]" by (simp add: escape_char_def)
    have "c \<noteq> CHR 0x22" "c \<noteq> CHR 0x5C" using 9 by auto
    then show ?thesis unfolding e using 9 by (subst parse_string.simps) simp
  qed (use id in \<open>simp_all add: escape_char_def parse_string.simps [of "CHR 0x5C # _"]
      simple_escape_def\<close>)
qed

lemma parse_string_json:
  "parse_string (concat (map escape_char s) @ CHR 0x22 # rest) = Some (s, rest)"
proof (induction s)
  case Nil
  show ?case by (subst parse_string.simps) simp
next
  case (Cons c s)
  then show ?case by (simp add: parse_string_escape cons_fst_def)
qed

lemma stringify_head:
  "\<exists>c r. stringify j = c # r \<and> \<not> json_white c \<and> c \<noteq> CHR '']'' \<and> c \<noteq> CHR ''}''"
proof (cases j)
  case (JNum n)
  obtain c cs where c: "show_nat (nat (if n < 0 then - n else n)) = c # cs" and "is_digit c"
    using show_nat_props [of "nat (if n < 0 then - n else n)"]
    by (cases "show_nat (nat (if n < 0 then - n else n))") auto
  then have "\<not> json_white c \<and> c \<noteq> CHR '']'' \<and> c \<noteq> CHR ''}''"
    by (auto simp: is_digit_def json_white_def Let_def)
  with c JNum show ?thesis by (auto simp: show_int_def json_white_def split: if_splits)
qed (auto simp: json_string_def json_white_def)

lemma parse_value_number:
  assumes "value_end rest"
  shows "parse_value (Suc f) (show_int n @ rest) = Some (JNum n, rest)"
proof -
  obtain c r where c: "show_int n = c # r" and w: "\<not> json_white c"
    using stringify_head [of "JNum n"] by auto
  have "c = CHR ''-'' \<or> is_digit c"
    using c show_nat_props [of "nat (- n)"] show_nat_props [of "nat n"]
    by (auto simp: show_int_def list_all_iff split: if_splits)
  then have "c \<noteq> CHR 0x22" "c \<noteq> CHR ''[''" "c \<noteq> CHR ''{''" "c \<noteq> CHR ''n''" "c \<noteq> CHR ''t''"
    "c \<noteq> CHR ''f''"
    by (auto simp: is_digit_def Let_def)
  with w parse_number_show [OF assms, of n] show ?thesis by (simp add: c)
qed

lemma parse_value_roundtrip:
  "value_end rest \<Longrightarrow> 2 * length (stringify j) < f \<Longrightarrow>
     parse_value f (stringify j @ rest) = Some (j, rest)"
  "xs \<noteq> [] \<Longrightarrow> 2 * length (stringify_elems xs) + 1 < f \<Longrightarrow>
     parse_elems f (stringify_elems xs @ CHR '']'' # rest') = Some (xs, rest')"
  "kvs \<noteq> [] \<Longrightarrow> 2 * length (stringify_members kvs) + 1 < f \<Longrightarrow>
     parse_members f (stringify_members kvs @ CHR ''}'' # rest'') = Some (kvs, rest'')"
proof (induction j and xs and kvs arbitrary: f rest and f rest' and f rest''
    rule: stringify_stringify_elems_stringify_members.induct)
  case 1
  then show ?case by (cases f) (auto simp: json_white_def)
next
  case (2 b)
  then show ?case by (cases f) (auto simp: json_white_def)
next
  case (3 n)
  then obtain g where "f = Suc g" by (cases f) auto
  with 3 show ?case by (simp only: stringify.simps parse_value_number)
next
  case (4 s)
  then show ?case
    by (cases f) (simp_all add: json_string_def json_white_def parse_string_json)
next
  case (5 xs)
  then obtain g where f: "f = Suc g" by (cases f) auto
  show ?case
  proof (cases xs)
    case Nil
    then show ?thesis by (simp add: f json_white_def)
  next
    case (Cons x ys)
    obtain c r where c: "stringify_elems xs = c # r" "\<not> json_white c" "c \<noteq> CHR '']''"
      using stringify_head [of x] Cons by (cases ys) auto
    from 5 f Cons have "parse_elems g (stringify_elems xs @ CHR '']'' # rest) = Some (xs, rest)"
      by auto
    with c show ?thesis by (simp add: f json_white_def)
  qed
next
  case (6 kvs)
  then obtain g where f: "f = Suc g" by (cases f) auto
  show ?case
  proof (cases kvs)
    case Nil
    then show ?thesis by (simp add: f json_white_def)
  next
    case (Cons kv ys)
    have c: "\<exists>r. stringify_members kvs = CHR 0x22 # r"
      using Cons by (cases kv; cases ys) (auto simp: json_string_def)
    from 6 f Cons have "parse_members g (stringify_members kvs @ CHR ''}'' # rest) = Some (kvs, rest)"
      by auto
    with c show ?thesis by (auto simp: f json_white_def)
  qed
next
  case 7
  then show ?case by simp
next
  case (8 x)
  then obtain g where "f = Suc g" by (cases f) auto
  with 8 show ?case by (simp add: value_end_def json_white_def)
next
  case (9 x y ys)
  then obtain g where "f = Suc g" by (cases f) auto
  with 9 show ?case by (simp add: value_end_def json_white_def)
next
  case 10
  then show ?case by simp
next
  case (11 k v)
  then obtain g where "f = Suc g" by (cases f) auto
  with 11 show ?case
    by (simp add: json_string_def value_end_def json_white_def parse_string_json)
next
  case (12 k v kv kvs)
  then obtain g where "f = Suc g" by (cases f) auto
  with 12 show ?case
    by (simp add: json_string_def value_end_def json_white_def parse_string_json)
qed

theorem json_roundtrip: "json_parse (stringify j) = Some j"
proof -
  have "parse_value (2 * length (stringify j) + 2) (stringify j @ []) = Some (j, [])"
    by (rule parse_value_roundtrip) (auto simp: value_end_def)
  then show ?thesis by (simp add: json_parse_def)
qed

lemma cursor_roundtrip: "decodeCursor (encodeCursor payload) = Some (JObj payload)"
  unfolding decodeCursor_def encodeCursor_def
    base64url_roundtrip [OF utf8_bytes] utf8_roundtrip json_roundtrip by simp

section \<open>Pages\<close>

text \<open>
  The \<open>WHERE\<close> clause a cursor stands for, the query (newest first, one row too many), and what a
  list operation makes of the rows. The cursor carries the creation instant in milliseconds
  (\<open>createdAt.getTime()\<close>) and the id of the last row of the page.
\<close>

record 'd page =
  items :: "'d list"
  nextCursor :: "string option"
  hasMore :: bool

definition after_cursor ::
  "('r \<Rightarrow> timestamptz) \<Rightarrow> ('r \<Rightarrow> string) \<Rightarrow> (date \<times> string) option \<Rightarrow> 'r \<Rightarrow> bool" where
  "after_cursor created rid cursor r =
    (case cursor of
       None \<Rightarrow> True
     | Some (createdAtMs, i) \<Rightarrow>
         created r < fromDate createdAtMs \<or> (created r = fromDate createdAtMs \<and> rid r < i))"

definition page_query ::
  "('r \<Rightarrow> timestamptz) \<Rightarrow> ('r \<Rightarrow> string) \<Rightarrow> (date \<times> string) option \<Rightarrow> nat \<Rightarrow> 'r list \<Rightarrow> 'r list" where
  "page_query created rid cursor limit rs =
    take (limit + 1)
      (order_desc (\<lambda>r. (created r, rid r)) (filter (after_cursor created rid cursor) rs))"

definition encodePageCursor :: "date \<Rightarrow> string \<Rightarrow> string" where
  "encodePageCursor c i = encodeCursor [(''c'', JNum c), (''i'', JStr i)]"

definition decodePageCursor :: "string option \<Rightarrow> error + (date \<times> string) option" where
  "decodePageCursor cursor =
    (case cursor of
       None \<Rightarrow> Inr None
     | Some s \<Rightarrow>
         if s = [] then Inr None
         else (case decodeCursor s of
            None \<Rightarrow> Inl invalidCursorError
          | Some decoded \<Rightarrow>
              (case (json_prop decoded ''c'', json_prop decoded ''i'') of
                 (Some (JNum c), Some (JStr i)) \<Rightarrow> Inr (Some (c, i))
               | _ \<Rightarrow> Inl invalidCursorError)))"

definition cut_page ::
  "('r \<Rightarrow> timestamptz) \<Rightarrow> ('r \<Rightarrow> string) \<Rightarrow> ('r \<Rightarrow> 'd) \<Rightarrow> nat \<Rightarrow> 'r list \<Rightarrow> 'd page" where
  "cut_page created rid dto limit rs =
    (let more = limit < length rs;
         pg = (if more then take limit rs else rs);
         nxt = (if more \<and> pg \<noteq> []
                then Some (encodePageCursor (toDate (created (last pg))) (rid (last pg)))
                else None)
     in \<lparr>items = map dto pg, nextCursor = nxt, hasMore = more\<rparr>)"

lemma encodePageCursor_not_empty: "encodePageCursor c i \<noteq> []"
proof
  assume e: "encodePageCursor c i = []"
  have "decodeCursor (encodePageCursor c i) = Some (JObj [(''c'', JNum c), (''i'', JStr i)])"
    by (simp only: encodePageCursor_def cursor_roundtrip)
  moreover have "decodeCursor [] = None" by code_simp
  ultimately show False by (simp add: e)
qed

lemma decodePageCursor_encode [simp]:
  "decodePageCursor (Some (encodePageCursor c i)) = Inr (Some (c, i))"
  unfolding decodePageCursor_def
  by (simp add: encodePageCursor_not_empty)
    (simp add: encodePageCursor_def cursor_roundtrip json_prop_def)

lemma decodePageCursor_None [simp]: "decodePageCursor None = Inr None"
  by (simp add: decodePageCursor_def)

subsection \<open>Walking the pages\<close>

text \<open>The client's walk: ask for a page, follow its cursor while there is one.\<close>

fun walk_pages :: "nat \<Rightarrow> (string option \<Rightarrow> error + 'd page) \<Rightarrow> string option \<Rightarrow> 'd list" where
  "walk_pages 0 fetch cursor = []"
| "walk_pages (Suc n) fetch cursor =
    (case fetch cursor of
       Inl e \<Rightarrow> []
     | Inr pg \<Rightarrow>
         items pg @
         (case nextCursor pg of None \<Rightarrow> [] | Some c \<Rightarrow> walk_pages n fetch (Some c)))"

definition whole_ms :: "timestamptz \<Rightarrow> bool" where
  "whole_ms t = (t mod 1000 = 0)"

lemma whole_ms_roundtrip: "whole_ms t \<Longrightarrow> fromDate (toDate t) = t"
  unfolding whole_ms_def toDate_def fromDate_def by (metis add.right_neutral div_mult_mod_eq)

lemma order_desc_filter: "order_desc k (filter p rs) = filter p (order_desc k rs)"
  by (metis filter_sort order_desc_def rev_filter)

lemma order_desc_strict:
  assumes "distinct (map k rs)"
  shows "sorted_wrt (\<lambda>x y. k y < k x) (order_desc k rs)"
proof -
  have "sorted_wrt (\<lambda>x y. k y \<le> k x \<and> k x \<noteq> k y) (order_desc k rs)"
    using sorted_order_desc distinct_order_desc [OF assms]
    by (auto simp: sorted_wrt_iff_nth_less distinct_conv_nth)
  then show ?thesis by (rule sorted_wrt_mono_rel [rotated]) auto
qed

lemma filter_below_split:
  "sorted_wrt (\<lambda>x y. k y < k x) (xs @ x # ys) \<Longrightarrow> filter (\<lambda>r. k r < (k x :: 'k :: linorder)) (xs @ x # ys) = ys"
  by (auto simp: sorted_wrt_append filter_empty_conv filter_id_conv dest: order.asym)

text \<open>
  The contract of a list operation: its repository query is the keyset query over the rows of
  its scope. Walking the pages from the start then shows every row of the scope once, newest
  first, provided the creation instants are whole milliseconds.
\<close>

locale paged_endpoint =
  fixes created :: "'r \<Rightarrow> timestamptz"
    and rid :: "'r \<Rightarrow> string"
    and scope_rows :: "'k \<Rightarrow> database \<Rightarrow> 'r list"
    and query :: "'k \<Rightarrow> database \<Rightarrow> (date \<times> string) option \<Rightarrow> nat \<Rightarrow> 'r list"
  assumes query_law: "query k d cursor limit = page_query created rid cursor limit (scope_rows k d)"
begin

lemma walk_from:
  assumes fetch: "\<And>cur c. decodePageCursor cur = Inr c \<Longrightarrow>
      fetch cur = Inr (cut_page created rid dto limit (query k d c limit))"
    and ms: "\<And>r. r \<in> set (scope_rows k d) \<Longrightarrow> whole_ms (created r)"
    and limit: "0 < limit"
    and sorted: "sorted_wrt (\<lambda>x y. (created y, rid y) < (created x, rid x)) L"
    and L: "L = order_desc (\<lambda>r. (created r, rid r)) (scope_rows k d)"
  shows "decodePageCursor cur = Inr c \<Longrightarrow> filter (after_cursor created rid c) L = zs \<Longrightarrow>
    L = xs @ zs \<Longrightarrow> length zs < n \<Longrightarrow> walk_pages n fetch cur = map dto zs"
proof (induction n arbitrary: cur c xs zs)
  case 0
  then show ?case by simp
next
  case (Suc n)
  have q: "query k d c limit = take (limit + 1) zs"
    using Suc.prems(2) by (simp add: query_law page_query_def order_desc_filter L)
  show ?case
  proof (cases "limit < length zs")
    case False
    then show ?thesis
      using fetch [OF Suc.prems(1)] by (simp add: q cut_page_def Let_def)
  next
    case True
    define pg where "pg = take limit zs"
    have pg: "pg \<noteq> []" using True limit by (auto simp: pg_def)
    then obtain ys x where ysx: "pg = ys @ [x]" by (meson rev_exhaust)
    have split: "L = (xs @ ys) @ x # drop limit zs"
      using Suc.prems(3) ysx append_take_drop_id [of limit zs] by (simp add: pg_def)
    have "x \<in> set (scope_rows k d)" using split L by (metis in_set_conv_decomp set_order_desc)
    then have cut: "fromDate (toDate (created x)) = created x" by (intro whole_ms_roundtrip ms)
    define nxt where "nxt = encodePageCursor (toDate (created x)) (rid x)"
    have dec: "decodePageCursor (Some nxt) = Inr (Some (toDate (created x), rid x))"
      by (simp add: nxt_def)
    have after: "after_cursor created rid (Some (toDate (created x), rid x)) =
        (\<lambda>r. (created r, rid r) < (created x, rid x))"
      by (auto simp: after_cursor_def cut fun_eq_iff)
    have rest: "filter (after_cursor created rid (Some (toDate (created x), rid x))) L = drop limit zs"
      unfolding after split by (rule filter_below_split) (use sorted split in simp)
    have "walk_pages n fetch (Some nxt) = map dto (drop limit zs)"
      by (rule Suc.IH [OF dec rest, of "xs @ ys @ [x]"]) (use split Suc.prems(4) True limit in auto)
    moreover have "fetch cur = Inr \<lparr>items = map dto pg, nextCursor = Some nxt, hasMore = True\<rparr>"
      using fetch [OF Suc.prems(1)] True pg
      by (simp add: q cut_page_def Let_def pg_def [symmetric] nxt_def ysx take_map min_def)
    ultimately show ?thesis
      by (simp add: pg_def flip: map_append)
  qed
qed

lemma walk_complete:
  assumes "\<And>cur c. decodePageCursor cur = Inr c \<Longrightarrow>
      fetch cur = Inr (cut_page created rid dto limit (query k d c limit))"
    and "\<And>r. r \<in> set (scope_rows k d) \<Longrightarrow> whole_ms (created r)"
    and "0 < limit"
    and "distinct (map rid (scope_rows k d))"
    and "length (scope_rows k d) < n"
  shows "walk_pages n fetch None =
    map dto (order_desc (\<lambda>r. (created r, rid r)) (scope_rows k d))"
proof -
  have "distinct (map (\<lambda>r. (created r, rid r)) (scope_rows k d))"
    using assms(4) by (auto simp: distinct_map inj_on_def)
  note sorted = order_desc_strict [OF this]
  show ?thesis
    by (rule walk_from [OF assms(1,2,3) sorted refl, where c = None and xs = "[]"])
      (simp_all add: after_cursor_def assms(5))
qed

text \<open>
  The cursor is in milliseconds, the column in microseconds: behind the cursor of \<open>x\<close>, no page has
  a row of the same millisecond that is not at its start.
\<close>

lemma cursor_drops:
  assumes "toDate (created y) = toDate (created x)" and "\<not> whole_ms (created y)"
  shows "y \<notin> set (query k d (Some (toDate (created x), rid x)) limit)"
proof -
  have "fromDate (toDate (created y)) < created y"
    using assms(2) pos_mod_sign [of 1000 "created y"] div_mult_mod_eq [of "created y" 1000]
    unfolding fromDate_def toDate_def whole_ms_def by linarith
  then have "\<not> after_cursor created rid (Some (toDate (created x), rid x)) y"
    using assms(1) by (auto simp: after_cursor_def)
  then show ?thesis by (auto simp: query_law page_query_def dest!: in_set_takeD)
qed

end

end
