(* ===== verification/RateLimit.thy ===== *)
theory RateLimit
  imports Pagination
begin

text \<open>
  The fixed-window rate limiters (\<^verbatim>\<open>apps/api/src/lib/rate-limit.ts\<close>): the three-way decision, the
  failure-mode policy, and the four implementations over the stores of the world. The contract
  of a limiter is a locale; a limiter that counts in windows extends it, and the bound on what
  one window admits is proved once for both stores.
\<close>

section \<open>Decisions and failure modes\<close>

datatype rate_limit_decision = Allowed | Limited | Unavailable
datatype rate_limit_failure_mode = FailOpen | FailClosed

definition enforceStoreAvailability ::
  "rate_limit_decision \<Rightarrow> rate_limit_failure_mode \<Rightarrow> error + bool" where
  "enforceStoreAvailability decision failureMode =
    (if decision = Unavailable
     then (if failureMode = FailClosed then Inl rateLimitStoreUnavailableError else Inr True)
     else Inr (decision = Allowed))"

definition MAX_SAFE_INTEGER :: nat where
  "MAX_SAFE_INTEGER = 9007199254740991"

section \<open>Implementations\<close>

definition noopConsume :: "string \<Rightarrow> nat \<Rightarrow> nat \<Rightarrow> rate_limit_decision api" where
  "noopConsume key limit windowSeconds = ret Allowed"

definition unavailableConsume :: "string \<Rightarrow> nat \<Rightarrow> nat \<Rightarrow> rate_limit_decision api" where
  "unavailableConsume key limit windowSeconds = ret Unavailable"

definition inMemoryConsume :: "string \<Rightarrow> nat \<Rightarrow> nat \<Rightarrow> rate_limit_decision api" where
  "inMemoryConsume key limit windowSeconds = (\<lambda>w.
    (let now = nowMs w;
         fresh = (Inr (if 1 \<le> limit then Allowed else Limited),
                  w\<lparr>memWindows := (memWindows w)(key \<mapsto> (1, now + int windowSeconds * 1000))\<rparr>)
     in case memWindows w key of
          None \<Rightarrow> fresh
        | Some (n, resetAtMs) \<Rightarrow>
            if resetAtMs \<le> now then fresh
            else (Inr (if n + 1 \<le> limit then Allowed else Limited),
                  w\<lparr>memWindows := (memWindows w)(key \<mapsto> (n + 1, resetAtMs))\<rparr>)))"

text \<open>
  The two Redis commands: \<open>INCR\<close> counts from an expired or missing key as from 0 and keeps the
  time to live of a living one, \<open>EXPIRE\<close> sets it. A command Redis does not answer raises.
\<close>

definition redisCommand :: "(world \<Rightarrow> 'a \<times> world) \<Rightarrow> 'a api" where
  "redisCommand f = (\<lambda>w.
    (let w' = w\<lparr>redisCalls := Suc (redisCalls w)\<rparr>
     in if redisUp w (redisCalls w) then (let (x, w'') = f w' in (Inr x, w''))
        else (Inl (ThrownError ''Redis unavailable''), w')))"

definition redis_live :: "world \<Rightarrow> string \<Rightarrow> (nat \<times> date option) option" where
  "redis_live w key =
    (case redisKeys w key of
       None \<Rightarrow> None
     | Some (n, ttl) \<Rightarrow>
         (case ttl of
            None \<Rightarrow> Some (n, None)
          | Some t \<Rightarrow> if t \<le> nowMs w then None else Some (n, Some t)))"

definition redisIncr :: "string \<Rightarrow> nat api" where
  "redisIncr key = redisCommand (\<lambda>w.
    (case redis_live w key of
       None \<Rightarrow> (1, w\<lparr>redisKeys := (redisKeys w)(key \<mapsto> (1, None))\<rparr>)
     | Some (n, ttl) \<Rightarrow> (n + 1, w\<lparr>redisKeys := (redisKeys w)(key \<mapsto> (n + 1, ttl))\<rparr>)))"

definition redisExpire :: "string \<Rightarrow> nat \<Rightarrow> unit api" where
  "redisExpire key seconds = redisCommand (\<lambda>w.
    (case redis_live w key of
       None \<Rightarrow> ((), w)
     | Some (n, ttl) \<Rightarrow>
         ((), w\<lparr>redisKeys := (redisKeys w)(key \<mapsto> (n, Some (nowMs w + int seconds * 1000)))\<rparr>)))"

definition redisConsume :: "string \<Rightarrow> nat \<Rightarrow> nat \<Rightarrow> rate_limit_decision api" where
  "redisConsume key limit windowSeconds =
    catchP
      (bindP (redisIncr key) (\<lambda>n.
        thenP (whenP (n = 1) (redisExpire key windowSeconds))
          (ret (if n \<le> limit then Allowed else Limited))))
      (\<lambda>e. thenP (modifyP (\<lambda>w. w\<lparr>logs := logs w @ [''Rate-limit store unavailable'']\<rparr>))
        (ret Unavailable))"

datatype limiter_kind = NoopLimiter | UnavailableLimiter | InMemoryLimiter | RedisLimiter

fun rl_consume :: "limiter_kind \<Rightarrow> string \<Rightarrow> nat \<Rightarrow> nat \<Rightarrow> rate_limit_decision api" where
  "rl_consume NoopLimiter = noopConsume"
| "rl_consume UnavailableLimiter = unavailableConsume"
| "rl_consume InMemoryLimiter = inMemoryConsume"
| "rl_consume RedisLimiter = redisConsume"

section \<open>The contract of a limiter\<close>

text \<open>\<open>same_but_limiter w w'\<close>: the worlds agree outside the limiter's stores and the logs.\<close>

definition same_but_limiter :: "world \<Rightarrow> world \<Rightarrow> bool" where
  "same_but_limiter w w' =
    (\<exists>m r c l. w' = w\<lparr>memWindows := m, redisKeys := r, redisCalls := c, logs := l\<rparr>)"

lemma same_but_limiter_refl [simp]: "same_but_limiter w w"
proof -
  have "w = w\<lparr>memWindows := memWindows w, redisKeys := redisKeys w,
    redisCalls := redisCalls w, logs := logs w\<rparr>" by simp
  then show ?thesis unfolding same_but_limiter_def by metis
qed

lemma same_but_limiter_update [simp]:
  "same_but_limiter w (w'\<lparr>memWindows := m\<rparr>) = same_but_limiter w w'"
  "same_but_limiter w (w'\<lparr>redisKeys := r\<rparr>) = same_but_limiter w w'"
  "same_but_limiter w (w'\<lparr>redisCalls := c\<rparr>) = same_but_limiter w w'"
  "same_but_limiter w (w'\<lparr>logs := l\<rparr>) = same_but_limiter w w'"
proof -
  have eq: "same_but_limiter w w' \<longleftrightarrow>
    w'\<lparr>memWindows := memWindows w, redisKeys := redisKeys w, redisCalls := redisCalls w, logs := logs w\<rparr> = w"
    for w'
  proof
    assume "same_but_limiter w w'"
    then show "w'\<lparr>memWindows := memWindows w, redisKeys := redisKeys w,
      redisCalls := redisCalls w, logs := logs w\<rparr> = w" by (auto simp: same_but_limiter_def)
  next
    assume e: "w'\<lparr>memWindows := memWindows w, redisKeys := redisKeys w,
      redisCalls := redisCalls w, logs := logs w\<rparr> = w"
    have "w' = w'\<lparr>memWindows := memWindows w, redisKeys := redisKeys w,
        redisCalls := redisCalls w, logs := logs w\<rparr>\<lparr>memWindows := memWindows w', redisKeys := redisKeys w',
        redisCalls := redisCalls w', logs := logs w'\<rparr>" by simp
    with e show "same_but_limiter w w'" unfolding same_but_limiter_def by metis
  qed
  show "same_but_limiter w (w'\<lparr>memWindows := m\<rparr>) = same_but_limiter w w'"
    "same_but_limiter w (w'\<lparr>redisKeys := r\<rparr>) = same_but_limiter w w'"
    "same_but_limiter w (w'\<lparr>redisCalls := c\<rparr>) = same_but_limiter w w'"
    "same_but_limiter w (w'\<lparr>logs := l\<rparr>) = same_but_limiter w w'"
    unfolding eq by simp_all
qed

lemma same_but_limiter_fields:
  "same_but_limiter w w' \<Longrightarrow> db w' = db w"
  "same_but_limiter w w' \<Longrightarrow> nowMs w' = nowMs w"
  "same_but_limiter w w' \<Longrightarrow> pgNow w' = pgNow w"
  "same_but_limiter w w' \<Longrightarrow> outbox w' = outbox w"
  by (auto simp: same_but_limiter_def)

locale rate_limiter =
  fixes consume :: "string \<Rightarrow> nat \<Rightarrow> nat \<Rightarrow> rate_limit_decision api"
  assumes consume_law: "\<exists>d w'. consume k l s w = (Inr d, w') \<and> same_but_limiter w w'"
begin

lemma never_raises: "\<exists>d w'. consume k l s w = (Inr d, w')"
  using consume_law by blast

lemma keeps_db: "keeps P (consume k l s)"
  using consume_law unfolding preserves_def
  by (metis same_but_limiter_fields(1) snd_conv)

lemma frame: "same_but_limiter w (final (consume k l s) w)"
  by (metis consume_law snd_conv)

end

interpretation noop_limiter: rate_limiter noopConsume
  by unfold_locales (simp add: noopConsume_def)

interpretation unavailable_limiter: rate_limiter unavailableConsume
  by unfold_locales (simp add: unavailableConsume_def)

text \<open>
  A limiter that counts in windows: \<open>window w k\<close> is the stored count and end of a key's window.
  \<open>live\<close> says that the store works.
\<close>

locale windowed_limiter = rate_limiter consume
  for consume :: "string \<Rightarrow> nat \<Rightarrow> nat \<Rightarrow> rate_limit_decision api" +
  fixes live :: "world \<Rightarrow> bool"
    and window :: "world \<Rightarrow> string \<Rightarrow> (nat \<times> date) option"
  assumes live_law: "live w \<Longrightarrow> live (final (consume k l s) w)"
    and live_tick: "live (w\<lparr>nowMs := t\<rparr>) = live w"
    and window_tick: "window (w\<lparr>nowMs := t\<rparr>) = window w"
    and open_window: "live w \<Longrightarrow> window w k = Some (n, e) \<Longrightarrow> nowMs w < e \<Longrightarrow>
      \<exists>w'. consume k l s w = (Inr (if n + 1 \<le> l then Allowed else Limited), w') \<and>
        window w' k = Some (n + 1, e)"
    and fresh_window: "live w \<Longrightarrow> window w k = None \<or> (\<exists>n e. window w k = Some (n, e) \<and> e \<le> nowMs w) \<Longrightarrow>
      \<exists>w'. consume k l s w = (Inr (if 1 \<le> l then Allowed else Limited), w') \<and>
        window w' k = Some (1, nowMs w + int s * 1000)"
    and other_keys: "k' \<noteq> k \<Longrightarrow> window (final (consume k l s) w) k' = window w k'"

text \<open>Requests in the order the process serves them, each with the clock's reading and its key.\<close>

fun serve ::
  "(string \<Rightarrow> nat \<Rightarrow> nat \<Rightarrow> rate_limit_decision api) \<Rightarrow> nat \<Rightarrow> nat \<Rightarrow> (date \<times> string) list \<Rightarrow> world \<Rightarrow>
   rate_limit_decision list" where
  "serve consume l s [] w = []"
| "serve consume l s ((t, k) # rs) w =
    (case consume k l s (w\<lparr>nowMs := t\<rparr>) of
       (Inl e, w') \<Rightarrow> Unavailable # serve consume l s rs w'
     | (Inr d, w') \<Rightarrow> d # serve consume l s rs w')"

definition asked :: "string \<Rightarrow> (date \<times> string) list \<Rightarrow> nat" where
  "asked k rs = length (filter (\<lambda>(t, k'). k' = k) rs)"

definition admitted :: "string \<Rightarrow> (date \<times> string) list \<Rightarrow> rate_limit_decision list \<Rightarrow> nat" where
  "admitted k rs ds = length (filter (\<lambda>((t, k'), d). k' = k \<and> d = Allowed) (zip rs ds))"

lemma asked_simps [simp]:
  "asked k [] = 0" "asked k ((t, k') # rs) = (if k' = k then 1 else 0) + asked k rs"
  by (auto simp: asked_def)

lemma admitted_simps [simp]:
  "admitted k [] ds = 0"
  "admitted k ((t, k') # rs) (d # ds) = (if k' = k \<and> d = Allowed then 1 else 0) + admitted k rs ds"
  by (auto simp: admitted_def)

context windowed_limiter
begin

lemma within_window:
  assumes "live w" and "window w k = Some (n, e)" and "\<And>t. (t, k) \<in> set rs \<Longrightarrow> t < e"
  shows "admitted k rs (serve consume l s rs w) = min (l - n) (asked k rs)"
  using assms
proof (induction rs arbitrary: w n)
  case Nil
  then show ?case by simp
next
  case (Cons r rs)
  obtain t k' where r: "r = (t, k')" by (cases r)
  let ?w = "w\<lparr>nowMs := t\<rparr>"
  have w: "live ?w" "window ?w k = Some (n, e)" using Cons.prems by (simp_all add: live_tick window_tick)
  show ?case
  proof (cases "k' = k")
    case True
    with Cons.prems(3) r have "nowMs ?w < e" by auto
    with open_window [OF w] obtain w' where
      c: "consume k l s ?w = (Inr (if n + 1 \<le> l then Allowed else Limited), w')"
        "window w' k = Some (n + 1, e)" by blast
    have "live w'" using live_law [OF w(1), of k l s] c(1) by simp
    from Cons.IH [OF this c(2)] Cons.prems(3)
    have "admitted k rs (serve consume l s rs w') = min (l - (n + 1)) (asked k rs)" by simp
    then show ?thesis using True c(1) by (cases "n + 1 \<le> l") (auto simp: r)
  next
    case False
    obtain d w' where c: "consume k' l s ?w = (Inr d, w')" using never_raises by blast
    have "live w'" using live_law [OF w(1), of k' l s] c by simp
    moreover have "window w' k = Some (n, e)"
      using other_keys [of k k' l s ?w] False c w(2) by simp
    ultimately show ?thesis using Cons.IH [of w' n] Cons.prems(3) False c by (simp add: r)
  qed
qed

lemma window_bound:
  assumes "live w" and "window w k = None \<or> (\<exists>n e. window w k = Some (n, e) \<and> e \<le> t0)"
    and "\<And>t. (t, k) \<in> set rs \<Longrightarrow> t < t0 + int s * 1000"
  shows "admitted k ((t0, k) # rs) (serve consume l s ((t0, k) # rs) w) = min l (asked k rs + 1)"
proof -
  let ?w = "w\<lparr>nowMs := t0\<rparr>"
  have w: "live ?w" using assms(1) by (simp add: live_tick)
  have "window ?w k = None \<or> (\<exists>n e. window ?w k = Some (n, e) \<and> e \<le> nowMs ?w)"
    using assms(2) by (simp add: window_tick)
  from fresh_window [OF w this] obtain w' where
    c: "consume k l s ?w = (Inr (if 1 \<le> l then Allowed else Limited), w')"
      "window w' k = Some (1, t0 + int s * 1000)" by auto
  have "live w'" using live_law [OF w, of k l s] c(1) by simp
  from within_window [OF this c(2), of rs l] assms(3)
  have "admitted k rs (serve consume l s rs w') = min (l - 1) (asked k rs)" by simp
  then show ?thesis using c(1) by auto
qed

end

interpretation in_memory_limiter: windowed_limiter inMemoryConsume "\<lambda>w. True" memWindows
  by unfold_locales
    (auto simp: inMemoryConsume_def Let_def split: option.splits)

definition redis_window :: "world \<Rightarrow> string \<Rightarrow> (nat \<times> date) option" where
  "redis_window w k =
    (case redisKeys w k of Some (n, Some e) \<Rightarrow> Some (n, e) | _ \<Rightarrow> None)"

definition redis_works :: "world \<Rightarrow> bool" where
  "redis_works w =
    ((\<forall>i. redisUp w i) \<and> (\<forall>k n. redisKeys w k \<noteq> Some (n, None)) \<and> (\<forall>k e. redisKeys w k \<noteq> Some (0, e)))"

lemmas redis_defs = redisConsume_def redisIncr_def redisExpire_def redisCommand_def redis_live_def
  Let_def

interpretation redis_limiter: windowed_limiter redisConsume redis_works redis_window
proof unfold_locales
  fix k l s and w :: world
  show "\<exists>d w'. redisConsume k l s w = (Inr d, w') \<and> same_but_limiter w w'"
    by (auto simp: redis_defs prog_simps split: option.splits prod.splits)
next
  fix w :: world and k l s
  show "redis_works w \<Longrightarrow> redis_works (final (redisConsume k l s) w)"
    by (auto simp: redis_works_def redis_defs prog_simps split: option.splits prod.splits if_splits)
next
  fix w :: world and t
  show "redis_works (w\<lparr>nowMs := t\<rparr>) = redis_works w" by (simp add: redis_works_def)
  show "redis_window (w\<lparr>nowMs := t\<rparr>) = redis_window w" by (simp add: redis_window_def fun_eq_iff)
next
  fix w :: world and k n e l s
  assume "redis_works w" "redis_window w k = Some (n, e)" "nowMs w < e"
  then have "redisKeys w k = Some (n, Some e)" "\<And>i. redisUp w i" "0 < n"
    by (auto intro!: Nat.gr0I simp: redis_window_def redis_works_def split: option.splits prod.splits)
  with \<open>nowMs w < e\<close> show "\<exists>w'. redisConsume k l s w = (Inr (if n + 1 \<le> l then Allowed else Limited), w') \<and>
        redis_window w' k = Some (n + 1, e)"
    by (auto simp: redis_defs redis_window_def prog_simps)
next
  fix w :: world and k l s
  assume w: "redis_works w"
    "redis_window w k = None \<or> (\<exists>n e. redis_window w k = Some (n, e) \<and> e \<le> nowMs w)"
  then have "redis_live w k = None"
    by (auto simp: redis_live_def redis_works_def redis_window_def split: option.splits prod.splits)
  with w(1) show "\<exists>w'. redisConsume k l s w = (Inr (if 1 \<le> l then Allowed else Limited), w') \<and>
        redis_window w' k = Some (1, nowMs w + int s * 1000)"
    by (auto simp: redis_defs redis_works_def redis_window_def prog_simps
        split: option.splits prod.splits if_splits)
next
  fix k' k l s and w :: world
  show "k' \<noteq> k \<Longrightarrow> redis_window (final (redisConsume k l s) w) k' = redis_window w k'"
    by (auto simp: redis_window_def redis_defs prog_simps split: option.splits prod.splits if_splits)
qed

interpretation any_limiter: rate_limiter "rl_consume kind"
  by (cases kind)
    (simp_all add: noop_limiter.rate_limiter_axioms unavailable_limiter.rate_limiter_axioms
      in_memory_limiter.rate_limiter_axioms redis_limiter.rate_limiter_axioms)

lemmas [preserve_intros] = any_limiter.keeps_db

section \<open>The guard of the services\<close>

text \<open>
  Every service consumes a key and raises when the decision, under the failure mode, denies.
\<close>

record limiter_options =
  rateLimiter :: limiter_kind
  rateLimitFailureMode :: rate_limit_failure_mode

definition limiterAdmits :: "limiter_options \<Rightarrow> string \<Rightarrow> nat \<Rightarrow> nat \<Rightarrow> bool api" where
  "limiterAdmits opts key limit windowSeconds =
    bindP (rl_consume (rateLimiter opts) key limit windowSeconds) (\<lambda>decision.
      case enforceStoreAvailability decision (rateLimitFailureMode opts) of
        Inl e \<Rightarrow> throw e
      | Inr b \<Rightarrow> ret b)"

definition enforceMutationRateLimit :: "limiter_options \<Rightarrow> string \<Rightarrow> nat \<Rightarrow> nat \<Rightarrow> unit api" where
  "enforceMutationRateLimit opts key limit windowSeconds =
    bindP (limiterAdmits opts key limit windowSeconds) (\<lambda>ok. guardP ok rateLimitedError)"

lemma preserves_sum [preserve_intros]:
  "(\<And>e. x = Inl e \<Longrightarrow> preserves P (f e)) \<Longrightarrow> (\<And>y. x = Inr y \<Longrightarrow> preserves P (g y)) \<Longrightarrow>
   preserves P (case x of Inl e \<Rightarrow> f e | Inr y \<Rightarrow> g y)"
  by (cases x) auto

lemma keeps_limiterAdmits [preserve_intros]: "keeps P (limiterAdmits opts k l s)"
  unfolding limiterAdmits_def by (intro preserve_intros)

lemma keeps_enforceMutationRateLimit [preserve_intros]:
  "keeps P (enforceMutationRateLimit opts k l s)"
  unfolding enforceMutationRateLimit_def by (intro preserve_intros)

lemma enforceMutationRateLimit_cases:
  obtains (admitted) w' where "enforceMutationRateLimit opts k l s w = (Inr (), w')" "same_but_limiter w w'"
  | (denied) w' e where "enforceMutationRateLimit opts k l s w = (Inl e, w')" "same_but_limiter w w'"
      "e = rateLimitedError \<or> e = rateLimitStoreUnavailableError"
proof -
  obtain d w' where c: "rl_consume (rateLimiter opts) k l s w = (Inr d, w')" "same_but_limiter w w'"
    using any_limiter.consume_law by blast
  then show thesis
    using that
    by (cases d; cases "rateLimitFailureMode opts")
      (simp_all add: enforceMutationRateLimit_def limiterAdmits_def prog_simps
        enforceStoreAvailability_def)
qed

section \<open>Properties\<close>

text \<open>
  C11. Both counting limiters admit exactly \<open>min limit requests\<close> of a key in one window: of the
  requests of a key from the one that opens its window until the window's end, interleaved with
  requests of any other keys, at most \<open>limit\<close> are allowed, and exactly the first ones.
\<close>

theorem rate_limit_bound:
  assumes "memWindows w k = None" and "redisKeys w k = None" and "redis_works w"
    and "\<And>t. (t, k) \<in> set rs \<Longrightarrow> t < t0 + int windowSeconds * 1000"
  shows "admitted k ((t0, k) # rs) (serve inMemoryConsume limit windowSeconds ((t0, k) # rs) w)
        = min limit (asked k rs + 1) \<and>
      admitted k ((t0, k) # rs) (serve redisConsume limit windowSeconds ((t0, k) # rs) w)
        = min limit (asked k rs + 1)"
  using in_memory_limiter.window_bound [of w k t0 rs windowSeconds limit]
    redis_limiter.window_bound [of w k t0 rs windowSeconds limit] assms
  by (simp add: redis_window_def)

definition sample_world :: world where
  "sample_world =
    \<lparr>db = \<lparr>users = [], sessions = [], refreshTokens = [], emailVerificationTokens = [],
           passwordResetTokens = [], pendingRegistrations = [], securityEvents = [], roles = [],
           organizations = [], memberships = [], permissions = [], rolePermissions = [],
           organizationPlans = [], projects = [], apiKeys = [], invitations = []\<rparr>,
     nowMs = 1000, pgNow = 1000000, entropy = (\<lambda>i. i), entropyPos = 0,
     memWindows = (\<lambda>_. None), redisKeys = (\<lambda>_. None), redisUp = (\<lambda>_. True), redisCalls = 0,
     mailerUp = True, outbox = [], suppressionLastLoggedAtMs = None, dummyHash = None, logs = []\<rparr>"

lemma rate_limit_bound_witness:
  "admitted ''k'' [(0, ''k''), (5, ''j''), (9, ''k''), (10, ''k'')]
     (serve inMemoryConsume 2 60 [(0, ''k''), (5, ''j''), (9, ''k''), (10, ''k'')] sample_world) = 2 \<and>
   admitted ''k'' [(0, ''k''), (5, ''j''), (9, ''k''), (10, ''k'')]
     (serve redisConsume 2 60 [(0, ''k''), (5, ''j''), (9, ''k''), (10, ''k'')] sample_world) = 2"
proof -
  have t: "t < 0 + int 60 * 1000" if "(t, ''k'') \<in> set [(5, ''j''), (9, ''k''), (10, ''k'')]" for t :: int
    using that by auto
  have w: "memWindows sample_world ''k'' = None" "redisKeys sample_world ''k'' = None"
    "redis_works sample_world"
    by (simp_all add: redis_works_def sample_world_def)
  have "min 2 (asked ''k'' [(5, ''j''), (9, ''k''), (10, ''k'')] + 1) = 2" by simp
  with rate_limit_bound [OF w t, where limit = 2] show ?thesis by metis
qed

lemma redis_no_ttl_stays:
  assumes "redisKeys w k = Some (n, None)" and "\<And>i. redisCalls w \<le> i \<Longrightarrow> redisUp w i" and "0 < n"
  shows "serve redisConsume l s (map (\<lambda>t. (t, k)) ts) w =
    map (\<lambda>i. if n + i + 1 \<le> l then Allowed else Limited) [0..<length ts]"
  using assms
proof (induction ts arbitrary: w n)
  case Nil
  then show ?case by simp
next
  case (Cons t ts)
  obtain w' where c: "redisConsume k l s (w\<lparr>nowMs := t\<rparr>) = (Inr (if n + 1 \<le> l then Allowed else Limited), w')"
    and w': "redisKeys w' k = Some (n + 1, None)" "\<And>i. redisCalls w' \<le> i \<Longrightarrow> redisUp w' i"
    using Cons.prems by (auto simp: redis_defs prog_simps)
  have "serve redisConsume l s (map (\<lambda>t. (t, k)) ts) w' =
      map (\<lambda>i. if (n + 1) + i + 1 \<le> l then Allowed else Limited) [0..<length ts]"
    by (rule Cons.IH) (use w' in auto)
  moreover have "[0..<length (t # ts)] = 0 # map Suc [0..<length ts]"
    using upt_conv_Cons [of 0 "Suc (length ts)"] by (simp add: map_Suc_upt del: upt_Suc)
  ultimately show ?case using c by simp
qed

text \<open>
  C12. \<open>INCR\<close> and \<open>EXPIRE\<close> are two commands: when Redis answers the first of a window and not the
  second, the key keeps its count with no time to live. Every later request of that key, at
  whatever time and with Redis back, counts on the same window: after \<open>limit - 1\<close> of them the key
  is limited for good.
\<close>

theorem redis_lost_expiry:
  assumes "redisKeys w k = None" and "redisUp w (redisCalls w)" and "\<not> redisUp w (redisCalls w + 1)"
    and "\<And>i. redisCalls w + 2 \<le> i \<Longrightarrow> redisUp w i"
  shows "serve redisConsume limit windowSeconds (map (\<lambda>t. (t, k)) (t0 # ts)) w =
    Unavailable # map (\<lambda>i. if i + 2 \<le> limit then Allowed else Limited) [0..<length ts]"
proof -
  obtain w' where "redisConsume k limit windowSeconds (w\<lparr>nowMs := t0\<rparr>) = (Inr Unavailable, w')"
    and "redisKeys w' k = Some (1, None)" "\<And>i. redisCalls w' \<le> i \<Longrightarrow> redisUp w' i"
    using assms by (auto simp: redis_defs prog_simps)
  then show ?thesis using redis_no_ttl_stays [of w' k 1 limit windowSeconds ts] by simp
qed

lemma redis_lost_expiry_witness:
  "serve redisConsume 2 60 (map (\<lambda>t. (t, ''k'')) (0 # [1000, 99999999999, 999999999999999]))
     (sample_world\<lparr>redisUp := (\<lambda>i. i \<noteq> 1)\<rparr>) = [Unavailable, Allowed, Limited, Limited]"
  by (subst redis_lost_expiry) (simp_all add: sample_world_def upt_rec)

end
