(* ===== verification/AccessControl.thy ===== *)
theory AccessControl
  imports RateLimit
begin

text \<open>
  Who may do what in an organization: the seeded role and permission catalog
  (\<^verbatim>\<open>packages/db/src/schema/permissions.ts\<close>, \<^verbatim>\<open>organizations.ts\<close>), the organization context and
  the actor (\<^verbatim>\<open>organization.context.ts\<close>, \<^verbatim>\<open>access-control.ts\<close>), the owner-transition policy
  (\<^verbatim>\<open>owner-transition.ts\<close>), and the recording of security events. The locale
  \<open>guarded_operation\<close> is the contract of every organization-scoped operation: an actor is
  resolved, one permission is required, then the body runs.
\<close>

section \<open>The seeded catalog\<close>

definition ROLE_SEED :: "role_row list" where
  "ROLE_SEED =
    [\<lparr>role_id = ROLE_IDS Owner, role_key = Owner, role_name = ''Owner'',
      role_description = ''Full control of the organization.''\<rparr>,
     \<lparr>role_id = ROLE_IDS Admin, role_key = Admin, role_name = ''Admin'',
      role_description = ''Administrative access to the organization.''\<rparr>,
     \<lparr>role_id = ROLE_IDS Member, role_key = Member, role_name = ''Member'',
      role_description = ''Standard member access to the organization.''\<rparr>,
     \<lparr>role_id = ROLE_IDS Viewer, role_key = Viewer, role_name = ''Viewer'',
      role_description = ''Read-only access to the organization.''\<rparr>]"

definition PERMISSION_CATALOG :: "(permission_key \<times> string \<times> string) list" where
  "PERMISSION_CATALOG =
    [(OrgRead, ''Read organization'', ''View organization details.''),
     (OrgUpdate, ''Update organization'', ''Edit organization settings.''),
     (MembersRead, ''Read members'', ''List the organization's members.''),
     (MembersInvite, ''Invite members'', ''Invite people to the organization.''),
     (MembersChangeRole, ''Change member roles'', ''Change the role of a member.''),
     (MembersRemove, ''Remove members'', ''Remove a member from the organization.''),
     (InvitationsRead, ''Read invitations'', ''View pending invitations.''),
     (InvitationsCreate, ''Create invitations'', ''Create new invitations.''),
     (InvitationsRevoke, ''Revoke invitations'', ''Revoke pending invitations.''),
     (RolesRead, ''Read roles'', ''View the role catalog.''),
     (PermissionsRead, ''Read permissions'', ''View the permission catalog and matrix.''),
     (ProjectsRead, ''Read projects'', ''View projects.''),
     (ProjectsCreate, ''Create projects'', ''Create new projects.''),
     (ProjectsUpdate, ''Update projects'', ''Edit existing projects.''),
     (ProjectsDelete, ''Delete projects'', ''Delete projects.''),
     (ApiKeysRead, ''Read API keys'', ''View API keys.''),
     (ApiKeysCreate, ''Create API keys'', ''Create new API keys.''),
     (ApiKeysRevoke, ''Revoke API keys'', ''Revoke API keys.''),
     (AuditEventsRead, ''Read audit events'', ''View organization audit events.''),
     (PlanRead, ''Read plan'', ''View the organization's plan.''),
     (PlanChangeDemo, ''Change plan (demo)'', ''Change the organization's demo plan.''),
     (SessionsRead, ''Read sessions'', ''View organization sessions.''),
     (SessionsRevoke, ''Revoke sessions'', ''Revoke organization sessions.'')]"

definition permissionRowId :: "permission_key \<Rightarrow> string" where
  "permissionRowId key =
    ''perm_'' @ map (\<lambda>c. if c = CHR ''.'' then CHR ''_'' else c) (PERMISSION_KEYS key)"

definition PERMISSION_SEED :: "permission_row list" where
  "PERMISSION_SEED =
    map (\<lambda>(key, name, description).
      \<lparr>perm_id = permissionRowId key, perm_key = key, perm_name = name,
       perm_description = description\<rparr>) PERMISSION_CATALOG"

definition ROLE_PERMISSION_SEED :: "role_permission_row list" where
  "ROLE_PERMISSION_SEED =
    concat (map (\<lambda>role. map (\<lambda>permission.
        \<lparr>rp_roleId = ROLE_IDS role, rp_permissionId = permissionRowId permission\<rparr>)
      (ROLE_PERMISSIONS role)) ROLE_KEY_ORDER)"

text \<open>The tables no operation of the API writes hold the seed.\<close>

definition catalogued :: "database \<Rightarrow> bool" where
  "catalogued d =
    (roles d = ROLE_SEED \<and> permissions d = PERMISSION_SEED \<and> rolePermissions d = ROLE_PERMISSION_SEED)"

lemma distinct_PERMISSION_SEED_ids: "distinct (map perm_id PERMISSION_SEED)"
  by code_simp

lemma map_perm_key_SEED: "map perm_key PERMISSION_SEED = PERMISSION_KEY_LIST"
  by code_simp

section \<open>Security events\<close>

record request_ctx =
  ctx_requestId :: "string option"
  ctx_ipAddress :: "string option"
  ctx_userAgent :: "string option"

text \<open>A string of the language counts as true when it is there and not empty.\<close>

definition truthy :: "string option \<Rightarrow> bool" where
  "truthy s = (s \<noteq> None \<and> s \<noteq> Some [])"

text \<open>The insert every event recorder shares; the id is drawn, the instant is the store's.\<close>

definition insertSecurityEvent ::
  "string option \<Rightarrow> string option \<Rightarrow> string option \<Rightarrow> actor_type \<Rightarrow> string \<Rightarrow> metadata \<Rightarrow> request_ctx \<Rightarrow>
   unit api" where
  "insertSecurityEvent userId sessionId organizationId actorType eventType md ctx =
    bindP (createId ''sevt'') (\<lambda>i.
    bindP (getsP pgNow) (\<lambda>t.
      sql (\<lambda>d. d\<lparr>securityEvents := securityEvents d @
        [\<lparr>se_id = i, se_userId = userId, se_sessionId = sessionId,
          se_organizationId = organizationId, se_actorType = actorType, se_eventType = eventType,
          se_metadata = sanitizeSecurityMetadata md, se_ipAddress = ctx_ipAddress ctx,
          se_userAgent = ctx_userAgent ctx, se_requestId = ctx_requestId ctx,
          se_createdAt = t\<rparr>]\<rparr>)))"

lemma keeps_insertSecurityEvent:
  assumes "\<And>d e. P d \<Longrightarrow> se_metadata e = sanitizeSecurityMetadata md \<Longrightarrow> se_organizationId e = o' \<Longrightarrow>
    se_eventType e = t \<Longrightarrow> P (d\<lparr>securityEvents := securityEvents d @ [e]\<rparr>)"
  shows "keeps P (insertSecurityEvent u s o' a t md ctx)"
  unfolding insertSecurityEvent_def by (intro preserve_intros keeps_sql assms) simp_all

text \<open>What an event's insert leaves alone: everything but the events and the entropy.\<close>

lemma wp_insertSecurityEvent:
  assumes "\<And>w' e. db w' = db w\<lparr>securityEvents := securityEvents (db w) @ [e]\<rparr> \<Longrightarrow> nowMs w' = nowMs w \<Longrightarrow>
      pgNow w' = pgNow w \<Longrightarrow> outbox w' = outbox w \<Longrightarrow> db_ok (db w') \<Longrightarrow>
      se_metadata e = sanitizeSecurityMetadata md \<Longrightarrow> se_userId e = u \<Longrightarrow> se_organizationId e = o' \<Longrightarrow>
      se_eventType e = t \<Longrightarrow> se_actorType e = a \<Longrightarrow> se_createdAt e = pgNow w \<Longrightarrow> Q () w'"
    and "\<And>e w'. db w' = db w \<Longrightarrow> E e w'"
  shows "wp (insertSecurityEvent u s o' a t md ctx) Q E w"
  unfolding insertSecurityEvent_def
  by (auto simp: wp_simps intro!: assms)

text \<open>With a fresh id and existing references the insert succeeds.\<close>

lemma wp_insertSecurityEvent_ok:
  assumes "db_ok (db w)" and "newId ''sevt'' w \<notin> se_id ` set (securityEvents (db w))"
    and "\<And>x. u = Some x \<Longrightarrow> x \<in> u_id ` set (users (db w))"
    and "\<And>x. s = Some x \<Longrightarrow> x \<in> s_id ` set (sessions (db w))"
    and "\<And>w' e. db w' = db w\<lparr>securityEvents := securityEvents (db w) @ [e]\<rparr> \<Longrightarrow> nowMs w' = nowMs w \<Longrightarrow>
      pgNow w' = pgNow w \<Longrightarrow> outbox w' = outbox w \<Longrightarrow> db_ok (db w') \<Longrightarrow>
      se_metadata e = sanitizeSecurityMetadata md \<Longrightarrow> se_userId e = u \<Longrightarrow> se_organizationId e = o' \<Longrightarrow>
      se_eventType e = t \<Longrightarrow> se_actorType e = a \<Longrightarrow> se_createdAt e = pgNow w \<Longrightarrow> Q () w'"
  shows "wp (insertSecurityEvent u s o' a t md ctx) Q E w"
proof -
  have ok: "db_ok (db w\<lparr>securityEvents := securityEvents (db w) @ [e]\<rparr>)"
    if "se_id e = newId ''sevt'' w" "se_userId e = u" "se_sessionId e = s" for e
    by (rule db_ok_event [OF assms(1)]) (use that assms(2,3,4) in auto)
  show ?thesis
    unfolding insertSecurityEvent_def by (auto simp: wp_simps ok intro!: assms(5))
qed

text \<open>\<open>only_events d d'\<close>: \<open>d'\<close> is \<open>d\<close> with further events.\<close>

definition only_events :: "database \<Rightarrow> database \<Rightarrow> bool" where
  "only_events d d' = (\<exists>es. d' = d\<lparr>securityEvents := securityEvents d @ es\<rparr>)"

lemma only_events_refl [simp]: "only_events d d"
proof -
  have "d = d\<lparr>securityEvents := securityEvents d @ []\<rparr>" by simp
  then show ?thesis unfolding only_events_def by blast
qed

lemma only_events_snoc [simp]: "only_events d (d\<lparr>securityEvents := securityEvents d @ es\<rparr>)"
  by (auto simp: only_events_def)

lemma wp_rl_consume:
  assumes "\<And>d w'. same_but_limiter w w' \<Longrightarrow> Q d w'"
  shows "wp (rl_consume kind k l s) Q E w"
  using any_limiter.consume_law [of kind k l s w] assms by (auto simp: wp_def)

lemma wp_limiterAdmits:
  assumes "\<And>b w'. same_but_limiter w w' \<Longrightarrow> Q b w'"
    and "\<And>w'. same_but_limiter w w' \<Longrightarrow> E rateLimitStoreUnavailableError w'"
  shows "wp (limiterAdmits opts k l s) Q E w"
  unfolding limiterAdmits_def
  by (auto simp: wp_simps enforceStoreAvailability_def intro!: wp_rl_consume assms)

lemma same_but_limiter_draws:
  "same_but_limiter w w' \<Longrightarrow> newId p w' = newId p w" "same_but_limiter w w' \<Longrightarrow> mailerUp w' = mailerUp w"
  "same_but_limiter w w' \<Longrightarrow> newId p (drawn n w') = newId p (drawn n w)"
  by (auto simp: same_but_limiter_def newId_def drawn_def)

text \<open>The world after a successful insert, for chains of several events.\<close>

definition logged ::
  "string option \<Rightarrow> string option \<Rightarrow> string option \<Rightarrow> actor_type \<Rightarrow> string \<Rightarrow> metadata \<Rightarrow> request_ctx \<Rightarrow>
   world \<Rightarrow> world" where
  "logged u s o' a t md ctx w =
    (drawn DEFAULT_RANDOM_LENGTH w)\<lparr>db := (db w)\<lparr>securityEvents := securityEvents (db w) @
        [\<lparr>se_id = newId ''sevt'' w, se_userId = u, se_sessionId = s, se_organizationId = o', se_actorType = a,
          se_eventType = t, se_metadata = sanitizeSecurityMetadata md, se_ipAddress = ctx_ipAddress ctx,
          se_userAgent = ctx_userAgent ctx, se_requestId = ctx_requestId ctx, se_createdAt = pgNow w\<rparr>]\<rparr>\<rparr>"

lemma insertSecurityEvent_logged:
  assumes "db_ok (db w)" and "newId ''sevt'' w \<notin> se_id ` set (securityEvents (db w))"
    and "\<And>x. u = Some x \<Longrightarrow> x \<in> u_id ` set (users (db w))"
    and "\<And>x. s = Some x \<Longrightarrow> x \<in> s_id ` set (sessions (db w))"
  shows "insertSecurityEvent u s o' a t md ctx w = (Inr (), logged u s o' a t md ctx w)"
    and "db_ok (db (logged u s o' a t md ctx w))"
proof -
  show ok: "db_ok (db (logged u s o' a t md ctx w))"
    unfolding logged_def using assms by (auto intro!: db_ok_event)
  then show "insertSecurityEvent u s o' a t md ctx w = (Inr (), logged u s o' a t md ctx w)"
    by (simp add: insertSecurityEvent_def logged_def prog_simps)
qed

section \<open>Organization context and actor\<close>

definition findOrganizationById :: "string \<Rightarrow> organization_row option api" where
  "findOrganizationById organizationId =
    select (\<lambda>d. select_first (\<lambda>r. org_id r = organizationId) (organizations d))"

definition memberships_with_roles :: "database \<Rightarrow> (membership_row \<times> role_row) list" where
  "memberships_with_roles d = inner_join (\<lambda>m r. mem_roleId m = role_id r) (memberships d) (roles d)"

definition findActiveMembership :: "string \<Rightarrow> string \<Rightarrow> (membership_row \<times> role_row) option api" where
  "findActiveMembership userId organizationId =
    select (\<lambda>d. select_first (\<lambda>(m, r). mem_userId m = userId \<and>
        mem_organizationId m = organizationId \<and> mem_status m = MemActive)
      (memberships_with_roles d))"

definition findPermissionKeysForRole :: "string \<Rightarrow> permission_key list api" where
  "findPermissionKeysForRole roleId =
    select (\<lambda>d. map (\<lambda>(rp, p). perm_key p)
      (filter (\<lambda>(rp, p). rp_roleId rp = roleId)
        (inner_join (\<lambda>rp p. rp_permissionId rp = perm_id p) (rolePermissions d) (permissions d))))"

record organization_context =
  cx_organization :: organization_row
  cx_membership :: membership_row
  cx_role :: role_row

definition resolveOrganizationContext :: "string \<Rightarrow> string \<Rightarrow> organization_context api" where
  "resolveOrganizationContext userId organizationId =
    bindP (findOrganizationById organizationId) (\<lambda>organization.
      case organization of
        None \<Rightarrow> throw organizationNotFoundError
      | Some org \<Rightarrow>
          thenP (guardP (org_status org = OrgActive) organizationNotFoundError)
         (bindP (findActiveMembership userId organizationId) (\<lambda>membership.
            case membership of
              None \<Rightarrow> throw organizationNotFoundError
            | Some (m, r) \<Rightarrow> ret \<lparr>cx_organization = org, cx_membership = m, cx_role = r\<rparr>)))"

record organization_actor =
  act_userId :: string
  act_organizationId :: string
  act_membershipId :: string
  act_roleId :: string
  act_roleKey :: role_key
  act_roleName :: string
  act_permissions :: "permission_key list"
  act_requestId :: "string option"

text \<open>A \<open>Set\<close> of the language keeps the first of equal elements, in insertion order.\<close>

definition js_set :: "'a list \<Rightarrow> 'a list" where
  "js_set xs = rev (remdups (rev xs))"

lemma set_js_set [simp]: "set (js_set xs) = set xs"
  by (simp add: js_set_def)

definition requireMembership :: "string \<Rightarrow> string \<Rightarrow> string option \<Rightarrow> organization_actor api" where
  "requireMembership userId organizationId requestId =
    bindP (resolveOrganizationContext userId organizationId) (\<lambda>context.
    bindP (findPermissionKeysForRole (role_id (cx_role context))) (\<lambda>permissionKeys.
      ret \<lparr>act_userId = userId,
           act_organizationId = org_id (cx_organization context),
           act_membershipId = mem_id (cx_membership context),
           act_roleId = role_id (cx_role context),
           act_roleKey = role_key (cx_role context),
           act_roleName = role_name (cx_role context),
           act_permissions = js_set permissionKeys,
           act_requestId = requestId\<rparr>))"

definition actorHasPermission :: "organization_actor \<Rightarrow> permission_key \<Rightarrow> bool" where
  "actorHasPermission actor permission = (permission \<in> set (act_permissions actor))"

definition requirePermission :: "organization_actor \<Rightarrow> permission_key \<Rightarrow> unit api" where
  "requirePermission actor permission =
    guardP (actorHasPermission actor permission) permissionDeniedError"

section \<open>Owner transitions\<close>

definition roleChangeTouchesOwner :: "string \<Rightarrow> string \<Rightarrow> bool" where
  "roleChangeTouchesOwner targetRoleId newRoleId =
    (targetRoleId = ROLE_IDS Owner \<or> newRoleId = ROLE_IDS Owner)"

definition assertOwnerChangeAuthority :: "bool \<Rightarrow> unit api" where
  "assertOwnerChangeAuthority actorIsActiveOwner = guardP actorIsActiveOwner permissionDeniedError"

section \<open>What the catalog grants\<close>

lemma PERMISSION_SEED_ids: "p \<in> set PERMISSION_SEED \<Longrightarrow> perm_id p = permissionRowId (perm_key p)"
  by (auto simp: PERMISSION_SEED_def)

lemma perm_key_SEED_surj: "\<exists>p\<in>set PERMISSION_SEED. perm_key p = k"
  using PERMISSION_KEY_LIST_complete by (metis UNIV_I image_iff image_set map_perm_key_SEED)

lemma permissionRowId_inj: "permissionRowId a = permissionRowId b \<Longrightarrow> a = b"
proof -
  assume e: "permissionRowId a = permissionRowId b"
  obtain p q where p: "p \<in> set PERMISSION_SEED" "perm_key p = a"
    and q: "q \<in> set PERMISSION_SEED" "perm_key q = b" using perm_key_SEED_surj by meson
  then have "perm_id p = perm_id q" using e by (simp add: PERMISSION_SEED_ids)
  then have "p = q" using p q distinct_PERMISSION_SEED_ids by (blast dest: distinct_key_eq)
  with p q show "a = b" by simp
qed

lemma ROLE_KEY_ORDER_complete: "k \<in> set ROLE_KEY_ORDER"
  by (cases k) (simp_all add: ROLE_KEY_ORDER_def)

lemma set_ROLE_PERMISSION_SEED:
  "rp \<in> set ROLE_PERMISSION_SEED \<longleftrightarrow>
    (\<exists>k. \<exists>p\<in>set (ROLE_PERMISSIONS k). rp = \<lparr>rp_roleId = ROLE_IDS k, rp_permissionId = permissionRowId p\<rparr>)"
proof -
  have "rp \<in> set ROLE_PERMISSION_SEED \<longleftrightarrow>
    (\<exists>k\<in>set ROLE_KEY_ORDER. rp \<in> set (map (\<lambda>p.
      \<lparr>rp_roleId = ROLE_IDS k, rp_permissionId = permissionRowId p\<rparr>) (ROLE_PERMISSIONS k)))"
    by (simp add: ROLE_PERMISSION_SEED_def)
  then show ?thesis using ROLE_KEY_ORDER_complete by (simp only: set_map image_iff) blast
qed

lemma granted_permissions:
  "set (map (\<lambda>(rp, p). perm_key p)
      (filter (\<lambda>(rp, p). rp_roleId rp = ROLE_IDS k)
        (inner_join (\<lambda>rp p. rp_permissionId rp = perm_id p) ROLE_PERMISSION_SEED PERMISSION_SEED)))
   = set (ROLE_PERMISSIONS k)" (is "?L = ?R")
proof
  show "?L \<subseteq> ?R"
  proof
    fix x assume "x \<in> ?L"
    then obtain rp p where "rp \<in> set ROLE_PERMISSION_SEED" "p \<in> set PERMISSION_SEED"
      "rp_permissionId rp = perm_id p" "rp_roleId rp = ROLE_IDS k" "x = perm_key p" by auto
    then show "x \<in> ?R"
      unfolding set_ROLE_PERMISSION_SEED by (auto simp: PERMISSION_SEED_ids dest!: permissionRowId_inj)
  qed
  show "?R \<subseteq> ?L"
  proof
    fix x assume x: "x \<in> ?R"
    obtain p where "p \<in> set PERMISSION_SEED" "perm_key p = x" using perm_key_SEED_surj by meson
    then have "(\<lparr>rp_roleId = ROLE_IDS k, rp_permissionId = permissionRowId x\<rparr>, p) \<in>
        set (filter (\<lambda>(rp, p). rp_roleId rp = ROLE_IDS k)
          (inner_join (\<lambda>rp p. rp_permissionId rp = perm_id p) ROLE_PERMISSION_SEED PERMISSION_SEED))"
      using x by (auto simp: set_ROLE_PERMISSION_SEED PERMISSION_SEED_ids)
    then have "(\<lambda>(rp, p). perm_key p) (\<lparr>rp_roleId = ROLE_IDS k, rp_permissionId = permissionRowId x\<rparr>, p) \<in> ?L"
      unfolding set_map by (rule imageI)
    then show "x \<in> ?L" by (simp only: prod.case \<open>perm_key p = x\<close>)
  qed
qed

lemma set_ROLE_SEED: "r \<in> set ROLE_SEED \<Longrightarrow> role_id r = ROLE_IDS (role_key r)"
  by (auto simp: ROLE_SEED_def)

lemma ROLE_SEED_surj: "\<exists>r\<in>set ROLE_SEED. role_key r = k"
  by (cases k) (simp_all add: ROLE_SEED_def)

section \<open>Holding a role\<close>

definition holds_role :: "database \<Rightarrow> string \<Rightarrow> string \<Rightarrow> role_key \<Rightarrow> bool" where
  "holds_role d userId organizationId k =
    (list_ex (\<lambda>r. org_id r = organizationId \<and> org_status r = OrgActive) (organizations d) \<and>
     list_ex (\<lambda>m. mem_userId m = userId \<and> mem_organizationId m = organizationId \<and>
       mem_status m = MemActive \<and> mem_roleId m = ROLE_IDS k) (memberships d))"

lemma db_ok_organizations: "db_ok d \<Longrightarrow> distinct (map org_id (organizations d))"
  by (simp add: db_ok_iff)

lemma db_ok_memberships: "db_ok d \<Longrightarrow> distinct (map mem_id (memberships d))"
  by (simp add: db_ok_iff)

lemma db_ok_active_memberships:
  "db_ok d \<Longrightarrow> distinct (map (\<lambda>m. (mem_userId m, mem_organizationId m))
    (filter active_membership (memberships d)))"
  by (simp add: db_ok_iff)

lemma active_membership_unique:
  assumes "db_ok d" and "m \<in> set (memberships d)" "m' \<in> set (memberships d)"
    and "mem_status m = MemActive" "mem_status m' = MemActive"
    and "mem_userId m = mem_userId m'" "mem_organizationId m = mem_organizationId m'"
  shows "m = m'"
  by (rule distinct_key_eq [OF db_ok_active_memberships [OF assms(1)]])
    (use assms in \<open>auto simp: active_membership_def\<close>)

lemma requireMembership_cases:
  assumes ok: "db_ok (db w)" and cat: "catalogued (db w)"
  obtains (member) actor m k where "requireMembership u org rq w = (Inr actor, w)"
      "holds_role (db w) u org k" "m \<in> set (memberships (db w))" "mem_userId m = u"
      "mem_organizationId m = org" "mem_status m = MemActive" "mem_roleId m = ROLE_IDS k"
      "act_userId actor = u" "act_organizationId actor = org" "act_membershipId actor = mem_id m"
      "act_roleKey actor = k" "act_roleId actor = ROLE_IDS k"
      "set (act_permissions actor) = set (ROLE_PERMISSIONS k)"
  | (stranger) "requireMembership u org rq w = (Inl organizationNotFoundError, w)"
      "\<And>k. \<not> holds_role (db w) u org k"
proof (cases "select_first (\<lambda>r. org_id r = org) (organizations (db w))")
  case None
  then have "\<not> holds_role (db w) u org k" for k
    by (auto simp: holds_role_def list_ex_iff dest: find_NoneD)
  with None stranger show thesis
    by (simp add: requireMembership_def resolveOrganizationContext_def findOrganizationById_def prog_simps)
next
  case (Some g)
  then have g: "g \<in> set (organizations (db w))" "org_id g = org" by (auto dest: find_SomeD)
  have only: "g' = g" if "g' \<in> set (organizations (db w))" "org_id g' = org" for g'
    using that g distinct_key_eq [OF db_ok_organizations [OF ok]] by metis
  let ?q = "\<lambda>(m, r). mem_userId m = u \<and> mem_organizationId m = org \<and> mem_status m = MemActive"
  show thesis
  proof (cases "org_status g = OrgActive")
    case False
    with only have "\<not> holds_role (db w) u org k" for k by (auto simp: holds_role_def list_ex_iff)
    with Some False stranger show thesis
      by (simp add: requireMembership_def resolveOrganizationContext_def findOrganizationById_def prog_simps)
  next
    case True
    show thesis
    proof (cases "select_first ?q (memberships_with_roles (db w))")
      case None
      have "\<not> holds_role (db w) u org k" for k
      proof
        assume "holds_role (db w) u org k"
        then obtain m where m: "m \<in> set (memberships (db w))" "mem_userId m = u"
          "mem_organizationId m = org" "mem_status m = MemActive" "mem_roleId m = ROLE_IDS k"
          by (auto simp: holds_role_def list_ex_iff)
        obtain r where "r \<in> set ROLE_SEED" "role_key r = k" using ROLE_SEED_surj by meson
        then have "(m, r) \<in> set (memberships_with_roles (db w))"
          using m cat by (auto simp: memberships_with_roles_def catalogued_def set_ROLE_SEED)
        then show False using None m by (auto dest: find_NoneD)
      qed
      with Some True None stranger show thesis
        by (simp add: requireMembership_def resolveOrganizationContext_def findOrganizationById_def
            findActiveMembership_def prog_simps)
    next
      fix mr assume mr: "select_first ?q (memberships_with_roles (db w)) = Some mr"
      then obtain m r where mr': "mr = (m, r)" and "(m, r) \<in> set (memberships_with_roles (db w))"
        and q: "?q (m, r)" by (cases mr) (auto dest: find_SomeD)
      then have m: "m \<in> set (memberships (db w))" and r: "r \<in> set ROLE_SEED" "mem_roleId m = role_id r"
        using cat by (auto simp: memberships_with_roles_def catalogued_def)
      let ?k = "role_key r"
      have id: "role_id r = ROLE_IDS ?k" using r by (simp add: set_ROLE_SEED)
      have holds: "holds_role (db w) u org ?k"
        using g True m q r id by (auto simp: holds_role_def list_ex_iff)
      define keys where "keys = map (\<lambda>(rp, p). perm_key p)
        (filter (\<lambda>(rp, p). rp_roleId rp = role_id r)
          (inner_join (\<lambda>rp p. rp_permissionId rp = perm_id p)
            (rolePermissions (db w)) (permissions (db w))))"
      have keys: "set keys = set (ROLE_PERMISSIONS ?k)"
        using cat granted_permissions [of ?k] by (simp only: keys_def catalogued_def id)
      have "requireMembership u org rq w = (Inr
          \<lparr>act_userId = u, act_organizationId = org_id g, act_membershipId = mem_id m,
           act_roleId = role_id r, act_roleKey = ?k, act_roleName = role_name r,
           act_permissions = js_set keys, act_requestId = rq\<rparr>, w)"
        using Some True mr mr'
        by (simp add: requireMembership_def resolveOrganizationContext_def findOrganizationById_def
            findActiveMembership_def findPermissionKeysForRole_def prog_simps keys_def)
      then show thesis
        by (rule member) (use m q r g id keys holds in simp_all)
    qed
  qed
qed

lemma holds_role_unique:
  assumes "db_ok d" and "holds_role d u org k" and "holds_role d u org k'"
  shows "k = k'"
proof -
  obtain m m' where "m \<in> set (memberships d)" "mem_userId m = u" "mem_organizationId m = org"
      "mem_status m = MemActive" "mem_roleId m = ROLE_IDS k"
    and "m' \<in> set (memberships d)" "mem_userId m' = u" "mem_organizationId m' = org"
      "mem_status m' = MemActive" "mem_roleId m' = ROLE_IDS k'"
    using assms(2,3) by (auto simp: holds_role_def list_ex_iff)
  with active_membership_unique [OF assms(1), of m m'] show ?thesis by simp
qed

text \<open>\<open>may d u o p\<close>: the user holds a role in the active organization that the matrix grants \<open>p\<close>.\<close>

definition may :: "database \<Rightarrow> string \<Rightarrow> string \<Rightarrow> permission_key \<Rightarrow> bool" where
  "may d userId organizationId p =
    list_ex (\<lambda>k. holds_role d userId organizationId k \<and> p \<in> set (ROLE_PERMISSIONS k)) ROLE_KEY_ORDER"

lemma may_iff: "may d u org p \<longleftrightarrow> (\<exists>k. holds_role d u org k \<and> p \<in> set (ROLE_PERMISSIONS k))"
  using ROLE_KEY_ORDER_complete by (auto simp: may_def list_ex_iff)

section \<open>The contract of organization-scoped operations\<close>

text \<open>
  \<open>op i\<close> resolves the actor of \<open>user i\<close> in \<open>scope i\<close>, requires the permission \<open>needs\<close>, and runs
  \<open>body i\<close>. Then nobody without an active membership learns more than that the organization is
  not found, nobody whose role lacks the permission gets past the guard, neither refusal changes
  anything, and what the body does it does for an actor the matrix authorises.
\<close>

locale guarded_operation =
  fixes op :: "'i \<Rightarrow> 'a api"
    and user :: "'i \<Rightarrow> string"
    and scope :: "'i \<Rightarrow> string"
    and request :: "'i \<Rightarrow> string option"
    and needs :: permission_key
    and body :: "'i \<Rightarrow> organization_actor \<Rightarrow> 'a api"
  assumes guarded: "op i = bindP (requireMembership (user i) (scope i) (request i))
    (\<lambda>actor. thenP (requirePermission actor needs) (body i actor))"
begin

lemma outcome:
  assumes "db_ok (db w)" and "catalogued (db w)"
  obtains (stranger) "op i w = (Inl organizationNotFoundError, w)"
      "\<And>k. \<not> holds_role (db w) (user i) (scope i) k"
  | (denied) k where "op i w = (Inl permissionDeniedError, w)"
      "holds_role (db w) (user i) (scope i) k" "needs \<notin> set (ROLE_PERMISSIONS k)"
  | (served) actor m k where "op i w = body i actor w" "holds_role (db w) (user i) (scope i) k"
      "needs \<in> set (ROLE_PERMISSIONS k)" "act_userId actor = user i" "act_organizationId actor = scope i"
      "m \<in> set (memberships (db w))" "mem_userId m = user i" "mem_organizationId m = scope i"
      "mem_status m = MemActive" "mem_roleId m = ROLE_IDS k" "act_membershipId actor = mem_id m"
proof (rule requireMembership_cases [OF assms, of "user i" "scope i" "request i"], goal_cases member stranger)
  case (member actor m k)
  then show thesis
    using denied [of k] served [of actor k m]
    by (cases "needs \<in> set (ROLE_PERMISSIONS k)")
      (simp_all add: guarded prog_simps requirePermission_def actorHasPermission_def)
next
  case stranger
  then show thesis using that(1) by (simp add: guarded prog_simps)
qed

lemma refused:
  assumes "db_ok (db w)" and "catalogued (db w)" and "\<not> may (db w) (user i) (scope i) needs"
  shows "op i w = (Inl (if \<exists>k. holds_role (db w) (user i) (scope i) k
    then permissionDeniedError else organizationNotFoundError), w)"
  using assms(3) by (cases rule: outcome [OF assms(1,2), of i]) (auto simp: may_iff)

lemma authorised:
  assumes "db_ok (db w)" and "catalogued (db w)" and "op i w = (Inr x, w')"
  shows "may (db w) (user i) (scope i) needs"
  using assms(3) by (cases rule: outcome [OF assms(1,2), of i]) (auto simp: may_iff)

lemma runs_body:
  assumes "db_ok (db w)" and "catalogued (db w)" and "may (db w) (user i) (scope i) needs"
  obtains actor where "op i w = body i actor w" "act_userId actor = user i" "act_organizationId actor = scope i"
proof (rule outcome [OF assms(1,2), of i], goal_cases stranger denied served)
  case (denied k)
  then show thesis using assms(3) holds_role_unique [OF assms(1)] unfolding may_iff by blast
qed (use assms(3) that in \<open>auto simp: may_iff\<close>)

lemma wp_op:
  assumes "db_ok (db w)" and "catalogued (db w)"
    and "E organizationNotFoundError w" and "E permissionDeniedError w"
    and "\<And>actor m k. holds_role (db w) (user i) (scope i) k \<Longrightarrow> needs \<in> set (ROLE_PERMISSIONS k) \<Longrightarrow>
      act_userId actor = user i \<Longrightarrow> act_organizationId actor = scope i \<Longrightarrow>
      m \<in> set (memberships (db w)) \<Longrightarrow> mem_userId m = user i \<Longrightarrow> mem_organizationId m = scope i \<Longrightarrow>
      mem_status m = MemActive \<Longrightarrow> mem_roleId m = ROLE_IDS k \<Longrightarrow> act_membershipId actor = mem_id m \<Longrightarrow>
      wp (body i actor) Q E w"
  shows "wp (op i) Q E w"
  by (cases rule: outcome [OF assms(1,2), of i]) (simp_all add: wp_def assms(3,4) assms(5) [unfolded wp_def])

end

lemma keeps_requireMembership [preserve_intros]: "keeps P (requireMembership u org rq)"
  unfolding requireMembership_def resolveOrganizationContext_def findOrganizationById_def
    findActiveMembership_def findPermissionKeysForRole_def
  by (intro preserve_intros)

lemma keeps_requirePermission [preserve_intros]: "keeps P (requirePermission actor p)"
  unfolding requirePermission_def by (intro preserve_intros)

section \<open>Properties\<close>

text \<open>
  C7. Resolving an actor is sound and complete: it returns one exactly when the
  organization is active and the user has an active membership in it, the actor's permissions
  are exactly those the matrix grants the role, and otherwise the answer is the same
  not-found error whether the organization is missing, inactive or closed to the user.
\<close>

theorem requireMembership_exact:
  assumes "db_ok (db w)" and "catalogued (db w)"
  shows "(case requireMembership u org rq w of
      (Inr actor, w') \<Rightarrow> w' = w \<and> holds_role (db w) u org (act_roleKey actor) \<and>
        act_userId actor = u \<and> act_organizationId actor = org \<and>
        set (act_permissions actor) = set (ROLE_PERMISSIONS (act_roleKey actor))
    | (Inl e, w') \<Rightarrow> w' = w \<and> e = organizationNotFoundError \<and>
        (\<forall>k. \<not> holds_role (db w) u org k))"
  by (cases rule: requireMembership_cases [OF assms, of u org rq]) auto


end
