(* ===== verification/Samples.thy ===== *)
theory Samples
  imports AccessControl
begin

text \<open>
  A small world the witnesses of the properties run in: the seeded catalog, an active team with an
  Owner, an Admin and a Member, a stranger, a second team, and one row of most tables.
\<close>

definition sample_user :: "string \<Rightarrow> user_row" where
  "sample_user i =
    \<lparr>u_id = i, u_email = i @ ''@example.com'', u_normalizedEmail = i @ ''@example.com'',
     u_passwordHash = ''h'', u_displayName = i, u_status = UserActive,
     u_emailVerifiedAt = Some 0, u_createdAt = 0, u_updatedAt = 0, u_deletedAt = None\<rparr>"

definition sample_org :: "string \<Rightarrow> string \<Rightarrow> organization_row" where
  "sample_org i owner =
    \<lparr>org_id = i, org_name = i, org_slug = i, org_type = Team, org_status = OrgActive,
     org_createdByUserId = owner, org_createdAt = 0, org_updatedAt = 0, org_archivedAt = None\<rparr>"

definition sample_member :: "string \<Rightarrow> string \<Rightarrow> string \<Rightarrow> role_key \<Rightarrow> timestamptz \<Rightarrow> membership_row" where
  "sample_member i u g k t =
    \<lparr>mem_id = i, mem_userId = u, mem_organizationId = g, mem_roleId = ROLE_IDS k,
     mem_status = MemActive, mem_invitedByUserId = None, mem_joinedAt = t, mem_removedAt = None,
     mem_removedByUserId = None, mem_createdAt = t, mem_updatedAt = t\<rparr>"

definition sample_plan :: "string \<Rightarrow> string \<Rightarrow> plan_key \<Rightarrow> organization_plan_row" where
  "sample_plan i g k =
    \<lparr>op_id = i, op_organizationId = g, op_planKey = k, op_assignedAt = 0,
     op_changedByUserId = None, op_createdAt = 0, op_updatedAt = 0\<rparr>"

definition sample_project :: "string \<Rightarrow> string \<Rightarrow> timestamptz \<Rightarrow> project_row" where
  "sample_project i g t =
    \<lparr>prj_id = i, prj_organizationId = g, prj_name = i, prj_createdByUserId = ''ann'',
     prj_deletedAt = None, prj_deletedByUserId = None, prj_createdAt = t, prj_updatedAt = t\<rparr>"

definition sample_db :: database where
  "sample_db =
    \<lparr>users = map sample_user [''ann'', ''bob'', ''cat'', ''dan''],
     sessions = [], refreshTokens = [], emailVerificationTokens = [], passwordResetTokens = [],
     pendingRegistrations = [], securityEvents = [], roles = ROLE_SEED,
     organizations = [sample_org ''o1'' ''ann'', sample_org ''o2'' ''dan''],
     memberships = [sample_member ''m1'' ''ann'' ''o1'' Owner 1000, sample_member ''m2'' ''bob'' ''o1'' Admin 2000,
       sample_member ''m3'' ''cat'' ''o1'' Member 3000, sample_member ''m4'' ''dan'' ''o2'' Owner 4000],
     permissions = PERMISSION_SEED, rolePermissions = ROLE_PERMISSION_SEED,
     organizationPlans = [sample_plan ''p1'' ''o1'' Pro, sample_plan ''p2'' ''o2'' Free],
     projects = [sample_project ''q1'' ''o1'' 1000, sample_project ''q2'' ''o1'' 2000,
       sample_project ''q3'' ''o2'' 3000],
     apiKeys = [], invitations = []\<rparr>"

definition demo_world :: world where
  "demo_world = sample_world\<lparr>db := sample_db\<rparr>"

lemma demo_world_simps [simp]: "db demo_world = sample_db" "nowMs demo_world = 1000"
  by (simp_all add: demo_world_def sample_world_def)

lemma sample_catalogued [simp]: "catalogued sample_db"
  by (simp add: catalogued_def sample_db_def)

lemma sample_users [simp]: "u_id ` set (users sample_db) = {''ann'', ''bob'', ''cat'', ''dan''}"
  by (simp add: sample_db_def sample_user_def)

lemma sample_events [simp]: "securityEvents sample_db = []"
  by (simp add: sample_db_def)

lemma sample_unique: "list_all (\<lambda>(n, p). p sample_db) unique_constraints"
  by code_simp

lemma sample_references: "list_all (\<lambda>(n, p). p sample_db) foreign_keys"
  by code_simp

lemma sample_ok [simp]: "db_ok sample_db"
  using sample_unique sample_references by (simp add: db_ok_def)

lemma requireMembership_exact_witness:
  "case requireMembership ''bob'' ''o1'' None demo_world of
      (Inr actor, w') \<Rightarrow> w' = demo_world \<and> holds_role sample_db ''bob'' ''o1'' (act_roleKey actor) \<and>
        act_userId actor = ''bob'' \<and> act_organizationId actor = ''o1'' \<and>
        set (act_permissions actor) = set (ROLE_PERMISSIONS (act_roleKey actor))
    | (Inl e, w') \<Rightarrow> w' = demo_world \<and> e = organizationNotFoundError \<and>
        (\<forall>k. \<not> holds_role sample_db ''bob'' ''o1'' k)"
  by (rule requireMembership_exact [of demo_world, unfolded demo_world_simps,
      OF sample_ok sample_catalogued])

end
