(* ===== verification/Slugs.thy ===== *)
theory Slugs
  imports Samples
begin

text \<open>
  Organization slugs (\<^verbatim>\<open>organization.provisioning.ts\<close>): how a name becomes a slug base, how a free
  slug is found for it, and that whatever the server generates has the shape the contract
  demands of a requested slug (\<^verbatim>\<open>ORGANIZATION_SLUG_PATTERN\<close>).
\<close>

section \<open>Slug bases\<close>

definition MAX_SLUG_BASE_LENGTH :: nat where
  "MAX_SLUG_BASE_LENGTH = 40"

definition MAX_SLUG_SUFFIX_ATTEMPTS :: nat where
  "MAX_SLUG_SUFFIX_ATTEMPTS = 50"

text \<open>
  The compatibility decomposition (NFKD) of the lower-case Latin-1 characters, as code points;
  every other code point stands for itself.
\<close>

definition NFKD_TABLE :: "(nat \<times> nat list) list" where
  "NFKD_TABLE =
    [(160, [32]), (168, [32, 776]), (170, [97]), (175, [32, 772]), (178, [50]), (179, [51]), 
     (180, [32, 769]), (181, [956]), (184, [32, 807]), (185, [49]), (186, [111]), 
     (188, [49, 8260, 52]), (189, [49, 8260, 50]), (190, [51, 8260, 52]), (224, [97, 768]), 
     (225, [97, 769]), (226, [97, 770]), (227, [97, 771]), (228, [97, 776]), (229, [97, 778]), 
     (231, [99, 807]), (232, [101, 768]), (233, [101, 769]), (234, [101, 770]), 
     (235, [101, 776]), (236, [105, 768]), (237, [105, 769]), (238, [105, 770]), 
     (239, [105, 776]), (241, [110, 771]), (242, [111, 768]), (243, [111, 769]), 
     (244, [111, 770]), (245, [111, 771]), (246, [111, 776]), (249, [117, 768]), 
     (250, [117, 769]), (251, [117, 770]), (252, [117, 776]), (253, [121, 769]), 
     (255, [121, 776])]"

definition nfkd :: "string \<Rightarrow> nat list" where
  "nfkd s = concat (map (\<lambda>c. case map_of NFKD_TABLE (of_char c) of None \<Rightarrow> [of_char c] | Some ds \<Rightarrow> ds) s)"

definition slug_code :: "nat \<Rightarrow> bool" where
  "slug_code n = ((48 \<le> n \<and> n \<le> 57) \<or> (97 \<le> n \<and> n \<le> 122))"

text \<open>\<open>replace(/[^a-z0-9]+/g, '-')\<close>; the flag says that the last code point was replaced too.\<close>

fun dash_runs :: "bool \<Rightarrow> nat list \<Rightarrow> string" where
  "dash_runs inRun [] = []"
| "dash_runs inRun (n # ns) =
    (if slug_code n then char_of n # dash_runs False ns
     else if inRun then dash_runs True ns
     else CHR ''-'' # dash_runs True ns)"

definition strip_left :: "string \<Rightarrow> string" where
  "strip_left s = dropWhile (\<lambda>c. c = CHR ''-'') s"

definition strip_right :: "string \<Rightarrow> string" where
  "strip_right s = rev (dropWhile (\<lambda>c. c = CHR ''-'') (rev s))"

definition slugify :: "string \<Rightarrow> string" where
  "slugify input =
    (let slug = strip_right (take MAX_SLUG_BASE_LENGTH
                  (strip_right (strip_left (dash_runs False (nfkd (toLowerCase input))))))
     in if 0 < length slug then slug else ''workspace'')"

section \<open>Finding a free slug\<close>

text \<open>\<open>createId('org').split('_')[1].slice(0, 6).toLowerCase()\<close>.\<close>

definition second_part :: "string \<Rightarrow> string option" where
  "second_part s =
    (case indexOf (CHR ''_'') s of
       None \<Rightarrow> None
     | Some i \<Rightarrow> Some (takeWhile (\<lambda>c. c \<noteq> CHR ''_'') (drop (i + 1) s)))"

definition shortSlugToken :: "string api" where
  "shortSlugToken =
    bindP (createId ''org'') (\<lambda>i.
      case second_part i of
        None \<Rightarrow> throw (ThrownError ''Expected createId random tail to be defined'')
      | Some tail \<Rightarrow> ret (toLowerCase (take 6 tail)))"

definition isSlugTaken :: "string \<Rightarrow> bool api" where
  "isSlugTaken slug =
    select (\<lambda>d. select_first (\<lambda>r. org_slug r = slug) (organizations d) \<noteq> None)"

function resolve_slug_from :: "nat \<Rightarrow> string \<Rightarrow> string \<Rightarrow> string api" where
  "resolve_slug_from suffix base candidate =
    bindP (isSlugTaken candidate) (\<lambda>taken.
      if \<not> taken then ret candidate
      else if MAX_SLUG_SUFFIX_ATTEMPTS < suffix
           then bindP shortSlugToken (\<lambda>t. ret (base @ ''-'' @ t))
      else resolve_slug_from (suffix + 1) base (base @ ''-'' @ show_nat suffix))"
  by pat_completeness auto
termination
  by (relation "measure (\<lambda>(suffix, _). MAX_SLUG_SUFFIX_ATTEMPTS + 1 - suffix)") auto

declare resolve_slug_from.simps [simp del]

definition resolveUniqueSlug :: "string \<Rightarrow> string api" where
  "resolveUniqueSlug base = resolve_slug_from 2 base base"

definition personalWorkspaceSlugBase :: "string \<Rightarrow> string api" where
  "personalWorkspaceSlugBase displayName =
    bindP shortSlugToken (\<lambda>t. ret (slugify displayName @ ''-'' @ t))"

definition personalWorkspaceName :: "string \<Rightarrow> string" where
  "personalWorkspaceName displayName = displayName @ [CHR 0x27] @ ''s Workspace''"

section \<open>The shape of a slug\<close>

definition slug_char :: "char \<Rightarrow> bool" where
  "slug_char c = slug_code (of_char c)"

text \<open>
  \<open>slug_pattern\<close> is \<open>/^[a-z0-9]+(?:-[a-z0-9]+)*$/\<close>: non-empty segments of slug characters joined
  by single hyphens. \<open>after_char\<close> reads the rest of a segment and what follows it.
\<close>

fun after_char :: "string \<Rightarrow> bool" where
  "after_char [] = True"
| "after_char (c # s) =
    (if slug_char c then after_char s
     else c = CHR ''-'' \<and> (case s of d # r \<Rightarrow> slug_char d \<and> after_char r | [] \<Rightarrow> False))"

definition slug_pattern :: "string \<Rightarrow> bool" where
  "slug_pattern s = (case s of c # r \<Rightarrow> slug_char c \<and> after_char r | [] \<Rightarrow> False)"

definition hyphenated :: "string \<Rightarrow> bool" where
  "hyphenated s =
    (list_all (\<lambda>c. slug_char c \<or> c = CHR ''-'') s \<and>
     successively (\<lambda>a b. \<not> (a = CHR ''-'' \<and> b = CHR ''-'')) s)"

lemma dash_not_slug [simp]: "\<not> slug_char (CHR ''-'')"
  by (simp add: slug_char_def slug_code_def)

lemma hyphenated_append:
  "hyphenated (xs @ ys) \<longleftrightarrow> hyphenated xs \<and> hyphenated ys \<and>
     (xs = [] \<or> ys = [] \<or> \<not> (last xs = CHR ''-'' \<and> hd ys = CHR ''-''))"
  by (auto simp: hyphenated_def successively_append_iff)

lemma hyphenated_simps [simp]:
  "hyphenated []" "hyphenated [c] = (slug_char c \<or> c = CHR ''-'')"
  by (simp_all add: hyphenated_def)

lemma hyphenated_take: "hyphenated s \<Longrightarrow> hyphenated (take n s)"
  by (metis append_take_drop_id hyphenated_append)

lemma hyphenated_drop: "hyphenated s \<Longrightarrow> hyphenated (drop n s)"
  by (metis append_take_drop_id hyphenated_append)

lemma hyphenated_dropWhile: "hyphenated s \<Longrightarrow> hyphenated (dropWhile p s)"
  by (metis hyphenated_append takeWhile_dropWhile_id)

lemma strip_right_prefix: "\<exists>ys. s = strip_right s @ ys"
  unfolding strip_right_def by (metis rev_append rev_rev_ident takeWhile_dropWhile_id)

lemma hyphenated_strip_right: "hyphenated s \<Longrightarrow> hyphenated (strip_right s)"
  by (metis hyphenated_append strip_right_prefix)

lemma strip_right_last: "strip_right s \<noteq> [] \<Longrightarrow> last (strip_right s) \<noteq> CHR ''-''"
proof -
  assume "strip_right s \<noteq> []"
  then have "dropWhile (\<lambda>c. c = CHR ''-'') (rev s) \<noteq> []" by (simp add: strip_right_def)
  then have "\<not> (hd (dropWhile (\<lambda>c. c = CHR ''-'') (rev s)) = CHR ''-'')" by (rule hd_dropWhile)
  with \<open>strip_right s \<noteq> []\<close> show ?thesis by (simp add: strip_right_def last_rev)
qed

lemma strip_right_hd: "strip_right s \<noteq> [] \<Longrightarrow> hd (strip_right s) = hd s"
  by (metis hd_append2 strip_right_prefix)

lemma dash_runs_hyphenated:
  "hyphenated (dash_runs b ns) \<and> (b \<longrightarrow> dash_runs b ns = [] \<or> hd (dash_runs b ns) \<noteq> CHR ''-'')"
proof (induction b ns rule: dash_runs.induct)
  case (2 b n ns)
  have c: "slug_char (char_of n)" if "slug_code n"
  proof -
    have "n < 256" using that by (auto simp: slug_code_def)
    with that show ?thesis by (simp add: slug_char_def)
  qed
  then have "char_of n \<noteq> CHR ''-''" if "slug_code n" using that dash_not_slug by metis
  with 2 c show ?case
    using hyphenated_append [of "[char_of n]" "dash_runs False ns"]
      hyphenated_append [of "[CHR ''-'']" "dash_runs True ns"]
    by auto
qed simp

lemma after_char_iff:
  "after_char s \<longleftrightarrow> hyphenated s \<and> (s \<noteq> [] \<longrightarrow> last s \<noteq> CHR ''-'')"
proof (induction s rule: length_induct)
  case (1 s)
  show ?case
  proof (cases s)
    case (Cons c r)
    show ?thesis
    proof (cases "slug_char c")
      case True
      then have "c \<noteq> CHR ''-''" using dash_not_slug by metis
      with 1 True show ?thesis
        using hyphenated_append [of "[c]" r] by (auto simp: Cons)
    next
      case False
      show ?thesis
      proof (cases r)
        case Nil
        with False show ?thesis by (auto simp: Cons)
      next
        case (Cons d t)
        have "after_char t \<longleftrightarrow> hyphenated t \<and> (t \<noteq> [] \<longrightarrow> last t \<noteq> CHR ''-'')"
          using 1 \<open>s = c # r\<close> Cons by simp
        moreover have "hyphenated (c # d # t) \<longleftrightarrow> (slug_char c \<or> c = CHR ''-'') \<and> hyphenated (d # t) \<and>
            \<not> (c = CHR ''-'' \<and> d = CHR ''-'')"
          using hyphenated_append [of "[c]" "d # t"] by auto
        moreover have "hyphenated (d # t) \<longleftrightarrow> (slug_char d \<or> d = CHR ''-'') \<and> hyphenated t \<and>
            (t = [] \<or> \<not> (d = CHR ''-'' \<and> hd t = CHR ''-''))"
          using hyphenated_append [of "[d]" t] by auto
        ultimately show ?thesis
          using False \<open>s = c # r\<close> Cons dash_not_slug by (auto simp del: hyphenated_simps)
      qed
    qed
  qed simp
qed

lemma slug_pattern_iff:
  "slug_pattern s \<longleftrightarrow> hyphenated s \<and> s \<noteq> [] \<and> hd s \<noteq> CHR ''-'' \<and> last s \<noteq> CHR ''-''"
proof (cases s)
  case (Cons c r)
  have "hyphenated (c # r) \<longleftrightarrow> (slug_char c \<or> c = CHR ''-'') \<and> hyphenated r \<and>
      (r = [] \<or> \<not> (c = CHR ''-'' \<and> hd r = CHR ''-''))"
    using hyphenated_append [of "[c]" r] by auto
  then show ?thesis
    using dash_not_slug by (auto simp: Cons slug_pattern_def after_char_iff)
qed (simp add: slug_pattern_def)

lemma slug_pattern_join:
  "slug_pattern a \<Longrightarrow> slug_pattern b \<Longrightarrow> slug_pattern (a @ ''-'' @ b)"
  using hyphenated_append [of a "CHR ''-'' # b"] hyphenated_append [of "[CHR ''-'']" b]
  by (auto simp: slug_pattern_iff)

lemma slug_pattern_alnum: "s \<noteq> [] \<Longrightarrow> list_all slug_char s \<Longrightarrow> slug_pattern s"
proof -
  have "list_all slug_char s \<Longrightarrow> after_char s" by (induction s) auto
  then show "s \<noteq> [] \<Longrightarrow> list_all slug_char s \<Longrightarrow> slug_pattern s"
    by (cases s) (auto simp: slug_pattern_def simp flip: after_char_iff)
qed

lemma slug_pattern_show_nat: "slug_pattern (show_nat n)"
proof (rule slug_pattern_alnum)
  show "show_nat n \<noteq> []" using show_nat_props by blast
  have "is_digit c \<Longrightarrow> slug_char c" for c
    by (simp add: is_digit_def slug_char_def slug_code_def Let_def)
  then show "list_all slug_char (show_nat n)"
    using show_nat_props [of n] by (simp add: list_all_iff)
qed

lemma slugify_shape: "slug_pattern (slugify input) \<and> length (slugify input) \<le> MAX_SLUG_BASE_LENGTH"
proof -
  define s where "s = strip_right (strip_left (dash_runs False (nfkd (toLowerCase input))))"
  define r where "r = strip_right (take MAX_SLUG_BASE_LENGTH s)"
  have "hyphenated s"
    using dash_runs_hyphenated unfolding s_def strip_left_def
    by (intro hyphenated_strip_right hyphenated_dropWhile) blast
  then have h: "hyphenated r" unfolding r_def by (intro hyphenated_strip_right hyphenated_take)
  have len: "length r \<le> MAX_SLUG_BASE_LENGTH"
  proof -
    obtain ys where "take MAX_SLUG_BASE_LENGTH s = r @ ys" using strip_right_prefix unfolding r_def by blast
    then show ?thesis by (metis length_append length_take min.cobounded2 le_add1 le_trans)
  qed
  have "hd r \<noteq> CHR ''-''" if "r \<noteq> []"
  proof -
    have "strip_right [] = []" by (simp add: strip_right_def)
    then have "take MAX_SLUG_BASE_LENGTH s \<noteq> []" using that unfolding r_def by metis
    then have "s \<noteq> []" and "hd r = hd s"
      using that by (auto simp: r_def strip_right_hd hd_take MAX_SLUG_BASE_LENGTH_def)
    moreover define l where "l = strip_left (dash_runs False (nfkd (toLowerCase input)))"
    ultimately have "hd r = hd l" and "l \<noteq> []"
      using \<open>strip_right [] = []\<close> strip_right_hd [of l] unfolding s_def by metis+
    then show ?thesis
      using hd_dropWhile [of "\<lambda>c. c = CHR ''-''" "dash_runs False (nfkd (toLowerCase input))"]
      unfolding l_def strip_left_def by simp
  qed
  moreover have "last r \<noteq> CHR ''-''" if "r \<noteq> []" using that by (simp add: r_def strip_right_last)
  ultimately have "r \<noteq> [] \<Longrightarrow> slug_pattern r" using h by (simp add: slug_pattern_iff)
  moreover have "slug_pattern ''workspace''" by code_simp
  ultimately show ?thesis
    using len unfolding slugify_def Let_def s_def [symmetric] r_def [symmetric]
    by (simp add: MAX_SLUG_BASE_LENGTH_def)
qed

lemma shortSlugToken_shape:
  "\<exists>t w'. shortSlugToken w = (Inr t, w') \<and> db w' = db w \<and> nowMs w' = nowMs w \<and> pgNow w' = pgNow w \<and>
     slug_pattern t \<and> length t = 6"
proof -
  let ?bs = "map (\<lambda>i. entropy w (entropyPos w + i) mod 256) [0..<DEFAULT_RANDOM_LENGTH]"
  let ?r = "randomAlphabetString ALPHABET ?bs"
  have nu: "CHR ''_'' \<notin> set ALPHABET" by (simp add: ALPHABET_def)
  then have "\<forall>c\<in>set ?r. c \<noteq> CHR ''_''" using set_randomAlphabetString [of ALPHABET ?bs] by blast
  then have "takeWhile (\<lambda>c. c \<noteq> CHR ''_'') ?r = ?r" by (simp only: takeWhile_eq_all_conv)
  moreover have "indexOf (CHR ''_'') (''org'' @ CHR ''_'' # ?r) = Some 3"
    using indexOf_append [of "CHR ''_''" "''org''" ?r] by simp
  ultimately have sp: "second_part (newId ''org'' w) = Some ?r"
    unfolding second_part_def newId_def by (simp only: append_Cons append_Nil option.case) simp
  have low: "slug_char (lower_char c)" if "c \<in> set ALPHABET" for c
  proof -
    have "list_all (\<lambda>c. slug_char (lower_char c)) ALPHABET"
      by (simp add: ALPHABET_def lower_char_def slug_char_def slug_code_def Let_def)
    with that show ?thesis by (simp add: list_all_iff)
  qed
  have "slug_pattern (toLowerCase (take 6 ?r))"
  proof (rule slug_pattern_alnum)
    show "toLowerCase (take 6 ?r) \<noteq> []" by (simp add: toLowerCase_def DEFAULT_RANDOM_LENGTH_def flip: length_0_conv)
    show "list_all slug_char (toLowerCase (take 6 ?r))"
      using set_randomAlphabetString [of ALPHABET ?bs] low
      by (auto simp: toLowerCase_def list_all_iff dest!: in_set_takeD)
  qed
  moreover have "length (toLowerCase (take 6 ?r)) = 6"
    by (simp add: toLowerCase_def DEFAULT_RANDOM_LENGTH_def)
  ultimately show ?thesis
    using sp by (simp add: shortSlugToken_def prog_simps)
qed

section \<open>Finding a free slug\<close>

definition slug_taken :: "database \<Rightarrow> string \<Rightarrow> bool" where
  "slug_taken d slug = list_ex (\<lambda>r. org_slug r = slug) (organizations d)"

lemma isSlugTaken_apply [prog_simps]: "isSlugTaken slug w = (Inr (slug_taken (db w) slug), w)"
proof -
  have "(select_first (\<lambda>r. org_slug r = slug) (organizations (db w)) \<noteq> None) = slug_taken (db w) slug"
    by (auto simp: slug_taken_def list_ex_iff find_None_iff)
  then show ?thesis by (simp add: isSlugTaken_def select_apply)
qed

lemma resolve_slug_from_spec:
  assumes "slug_pattern base" and "slug_pattern candidate"
  shows "\<exists>s w'. resolve_slug_from suffix base candidate w = (Inr s, w') \<and> db w' = db w \<and>
      nowMs w' = nowMs w \<and> pgNow w' = pgNow w \<and> slug_pattern s \<and>
      (\<not> slug_taken (db w) s \<or>
       slug_taken (db w) candidate \<and>
         (\<forall>i. suffix \<le> i \<and> i \<le> MAX_SLUG_SUFFIX_ATTEMPTS \<longrightarrow> slug_taken (db w) (base @ ''-'' @ show_nat i)) \<and>
         length s = length base + 7)"
  using assms
proof (induction suffix base candidate arbitrary: w rule: resolve_slug_from.induct)
  case (1 suffix base candidate)
  show ?case
  proof (cases "slug_taken (db w) candidate")
    case False
    then show ?thesis using 1(3) by (subst (1) resolve_slug_from.simps) (simp add: prog_simps)
  next
    case True
    show ?thesis
    proof (cases "MAX_SLUG_SUFFIX_ATTEMPTS < suffix")
      case late: True
      obtain t w' where t: "shortSlugToken w = (Inr t, w')" "db w' = db w" "nowMs w' = nowMs w"
        "pgNow w' = pgNow w" "slug_pattern t" "length t = 6" using shortSlugToken_shape by blast
      have "slug_pattern (base @ CHR ''-'' # t)"
        using slug_pattern_join [OF 1(2) t(5)] by simp
      then show ?thesis
        using True late t by (subst (1) resolve_slug_from.simps) (auto simp: prog_simps)
    next
      case early: False
      have cand: "slug_pattern (base @ ''-'' @ show_nat suffix)"
        by (rule slug_pattern_join [OF 1(2) slug_pattern_show_nat])
      have eq: "resolve_slug_from suffix base candidate w =
          resolve_slug_from (suffix + 1) base (base @ ''-'' @ show_nat suffix) w"
        using True early by (subst (1) resolve_slug_from.simps) (simp add: prog_simps)
      from 1(1) [OF _ early 1(2) cand, of True w] obtain s w' where
        s: "resolve_slug_from (suffix + 1) base (base @ ''-'' @ show_nat suffix) w = (Inr s, w')"
          "db w' = db w" "nowMs w' = nowMs w" "pgNow w' = pgNow w" "slug_pattern s"
        and alt: "\<not> slug_taken (db w) s \<or> slug_taken (db w) (base @ ''-'' @ show_nat suffix) \<and>
          (\<forall>i. suffix + 1 \<le> i \<and> i \<le> MAX_SLUG_SUFFIX_ATTEMPTS \<longrightarrow>
            slug_taken (db w) (base @ ''-'' @ show_nat i)) \<and> length s = length base + 7"
        by blast
      have "\<not> slug_taken (db w) s \<or> slug_taken (db w) candidate \<and>
          (\<forall>i. suffix \<le> i \<and> i \<le> MAX_SLUG_SUFFIX_ATTEMPTS \<longrightarrow>
            slug_taken (db w) (base @ ''-'' @ show_nat i)) \<and> length s = length base + 7"
        using alt True by (metis Suc_eq_plus1 le_antisym not_less_eq_eq)
      with s eq show ?thesis by metis
    qed
  qed
qed

section \<open>Properties\<close>

text \<open>
  C10. For any name, the slug base the server derives and the slug it resolves have the
  requested-slug shape; the search always ends, and what it returns is free unless the base and
  all of its numbered variants up to the bound are taken, when it is the base with a random
  six-character token.
\<close>

theorem resolveUniqueSlug_spec:
  "length (slugify name) \<le> MAX_SLUG_BASE_LENGTH \<and> slug_pattern (slugify name) \<and>
   (\<exists>s w'. resolveUniqueSlug (slugify name) w = (Inr s, w') \<and> db w' = db w \<and> slug_pattern s \<and>
      (\<not> slug_taken (db w) s \<or>
       (slug_taken (db w) (slugify name) \<and>
        (\<forall>i\<in>set [2..<MAX_SLUG_SUFFIX_ATTEMPTS + 1]. slug_taken (db w) (slugify name @ ''-'' @ show_nat i)) \<and>
        length s = length (slugify name) + 7)))"
  using slugify_shape [of name]
    resolve_slug_from_spec [of "slugify name" "slugify name" 2 w]
  unfolding resolveUniqueSlug_def by (auto simp: less_Suc_eq_le)

lemma resolveUniqueSlug_spec_witness:
  "\<exists>s w'. resolveUniqueSlug (slugify ''Acme Inc.'') demo_world = (Inr s, w') \<and> db w' = sample_db \<and>
     slug_pattern s"
  using resolveUniqueSlug_spec [of "''Acme Inc.''" demo_world] by auto

end
