(* ===== verification/Organizations.thy ===== *)
theory Organizations
  imports Slugs
begin

text \<open>
  Organizations (\<^verbatim>\<open>organization.provisioning.ts\<close>, \<^verbatim>\<open>organization.repo.ts\<close>,
  \<^verbatim>\<open>organization.service.ts\<close>): the one write that makes an organization with its Owner membership
  and its plan, creation of a team, the listing of a user's organizations and the reading of one.
  Two invariants start here: every organization has an active Owner, and every organization has
  a plan row.
\<close>

section \<open>Provisioning\<close>

definition insertOrganizationWithOwnerMembership ::
  "organization_type \<Rightarrow> string \<Rightarrow> string \<Rightarrow> string \<Rightarrow> string \<Rightarrow> (organization_row \<times> membership_row) api" where
  "insertOrganizationWithOwnerMembership typ name slug createdByUserId ownerUserId =
    bindP (getsP pgNow) (\<lambda>t.
    bindP (createId ''org'') (\<lambda>oid.
    let org = \<lparr>org_id = oid, org_name = name, org_slug = slug, org_type = typ, org_status = OrgActive,
               org_createdByUserId = createdByUserId, org_createdAt = t, org_updatedAt = t,
               org_archivedAt = None\<rparr> in
    thenP (sql (\<lambda>d. d\<lparr>organizations := organizations d @ [org]\<rparr>))
   (bindP (createId ''mem'') (\<lambda>mid.
    let m = \<lparr>mem_id = mid, mem_userId = ownerUserId, mem_organizationId = oid,
             mem_roleId = ROLE_IDS Owner, mem_status = MemActive, mem_invitedByUserId = None,
             mem_joinedAt = t, mem_removedAt = None, mem_removedByUserId = None,
             mem_createdAt = t, mem_updatedAt = t\<rparr> in
    thenP (sql (\<lambda>d. d\<lparr>memberships := memberships d @ [m]\<rparr>))
   (bindP (createId ''oplan'') (\<lambda>pid.
    thenP (sql (\<lambda>d. d\<lparr>organizationPlans := organizationPlans d @
        [\<lparr>op_id = pid, op_organizationId = oid, op_planKey = DEFAULT_PLAN_KEY, op_assignedAt = t,
          op_changedByUserId = Some createdByUserId, op_createdAt = t, op_updatedAt = t\<rparr>]\<rparr>))
      (ret (org, m))))))))"

definition loadOwnerRole :: "string \<Rightarrow> role_row api" where
  "loadOwnerRole roleId =
    bindP (select (\<lambda>d. select_first (\<lambda>r. role_id r = roleId) (roles d))) (\<lambda>role.
      case role of
        None \<Rightarrow> throw (ThrownError (''Role '' @ roleId @ '' is missing from the role baseline.''))
      | Some r \<Rightarrow> ret r)"

section \<open>The repository\<close>

record organization_membership_view =
  omv_organization :: organization_row
  omv_membership :: membership_row
  omv_role :: role_row

definition createTeamOrganization ::
  "string \<Rightarrow> string \<Rightarrow> string option \<Rightarrow> organization_membership_view api" where
  "createTeamOrganization userId name requestedSlug =
    catchP (transaction
      (bindP
        (case requestedSlug of
           Some (c # s) \<Rightarrow>
             bindP (isSlugTaken (c # s)) (\<lambda>taken.
               thenP (guardP (\<not> taken) organizationSlugTakenError) (ret (c # s)))
         | _ \<Rightarrow> resolveUniqueSlug (slugify name))
        (\<lambda>slug.
       bindP (insertOrganizationWithOwnerMembership Team name slug userId userId) (\<lambda>(organization, membership).
       bindP (loadOwnerRole (mem_roleId membership)) (\<lambda>role.
         ret \<lparr>omv_organization = organization, omv_membership = membership, omv_role = role\<rparr>)))))
      (\<lambda>e. if isUniqueViolation e then throw organizationSlugTakenError else throw e)"

definition organizations_of_user :: "string \<Rightarrow> database \<Rightarrow> organization_membership_view list" where
  "organizations_of_user userId d =
    map (\<lambda>((m, g), r). \<lparr>omv_organization = g, omv_membership = m, omv_role = r\<rparr>)
      (filter (\<lambda>((m, g), r). mem_userId m = userId \<and> mem_status m = MemActive \<and> org_status g = OrgActive)
        (inner_join (\<lambda>(m, g) r. mem_roleId m = role_id r)
          (inner_join (\<lambda>m g. mem_organizationId m = org_id g) (memberships d) (organizations d))
          (roles d)))"

definition omv_created :: "organization_membership_view \<Rightarrow> timestamptz" where
  "omv_created v = mem_createdAt (omv_membership v)"

definition omv_key :: "organization_membership_view \<Rightarrow> string" where
  "omv_key v = mem_id (omv_membership v)"

definition listActiveOrganizationsForUser ::
  "string \<Rightarrow> database \<Rightarrow> (date \<times> string) option \<Rightarrow> nat \<Rightarrow> organization_membership_view list" where
  "listActiveOrganizationsForUser userId d cursor limit =
    page_query omv_created omv_key cursor limit (organizations_of_user userId d)"

interpretation organization_pages:
  paged_endpoint omv_created omv_key organizations_of_user listActiveOrganizationsForUser
  by unfold_locales (simp add: listActiveOrganizationsForUser_def)

section \<open>The service\<close>

record organization_options = limiter_options +
  org_windowSeconds :: nat
  org_createPerUserMax :: nat

text \<open>The public views; their time stamps are the instants in milliseconds.\<close>

record organization_dto =
  od_id :: string
  od_name :: string
  od_slug :: string
  od_type :: organization_type
  od_status :: organization_status
  od_createdAt :: date
  od_updatedAt :: date

record role_summary =
  rs_id :: string
  rs_key :: role_key
  rs_name :: string

record membership_summary =
  ms_id :: string
  ms_status :: membership_status
  ms_role :: role_summary
  ms_joinedAt :: date
  ms_createdAt :: date

definition toOrganization :: "organization_row \<Rightarrow> organization_dto" where
  "toOrganization row =
    \<lparr>od_id = org_id row, od_name = org_name row, od_slug = org_slug row, od_type = org_type row,
     od_status = org_status row, od_createdAt = toDate (org_createdAt row),
     od_updatedAt = toDate (org_updatedAt row)\<rparr>"

definition toRoleSummary :: "role_row \<Rightarrow> role_summary" where
  "toRoleSummary role = \<lparr>rs_id = role_id role, rs_key = role_key role, rs_name = role_name role\<rparr>"

definition toMembershipSummary :: "membership_row \<Rightarrow> role_row \<Rightarrow> membership_summary" where
  "toMembershipSummary membership role =
    \<lparr>ms_id = mem_id membership, ms_status = mem_status membership, ms_role = toRoleSummary role,
     ms_joinedAt = toDate (mem_joinedAt membership), ms_createdAt = toDate (mem_createdAt membership)\<rparr>"

definition toView :: "organization_membership_view \<Rightarrow> organization_dto \<times> membership_summary" where
  "toView v = (toOrganization (omv_organization v), toMembershipSummary (omv_membership v) (omv_role v))"

definition createOrganization ::
  "organization_options \<Rightarrow> string \<Rightarrow> string \<Rightarrow> string option \<Rightarrow> (organization_dto \<times> membership_summary) api" where
  "createOrganization opts userId name slug =
    thenP (enforceMutationRateLimit (limiter_options.truncate opts) (''rl:org:create:user:'' @ userId)
        (org_createPerUserMax opts) (org_windowSeconds opts))
   (bindP (createTeamOrganization userId name slug) (\<lambda>v. ret (toView v)))"

definition listOrganizations ::
  "string \<Rightarrow> nat \<Rightarrow> string option \<Rightarrow> (organization_dto \<times> membership_summary) page api" where
  "listOrganizations userId limit cursor =
    (case decodePageCursor cursor of
       Inl e \<Rightarrow> throw e
     | Inr c \<Rightarrow>
         bindP (select (\<lambda>d. listActiveOrganizationsForUser userId d c limit)) (\<lambda>rows.
           ret (cut_page omv_created omv_key toView limit rows)))"

definition readOrganization :: "string \<Rightarrow> string \<Rightarrow> (organization_dto \<times> membership_summary) api" where
  "readOrganization userId organizationId =
    bindP (resolveOrganizationContext userId organizationId) (\<lambda>context.
    bindP (findPermissionKeysForRole (role_id (cx_role context))) (\<lambda>permissionKeys.
    thenP (guardP (OrgRead \<in> set permissionKeys) permissionDeniedError)
      (ret (toOrganization (cx_organization context),
            toMembershipSummary (cx_membership context) (cx_role context)))))"

section \<open>Invariants\<close>

text \<open>\<open>owned\<close>: every organization has an active Owner; \<open>planned\<close>: every organization has a plan.\<close>

definition active_owner :: "string \<Rightarrow> membership_row \<Rightarrow> bool" where
  "active_owner organizationId m =
    (mem_organizationId m = organizationId \<and> mem_status m = MemActive \<and> mem_roleId m = ROLE_IDS Owner)"

definition owned :: "database \<Rightarrow> bool" where
  "owned d = list_all (\<lambda>g. list_ex (active_owner (org_id g)) (memberships d)) (organizations d)"

definition planned :: "database \<Rightarrow> bool" where
  "planned d = list_all (\<lambda>g. list_ex (\<lambda>p. op_organizationId p = org_id g) (organizationPlans d)) (organizations d)"

lemma owned_iff: "owned d \<longleftrightarrow> (\<forall>g\<in>set (organizations d). \<exists>m\<in>set (memberships d). active_owner (org_id g) m)"
  by (auto simp: owned_def list_all_iff list_ex_iff)

lemma planned_iff:
  "planned d \<longleftrightarrow> (\<forall>g\<in>set (organizations d). \<exists>p\<in>set (organizationPlans d). op_organizationId p = org_id g)"
  by (auto simp: planned_def list_all_iff list_ex_iff)

text \<open>The tables after provisioning, and what the two invariants say of them.\<close>

definition provisioned :: "database \<Rightarrow> organization_row \<Rightarrow> membership_row \<Rightarrow> organization_plan_row \<Rightarrow> database" where
  "provisioned d g m p =
    d\<lparr>organizations := organizations d @ [g], memberships := memberships d @ [m],
      organizationPlans := organizationPlans d @ [p]\<rparr>"

definition provisions :: "organization_type \<Rightarrow> string \<Rightarrow> string \<Rightarrow> string \<Rightarrow>
  organization_row \<Rightarrow> membership_row \<Rightarrow> organization_plan_row \<Rightarrow> bool" where
  "provisions typ name slug userId g m p =
    (org_type g = typ \<and> org_name g = name \<and> org_slug g = slug \<and> org_status g = OrgActive \<and>
     org_createdByUserId g = userId \<and>
     mem_userId m = userId \<and> active_owner (org_id g) m \<and>
     op_organizationId p = org_id g \<and> op_planKey p = Free)"

lemma owned_provisioned:
  "owned d \<Longrightarrow> provisions typ name slug u g m p \<Longrightarrow> owned (provisioned d g m p)"
  by (auto simp: owned_iff provisioned_def provisions_def)

lemma planned_provisioned:
  "planned d \<Longrightarrow> provisions typ name slug u g m p \<Longrightarrow> planned (provisioned d g m p)"
  by (auto simp: planned_iff provisioned_def provisions_def)

lemma wp_insertOrganization:
  assumes "\<And>g m p w'. provisions typ name slug u g m p \<Longrightarrow> db w' = provisioned (db w) g m p \<Longrightarrow>
      db_ok (db w') \<Longrightarrow> nowMs w' = nowMs w \<Longrightarrow> pgNow w' = pgNow w \<Longrightarrow> outbox w' = outbox w \<Longrightarrow>
      Q (g, m) w'"
    and "\<And>e w'. E e w'"
  shows "wp (insertOrganizationWithOwnerMembership typ name slug u u) Q E w"
  unfolding insertOrganizationWithOwnerMembership_def Let_def
  by (simp add: wp_simps assms(2))
    (auto intro!: assms(1) simp: provisions_def provisioned_def active_owner_def DEFAULT_PLAN_KEY_def)

lemma wp_resolveUniqueSlug:
  assumes "slug_pattern base"
    and "\<And>s w'. db w' = db w \<Longrightarrow> nowMs w' = nowMs w \<Longrightarrow> pgNow w' = pgNow w \<Longrightarrow> slug_pattern s \<Longrightarrow> Q s w'"
  shows "wp (resolveUniqueSlug base) Q E w"
  using resolve_slug_from_spec [OF assms(1,1), of 2 w] assms(2)
  by (auto simp: wp_def resolveUniqueSlug_def)

lemma wp_loadOwnerRole:
  assumes "\<And>r. role_id r = i \<Longrightarrow> r \<in> set (roles (db w)) \<Longrightarrow> Q r w" and "\<And>e. E e w"
  shows "wp (loadOwnerRole i) Q E w"
  unfolding loadOwnerRole_def
  by (auto simp: wp_simps split: option.split intro!: assms dest!: find_SomeD)

lemma wp_isSlugTaken [wp_simps]: "wp (isSlugTaken slug) Q E = (\<lambda>w. Q (slug_taken (db w) slug) w)"
  by (simp add: wp_def isSlugTaken_apply fun_eq_iff)

lemma wp_createTeamOrganization:
  assumes "\<And>slug g m p r w'. provisions Team name slug u g m p \<Longrightarrow> db w' = provisioned (db w) g m p \<Longrightarrow>
      db_ok (db w') \<Longrightarrow> (case requested of Some (c # s) \<Rightarrow> slug = c # s | _ \<Rightarrow> slug_pattern slug) \<Longrightarrow>
      Q \<lparr>omv_organization = g, omv_membership = m, omv_role = r\<rparr> w'"
    and "\<And>e w'. db w' = db w \<Longrightarrow> E e w'"
  shows "wp (createTeamOrganization u name requested) Q E w"
proof -
  have insert: "wp (insertOrganizationWithOwnerMembership Team name slug u u)
      (\<lambda>x. wp (loadOwnerRole (mem_roleId (snd x)))
        (\<lambda>role. Q \<lparr>omv_organization = fst x, omv_membership = snd x, omv_role = role\<rparr>) E') E' v"
    if "\<And>e w'. E' e w'" "db v = db w" "case requested of Some (c # s) \<Rightarrow> slug = c # s | _ \<Rightarrow> slug_pattern slug"
    for slug v E'
    using that by (auto intro!: wp_insertOrganization wp_loadOwnerRole assms(1))
  show ?thesis
  proof (cases "\<exists>c s. requested = Some (c # s)")
    case True
    then obtain c s where r: "requested = Some (c # s)" by auto
    show ?thesis
      unfolding createTeamOrganization_def r
      by (auto simp: wp_simps case_prod_beta assms(2) r intro!: insert)
  next
    case False
    then have n: "requested = None \<or> requested = Some []" by (metis list.exhaust option.exhaust)
    then show ?thesis
      unfolding createTeamOrganization_def using slugify_shape
      by (auto simp: wp_simps case_prod_beta assms(2) intro!: wp_resolveUniqueSlug insert)
  qed
qed

lemma wp_enforceMutationRateLimit:
  assumes "\<And>w'. same_but_limiter w w' \<Longrightarrow> Q () w'"
    and "\<And>e w'. same_but_limiter w w' \<Longrightarrow> e = rateLimitedError \<or> e = rateLimitStoreUnavailableError \<Longrightarrow> E e w'"
  shows "wp (enforceMutationRateLimit opts k l s) Q E w"
  by (cases rule: enforceMutationRateLimit_cases [of opts k l s w]) (auto simp: wp_def assms)

lemma keeps_createTeamOrganization:
  assumes "\<And>d slug g m p. P d \<Longrightarrow> provisions Team name slug u g m p \<Longrightarrow>
    db_ok (provisioned d g m p) \<Longrightarrow> P (provisioned d g m p)"
  shows "keeps P (createTeamOrganization u name requested)"
  unfolding preserves_wp by (auto intro!: wp_createTeamOrganization intro: assms)

lemma keeps_createOrganization:
  assumes "\<And>d slug g m p. P d \<Longrightarrow> provisions Team name slug u g m p \<Longrightarrow>
    db_ok (provisioned d g m p) \<Longrightarrow> P (provisioned d g m p)"
  shows "keeps P (createOrganization opts u name slug)"
  unfolding createOrganization_def
  by (intro preserve_intros keeps_createTeamOrganization) (rule assms)

lemma keeps_listOrganizations [preserve_intros]: "keeps P (listOrganizations u limit cursor)"
  unfolding listOrganizations_def by (intro preserve_intros)

lemma keeps_readOrganization [preserve_intros]: "keeps P (readOrganization u org)"
  unfolding readOrganization_def resolveOrganizationContext_def findOrganizationById_def
    findActiveMembership_def findPermissionKeysForRole_def
  by (intro preserve_intros)

lemma distinct_organizations_of_user:
  assumes "db_ok d"
  shows "distinct (map omv_key (organizations_of_user u d))"
proof -
  have "distinct (map (\<lambda>(x, g). mem_id x)
      (inner_join (\<lambda>m g. mem_organizationId m = org_id g) (memberships d) (organizations d)))"
    by (rule distinct_inner_join [OF db_ok_memberships db_ok_organizations]) (simp_all add: assms)
  then have "distinct (map (\<lambda>(x, y). (\<lambda>(x, g). mem_id x) x)
      (inner_join (\<lambda>(m, g) r. mem_roleId m = role_id r)
        (inner_join (\<lambda>m g. mem_organizationId m = org_id g) (memberships d) (organizations d)) (roles d)))"
    by (rule distinct_inner_join [where ky = role_id]) (use assms in \<open>auto simp: db_ok_iff\<close>)
  then have "distinct (map (\<lambda>((m, g), r). mem_id m) (filter (\<lambda>((m, g), r). mem_userId m = u \<and>
      mem_status m = MemActive \<and> org_status g = OrgActive)
      (inner_join (\<lambda>(m, g) r. mem_roleId m = role_id r)
        (inner_join (\<lambda>m g. mem_organizationId m = org_id g) (memberships d) (organizations d)) (roles d))))"
    by (intro distinct_map_filter) (simp add: case_prod_unfold)
  then show ?thesis
    by (simp add: organizations_of_user_def omv_key_def comp_def case_prod_unfold)
qed

section \<open>Properties\<close>

text \<open>
  C9. Creating a team either adds exactly one active organization with the requested slug
  (or one of the slug shape), the creator's active Owner membership and a Free plan row, with
  every constraint satisfied, or raises and leaves the tables as they were.
\<close>

theorem createTeamOrganization_spec:
  "case createTeamOrganization u name requested w of
     (Inr v, w') \<Rightarrow> \<exists>slug g m p. provisions Team name slug u g m p \<and>
       db w' = provisioned (db w) g m p \<and> db_ok (db w') \<and>
       omv_organization v = g \<and> omv_membership v = m \<and>
       (case requested of Some (c # s) \<Rightarrow> slug = c # s | _ \<Rightarrow> slug_pattern slug)
   | (Inl e, w') \<Rightarrow> db w' = db w"
proof -
  have "wp (createTeamOrganization u name requested)
      (\<lambda>v w'. \<exists>slug g m p. provisions Team name slug u g m p \<and>
       db w' = provisioned (db w) g m p \<and> db_ok (db w') \<and>
       omv_organization v = g \<and> omv_membership v = m \<and>
       (case requested of Some (c # s) \<Rightarrow> slug = c # s | _ \<Rightarrow> slug_pattern slug))
      (\<lambda>e w'. db w' = db w) w"
    by (rule wp_createTeamOrganization) auto
  then show ?thesis by (auto simp: wp_def split: prod.splits sum.splits)
qed

end
