(* ===== verification/Members.thy ===== *)
theory Members
  imports Organizations
begin

text \<open>
  The members of an organization (\<^verbatim>\<open>organization.repo.ts\<close>, \<^verbatim>\<open>member.service.ts\<close>): listing, role
  change and removal, each guarded by the owner-transition policy inside its transaction, and the
  invariant they protect: an organization never loses its last active Owner.
\<close>

section \<open>The repository\<close>

definition active_owner_ids :: "database \<Rightarrow> string \<Rightarrow> string list" where
  "active_owner_ids d organizationId =
    map mem_id (sort_key mem_id (filter (\<lambda>m. mem_organizationId m = organizationId \<and>
      mem_status m = MemActive \<and> mem_roleId m = ROLE_IDS Owner) (memberships d)))"

definition lockActiveOwners :: "string \<Rightarrow> string list api" where
  "lockActiveOwners organizationId = select (\<lambda>d. active_owner_ids d organizationId)"

record member_view =
  mv_membership :: membership_row
  mv_role :: role_row
  mv_user :: user_row

definition member_views :: "database \<Rightarrow> member_view list" where
  "member_views d =
    map (\<lambda>((m, r), u). \<lparr>mv_membership = m, mv_role = r, mv_user = u\<rparr>)
      (inner_join (\<lambda>(m, r) u. mem_userId m = u_id u)
        (inner_join (\<lambda>m r. mem_roleId m = role_id r) (memberships d) (roles d)) (users d))"

definition loadMemberView :: "string \<Rightarrow> member_view option api" where
  "loadMemberView membershipId =
    select (\<lambda>d. select_first (\<lambda>v. mem_id (mv_membership v) = membershipId) (member_views d))"

definition recordMemberAuditEvent ::
  "string \<Rightarrow> string \<Rightarrow> string \<Rightarrow> metadata \<Rightarrow> request_ctx \<Rightarrow> unit api" where
  "recordMemberAuditEvent organizationId actorUserId eventType md ctx =
    insertSecurityEvent (Some actorUserId) None (Some organizationId) UserActor eventType md ctx"

definition mv_created :: "member_view \<Rightarrow> timestamptz" where
  "mv_created v = mem_createdAt (mv_membership v)"

definition mv_key :: "member_view \<Rightarrow> string" where
  "mv_key v = mem_id (mv_membership v)"

definition members_of :: "string \<Rightarrow> database \<Rightarrow> member_view list" where
  "members_of organizationId d =
    filter (\<lambda>v. mem_organizationId (mv_membership v) = organizationId \<and>
      mem_status (mv_membership v) = MemActive) (member_views d)"

definition listActiveMembers ::
  "string \<Rightarrow> database \<Rightarrow> (date \<times> string) option \<Rightarrow> nat \<Rightarrow> member_view list" where
  "listActiveMembers organizationId d cursor limit =
    page_query mv_created mv_key cursor limit (members_of organizationId d)"

interpretation member_pages: paged_endpoint mv_created mv_key members_of listActiveMembers
  by unfold_locales (simp add: listActiveMembers_def)

definition set_role :: "string \<Rightarrow> string \<Rightarrow> date \<Rightarrow> database \<Rightarrow> database" where
  "set_role membershipId newRoleId now d =
    d\<lparr>memberships := update_where (\<lambda>m. mem_id m = membershipId)
      (\<lambda>m. m\<lparr>mem_roleId := newRoleId, mem_updatedAt := fromDate now\<rparr>) (memberships d)\<rparr>"

definition changeMemberRole ::
  "string \<Rightarrow> string \<Rightarrow> string \<Rightarrow> string \<Rightarrow> string \<Rightarrow> request_ctx \<Rightarrow> member_view api" where
  "changeMemberRole organizationId membershipId newRoleId actorUserId actorMembershipId ctx =
    transaction
     (bindP (lockActiveOwners organizationId) (\<lambda>activeOwnerIds.
      bindP (select (\<lambda>d. select_first (\<lambda>m. mem_id m = membershipId) (memberships d))) (\<lambda>target.
      case target of
        None \<Rightarrow> throw memberNotFoundError
      | Some t \<Rightarrow>
          thenP (guardP (mem_organizationId t = organizationId \<and> mem_status t = MemActive)
            memberNotFoundError)
         (thenP (whenP (roleChangeTouchesOwner (mem_roleId t) newRoleId)
            (assertOwnerChangeAuthority (actorMembershipId \<in> set activeOwnerIds)))
         (thenP (guardP (\<not> (mem_roleId t = ROLE_IDS Owner \<and> newRoleId \<noteq> ROLE_IDS Owner \<and>
              length activeOwnerIds \<le> 1)) lastOwnerRequiredError)
         (bindP (getsP nowMs) (\<lambda>now.
          thenP (sql (set_role membershipId newRoleId now))
         (thenP (recordMemberAuditEvent organizationId actorUserId ''org.member_role_changed''
            [(''membershipId'', JStr membershipId), (''targetUserId'', JStr (mem_userId t)),
             (''fromRoleId'', JStr (mem_roleId t)), (''toRoleId'', JStr newRoleId)] ctx)
         (bindP (loadMemberView membershipId) (\<lambda>view.
            case view of
              None \<Rightarrow> throw (ThrownError ''Member view missing after role change.'')
            | Some v \<Rightarrow> ret v))))))))))"

definition set_removed :: "string \<Rightarrow> string \<Rightarrow> date \<Rightarrow> database \<Rightarrow> database" where
  "set_removed membershipId actorUserId now d =
    d\<lparr>memberships := update_where (\<lambda>m. mem_id m = membershipId)
      (\<lambda>m. m\<lparr>mem_status := MemRemoved, mem_removedAt := Some (fromDate now),
             mem_removedByUserId := Some actorUserId, mem_updatedAt := fromDate now\<rparr>)
      (memberships d)\<rparr>"

definition removeMember ::
  "string \<Rightarrow> string \<Rightarrow> string \<Rightarrow> string \<Rightarrow> request_ctx \<Rightarrow> member_view api" where
  "removeMember organizationId membershipId actorUserId actorMembershipId ctx =
    transaction
     (bindP (lockActiveOwners organizationId) (\<lambda>activeOwnerIds.
      bindP (select (\<lambda>d. select_first (\<lambda>m. mem_id m = membershipId) (memberships d))) (\<lambda>target.
      case target of
        None \<Rightarrow> throw memberNotFoundError
      | Some t \<Rightarrow>
          thenP (guardP (mem_organizationId t = organizationId) memberNotFoundError)
         (if mem_status t = MemRemoved
          then bindP (loadMemberView membershipId) (\<lambda>existing.
            case existing of
              None \<Rightarrow> throw (ThrownError ''Member view missing for removed membership.'')
            | Some v \<Rightarrow> ret v)
          else
            thenP (whenP (mem_roleId t = ROLE_IDS Owner)
              (assertOwnerChangeAuthority (actorMembershipId \<in> set activeOwnerIds)))
           (thenP (guardP (\<not> (mem_roleId t = ROLE_IDS Owner \<and> length activeOwnerIds \<le> 1))
              lastOwnerRequiredError)
           (bindP (getsP nowMs) (\<lambda>now.
            thenP (sql (set_removed membershipId actorUserId now))
           (thenP (recordMemberAuditEvent organizationId actorUserId ''org.member_removed''
              [(''membershipId'', JStr membershipId), (''targetUserId'', JStr (mem_userId t)),
               (''roleId'', JStr (mem_roleId t))] ctx)
           (bindP (loadMemberView membershipId) (\<lambda>view.
              case view of
                None \<Rightarrow> throw (ThrownError ''Member view missing after removal.'')
              | Some v \<Rightarrow> ret v))))))))))"

section \<open>The service\<close>

record member_options = limiter_options +
  mo_windowSeconds :: nat
  mo_mutationPerUserMax :: nat

record user_summary =
  us_id :: string
  us_email :: string
  us_displayName :: string

record member_dto =
  md_id :: string
  md_user :: user_summary
  md_role :: role_summary
  md_status :: membership_status
  md_joinedAt :: date
  md_createdAt :: date
  md_removedAt :: "date option"

definition toUserSummary :: "user_row \<Rightarrow> user_summary" where
  "toUserSummary user = \<lparr>us_id = u_id user, us_email = u_email user, us_displayName = u_displayName user\<rparr>"

definition toMember :: "member_view \<Rightarrow> member_dto" where
  "toMember v =
    \<lparr>md_id = mem_id (mv_membership v), md_user = toUserSummary (mv_user v),
     md_role = toRoleSummary (mv_role v), md_status = mem_status (mv_membership v),
     md_joinedAt = toDate (mem_joinedAt (mv_membership v)),
     md_createdAt = toDate (mem_createdAt (mv_membership v)),
     md_removedAt = map_option toDate (mem_removedAt (mv_membership v))\<rparr>"

record list_input =
  li_userId :: string
  li_organizationId :: string
  li_requestId :: "string option"
  li_limit :: nat
  li_cursor :: "string option"

record change_role_input =
  cri_userId :: string
  cri_organizationId :: string
  cri_membershipId :: string
  cri_newRole :: role_key
  cri_ctx :: request_ctx

record remove_member_input =
  rmi_userId :: string
  rmi_organizationId :: string
  rmi_membershipId :: string
  rmi_ctx :: request_ctx

definition listMembers_body :: "list_input \<Rightarrow> organization_actor \<Rightarrow> member_dto page api" where
  "listMembers_body input actor =
    (case decodePageCursor (li_cursor input) of
       Inl e \<Rightarrow> throw e
     | Inr c \<Rightarrow>
         bindP (select (\<lambda>d. listActiveMembers (act_organizationId actor) d c (li_limit input))) (\<lambda>rows.
           ret (cut_page mv_created mv_key toMember (li_limit input) rows)))"

definition listMembers :: "list_input \<Rightarrow> member_dto page api" where
  "listMembers input =
    bindP (requireMembership (li_userId input) (li_organizationId input) (li_requestId input)) (\<lambda>actor.
    thenP (requirePermission actor MembersRead) (listMembers_body input actor))"

definition changeMemberRole_body ::
  "member_options \<Rightarrow> change_role_input \<Rightarrow> organization_actor \<Rightarrow> member_dto api" where
  "changeMemberRole_body opts input actor =
    thenP (enforceMutationRateLimit (limiter_options.truncate opts)
        (''rl:member:mutate:user:'' @ act_userId actor) (mo_mutationPerUserMax opts) (mo_windowSeconds opts))
   (bindP (changeMemberRole (act_organizationId actor) (cri_membershipId input)
        (ROLE_IDS (cri_newRole input)) (act_userId actor) (act_membershipId actor) (cri_ctx input))
      (\<lambda>view. ret (toMember view)))"

definition changeMemberRole_service :: "member_options \<Rightarrow> change_role_input \<Rightarrow> member_dto api" where
  "changeMemberRole_service opts input =
    bindP (requireMembership (cri_userId input) (cri_organizationId input) (ctx_requestId (cri_ctx input)))
     (\<lambda>actor. thenP (requirePermission actor MembersChangeRole) (changeMemberRole_body opts input actor))"

definition removeMember_body ::
  "member_options \<Rightarrow> remove_member_input \<Rightarrow> organization_actor \<Rightarrow> member_dto api" where
  "removeMember_body opts input actor =
    thenP (enforceMutationRateLimit (limiter_options.truncate opts)
        (''rl:member:mutate:user:'' @ act_userId actor) (mo_mutationPerUserMax opts) (mo_windowSeconds opts))
   (bindP (removeMember (act_organizationId actor) (rmi_membershipId input)
        (act_userId actor) (act_membershipId actor) (rmi_ctx input))
      (\<lambda>view. ret (toMember view)))"

definition removeMember_service :: "member_options \<Rightarrow> remove_member_input \<Rightarrow> member_dto api" where
  "removeMember_service opts input =
    bindP (requireMembership (rmi_userId input) (rmi_organizationId input) (ctx_requestId (rmi_ctx input)))
     (\<lambda>actor. thenP (requirePermission actor MembersRemove) (removeMember_body opts input actor))"

interpretation list_members: guarded_operation listMembers li_userId li_organizationId li_requestId
    MembersRead listMembers_body
  by unfold_locales (simp add: listMembers_def)

interpretation change_member_role: guarded_operation "changeMemberRole_service opts" cri_userId
    cri_organizationId "\<lambda>i. ctx_requestId (cri_ctx i)" MembersChangeRole "changeMemberRole_body opts"
  by unfold_locales (simp add: changeMemberRole_service_def)

interpretation remove_member: guarded_operation "removeMember_service opts" rmi_userId
    rmi_organizationId "\<lambda>i. ctx_requestId (rmi_ctx i)" MembersRemove "removeMember_body opts"
  by unfold_locales (simp add: removeMember_service_def)

section \<open>What the guards decide\<close>

definition target_in :: "database \<Rightarrow> string \<Rightarrow> string \<Rightarrow> membership_row option" where
  "target_in d organizationId membershipId =
    select_first (\<lambda>m. mem_id m = membershipId \<and> mem_organizationId m = organizationId) (memberships d)"

definition owner_count :: "database \<Rightarrow> string \<Rightarrow> nat" where
  "owner_count d organizationId = count_where (active_owner organizationId) (memberships d)"

definition is_active_owner :: "database \<Rightarrow> string \<Rightarrow> string \<Rightarrow> bool" where
  "is_active_owner d organizationId membershipId =
    list_ex (\<lambda>m. mem_id m = membershipId \<and> active_owner organizationId m) (memberships d)"

text \<open>
  The verdicts on changing a role and on removing a member: \<open>None\<close> lets the operation through.
\<close>

definition change_verdict :: "database \<Rightarrow> string \<Rightarrow> string \<Rightarrow> role_key \<Rightarrow> string \<Rightarrow> error option" where
  "change_verdict d organizationId membershipId newRole actorMembershipId =
    (case target_in d organizationId membershipId of
       None \<Rightarrow> Some memberNotFoundError
     | Some t \<Rightarrow>
         if mem_status t \<noteq> MemActive then Some memberNotFoundError
         else if (active_owner organizationId t \<or> newRole = Owner) \<and>
              \<not> is_active_owner d organizationId actorMembershipId
         then Some permissionDeniedError
         else if active_owner organizationId t \<and> newRole \<noteq> Owner \<and> owner_count d organizationId \<le> 1
         then Some lastOwnerRequiredError
         else None)"

definition remove_verdict :: "database \<Rightarrow> string \<Rightarrow> string \<Rightarrow> string \<Rightarrow> error option" where
  "remove_verdict d organizationId membershipId actorMembershipId =
    (case target_in d organizationId membershipId of
       None \<Rightarrow> Some memberNotFoundError
     | Some t \<Rightarrow>
         if active_owner organizationId t \<and> \<not> is_active_owner d organizationId actorMembershipId
         then Some permissionDeniedError
         else if active_owner organizationId t \<and> owner_count d organizationId \<le> 1
         then Some lastOwnerRequiredError
         else None)"

lemma active_owner_ids_simps [simp]:
  "i \<in> set (active_owner_ids d org) \<longleftrightarrow> is_active_owner d org i"
  "length (active_owner_ids d org) = owner_count d org"
  by (auto simp: active_owner_ids_def is_active_owner_def list_ex_iff owner_count_def count_where_def
      active_owner_def [abs_def])

lemma lockActiveOwners_apply [prog_simps]: "lockActiveOwners org w = (Inr (active_owner_ids (db w) org), w)"
  by (simp add: lockActiveOwners_def select_apply)

lemma wp_lockActiveOwners [wp_simps]:
  "wp (lockActiveOwners org) Q E = (\<lambda>w. Q (active_owner_ids (db w) org) w)"
  by (simp add: wp_def lockActiveOwners_apply fun_eq_iff)

lemma target_in_select:
  assumes "db_ok d"
  shows "target_in d org mid =
    (case select_first (\<lambda>m. mem_id m = mid) (memberships d) of
       None \<Rightarrow> None | Some t \<Rightarrow> if mem_organizationId t = org then Some t else None)"
proof (cases "select_first (\<lambda>m. mem_id m = mid) (memberships d)")
  case None
  then have "target_in d org mid = None"
    unfolding target_in_def find_None_iff by (auto dest: find_NoneD)
  with None show ?thesis by simp
next
  case (Some t)
  then have t: "t \<in> set (memberships d)" "mem_id t = mid" by (auto dest: find_SomeD)
  note only = distinct_key_eq [OF db_ok_memberships [OF assms] _ t(1)]
  show ?thesis
  proof (cases "mem_organizationId t = org")
    case True
    then have "target_in d org mid = Some t"
      unfolding target_in_def using t
      by (intro find_unique_key [OF db_ok_memberships [OF assms]]) auto
    with Some True show ?thesis by simp
  next
    case False
    then have "target_in d org mid = None"
      unfolding target_in_def find_None_iff using only t by metis
    with Some False show ?thesis by simp
  qed
qed

section \<open>The tables after a change\<close>

lemma db_ok_memberships_facts:
  assumes "db_ok d"
  shows "distinct (map mem_id (memberships d))"
    and "distinct (map (\<lambda>m. (mem_userId m, mem_organizationId m)) (filter active_membership (memberships d)))"
    and "mem_userId ` set (memberships d) \<subseteq> u_id ` set (users d)"
    and "mem_organizationId ` set (memberships d) \<subseteq> org_id ` set (organizations d)"
    and "mem_roleId ` set (memberships d) \<subseteq> role_id ` set (roles d)"
    and "set (somes (map mem_invitedByUserId (memberships d))) \<subseteq> u_id ` set (users d)"
    and "set (somes (map mem_removedByUserId (memberships d))) \<subseteq> u_id ` set (users d)"
  using assms unfolding db_ok_iff by simp_all

lemma update_where_values:
  "set (map k (update_where p f rs)) \<subseteq> set (map k rs) \<union> set (map k (map f rs))"
  by (auto simp: update_where_def)

lemma db_ok_set_role:
  assumes "db_ok d" and "r \<in> role_id ` set (roles d)"
  shows "db_ok (set_role mid r now d)"
  unfolding set_role_def
proof (rule db_ok_upd_memberships [OF assms(1)])
  let ?ms = "update_where (\<lambda>m. mem_id m = mid)
    (\<lambda>m. m\<lparr>mem_roleId := r, mem_updatedAt := fromDate now\<rparr>) (memberships d)"
  note old = db_ok_memberships_facts [OF assms(1)]
  show "distinct (map (\<lambda>m. (mem_userId m, mem_organizationId m)) (filter active_membership ?ms))"
    using old(2) by (simp add: active_membership_def)
  show "set (map mem_roleId ?ms) \<subseteq> set (map role_id (roles d))"
    using old(5) assms(2) by auto
qed (use db_ok_memberships_facts [OF assms(1)] in \<open>simp_all del: set_update_where set_somes flip: set_map\<close>)

lemma db_ok_set_removed:
  assumes "db_ok d" and "u \<in> u_id ` set (users d)"
  shows "db_ok (set_removed mid u now d)"
  unfolding set_removed_def
proof (rule db_ok_upd_memberships [OF assms(1)])
  let ?f = "\<lambda>m. m\<lparr>mem_status := MemRemoved, mem_removedAt := Some (fromDate now),
    mem_removedByUserId := Some u, mem_updatedAt := fromDate now\<rparr>"
  let ?ms = "update_where (\<lambda>m. mem_id m = mid) ?f (memberships d)"
  note old = db_ok_memberships_facts [OF assms(1)]
  have "filter active_membership (update_where (\<lambda>m. mem_id m = mid) ?f ms) =
      filter (\<lambda>m. active_membership m \<and> mem_id m \<noteq> mid) ms" for ms
    by (induction ms) (auto simp: update_where_def active_membership_def)
  then show "distinct (map (\<lambda>m. (mem_userId m, mem_organizationId m)) (filter active_membership ?ms))"
    using old(2) distinct_map_filter [of _ "filter active_membership (memberships d)" "\<lambda>m. mem_id m \<noteq> mid"]
    by (simp add: conj_commute)
  show "set (somes (map mem_removedByUserId ?ms)) \<subseteq> set (map u_id (users d))"
  proof
    fix x assume "x \<in> set (somes (map mem_removedByUserId ?ms))"
    then have "x = u \<or> x \<in> set (somes (map mem_removedByUserId (memberships d)))"
      by (auto simp: update_where_def image_iff split: if_splits)
    then show "x \<in> set (map u_id (users d))" using old(7) assms(2) by auto
  qed
qed (use db_ok_memberships_facts [OF assms(1)] in \<open>simp_all del: set_update_where set_somes flip: set_map\<close>)

text \<open>A membership's update keeps the organizations owned when it leaves each one an Owner.\<close>

lemma owned_update:
  assumes own: "owned d" and ids: "distinct (map mem_id (memberships d))"
    and t: "t \<in> set (memberships d)"
    and keep: "\<And>g. active_owner g t \<Longrightarrow> active_owner g (f t) \<or> 1 < owner_count d g"
    and ms: "memberships d' = update_where (\<lambda>m. mem_id m = mem_id t) f (memberships d)"
    and gs: "organizations d' = organizations d"
  shows "owned d'"
  unfolding owned_iff
proof
  fix g assume "g \<in> set (organizations d')"
  then obtain m where m: "m \<in> set (memberships d)" "active_owner (org_id g) m"
    using own gs by (auto simp: owned_iff)
  have stays: "y \<in> set (memberships d')" if "y \<in> set (memberships d)" "mem_id y \<noteq> mem_id t" for y
    using that by (force simp: ms)
  have moved: "f t \<in> set (memberships d')" using t by (force simp: ms)
  show "\<exists>m\<in>set (memberships d'). active_owner (org_id g) m"
  proof (cases "mem_id m = mem_id t")
    case False
    with stays m show ?thesis by blast
  next
    case True
    then have "m = t" using ids m(1) t by (blast dest: distinct_key_eq)
    with keep m(2) consider "active_owner (org_id g) (f t)" | "1 < owner_count d (org_id g)" by blast
    then show ?thesis
    proof cases
      case 1
      with moved show ?thesis by blast
    next
      case 2
      then obtain y where "y \<in> set (memberships d)" "active_owner (org_id g) y" "mem_id y \<noteq> mem_id t"
        using two_matching_rows [OF ids _ t] by (auto simp: owner_count_def)
      with stays show ?thesis by blast
    qed
  qed
qed

text \<open>
  What one successful role change or removal does to the tables: the target's row, and one event.
\<close>

definition role_changed :: "string \<Rightarrow> string \<Rightarrow> role_key \<Rightarrow> date \<Rightarrow> database \<Rightarrow> database \<Rightarrow> bool" where
  "role_changed org mid k now d d' =
    (\<exists>e. d' = (set_role mid (ROLE_IDS k) now d)\<lparr>securityEvents := securityEvents d @ [e]\<rparr> \<and>
       se_organizationId e = Some org \<and> se_eventType e = ''org.member_role_changed'' \<and> clean_obj (se_metadata e))"

definition member_removed :: "string \<Rightarrow> string \<Rightarrow> string \<Rightarrow> date \<Rightarrow> database \<Rightarrow> database \<Rightarrow> bool" where
  "member_removed org mid u now d d' =
    (\<exists>e. d' = (set_removed mid u now d)\<lparr>securityEvents := securityEvents d @ [e]\<rparr> \<and>
       se_organizationId e = Some org \<and> se_eventType e = ''org.member_removed'' \<and> clean_obj (se_metadata e))"

lemma role_changedI:
  "d' = (set_role mid (ROLE_IDS k) now d)\<lparr>securityEvents := securityEvents d @ [e]\<rparr> \<Longrightarrow>
   se_organizationId e = Some org \<Longrightarrow> se_eventType e = ''org.member_role_changed'' \<Longrightarrow> se_metadata e = sanitizeSecurityMetadata md \<Longrightarrow>
   role_changed org mid k now d d'"
  by (auto simp: role_changed_def)

lemma member_removedI:
  "d' = (set_removed mid u now d)\<lparr>securityEvents := securityEvents d @ [e]\<rparr> \<Longrightarrow>
   se_organizationId e = Some org \<Longrightarrow> se_eventType e = ''org.member_removed'' \<Longrightarrow> se_metadata e = sanitizeSecurityMetadata md \<Longrightarrow>
   member_removed org mid u now d d'"
  by (auto simp: member_removed_def)

lemma set_role_fields [simp]:
  "securityEvents (set_role mid r now d) = securityEvents d"
  "organizations (set_role mid r now d) = organizations d"
  "users (set_role mid r now d) = users d" "roles (set_role mid r now d) = roles d"
  "sessions (set_role mid r now d) = sessions d"
  by (simp_all add: set_role_def)

lemma set_removed_fields [simp]:
  "securityEvents (set_removed mid u now d) = securityEvents d"
  "organizations (set_removed mid u now d) = organizations d"
  "users (set_removed mid u now d) = users d" "roles (set_removed mid u now d) = roles d"
  "sessions (set_removed mid u now d) = sessions d"
  by (simp_all add: set_removed_def)

lemma wp_loadMemberView:
  assumes "\<And>v. v \<in> set (member_views (db w)) \<Longrightarrow> mem_id (mv_membership v) = mid \<Longrightarrow> Q (Some v) w"
    and "Q None w"
  shows "wp (loadMemberView mid) Q E w"
  using assms
  by (cases "select_first (\<lambda>v. mem_id (mv_membership v) = mid) (member_views (db w))")
    (auto simp: loadMemberView_def wp_simps dest!: find_SomeD)

lemma find_membership:
  assumes "db_ok d"
  shows "(case select_first (\<lambda>m. mem_id m = mid) (memberships d) of
      None \<Rightarrow> P | Some t \<Rightarrow> if mem_organizationId t = org then Q t else P) =
    (case target_in d org mid of None \<Rightarrow> P | Some t \<Rightarrow> Q t)"
  by (simp add: target_in_select [OF assms] split: option.split)

lemma target_inD:
  "target_in d org mid = Some t \<Longrightarrow>
    t \<in> set (memberships d) \<and> mem_id t = mid \<and> mem_organizationId t = org"
  by (auto simp: target_in_def dest: find_SomeD)

lemma active_owner_target:
  "target_in d org mid = Some t \<Longrightarrow> mem_status t = MemActive \<Longrightarrow>
    active_owner org t = (mem_roleId t = ROLE_IDS Owner)"
  by (auto simp: active_owner_def dest: target_inD)

text \<open>The operations in terms of their verdicts, as far as what follows the guards is concerned.\<close>

lemma wp_changeMemberRole:
  assumes ok: "db_ok (db w)"
    and err: "\<And>e. change_verdict (db w) org mid k actor = Some e \<Longrightarrow> E e w"
    and fail: "\<And>e w'. db w' = db w \<Longrightarrow> change_verdict (db w) org mid k actor = None \<Longrightarrow> E e w'"
    and through: "\<And>t v w'. change_verdict (db w) org mid k actor = None \<Longrightarrow> target_in (db w) org mid = Some t \<Longrightarrow>
      role_changed org mid k (nowMs w) (db w) (db w') \<Longrightarrow> db_ok (db w') \<Longrightarrow>
      mem_id (mv_membership v) = mid \<Longrightarrow> v \<in> set (member_views (db w')) \<Longrightarrow> Q v w'"
  shows "wp (changeMemberRole org mid (ROLE_IDS k) u actor ctx) Q E w"
proof (cases "select_first (\<lambda>m. mem_id m = mid) (memberships (db w))")
  case None
  then show ?thesis
    by (auto simp: changeMemberRole_def wp_simps change_verdict_def target_in_select [OF ok] intro!: err)
next
  case sel: (Some t)
  show ?thesis
  proof (cases "mem_organizationId t = org \<and> mem_status t = MemActive")
    case False
    with sel show ?thesis
      by (auto simp: changeMemberRole_def wp_simps change_verdict_def target_in_select [OF ok] intro!: err)
  next
    case True
    with sel have target: "target_in (db w) org mid = Some t" by (simp add: target_in_select [OF ok])
    note own = active_owner_target [OF target conjunct2 [OF True]]
    have verdict: "change_verdict (db w) org mid k actor =
      (if (active_owner org t \<or> k = Owner) \<and> \<not> is_active_owner (db w) org actor then Some permissionDeniedError
       else if active_owner org t \<and> k \<noteq> Owner \<and> owner_count (db w) org \<le> 1 then Some lastOwnerRequiredError
       else None)"
      using True by (simp add: change_verdict_def target)
    show ?thesis
    proof (cases "change_verdict (db w) org mid k actor")
      case None
      have guards: "roleChangeTouchesOwner (mem_roleId t) (ROLE_IDS k) \<longrightarrow> is_active_owner (db w) org actor"
        "\<not> (mem_roleId t = ROLE_IDS Owner \<and> ROLE_IDS k \<noteq> ROLE_IDS Owner \<and> owner_count (db w) org \<le> 1)"
        using None verdict own by (auto simp: roleChangeTouchesOwner_def split: if_splits)
      show ?thesis
        unfolding changeMemberRole_def
        using sel True guards
        by (simp add: wp_simps assertOwnerChangeAuthority_def)
          (auto simp: recordMemberAuditEvent_def wp_simps intro: role_changedI
            intro!: wp_insertSecurityEvent wp_loadMemberView through [OF None target] fail [OF _ None])
    next
      case (Some e)
      then show ?thesis
        using sel True verdict
        by (auto simp: changeMemberRole_def wp_simps roleChangeTouchesOwner_def
            assertOwnerChangeAuthority_def own split: if_splits intro!: err)
    qed
  qed
qed

lemma wp_removeMember:
  assumes ok: "db_ok (db w)"
    and err: "\<And>e. remove_verdict (db w) org mid actor = Some e \<Longrightarrow> E e w"
    and fail: "\<And>e w'. db w' = db w \<Longrightarrow> remove_verdict (db w) org mid actor = None \<Longrightarrow> E e w'"
    and idle: "\<And>t v. remove_verdict (db w) org mid actor = None \<Longrightarrow> target_in (db w) org mid = Some t \<Longrightarrow>
      mem_status t = MemRemoved \<Longrightarrow> mem_id (mv_membership v) = mid \<Longrightarrow> v \<in> set (member_views (db w)) \<Longrightarrow> Q v w"
    and through: "\<And>t v w'. remove_verdict (db w) org mid actor = None \<Longrightarrow> target_in (db w) org mid = Some t \<Longrightarrow>
      mem_status t = MemActive \<Longrightarrow> member_removed org mid u (nowMs w) (db w) (db w') \<Longrightarrow> db_ok (db w') \<Longrightarrow>
      mem_id (mv_membership v) = mid \<Longrightarrow> v \<in> set (member_views (db w')) \<Longrightarrow> Q v w'"
  shows "wp (removeMember org mid u actor ctx) Q E w"
proof (cases "select_first (\<lambda>m. mem_id m = mid) (memberships (db w))")
  case None
  then show ?thesis
    by (auto simp: removeMember_def wp_simps remove_verdict_def target_in_select [OF ok] intro!: err)
next
  case sel: (Some t)
  show ?thesis
  proof (cases "mem_organizationId t = org")
    case False
    with sel show ?thesis
      by (auto simp: removeMember_def wp_simps remove_verdict_def target_in_select [OF ok] intro!: err)
  next
    case True
    with sel have target: "target_in (db w) org mid = Some t" by (simp add: target_in_select [OF ok])
    show ?thesis
    proof (cases "mem_status t")
      case MemRemoved
      then have none: "remove_verdict (db w) org mid actor = None"
        by (simp add: remove_verdict_def target active_owner_def)
      show ?thesis
        unfolding removeMember_def using sel True MemRemoved
        by (simp add: wp_simps) (auto simp: wp_simps intro!: wp_loadMemberView idle [OF none target] fail [OF _ none])
    next
      case MemActive
      note own = active_owner_target [OF target MemActive]
      have verdict: "remove_verdict (db w) org mid actor =
        (if active_owner org t \<and> \<not> is_active_owner (db w) org actor then Some permissionDeniedError
         else if active_owner org t \<and> owner_count (db w) org \<le> 1 then Some lastOwnerRequiredError else None)"
        by (simp add: remove_verdict_def target)
      show ?thesis
      proof (cases "remove_verdict (db w) org mid actor")
        case None
        then have guards: "mem_roleId t = ROLE_IDS Owner \<longrightarrow> is_active_owner (db w) org actor"
          "\<not> (mem_roleId t = ROLE_IDS Owner \<and> owner_count (db w) org \<le> 1)"
          using verdict own by (auto split: if_splits)
        show ?thesis
          unfolding removeMember_def
          using sel True MemActive guards
          by (simp add: wp_simps assertOwnerChangeAuthority_def)
            (auto simp: recordMemberAuditEvent_def wp_simps intro: member_removedI
              intro!: wp_insertSecurityEvent wp_loadMemberView through [OF None target] fail [OF _ None])
      next
        case (Some e)
        then show ?thesis
          using sel True MemActive verdict
          by (auto simp: removeMember_def wp_simps assertOwnerChangeAuthority_def own
              split: if_splits intro!: err)
      qed
    qed
  qed
qed

lemma member_view_exists:
  assumes "db_ok d" and "m \<in> set (memberships d)"
  shows "\<exists>v\<in>set (member_views d). mv_membership v = m"
proof -
  note facts = db_ok_memberships_facts [OF assms(1)]
  obtain r where "r \<in> set (roles d)" "mem_roleId m = role_id r" using facts(5) assms(2) by auto
  moreover obtain u where "u \<in> set (users d)" "mem_userId m = u_id u" using facts(3) assms(2) by auto
  ultimately have "((m, r), u) \<in> set (inner_join (\<lambda>(m, r) u. mem_userId m = u_id u)
        (inner_join (\<lambda>m r. mem_roleId m = role_id r) (memberships d) (roles d)) (users d))"
    using assms(2) by auto
  then show ?thesis unfolding member_views_def by force
qed

lemma wp_loadMemberView_some:
  assumes "db_ok (db w)" and "\<exists>m\<in>set (memberships (db w)). mem_id m = mid"
    and "\<And>v. v \<in> set (member_views (db w)) \<Longrightarrow> mem_id (mv_membership v) = mid \<Longrightarrow> Q (Some v) w"
  shows "wp (loadMemberView mid) Q E w"
proof -
  obtain v where "v \<in> set (member_views (db w))" "mem_id (mv_membership v) = mid"
    using member_view_exists [OF assms(1)] assms(2) by force
  then obtain v' where "select_first (\<lambda>v. mem_id (mv_membership v) = mid) (member_views (db w)) = Some v'"
    by (cases "select_first (\<lambda>v. mem_id (mv_membership v) = mid) (member_views (db w))")
      (auto dest: find_NoneD)
  with assms(3) show ?thesis by (auto simp: loadMemberView_def wp_simps dest!: find_SomeD)
qed

lemma catalogued_role: "catalogued d \<Longrightarrow> ROLE_IDS k \<in> role_id ` set (roles d)"
proof -
  assume cat: "catalogued d"
  obtain r where r: "r \<in> set ROLE_SEED" "role_key r = k" using ROLE_SEED_surj by blast
  then have "ROLE_IDS k = role_id r" using set_ROLE_SEED by simp
  moreover have "r \<in> set (roles d)" using r cat by (simp add: catalogued_def)
  ultimately show ?thesis by (rule image_eqI)
qed

lemma changeMemberRole_through:
  assumes ok: "db_ok (db w)" and cat: "catalogued (db w)" and u: "u \<in> u_id ` set (users (db w))"
    and fresh: "newId ''sevt'' w \<notin> se_id ` set (securityEvents (db w))"
    and none: "change_verdict (db w) org mid k actor = None"
  shows "wp (changeMemberRole org mid (ROLE_IDS k) u actor ctx)
    (\<lambda>v w'. role_changed org mid k (nowMs w) (db w) (db w')) (\<lambda>e w'. False) w"
proof -
  obtain t where target: "target_in (db w) org mid = Some t" and act: "mem_status t = MemActive"
    using none by (auto simp: change_verdict_def split: option.splits if_splits)
  then have sel: "select_first (\<lambda>m. mem_id m = mid) (memberships (db w)) = Some t"
    and org: "mem_organizationId t = org"
    by (auto simp: target_in_select [OF ok] split: option.splits if_splits)
  note own = active_owner_target [OF target act]
  have guards: "roleChangeTouchesOwner (mem_roleId t) (ROLE_IDS k) \<longrightarrow> is_active_owner (db w) org actor"
    "\<not> (mem_roleId t = ROLE_IDS Owner \<and> ROLE_IDS k \<noteq> ROLE_IDS Owner \<and> owner_count (db w) org \<le> 1)"
    using none own target act by (auto simp: change_verdict_def roleChangeTouchesOwner_def split: if_splits)
  have ok': "db_ok (set_role mid (ROLE_IDS k) (nowMs w) (db w))"
    by (rule db_ok_set_role [OF ok catalogued_role [OF cat]])
  have t: "t \<in> set (memberships (db w))" "mem_id t = mid" using target by (auto dest: target_inD)
  then have t': "\<exists>m\<in>set (memberships (set_role mid r now (db w))). mem_id m = mid" for r now
    by (force simp: set_role_def)
  have fresh': "newId ''sevt'' w \<noteq> se_id x" if "x \<in> set (securityEvents (db w))" for x
    using fresh that by auto
  show ?thesis
    unfolding changeMemberRole_def
    using sel org act guards ok'
    by (simp add: wp_simps assertOwnerChangeAuthority_def)
      (auto simp: recordMemberAuditEvent_def wp_simps u fresh' t(2) intro: role_changedI
        intro!: wp_insertSecurityEvent_ok wp_loadMemberView_some t')
qed

lemma removeMember_through:
  assumes ok: "db_ok (db w)" and u: "u \<in> u_id ` set (users (db w))"
    and fresh: "newId ''sevt'' w \<notin> se_id ` set (securityEvents (db w))"
    and none: "remove_verdict (db w) org mid actor = None"
    and target: "target_in (db w) org mid = Some t"
  shows "wp (removeMember org mid u actor ctx)
    (\<lambda>v w'. if mem_status t = MemActive then member_removed org mid u (nowMs w) (db w) (db w')
      else w' = w) (\<lambda>e w'. False) w"
proof -
  have sel: "select_first (\<lambda>m. mem_id m = mid) (memberships (db w)) = Some t"
    and org: "mem_organizationId t = org"
    using target by (auto simp: target_in_select [OF ok] split: option.splits if_splits)
  have t: "t \<in> set (memberships (db w))" "mem_id t = mid" using target by (auto dest: target_inD)
  show ?thesis
  proof (cases "mem_status t")
    case MemRemoved
    then show ?thesis
      unfolding removeMember_def using sel org
      by (simp add: wp_simps) (auto simp: wp_simps intro!: wp_loadMemberView_some bexI [of _ t] ok t)
  next
    case MemActive
    note own = active_owner_target [OF target MemActive]
    have guards: "mem_roleId t = ROLE_IDS Owner \<longrightarrow> is_active_owner (db w) org actor"
      "\<not> (mem_roleId t = ROLE_IDS Owner \<and> owner_count (db w) org \<le> 1)"
      using none own target by (auto simp: remove_verdict_def split: if_splits)
    have ok': "db_ok (set_removed mid u (nowMs w) (db w))" by (rule db_ok_set_removed [OF ok u])
    have t': "\<exists>m\<in>set (memberships (set_removed mid u now (db w))). mem_id m = mid" for now
      using t by (force simp: set_removed_def)
    have fresh': "newId ''sevt'' w \<noteq> se_id x" if "x \<in> set (securityEvents (db w))" for x
      using fresh that by auto
    show ?thesis
      unfolding removeMember_def
      using sel org MemActive guards ok'
      by (simp add: wp_simps assertOwnerChangeAuthority_def)
        (auto simp: recordMemberAuditEvent_def wp_simps u fresh' t(2) intro: member_removedI
          intro!: wp_insertSecurityEvent_ok wp_loadMemberView_some t')
  qed
qed

lemma owned_role_changed:
  assumes "db_ok d" and "owned d" and "change_verdict d org mid k actor = None"
    and "role_changed org mid k now d d'"
  shows "owned d'"
proof -
  obtain t where target: "target_in d org mid = Some t" and act: "mem_status t = MemActive"
    and guard: "\<not> (active_owner org t \<and> k \<noteq> Owner \<and> owner_count d org \<le> 1)"
    using assms(3) by (auto simp: change_verdict_def split: option.splits if_splits)
  have t: "t \<in> set (memberships d)" "mem_id t = mid" "mem_organizationId t = org"
    using target by (auto dest: target_inD)
  show ?thesis
  proof (rule owned_update [OF assms(2) db_ok_memberships [OF assms(1)] t(1)])
    show "memberships d' = update_where (\<lambda>m. mem_id m = mem_id t)
        (\<lambda>m. m\<lparr>mem_roleId := ROLE_IDS k, mem_updatedAt := fromDate now\<rparr>) (memberships d)"
      using assms(4) t(2) by (auto simp: role_changed_def set_role_def)
    show "organizations d' = organizations d" using assms(4) by (auto simp: role_changed_def)
    show "active_owner g (t\<lparr>mem_roleId := ROLE_IDS k, mem_updatedAt := fromDate now\<rparr>) \<or> 1 < owner_count d g"
      if "active_owner g t" for g
      using that guard t(3) by (auto simp: active_owner_def not_le)
  qed
qed

lemma owned_member_removed:
  assumes "db_ok d" and "owned d" and "remove_verdict d org mid actor = None"
    and "member_removed org mid u now d d'" and "target_in d org mid = Some t"
  shows "owned d'"
proof -
  have guard: "\<not> (active_owner org t \<and> owner_count d org \<le> 1)"
    using assms(3,5) by (auto simp: remove_verdict_def split: if_splits)
  have t: "t \<in> set (memberships d)" "mem_id t = mid" "mem_organizationId t = org"
    using assms(5) by (auto dest: target_inD)
  show ?thesis
  proof (rule owned_update [OF assms(2) db_ok_memberships [OF assms(1)] t(1)])
    show "memberships d' = update_where (\<lambda>m. mem_id m = mem_id t)
        (\<lambda>m. m\<lparr>mem_status := MemRemoved, mem_removedAt := Some (fromDate now),
          mem_removedByUserId := Some u, mem_updatedAt := fromDate now\<rparr>) (memberships d)"
      using assms(4) t(2) by (auto simp: member_removed_def set_removed_def)
    show "organizations d' = organizations d" using assms(4) by (auto simp: member_removed_def)
    show "active_owner g (t\<lparr>mem_status := MemRemoved, mem_removedAt := Some (fromDate now),
          mem_removedByUserId := Some u, mem_updatedAt := fromDate now\<rparr>) \<or> 1 < owner_count d g"
      if "active_owner g t" for g
    proof -
      have "g = org" using that t(3) by (simp add: active_owner_def)
      with that guard show ?thesis by simp
    qed
  qed
qed

text \<open>What the two operations keep: whatever a change that got past the guards keeps.\<close>

lemma keeps_changeMemberRole:
  assumes "\<And>d d' now. db_ok d \<Longrightarrow> P d \<Longrightarrow> change_verdict d org mid k actor = None \<Longrightarrow>
    role_changed org mid k now d d' \<Longrightarrow> db_ok d' \<Longrightarrow> P d'"
  shows "keeps (\<lambda>d. db_ok d \<and> P d) (changeMemberRole org mid (ROLE_IDS k) u actor ctx)"
  unfolding preserves_wp by (auto intro!: wp_changeMemberRole intro: assms)

lemma keeps_removeMember:
  assumes "\<And>d d' now t. db_ok d \<Longrightarrow> P d \<Longrightarrow> remove_verdict d org mid actor = None \<Longrightarrow>
    target_in d org mid = Some t \<Longrightarrow> member_removed org mid u now d d' \<Longrightarrow> db_ok d' \<Longrightarrow> P d'"
  shows "keeps (\<lambda>d. db_ok d \<and> P d) (removeMember org mid u actor ctx)"
  unfolding preserves_wp by (auto intro!: wp_removeMember intro: assms)

lemma distinct_members_of: "db_ok d \<Longrightarrow> distinct (map mv_key (members_of org d))"
proof -
  assume ok: "db_ok d"
  have "distinct (map (\<lambda>(x, g). mem_id x)
      (inner_join (\<lambda>m r. mem_roleId m = role_id r) (memberships d) (roles d)))"
    by (rule distinct_inner_join [OF db_ok_memberships [OF ok], of role_id])
      (use ok in \<open>simp_all add: db_ok_iff\<close>)
  then have "distinct (map (\<lambda>(x, y). (\<lambda>(x, g). mem_id x) x)
      (inner_join (\<lambda>(m, r) u. mem_userId m = u_id u)
        (inner_join (\<lambda>m r. mem_roleId m = role_id r) (memberships d) (roles d)) (users d)))"
    by (rule distinct_inner_join [where ky = u_id]) (use ok in \<open>auto simp: db_ok_iff\<close>)
  then have "distinct (map mv_key (member_views d))"
    by (simp add: member_views_def mv_key_def comp_def case_prod_unfold)
  then show ?thesis unfolding members_of_def by (rule distinct_map_filter)
qed

section \<open>Properties\<close>

text \<open>
  C4. Changing a role is decided exactly by its verdict, on every branch: a target that is
  not an active member of this organization is not found; a change to or from Owner needs an
  actor who is an active Owner of it; the last Owner is not demoted; each refusal leaves the
  world as it was; otherwise the operation returns, and all it did is set the target's role and
  add one event. (The actor's user exists and the event's id is fresh.)
\<close>

theorem changeMemberRole_decided:
  assumes "db_ok (db w)" and "catalogued (db w)" and "u \<in> u_id ` set (users (db w))"
    and "newId ''sevt'' w \<notin> se_id ` set (securityEvents (db w))"
  shows "case change_verdict (db w) org mid k actor of
      Some e \<Rightarrow> changeMemberRole org mid (ROLE_IDS k) u actor ctx w = (Inl e, w)
    | None \<Rightarrow> (\<exists>v w'. changeMemberRole org mid (ROLE_IDS k) u actor ctx w = (Inr v, w') \<and>
        role_changed org mid k (nowMs w) (db w) (db w'))"
proof (cases "change_verdict (db w) org mid k actor")
  case None
  from changeMemberRole_through [OF assms None, of ctx] None show ?thesis
    by (auto simp: wp_def split: prod.splits sum.splits)
next
  case (Some e)
  have "wp (changeMemberRole org mid (ROLE_IDS k) u actor ctx) (\<lambda>_ _. False) (\<lambda>e' w'. e' = e \<and> w' = w) w"
    by (rule wp_changeMemberRole) (use assms(1) Some in auto)
  with Some show ?thesis by (auto simp: wp_def split: prod.splits sum.splits)
qed

text \<open>
  C5. Removing a member is decided exactly by its verdict: a target outside the
  organization is not found, removing an Owner needs an active Owner, the last Owner stays, each
  refusal changes nothing; a member already removed is returned unchanged; otherwise the
  operation returns and all it did is mark the membership removed and add one event.
\<close>

theorem removeMember_decided:
  assumes "db_ok (db w)" and "u \<in> u_id ` set (users (db w))"
    and "newId ''sevt'' w \<notin> se_id ` set (securityEvents (db w))"
  shows "case remove_verdict (db w) org mid actor of
      Some e \<Rightarrow> removeMember org mid u actor ctx w = (Inl e, w)
    | None \<Rightarrow> (\<exists>v w' t. removeMember org mid u actor ctx w = (Inr v, w') \<and>
        target_in (db w) org mid = Some t \<and>
        (if mem_status t = MemActive then member_removed org mid u (nowMs w) (db w) (db w') else w' = w))"
proof (cases "remove_verdict (db w) org mid actor")
  case None
  then obtain t where t: "target_in (db w) org mid = Some t"
    by (auto simp: remove_verdict_def split: option.splits)
  from removeMember_through [OF assms None t, of ctx] None t show ?thesis
    by (cases "mem_status t = MemActive") (auto simp: wp_def split: prod.splits sum.splits)
next
  case (Some e)
  have "wp (removeMember org mid u actor ctx) (\<lambda>_ _. False) (\<lambda>e' w'. e' = e \<and> w' = w) w"
    by (rule wp_removeMember) (use assms(1) Some in auto)
  with Some show ?thesis by (auto simp: wp_def split: prod.splits sum.splits)
qed

definition sample_ctx :: request_ctx where
  "sample_ctx = \<lparr>ctx_requestId = Some ''r1'', ctx_ipAddress = None, ctx_userAgent = None\<rparr>"

lemma changeMemberRole_decided_witness:
  "(\<exists>v w'. changeMemberRole ''o1'' ''m2'' (ROLE_IDS Member) ''ann'' ''m1'' sample_ctx demo_world = (Inr v, w') \<and>
      role_changed ''o1'' ''m2'' Member 1000 sample_db (db w')) \<and>
   changeMemberRole ''o1'' ''m1'' (ROLE_IDS Member) ''ann'' ''m1'' sample_ctx demo_world =
      (Inl lastOwnerRequiredError, demo_world)"
proof -
  have "change_verdict sample_db ''o1'' ''m2'' Member ''m1'' = None" by code_simp
  moreover have "change_verdict sample_db ''o1'' ''m1'' Member ''m1'' = Some lastOwnerRequiredError"
    by code_simp
  ultimately show ?thesis
    using changeMemberRole_decided [of demo_world "''ann''" "''o1''" "''m2''" Member "''m1''" sample_ctx]
      changeMemberRole_decided [of demo_world "''ann''" "''o1''" "''m1''" Member "''m1''" sample_ctx]
    by simp
qed

lemma removeMember_decided_witness:
  "(\<exists>v w'. removeMember ''o1'' ''m2'' ''ann'' ''m1'' sample_ctx demo_world = (Inr v, w') \<and>
      member_removed ''o1'' ''m2'' ''ann'' 1000 sample_db (db w')) \<and>
   removeMember ''o1'' ''m1'' ''bob'' ''m2'' sample_ctx demo_world = (Inl permissionDeniedError, demo_world)"
proof -
  have "remove_verdict sample_db ''o1'' ''m2'' ''m1'' = None"
    "remove_verdict sample_db ''o1'' ''m1'' ''m2'' = Some permissionDeniedError"
    "target_in sample_db ''o1'' ''m2'' = Some (sample_member ''m2'' ''bob'' ''o1'' Admin 2000)"
    by code_simp+
  moreover have "mem_status (sample_member ''m2'' ''bob'' ''o1'' Admin 2000) = MemActive"
    by (simp add: sample_member_def)
  ultimately show ?thesis
    using removeMember_decided [of demo_world "''ann''" "''o1''" "''m2''" "''m1''" sample_ctx]
      removeMember_decided [of demo_world "''bob''" "''o1''" "''m1''" "''m2''" sample_ctx]
    by auto
qed

end
