(* ===== verification/Entitlements.thy ===== *)
theory Entitlements
  imports Members
begin

text \<open>
  Plans, entitlements and quotas (\<^verbatim>\<open>apps/api/src/modules/entitlements\<close>): the quota comparison, the
  entitlement snapshot a resource creation reads inside its transaction, the plan repository, the
  entitlement service and the plan service. The locale \<open>quota_gated\<close> is the contract of an
  operation that may not take a count past its limit.
\<close>

section \<open>Quotas (\<open>quota.ts\<close>)\<close>

datatype quota_status = QuotaAllowed | QuotaExceeded

record quota_evaluation =
  qe_status :: quota_status
  qe_limit :: nat
  qe_current :: nat

definition evaluateCountQuota :: "nat \<Rightarrow> nat \<Rightarrow> quota_evaluation" where
  "evaluateCountQuota current limit =
    \<lparr>qe_status = (if current \<ge> limit then QuotaExceeded else QuotaAllowed),
     qe_limit = limit, qe_current = current\<rparr>"

definition requireQuota :: "entitlement_key \<Rightarrow> quota_evaluation \<Rightarrow> unit api" where
  "requireQuota quota evaluation =
    guardP (qe_status evaluation \<noteq> QuotaExceeded)
      (quotaExceededError quota (qe_limit evaluation) (qe_current evaluation))"

text \<open>Only the two boolean entitlements can be required.\<close>

fun entitled :: "entitlement_values \<Rightarrow> entitlement_key \<Rightarrow> bool" where
  "entitled v ApiKeysAccess = api_keys_access v"
| "entitled v AuditLogAccess = audit_log_access v"
| "entitled v _ = False"

definition requireEntitlement :: "entitlement_values \<Rightarrow> entitlement_key \<Rightarrow> unit api" where
  "requireEntitlement values entitlement =
    guardP (entitled values entitlement) (entitlementRequiredError entitlement)"

lemma wp_requireQuota [wp_simps]:
  "wp (requireQuota q (evaluateCountQuota current limit)) Q E =
    (\<lambda>w. if current < limit then Q () w else E (quotaExceededError q limit current) w)"
  by (simp add: requireQuota_def evaluateCountQuota_def wp_simps fun_eq_iff)

section \<open>The snapshot and the plan repository\<close>

definition plan_row :: "database \<Rightarrow> string \<Rightarrow> organization_plan_row option" where
  "plan_row d organizationId =
    select_first (\<lambda>r. op_organizationId r = organizationId) (organizationPlans d)"

definition lockOrganizationEntitlements :: "string \<Rightarrow> (plan_key \<times> entitlement_values) api" where
  "lockOrganizationEntitlements organizationId =
    bindP (select (\<lambda>d. plan_row d organizationId)) (\<lambda>row.
      case row of
        None \<Rightarrow> throw planStateMissingError
      | Some r \<Rightarrow> ret (op_planKey r, entitlementsForPlan (op_planKey r)))"

record organization_plan_state =
  ps_organizationId :: string
  ps_planKey :: plan_key
  ps_assignedAt :: date
  ps_updatedAt :: date
  ps_changedByUserId :: "string option"

definition toPlanState :: "organization_plan_row \<Rightarrow> organization_plan_state" where
  "toPlanState row =
    \<lparr>ps_organizationId = op_organizationId row, ps_planKey = op_planKey row,
     ps_assignedAt = toDate (op_assignedAt row), ps_updatedAt = toDate (op_updatedAt row),
     ps_changedByUserId = op_changedByUserId row\<rparr>"

definition findOrganizationPlanState :: "string \<Rightarrow> organization_plan_state option api" where
  "findOrganizationPlanState organizationId =
    select (\<lambda>d. map_option toPlanState (plan_row d organizationId))"

definition countActiveMembers :: "string \<Rightarrow> nat api" where
  "countActiveMembers organizationId =
    select (\<lambda>d. count_where (\<lambda>m. mem_organizationId m = organizationId \<and> mem_status m = MemActive)
      (memberships d))"

fun planKeyString :: "plan_key \<Rightarrow> string" where
  "planKeyString Free = ''free''"
| "planKeyString Pro = ''pro''"
| "planKeyString Business = ''business''"

definition recordPlanEvent ::
  "string \<Rightarrow> string \<Rightarrow> string \<Rightarrow> string \<Rightarrow> plan_key \<Rightarrow> plan_key \<Rightarrow> request_ctx \<Rightarrow> unit api" where
  "recordPlanEvent organizationId eventType actorUserId actorMembershipId previousPlanKey newPlanKey ctx =
    insertSecurityEvent (Some actorUserId) None (Some organizationId) UserActor eventType
      [(''actorMembershipId'', JStr actorMembershipId), (''targetType'', JStr ''organization_plan''),
       (''previousPlanKey'', JStr (planKeyString previousPlanKey)),
       (''newPlanKey'', JStr (planKeyString newPlanKey))] ctx"

definition set_plan :: "string \<Rightarrow> plan_key \<Rightarrow> string \<Rightarrow> date \<Rightarrow> database \<Rightarrow> database" where
  "set_plan planId target userId now d =
    d\<lparr>organizationPlans := update_where (\<lambda>p. op_id p = planId)
      (\<lambda>p. p\<lparr>op_planKey := target, op_changedByUserId := Some userId,
             op_assignedAt := fromDate now, op_updatedAt := fromDate now\<rparr>) (organizationPlans d)\<rparr>"

definition changeOrganizationPlan ::
  "string \<Rightarrow> plan_key \<Rightarrow> string \<Rightarrow> string \<Rightarrow> request_ctx \<Rightarrow> (plan_key \<times> organization_plan_state) api" where
  "changeOrganizationPlan organizationId targetPlanKey actorUserId actorMembershipId ctx =
    transaction
     (bindP (select (\<lambda>d. plan_row d organizationId)) (\<lambda>row.
      case row of
        None \<Rightarrow> throw planStateMissingError
      | Some current \<Rightarrow>
          bindP (getsP nowMs) (\<lambda>now.
          thenP (sql (set_plan (op_id current) targetPlanKey actorUserId now))
         (bindP (select (\<lambda>d. select_first (\<lambda>p. op_id p = op_id current) (organizationPlans d))) (\<lambda>returned.
          bindP (requireRow ''organization_plans update'' returned) (\<lambda>updated.
          thenP (recordPlanEvent organizationId ''plan.changed_demo'' actorUserId actorMembershipId
              (op_planKey current) targetPlanKey ctx)
            (ret (op_planKey current, toPlanState updated))))))))"

section \<open>The entitlement service\<close>

definition getPlanState :: "string \<Rightarrow> organization_plan_state api" where
  "getPlanState organizationId =
    bindP (findOrganizationPlanState organizationId) (\<lambda>state.
      case state of None \<Rightarrow> throw planStateMissingError | Some s \<Rightarrow> ret s)"

definition resolveEntitlements :: "string \<Rightarrow> (plan_key \<times> entitlement_values) api" where
  "resolveEntitlements organizationId =
    bindP (getPlanState organizationId) (\<lambda>state.
      ret (ps_planKey state, entitlementsForPlan (ps_planKey state)))"

definition requireMemberAdditionQuota :: "string \<Rightarrow> unit api" where
  "requireMemberAdditionQuota organizationId =
    bindP (resolveEntitlements organizationId) (\<lambda>(_, values).
    bindP (countActiveMembers organizationId) (\<lambda>current.
      requireQuota MaxMembers (evaluateCountQuota current (max_members values))))"

definition requireMemberReservationQuota :: "string \<Rightarrow> nat \<Rightarrow> unit api" where
  "requireMemberReservationQuota organizationId pendingInvitationCount =
    bindP (resolveEntitlements organizationId) (\<lambda>(_, values).
    bindP (countActiveMembers organizationId) (\<lambda>activeMembers.
      requireQuota MaxMembers
        (evaluateCountQuota (activeMembers + pendingInvitationCount) (max_members values))))"

definition resolveApiKeyEntitlements :: "string \<Rightarrow> (bool \<times> nat) api" where
  "resolveApiKeyEntitlements organizationId =
    bindP (resolveEntitlements organizationId) (\<lambda>(_, values).
      ret (api_keys_access values, max_api_keys values))"

definition requireApiKeysAccess :: "string \<Rightarrow> unit api" where
  "requireApiKeysAccess organizationId =
    bindP (resolveEntitlements organizationId) (\<lambda>(_, values). requireEntitlement values ApiKeysAccess)"

definition resolveAuditEntitlements :: "string \<Rightarrow> (bool \<times> nat) api" where
  "resolveAuditEntitlements organizationId =
    bindP (resolveEntitlements organizationId) (\<lambda>(_, values).
      ret (audit_log_access values, audit_retention_days values))"

definition requireAuditLogAccess :: "string \<Rightarrow> unit api" where
  "requireAuditLogAccess organizationId =
    bindP (resolveEntitlements organizationId) (\<lambda>(_, values). requireEntitlement values AuditLogAccess)"

definition changePlan ::
  "string \<Rightarrow> plan_key \<Rightarrow> string \<Rightarrow> string \<Rightarrow> request_ctx \<Rightarrow>
   ((plan_key \<times> organization_plan_state) \<times> (plan_key \<times> entitlement_values)) api" where
  "changePlan organizationId targetPlanKey actorUserId actorMembershipId ctx =
    bindP (changeOrganizationPlan organizationId targetPlanKey actorUserId actorMembershipId ctx) (\<lambda>result.
      ret (result, (ps_planKey (snd result), entitlementsForPlan (ps_planKey (snd result)))))"

section \<open>The plan service\<close>

record plan_options = limiter_options +
  po_windowSeconds :: nat
  po_changePerOrgMax :: nat

record plan_input =
  pi_userId :: string
  pi_organizationId :: string
  pi_requestId :: "string option"

record change_plan_input =
  cpi_userId :: string
  cpi_organizationId :: string
  cpi_targetPlanKey :: plan_key
  cpi_ctx :: request_ctx

record plan_dto =
  pd_key :: plan_key
  pd_name :: string
  pd_description :: string

definition toPlanDto :: "plan_key \<Rightarrow> plan_dto" where
  "toPlanDto planKey =
    \<lparr>pd_key = pc_key (PLAN_CATALOG planKey), pd_name = pc_name (PLAN_CATALOG planKey),
     pd_description = pc_description (PLAN_CATALOG planKey)\<rparr>"

record organization_plan_response =
  opr_organizationId :: string
  opr_plan :: plan_dto
  opr_assignedAt :: date
  opr_updatedAt :: date

definition toOrganizationPlanResponse :: "organization_plan_state \<Rightarrow> organization_plan_response" where
  "toOrganizationPlanResponse state =
    \<lparr>opr_organizationId = ps_organizationId state, opr_plan = toPlanDto (ps_planKey state),
     opr_assignedAt = ps_assignedAt state, opr_updatedAt = ps_updatedAt state\<rparr>"

definition getPlan_body :: "plan_input \<Rightarrow> organization_actor \<Rightarrow> organization_plan_response api" where
  "getPlan_body input actor =
    bindP (getPlanState (act_organizationId actor)) (\<lambda>state. ret (toOrganizationPlanResponse state))"

definition getPlan :: "plan_input \<Rightarrow> organization_plan_response api" where
  "getPlan input =
    bindP (requireMembership (pi_userId input) (pi_organizationId input) (pi_requestId input)) (\<lambda>actor.
    thenP (requirePermission actor PlanRead) (getPlan_body input actor))"

definition getEntitlements_body ::
  "plan_input \<Rightarrow> organization_actor \<Rightarrow> (string \<times> plan_key \<times> entitlement_values) api" where
  "getEntitlements_body input actor =
    bindP (resolveEntitlements (act_organizationId actor)) (\<lambda>(planKey, values).
      ret (act_organizationId actor, planKey, values))"

definition getEntitlements :: "plan_input \<Rightarrow> (string \<times> plan_key \<times> entitlement_values) api" where
  "getEntitlements input =
    bindP (requireMembership (pi_userId input) (pi_organizationId input) (pi_requestId input)) (\<lambda>actor.
    thenP (requirePermission actor PlanRead) (getEntitlements_body input actor))"

definition changeDemoPlan_body ::
  "plan_options \<Rightarrow> change_plan_input \<Rightarrow> organization_actor \<Rightarrow> (string \<times> plan_dto \<times> entitlement_values) api" where
  "changeDemoPlan_body opts input actor =
    thenP (enforceMutationRateLimit (limiter_options.truncate opts)
        (''rl:plan:change:org:'' @ act_organizationId actor) (po_changePerOrgMax opts) (po_windowSeconds opts))
   (bindP (changePlan (act_organizationId actor) (cpi_targetPlanKey input) (act_userId actor)
        (act_membershipId actor) (cpi_ctx input)) (\<lambda>(result, resolution).
      ret (act_organizationId actor, toPlanDto (ps_planKey (snd result)), snd resolution)))"

definition changeDemoPlan ::
  "plan_options \<Rightarrow> change_plan_input \<Rightarrow> (string \<times> plan_dto \<times> entitlement_values) api" where
  "changeDemoPlan opts input =
    bindP (requireMembership (cpi_userId input) (cpi_organizationId input) (ctx_requestId (cpi_ctx input)))
     (\<lambda>actor. thenP (requirePermission actor PlanChangeDemo) (changeDemoPlan_body opts input actor))"

interpretation get_plan: guarded_operation getPlan pi_userId pi_organizationId pi_requestId
    PlanRead getPlan_body
  by unfold_locales (simp add: getPlan_def)

interpretation get_entitlements: guarded_operation getEntitlements pi_userId pi_organizationId
    pi_requestId PlanRead getEntitlements_body
  by unfold_locales (simp add: getEntitlements_def)

interpretation change_demo_plan: guarded_operation "changeDemoPlan opts" cpi_userId cpi_organizationId
    "\<lambda>i. ctx_requestId (cpi_ctx i)" PlanChangeDemo "changeDemoPlan_body opts"
  by unfold_locales (simp add: changeDemoPlan_def)

section \<open>Quota-gated operations\<close>

text \<open>
  \<open>used d o\<close> is what a quota counts, \<open>limit v\<close> the plan's limit for it. A gated operation, when it
  returns, found the count below the limit of the plan the organization has, and left it at most
  at that limit; it does not touch what other organizations use, nor any plan.
\<close>

definition plan_limit :: "(entitlement_values \<Rightarrow> nat) \<Rightarrow> database \<Rightarrow> string \<Rightarrow> nat" where
  "plan_limit f d organizationId =
    (case plan_row d organizationId of None \<Rightarrow> 0 | Some p \<Rightarrow> f (entitlementsForPlan (op_planKey p)))"

definition within :: "(database \<Rightarrow> string \<Rightarrow> nat) \<Rightarrow> (entitlement_values \<Rightarrow> nat) \<Rightarrow> database \<Rightarrow> string \<Rightarrow> bool" where
  "within used f d organizationId = (used d organizationId \<le> plan_limit f d organizationId)"

locale quota_gated =
  fixes op :: "'i \<Rightarrow> 'a api"
    and target :: "'i \<Rightarrow> string"
    and used :: "database \<Rightarrow> string \<Rightarrow> nat"
    and limit :: "entitlement_values \<Rightarrow> nat"
  assumes gated: "wp (op i) (\<lambda>_ w'. used (db w) (target i) < plan_limit limit (db w) (target i) \<and>
      used (db w') (target i) \<le> used (db w) (target i) + 1 \<and>
      (\<forall>g. g \<noteq> target i \<longrightarrow> used (db w') g = used (db w) g) \<and>
      organizationPlans (db w') = organizationPlans (db w))
    (\<lambda>_ w'. db w' = db w) w"
begin

lemma outcome:
  assumes "op i w = (r, w')"
  shows "(\<exists>e. r = Inl e \<and> db w' = db w) \<or>
    (\<exists>x. r = Inr x \<and> used (db w) (target i) < plan_limit limit (db w) (target i) \<and>
      used (db w') (target i) \<le> plan_limit limit (db w') (target i) \<and>
      (\<forall>g. g \<noteq> target i \<longrightarrow> used (db w') g = used (db w) g) \<and>
      organizationPlans (db w') = organizationPlans (db w))"
  using gated [of i w] assms
  by (cases r) (auto simp: wp_def plan_limit_def plan_row_def)

lemma stays_within:
  assumes "within used limit (db w) g"
  shows "within used limit (db (final (op i) w)) g"
proof -
  obtain r w' where r: "op i w = (r, w')" by (cases "op i w")
  have "within used limit (db w') g"
    using outcome [OF r] assms
    by (cases "g = target i") (auto simp: within_def plan_limit_def plan_row_def)
  with r show ?thesis by simp
qed

lemma refused_at_limit:
  assumes "plan_limit limit (db w) (target i) \<le> used (db w) (target i)"
  shows "\<exists>e w'. op i w = (Inl e, w') \<and> db w' = db w"
proof -
  obtain r w' where r: "op i w = (r, w')" by (cases "op i w")
  with outcome [OF r] assms show ?thesis by auto
qed

end

section \<open>Facts for the clients\<close>

lemma wp_lockOrganizationEntitlements [wp_simps]:
  "wp (lockOrganizationEntitlements g) Q E = (\<lambda>w. case plan_row (db w) g of
      None \<Rightarrow> E planStateMissingError w
    | Some p \<Rightarrow> Q (op_planKey p, entitlementsForPlan (op_planKey p)) w)"
  by (simp add: lockOrganizationEntitlements_def wp_simps fun_eq_iff split: option.split)

lemma keeps_resolveEntitlements [preserve_intros]: "preserves P (resolveEntitlements g)"
  unfolding resolveEntitlements_def getPlanState_def findOrganizationPlanState_def
  by (intro preserve_intros)

lemma keeps_countActiveMembers [preserve_intros]: "preserves P (countActiveMembers g)"
  unfolding countActiveMembers_def by (intro preserve_intros)

lemma keeps_requireQuota [preserve_intros]: "preserves P (requireQuota q e)"
  unfolding requireQuota_def by (intro preserve_intros)

lemma keeps_requireEntitlement [preserve_intros]: "preserves P (requireEntitlement v e)"
  unfolding requireEntitlement_def by (intro preserve_intros)

lemma resolveEntitlements_apply [prog_simps]:
  "resolveEntitlements g w = (case plan_row (db w) g of
     None \<Rightarrow> (Inl planStateMissingError, w)
   | Some p \<Rightarrow> (Inr (op_planKey p, entitlementsForPlan (op_planKey p)), w))"
  by (simp add: resolveEntitlements_def getPlanState_def findOrganizationPlanState_def toPlanState_def
      prog_simps split: option.split)

lemma wp_resolveEntitlements [wp_simps]:
  "wp (resolveEntitlements g) Q E = (\<lambda>w. case plan_row (db w) g of
      None \<Rightarrow> E planStateMissingError w
    | Some p \<Rightarrow> Q (op_planKey p, entitlementsForPlan (op_planKey p)) w)"
  by (simp add: wp_def resolveEntitlements_apply fun_eq_iff split: option.split)

lemma wp_requireEntitlement [wp_simps]:
  "wp (requireEntitlement v e) Q E = (\<lambda>w. if entitled v e then Q () w else E (entitlementRequiredError e) w)"
  by (simp add: requireEntitlement_def wp_simps)

section \<open>Changing the plan\<close>

lemma plan_rowD: "plan_row d g = Some p \<Longrightarrow> p \<in> set (organizationPlans d) \<and> op_organizationId p = g"
  by (auto simp: plan_row_def dest: find_SomeD)

lemma db_ok_plan_facts:
  assumes "db_ok d"
  shows "distinct (map op_id (organizationPlans d))"
    and "distinct (map op_organizationId (organizationPlans d))"
    and "op_organizationId ` set (organizationPlans d) \<subseteq> org_id ` set (organizations d)"
    and "set (somes (map op_changedByUserId (organizationPlans d))) \<subseteq> u_id ` set (users d)"
  using assms unfolding db_ok_iff by simp_all

lemma plan_row_iff:
  "db_ok d \<Longrightarrow> plan_row d g = Some p \<longleftrightarrow> p \<in> set (organizationPlans d) \<and> op_organizationId p = g"
  unfolding plan_row_def
  by (auto dest: find_SomeD intro: find_unique_key [OF db_ok_plan_facts(2)])

lemma find_updated:
  assumes "distinct (map k rs)" and "r \<in> set rs" and "\<And>x. k (f x) = k x"
  shows "select_first (\<lambda>x. k x = k r) (update_where (\<lambda>x. k x = k r) f rs) = Some (f r)"
proof -
  have "select_first (\<lambda>x. k x = k r) (update_where (\<lambda>x. k x = k r) f rs) =
      map_option f (select_first (\<lambda>x. k x = k r) rs)"
    by (induction rs) (auto simp: update_where_def assms(3))
  moreover have "select_first (\<lambda>x. k x = k r) rs = Some r"
    by (rule find_unique_key [OF assms(1,2)]) simp_all
  ultimately show ?thesis by simp
qed

lemma set_plan_fields [simp]:
  "securityEvents (set_plan i k u now d) = securityEvents d" "users (set_plan i k u now d) = users d"
  "sessions (set_plan i k u now d) = sessions d" "organizations (set_plan i k u now d) = organizations d"
  "memberships (set_plan i k u now d) = memberships d"
  by (simp_all add: set_plan_def)

lemma db_ok_set_plan:
  assumes "db_ok d" and "u \<in> u_id ` set (users d)"
  shows "db_ok (set_plan i k u now d)"
  unfolding set_plan_def
proof (rule db_ok_upd_organizationPlans [OF assms(1)])
  let ?ps = "update_where (\<lambda>p. op_id p = i)
      (\<lambda>p. p\<lparr>op_planKey := k, op_changedByUserId := Some u,
             op_assignedAt := fromDate now, op_updatedAt := fromDate now\<rparr>) (organizationPlans d)"
  note old = db_ok_plan_facts [OF assms(1)]
  show "set (somes (map op_changedByUserId ?ps)) \<subseteq> set (map u_id (users d))"
  proof
    fix x assume "x \<in> set (somes (map op_changedByUserId ?ps))"
    then have "x = u \<or> x \<in> set (somes (map op_changedByUserId (organizationPlans d)))"
      by (auto simp: update_where_def image_iff split: if_splits)
    then show "x \<in> set (map u_id (users d))" using old(4) assms(2) by auto
  qed
qed (use db_ok_plan_facts [OF assms(1)] in \<open>simp_all del: set_update_where set_somes flip: set_map\<close>)

definition plan_changed :: "string \<Rightarrow> plan_key \<Rightarrow> string \<Rightarrow> date \<Rightarrow> database \<Rightarrow> database \<Rightarrow> bool" where
  "plan_changed org k u now d d' =
    (\<exists>p e. plan_row d org = Some p \<and>
       d' = (set_plan (op_id p) k u now d)\<lparr>securityEvents := securityEvents d @ [e]\<rparr> \<and>
       se_organizationId e = Some org \<and> se_eventType e = ''plan.changed_demo'' \<and> clean_obj (se_metadata e))"

lemma plan_changedI:
  "plan_row d org = Some p \<Longrightarrow>
   d' = (set_plan (op_id p) k u now d)\<lparr>securityEvents := securityEvents d @ [e]\<rparr> \<Longrightarrow>
   se_organizationId e = Some org \<Longrightarrow> se_eventType e = ''plan.changed_demo'' \<Longrightarrow>
   se_metadata e = sanitizeSecurityMetadata md \<Longrightarrow> plan_changed org k u now d d'"
  by (auto simp: plan_changed_def)

lemma set_plan_returned:
  assumes "db_ok d" and "plan_row d org = Some p"
  shows "select_first (\<lambda>x. op_id x = op_id p) (organizationPlans (set_plan (op_id p) k u now d)) =
    Some (p\<lparr>op_planKey := k, op_changedByUserId := Some u,
            op_assignedAt := fromDate now, op_updatedAt := fromDate now\<rparr>)"
  using plan_rowD [OF assms(2)] db_ok_plan_facts(1) [OF assms(1)]
  by (simp add: set_plan_def find_updated)

lemma wp_changeOrganizationPlan:
  assumes ok: "db_ok (db w)"
    and err: "\<And>e w'. db w' = db w \<Longrightarrow> E e w'"
    and through: "\<And>p v w'. plan_row (db w) org = Some p \<Longrightarrow> plan_changed org k u (nowMs w) (db w) (db w') \<Longrightarrow>
      db_ok (db w') \<Longrightarrow> fst v = op_planKey p \<Longrightarrow> ps_planKey (snd v) = k \<Longrightarrow> Q v w'"
  shows "wp (changeOrganizationPlan org k u m ctx) Q E w"
proof (cases "plan_row (db w) org")
  case None
  then show ?thesis by (simp add: changeOrganizationPlan_def wp_simps err)
next
  case (Some p)
  show ?thesis
    unfolding changeOrganizationPlan_def using Some
    by (auto simp: wp_simps set_plan_returned [OF ok Some] recordPlanEvent_def toPlanState_def
        intro: plan_changedI intro!: wp_insertSecurityEvent through [OF Some] err)
qed

lemma changeOrganizationPlan_through:
  assumes ok: "db_ok (db w)" and u: "u \<in> u_id ` set (users (db w))"
    and fresh: "newId ''sevt'' w \<notin> se_id ` set (securityEvents (db w))"
    and p: "plan_row (db w) org = Some p"
  shows "wp (changeOrganizationPlan org k u m ctx)
    (\<lambda>v w'. plan_changed org k u (nowMs w) (db w) (db w') \<and> fst v = op_planKey p) (\<lambda>e w'. False) w"
proof -
  have fresh': "newId ''sevt'' w \<noteq> se_id x" if "x \<in> set (securityEvents (db w))" for x
    using fresh that by auto
  show ?thesis
    unfolding changeOrganizationPlan_def using p
    by (auto simp: wp_simps set_plan_returned [OF ok p] db_ok_set_plan [OF ok u] recordPlanEvent_def u fresh'
        intro: plan_changedI intro!: wp_insertSecurityEvent_ok)
qed

lemma keeps_changeOrganizationPlan:
  assumes "\<And>d d' now. db_ok d \<Longrightarrow> P d \<Longrightarrow> plan_changed org k u now d d' \<Longrightarrow> db_ok d' \<Longrightarrow> P d'"
  shows "keeps (\<lambda>d. db_ok d \<and> P d) (changeOrganizationPlan org k u m ctx)"
  unfolding preserves_wp by (auto intro!: wp_changeOrganizationPlan intro: assms)

lemma plan_row_changed:
  assumes "db_ok d" and "plan_changed org k u now d d'"
  shows "plan_row d' g = (if g = org then Some ((the (plan_row d org))\<lparr>op_planKey := k,
      op_changedByUserId := Some u, op_assignedAt := fromDate now, op_updatedAt := fromDate now\<rparr>)
    else plan_row d g)"
proof -
  obtain p e where p: "plan_row d org = Some p"
    and d': "d' = (set_plan (op_id p) k u now d)\<lparr>securityEvents := securityEvents d @ [e]\<rparr>"
    using assms(2) by (auto simp: plan_changed_def)
  let ?f = "\<lambda>p. p\<lparr>op_planKey := k, op_changedByUserId := Some u,
    op_assignedAt := fromDate now, op_updatedAt := fromDate now\<rparr>"
  have at: "p \<in> set (organizationPlans d)" "op_organizationId p = org" using plan_rowD [OF p] by auto
  have same: "op_id q = op_id p \<longleftrightarrow> op_organizationId q = org" if "q \<in> set (organizationPlans d)" for q
    using that at distinct_key_eq [OF db_ok_plan_facts(1) [OF assms(1)]]
      distinct_key_eq [OF db_ok_plan_facts(2) [OF assms(1)]] by metis
  have upd: "update_where (\<lambda>q. op_id q = op_id p) ?f (organizationPlans d) =
      update_where (\<lambda>q. op_organizationId q = org) ?f (organizationPlans d)"
    using same by (auto simp: update_where_def)
  show ?thesis
  proof (cases "g = org")
    case True
    have "select_first (\<lambda>q. op_organizationId q = org) (update_where (\<lambda>q. op_organizationId q = org) ?f (organizationPlans d))
        = Some (?f p)"
      using find_updated [OF db_ok_plan_facts(2) [OF assms(1)] at(1), of ?f] at(2) by simp
    then show ?thesis using True p by (simp add: d' set_plan_def plan_row_def upd)
  next
    case False
    have "select_first (\<lambda>q. op_organizationId q = g) (update_where (\<lambda>q. op_organizationId q = org) ?f (organizationPlans d))
        = select_first (\<lambda>q. op_organizationId q = g) (organizationPlans d)"
      by (rule find_update_where_frame) (use False in auto)
    then show ?thesis using False by (simp add: d' set_plan_def plan_row_def upd)
  qed
qed

section \<open>Properties\<close>

text \<open>
  C13. Changing an organization's plan returns whenever the plan row, the actor and a fresh
  event id are there: the organization then has the target plan, every other organization keeps
  its plan row, one event is recorded, and nothing else changes; in particular nothing the old
  plan allowed is deleted. Without a plan row it is the missing-plan-state error and no change.
\<close>

theorem changeOrganizationPlan_spec:
  assumes "db_ok (db w)" and "u \<in> u_id ` set (users (db w))"
    and "newId ''sevt'' w \<notin> se_id ` set (securityEvents (db w))"
  shows "case plan_row (db w) org of
      None \<Rightarrow> changeOrganizationPlan org k u m ctx w = (Inl planStateMissingError, w)
    | Some p \<Rightarrow> (\<exists>v w' e. changeOrganizationPlan org k u m ctx w = (Inr v, w') \<and> fst v = op_planKey p \<and>
        db w' = (set_plan (op_id p) k u (nowMs w) (db w))\<lparr>securityEvents := securityEvents (db w) @ [e]\<rparr> \<and>
        map_option op_planKey (plan_row (db w') org) = Some k \<and>
        (\<forall>g. g \<noteq> org \<longrightarrow> plan_row (db w') g = plan_row (db w) g))"
proof (cases "plan_row (db w) org")
  case None
  then show ?thesis by (simp add: changeOrganizationPlan_def prog_simps)
next
  case (Some p)
  from changeOrganizationPlan_through [OF assms Some, of k m ctx] obtain v w' where
    v: "changeOrganizationPlan org k u m ctx w = (Inr v, w')" "fst v = op_planKey p"
      "plan_changed org k u (nowMs w) (db w) (db w')"
    by (auto simp: wp_def split: prod.splits sum.splits)
  with Some plan_row_changed [OF assms(1) v(3)] show ?thesis
    by (auto simp: plan_changed_def)
qed

lemma changeOrganizationPlan_spec_witness:
  "\<exists>v w' e. changeOrganizationPlan ''o1'' Business ''ann'' ''m1'' sample_ctx demo_world = (Inr v, w') \<and> fst v = Pro \<and>
     db w' = (set_plan ''p1'' Business ''ann'' 1000 sample_db)\<lparr>securityEvents := [e]\<rparr>"
proof -
  have "plan_row sample_db ''o1'' = Some (sample_plan ''p1'' ''o1'' Pro)" by code_simp
  then show ?thesis
    using changeOrganizationPlan_spec [of demo_world "''ann''" "''o1''" Business "''m1''" sample_ctx]
    by (auto simp: sample_plan_def)
qed

end
