(* ===== verification/Tenancy.thy ===== *)
theory Tenancy
  imports Entitlements
begin

text \<open>
  Tenant isolation: what belongs to the other organizations, and the contract that an operation
  scoped to one organization leaves it alone, with the member and plan operations as its first
  instances.
\<close>

record tenant_data =
  td_memberships :: "membership_row list"
  td_plans :: "organization_plan_row list"
  td_projects :: "project_row list"
  td_apiKeys :: "api_key_row list"
  td_invitations :: "invitation_row list"
  td_events :: "security_event_row list"
  td_organizations :: "organization_row list"

text \<open>\<open>outside g d\<close>: the rows of every organization but \<open>g\<close>, and the organizations themselves.\<close>

definition outside :: "string \<Rightarrow> database \<Rightarrow> tenant_data" where
  "outside g d =
    \<lparr>td_memberships = filter (\<lambda>r. mem_organizationId r \<noteq> g) (memberships d),
     td_plans = filter (\<lambda>r. op_organizationId r \<noteq> g) (organizationPlans d),
     td_projects = filter (\<lambda>r. prj_organizationId r \<noteq> g) (projects d),
     td_apiKeys = filter (\<lambda>r. key_organizationId r \<noteq> g) (apiKeys d),
     td_invitations = filter (\<lambda>r. inv_organizationId r \<noteq> g) (invitations d),
     td_events = filter (\<lambda>r. se_organizationId r \<noteq> Some g) (securityEvents d),
     td_organizations = organizations d\<rparr>"

locale tenant_scoped =
  fixes op :: "'i \<Rightarrow> 'a api"
    and target :: "'i \<Rightarrow> string"
  assumes scoped: "db_ok (db w) \<Longrightarrow> wp (op i)
    (\<lambda>_ w'. outside (target i) (db w') = outside (target i) (db w))
    (\<lambda>_ w'. db w' = db w) w"
begin

lemma isolated:
  "db_ok (db w) \<Longrightarrow> outside (target i) (db (final (op i) w)) = outside (target i) (db w)"
  using scoped [of w i] by (cases "op i w"; cases "fst (op i w)") (auto simp: wp_def)

lemma failure_changes_nothing: "db_ok (db w) \<Longrightarrow> op i w = (Inl e, w') \<Longrightarrow> db w' = db w"
  using scoped [of w i] by (simp add: wp_def)

end

lemma target_rows:
  "db_ok d \<Longrightarrow> target_in d org mid = Some t \<Longrightarrow> m \<in> set (memberships d) \<Longrightarrow> mem_id m = mid \<Longrightarrow>
    mem_organizationId m = org"
  using distinct_key_eq [OF db_ok_memberships] by (metis target_inD)

lemma plan_rows:
  "db_ok d \<Longrightarrow> plan_row d org = Some p \<Longrightarrow> q \<in> set (organizationPlans d) \<Longrightarrow> op_id q = op_id p \<Longrightarrow>
    op_organizationId q = org"
  using distinct_key_eq [OF db_ok_plan_facts(1)] by (metis plan_rowD)

lemma outside_role_changed:
  assumes "db_ok d" and "target_in d g mid = Some t" and "role_changed g mid k now d d'"
  shows "outside g d' = outside g d"
  using assms(3) target_rows [OF assms(1,2)]
  by (auto simp: role_changed_def outside_def set_role_def filter_update_where_frame)

lemma outside_member_removed:
  assumes "db_ok d" and "target_in d g mid = Some t" and "member_removed g mid u now d d'"
  shows "outside g d' = outside g d"
  using assms(3) target_rows [OF assms(1,2)]
  by (auto simp: member_removed_def outside_def set_removed_def filter_update_where_frame)

lemma outside_plan_changed:
  assumes "db_ok d" and "plan_changed g k u now d d'"
  shows "outside g d' = outside g d"
  using assms(2) plan_rows [OF assms(1)]
  by (auto simp: plan_changed_def outside_def set_plan_def filter_update_where_frame)

record 'p scoped_input =
  si_organizationId :: string
  si_actorUserId :: string
  si_actorMembershipId :: string
  si_ctx :: request_ctx
  si_payload :: 'p

interpretation change_role_scoped: tenant_scoped
    "\<lambda>i. changeMemberRole (si_organizationId i) (fst (si_payload i)) (ROLE_IDS (snd (si_payload i)))
      (si_actorUserId i) (si_actorMembershipId i) (si_ctx i)" si_organizationId
  by unfold_locales
    (rule wp_changeMemberRole; blast intro: outside_role_changed)

interpretation remove_member_scoped: tenant_scoped
    "\<lambda>i. removeMember (si_organizationId i) (si_payload i) (si_actorUserId i) (si_actorMembershipId i)
      (si_ctx i)" si_organizationId
  by unfold_locales (rule wp_removeMember; blast intro: outside_member_removed)

interpretation change_plan_scoped: tenant_scoped
    "\<lambda>i. changeOrganizationPlan (si_organizationId i) (si_payload i) (si_actorUserId i)
      (si_actorMembershipId i) (si_ctx i)" si_organizationId
  by unfold_locales (rule wp_changeOrganizationPlan; blast intro: outside_plan_changed)

section \<open>What most operations leave alone\<close>

text \<open>
  The backbone of the state: organizations, memberships, plans, the seeded catalog, and everything of
  the accounts. All but a few operations leave it alone; \<open>stable Q\<close> collects what they keep, whatever \<open>Q\<close> says of it.
\<close>

definition clean_events :: "database \<Rightarrow> bool" where
  "clean_events d = list_all (\<lambda>e. clean_obj (se_metadata e)) (securityEvents d)"

record backbone =
  bb_organizations :: "organization_row list"
  bb_memberships :: "membership_row list"
  bb_plans :: "organization_plan_row list"
  bb_roles :: "role_row list"
  bb_permissions :: "permission_row list"
  bb_rolePermissions :: "role_permission_row list"
  bb_users :: "user_row list"
  bb_sessions :: "session_row list"
  bb_refreshTokens :: "refresh_token_row list"
  bb_verificationTokens :: "token_row list"
  bb_resetTokens :: "token_row list"
  bb_registrations :: "pending_registration_row list"

definition backbone :: "database \<Rightarrow> backbone" where
  "backbone d =
    \<lparr>bb_organizations = organizations d, bb_memberships = memberships d, bb_plans = organizationPlans d,
     bb_roles = roles d, bb_permissions = permissions d, bb_rolePermissions = rolePermissions d,
     bb_users = users d, bb_sessions = sessions d, bb_refreshTokens = refreshTokens d,
     bb_verificationTokens = emailVerificationTokens d, bb_resetTokens = passwordResetTokens d,
     bb_registrations = pendingRegistrations d\<rparr>"

definition stable :: "(backbone \<Rightarrow> bool) \<Rightarrow> database \<Rightarrow> bool" where
  "stable Q d = (db_ok d \<and> Q (backbone d) \<and> clean_events d)"

lemma clean_events_append [simp]:
  "clean_events (d\<lparr>securityEvents := es @ [e]\<rparr>) \<longleftrightarrow>
    clean_events (d\<lparr>securityEvents := es\<rparr>) \<and> clean_obj (se_metadata e)"
  by (simp add: clean_events_def)

lemma keeps_stable_sql:
  assumes "\<And>d. backbone (f d) = backbone d" and "\<And>d. securityEvents (f d) = securityEvents d"
  shows "keeps (stable Q) (sql f)"
  by (rule keeps_sql) (simp add: stable_def assms clean_events_def)

lemma keeps_stable_event [preserve_intros]: "keeps (stable Q) (insertSecurityEvent u s g a t md ctx)"
  unfolding insertSecurityEvent_def
  by (intro preserve_intros keeps_sql) (simp add: stable_def backbone_def clean_events_def)

end
