(* ===== verification/Projects.thy ===== *)
theory Projects
  imports Tenancy
begin

text \<open>
  Projects (\<^verbatim>\<open>project.repo.ts\<close>, \<^verbatim>\<open>project.service.ts\<close>): listing by pages, creation under the plan's
  quota, reading, renaming and soft deletion, each inside one organization.
\<close>

section \<open>The repository\<close>

definition live_project :: "string \<Rightarrow> project_row \<Rightarrow> bool" where
  "live_project organizationId p = (prj_organizationId p = organizationId \<and> prj_deletedAt p = None)"

definition projects_of :: "string \<Rightarrow> database \<Rightarrow> project_row list" where
  "projects_of organizationId d = filter (live_project organizationId) (projects d)"

definition project_count :: "database \<Rightarrow> string \<Rightarrow> nat" where
  "project_count d organizationId = count_where (live_project organizationId) (projects d)"

record action_ctx =
  ac_actorUserId :: string
  ac_actorMembershipId :: string
  ac_ctx :: request_ctx

definition recordProjectEvent ::
  "string \<Rightarrow> string \<Rightarrow> string \<Rightarrow> metadata \<Rightarrow> action_ctx \<Rightarrow> unit api" where
  "recordProjectEvent organizationId eventType projectId md ctx =
    insertSecurityEvent (Some (ac_actorUserId ctx)) None (Some organizationId) UserActor eventType
      ([(''actorMembershipId'', JStr (ac_actorMembershipId ctx)), (''targetType'', JStr ''project''),
        (''targetProjectId'', JStr projectId)] @ md) (ac_ctx ctx)"

definition listActiveProjects ::
  "string \<Rightarrow> database \<Rightarrow> (date \<times> string) option \<Rightarrow> nat \<Rightarrow> project_row list" where
  "listActiveProjects organizationId d cursor limit =
    page_query prj_createdAt prj_id cursor limit (projects_of organizationId d)"

definition new_project :: "string \<Rightarrow> string \<Rightarrow> string \<Rightarrow> string \<Rightarrow> timestamptz \<Rightarrow> project_row" where
  "new_project i organizationId name createdByUserId t =
    \<lparr>prj_id = i, prj_organizationId = organizationId, prj_name = name,
     prj_createdByUserId = createdByUserId, prj_deletedAt = None, prj_deletedByUserId = None,
     prj_createdAt = t, prj_updatedAt = t\<rparr>"

definition insert_project :: "project_row \<Rightarrow> database \<Rightarrow> database" where
  "insert_project p d = d\<lparr>projects := projects d @ [p]\<rparr>"

definition createProject :: "string \<Rightarrow> string \<Rightarrow> string \<Rightarrow> action_ctx \<Rightarrow> project_row api" where
  "createProject organizationId name createdByUserId ctx =
    transaction
     (bindP (lockOrganizationEntitlements organizationId) (\<lambda>(planKey, values).
      bindP (select (\<lambda>d. project_count d organizationId)) (\<lambda>current.
      thenP (requireQuota MaxProjects (evaluateCountQuota current (max_projects values)))
     (bindP (getsP pgNow) (\<lambda>t.
      bindP (createId ''prj'') (\<lambda>i.
      let project = new_project i organizationId name createdByUserId t in
      thenP (sql (insert_project project))
     (thenP (recordProjectEvent organizationId ''project.created'' (prj_id project)
          [(''name'', JStr (prj_name project))] ctx)
        (ret project))))))))"

definition findActiveProject :: "string \<Rightarrow> string \<Rightarrow> project_row option api" where
  "findActiveProject organizationId projectId =
    select (\<lambda>d. select_first (\<lambda>p. prj_organizationId p = organizationId \<and> prj_id p = projectId \<and>
      prj_deletedAt p = None) (projects d))"

definition set_project_name :: "string \<Rightarrow> string \<Rightarrow> date \<Rightarrow> database \<Rightarrow> database" where
  "set_project_name i name now d =
    d\<lparr>projects := update_where (\<lambda>p. prj_id p = i)
      (\<lambda>p. p\<lparr>prj_name := name, prj_updatedAt := fromDate now\<rparr>) (projects d)\<rparr>"

definition updateProject :: "string \<Rightarrow> string \<Rightarrow> string \<Rightarrow> action_ctx \<Rightarrow> project_row api" where
  "updateProject organizationId projectId name ctx =
    transaction
     (bindP (findActiveProject organizationId projectId) (\<lambda>target.
      case target of
        None \<Rightarrow> throw projectNotFoundError
      | Some p \<Rightarrow>
          bindP (getsP nowMs) (\<lambda>now.
          thenP (sql (set_project_name (prj_id p) name now))
         (bindP (select (\<lambda>d. select_first (\<lambda>q. prj_id q = prj_id p) (projects d))) (\<lambda>returned.
          bindP (requireRow ''projects update'' returned) (\<lambda>updated.
          thenP (recordProjectEvent organizationId ''project.updated'' (prj_id updated)
              [(''name'', JStr (prj_name updated))] ctx)
            (ret updated)))))))"

definition set_project_deleted :: "string \<Rightarrow> string \<Rightarrow> date \<Rightarrow> database \<Rightarrow> database" where
  "set_project_deleted i userId now d =
    d\<lparr>projects := update_where (\<lambda>p. prj_id p = i)
      (\<lambda>p. p\<lparr>prj_deletedAt := Some (fromDate now), prj_deletedByUserId := Some userId,
             prj_updatedAt := fromDate now\<rparr>) (projects d)\<rparr>"

definition softDeleteProject :: "string \<Rightarrow> string \<Rightarrow> action_ctx \<Rightarrow> unit api" where
  "softDeleteProject organizationId projectId ctx =
    transaction
     (bindP (findActiveProject organizationId projectId) (\<lambda>target.
      case target of
        None \<Rightarrow> throw projectNotFoundError
      | Some p \<Rightarrow>
          bindP (getsP nowMs) (\<lambda>now.
          thenP (sql (set_project_deleted (prj_id p) (ac_actorUserId ctx) now))
            (recordProjectEvent organizationId ''project.deleted'' (prj_id p) [] ctx))))"

interpretation project_pages: paged_endpoint prj_createdAt prj_id projects_of listActiveProjects
  by unfold_locales (simp add: listActiveProjects_def)

section \<open>The service\<close>

record project_options = limiter_options +
  pj_windowSeconds :: nat
  pj_createPerUserMax :: nat
  pj_mutationPerUserMax :: nat

record project_dto =
  pr_id :: string
  pr_organizationId :: string
  pr_name :: string
  pr_createdByUserId :: string
  pr_createdAt :: date
  pr_updatedAt :: date

definition toProject :: "project_row \<Rightarrow> project_dto" where
  "toProject row =
    \<lparr>pr_id = prj_id row, pr_organizationId = prj_organizationId row, pr_name = prj_name row,
     pr_createdByUserId = prj_createdByUserId row, pr_createdAt = toDate (prj_createdAt row),
     pr_updatedAt = toDate (prj_updatedAt row)\<rparr>"

definition actionContext :: "organization_actor \<Rightarrow> request_ctx \<Rightarrow> action_ctx" where
  "actionContext actor ctx =
    \<lparr>ac_actorUserId = act_userId actor, ac_actorMembershipId = act_membershipId actor, ac_ctx = ctx\<rparr>"

definition decodeProjectCursor :: "string option \<Rightarrow> error + (date \<times> string) option" where
  "decodeProjectCursor cursor = decodePageCursor cursor"

record create_project_input =
  cp_userId :: string
  cp_organizationId :: string
  cp_name :: string
  cp_ctx :: request_ctx

record read_project_input =
  rp_userId :: string
  rp_organizationId :: string
  rp_projectId :: string
  rp_requestId :: "string option"

record update_project_input =
  up_userId :: string
  up_organizationId :: string
  up_projectId :: string
  up_name :: string
  up_ctx :: request_ctx

record delete_project_input =
  dp_userId :: string
  dp_organizationId :: string
  dp_projectId :: string
  dp_ctx :: request_ctx

definition listProjects_body :: "list_input \<Rightarrow> organization_actor \<Rightarrow> project_dto page api" where
  "listProjects_body input actor =
    (case decodeProjectCursor (li_cursor input) of
       Inl e \<Rightarrow> throw e
     | Inr c \<Rightarrow>
         bindP (select (\<lambda>d. listActiveProjects (act_organizationId actor) d c (li_limit input))) (\<lambda>rows.
           ret (cut_page prj_createdAt prj_id toProject (li_limit input) rows)))"

definition listProjects :: "list_input \<Rightarrow> project_dto page api" where
  "listProjects input =
    bindP (requireMembership (li_userId input) (li_organizationId input) (li_requestId input)) (\<lambda>actor.
    thenP (requirePermission actor ProjectsRead) (listProjects_body input actor))"

definition createProject_body ::
  "project_options \<Rightarrow> create_project_input \<Rightarrow> organization_actor \<Rightarrow> project_dto api" where
  "createProject_body opts input actor =
    thenP (enforceMutationRateLimit (limiter_options.truncate opts)
        (''rl:project:create:user:'' @ act_userId actor) (pj_createPerUserMax opts) (pj_windowSeconds opts))
   (bindP (createProject (act_organizationId actor) (cp_name input) (act_userId actor)
        (actionContext actor (cp_ctx input))) (\<lambda>project. ret (toProject project)))"

definition createProject_service :: "project_options \<Rightarrow> create_project_input \<Rightarrow> project_dto api" where
  "createProject_service opts input =
    bindP (requireMembership (cp_userId input) (cp_organizationId input) (ctx_requestId (cp_ctx input)))
     (\<lambda>actor. thenP (requirePermission actor ProjectsCreate) (createProject_body opts input actor))"

definition readProject_body :: "read_project_input \<Rightarrow> organization_actor \<Rightarrow> project_dto api" where
  "readProject_body input actor =
    bindP (findActiveProject (act_organizationId actor) (rp_projectId input)) (\<lambda>project.
      case project of None \<Rightarrow> throw projectNotFoundError | Some p \<Rightarrow> ret (toProject p))"

definition readProject :: "read_project_input \<Rightarrow> project_dto api" where
  "readProject input =
    bindP (requireMembership (rp_userId input) (rp_organizationId input) (rp_requestId input)) (\<lambda>actor.
    thenP (requirePermission actor ProjectsRead) (readProject_body input actor))"

definition updateProject_body ::
  "project_options \<Rightarrow> update_project_input \<Rightarrow> organization_actor \<Rightarrow> project_dto api" where
  "updateProject_body opts input actor =
    thenP (enforceMutationRateLimit (limiter_options.truncate opts)
        (''rl:project:mutate:user:'' @ act_userId actor) (pj_mutationPerUserMax opts) (pj_windowSeconds opts))
   (bindP (updateProject (act_organizationId actor) (up_projectId input) (up_name input)
        (actionContext actor (up_ctx input))) (\<lambda>project. ret (toProject project)))"

definition updateProject_service :: "project_options \<Rightarrow> update_project_input \<Rightarrow> project_dto api" where
  "updateProject_service opts input =
    bindP (requireMembership (up_userId input) (up_organizationId input) (ctx_requestId (up_ctx input)))
     (\<lambda>actor. thenP (requirePermission actor ProjectsUpdate) (updateProject_body opts input actor))"

definition deleteProject_body ::
  "project_options \<Rightarrow> delete_project_input \<Rightarrow> organization_actor \<Rightarrow> (string \<times> bool) api" where
  "deleteProject_body opts input actor =
    thenP (enforceMutationRateLimit (limiter_options.truncate opts)
        (''rl:project:mutate:user:'' @ act_userId actor) (pj_mutationPerUserMax opts) (pj_windowSeconds opts))
   (thenP (softDeleteProject (act_organizationId actor) (dp_projectId input)
        (actionContext actor (dp_ctx input))) (ret (dp_projectId input, True)))"

definition deleteProject :: "project_options \<Rightarrow> delete_project_input \<Rightarrow> (string \<times> bool) api" where
  "deleteProject opts input =
    bindP (requireMembership (dp_userId input) (dp_organizationId input) (ctx_requestId (dp_ctx input)))
     (\<lambda>actor. thenP (requirePermission actor ProjectsDelete) (deleteProject_body opts input actor))"

interpretation list_projects: guarded_operation listProjects li_userId li_organizationId li_requestId
    ProjectsRead listProjects_body
  by unfold_locales (simp add: listProjects_def)

interpretation create_project: guarded_operation "createProject_service opts" cp_userId cp_organizationId
    "\<lambda>i. ctx_requestId (cp_ctx i)" ProjectsCreate "createProject_body opts"
  by unfold_locales (simp add: createProject_service_def)

interpretation read_project: guarded_operation readProject rp_userId rp_organizationId rp_requestId
    ProjectsRead readProject_body
  by unfold_locales (simp add: readProject_def)

interpretation update_project: guarded_operation "updateProject_service opts" up_userId up_organizationId
    "\<lambda>i. ctx_requestId (up_ctx i)" ProjectsUpdate "updateProject_body opts"
  by unfold_locales (simp add: updateProject_service_def)

interpretation delete_project: guarded_operation "deleteProject opts" dp_userId dp_organizationId
    "\<lambda>i. ctx_requestId (dp_ctx i)" ProjectsDelete "deleteProject_body opts"
  by unfold_locales (simp add: deleteProject_def)

section \<open>What the operations change\<close>

text \<open>\<open>recorded g t d d'\<close>: \<open>d'\<close> is \<open>d\<close> with one more event, of type \<open>t\<close>, of the organization \<open>g\<close>.\<close>

definition recorded :: "string \<Rightarrow> string \<Rightarrow> database \<Rightarrow> database \<Rightarrow> bool" where
  "recorded g t d d' =
    (\<exists>e. d' = d\<lparr>securityEvents := securityEvents d @ [e]\<rparr> \<and> se_organizationId e = Some g \<and> se_eventType e = t)"

lemma recordedI:
  "d' = d\<lparr>securityEvents := securityEvents d @ [e]\<rparr> \<Longrightarrow> se_organizationId e = Some g \<Longrightarrow> se_eventType e = t \<Longrightarrow>
   recorded g t d d'"
  by (auto simp: recorded_def)

lemma set_project_fields [simp]:
  "securityEvents (insert_project p d) = securityEvents d" "users (insert_project p d) = users d"
  "organizationPlans (insert_project p d) = organizationPlans d"
  "projects (insert_project p d) = projects d @ [p]"
  "securityEvents (set_project_name i n now d) = securityEvents d" "users (set_project_name i n now d) = users d"
  "organizationPlans (set_project_name i n now d) = organizationPlans d"
  "securityEvents (set_project_deleted i u now d) = securityEvents d" "users (set_project_deleted i u now d) = users d"
  "organizationPlans (set_project_deleted i u now d) = organizationPlans d"
  by (simp_all add: insert_project_def set_project_name_def set_project_deleted_def)

definition live_in :: "database \<Rightarrow> string \<Rightarrow> string \<Rightarrow> project_row option" where
  "live_in d organizationId projectId =
    select_first (\<lambda>p. prj_organizationId p = organizationId \<and> prj_id p = projectId \<and> prj_deletedAt p = None)
      (projects d)"

lemma live_inD:
  "live_in d g i = Some p \<Longrightarrow> p \<in> set (projects d) \<and> prj_organizationId p = g \<and> prj_id p = i \<and> prj_deletedAt p = None"
  by (auto simp: live_in_def dest: find_SomeD)

lemma wp_findActiveProject [wp_simps]: "wp (findActiveProject g i) Q E = (\<lambda>w. Q (live_in (db w) g i) w)"
  by (simp add: findActiveProject_def live_in_def wp_simps)

lemma db_ok_project_facts:
  assumes "db_ok d"
  shows "distinct (map prj_id (projects d))"
    and "prj_organizationId ` set (projects d) \<subseteq> org_id ` set (organizations d)"
    and "prj_createdByUserId ` set (projects d) \<subseteq> u_id ` set (users d)"
    and "set (somes (map prj_deletedByUserId (projects d))) \<subseteq> u_id ` set (users d)"
  using assms unfolding db_ok_iff by simp_all

lemma wp_createProject:
  assumes "\<And>e w'. db w' = db w \<Longrightarrow> E e w'"
    and "\<And>pl w'. plan_row (db w) g = Some pl \<Longrightarrow>
      project_count (db w) g < max_projects (entitlementsForPlan (op_planKey pl)) \<Longrightarrow>
      recorded g ''project.created''
        (insert_project (new_project (newId ''prj'' w) g name u (pgNow w)) (db w)) (db w') \<Longrightarrow>
      db_ok (db w') \<Longrightarrow> Q (new_project (newId ''prj'' w) g name u (pgNow w)) w'"
  shows "wp (createProject g name u ctx) Q E w"
  unfolding createProject_def
  by (auto simp: wp_simps recordProjectEvent_def case_prod_beta Let_def split: option.split
      intro: recordedI intro!: wp_insertSecurityEvent assms)

lemma wp_updateProject:
  assumes ok: "db_ok (db w)" and err: "\<And>e w'. db w' = db w \<Longrightarrow> E e w'"
    and through: "\<And>p w'. live_in (db w) g i = Some p \<Longrightarrow>
      recorded g ''project.updated'' (set_project_name i name (nowMs w) (db w)) (db w') \<Longrightarrow>
      db_ok (db w') \<Longrightarrow> Q (p\<lparr>prj_name := name, prj_updatedAt := fromDate (nowMs w)\<rparr>) w'"
  shows "wp (updateProject g i name ctx) Q E w"
proof (cases "live_in (db w) g i")
  case None
  then show ?thesis by (simp add: updateProject_def wp_simps err)
next
  case (Some p)
  have i: "prj_id p = i" and p: "p \<in> set (projects (db w))" using live_inD [OF Some] by auto
  have "select_first (\<lambda>q. prj_id q = i) (projects (set_project_name i name (nowMs w) (db w))) =
      Some (p\<lparr>prj_name := name, prj_updatedAt := fromDate (nowMs w)\<rparr>)"
    using find_updated [OF db_ok_project_facts(1) [OF ok] p,
        of "\<lambda>q. q\<lparr>prj_name := name, prj_updatedAt := fromDate (nowMs w)\<rparr>"]
    by (simp add: set_project_name_def i)
  then show ?thesis
    unfolding updateProject_def using Some i
    by (auto simp: wp_simps recordProjectEvent_def
        intro: recordedI intro!: wp_insertSecurityEvent through [OF Some] err)
qed

lemma wp_softDeleteProject:
  assumes "\<And>e w'. db w' = db w \<Longrightarrow> E e w'"
    and "\<And>p w'. live_in (db w) g i = Some p \<Longrightarrow>
      recorded g ''project.deleted'' (set_project_deleted i (ac_actorUserId ctx) (nowMs w) (db w)) (db w') \<Longrightarrow>
      db_ok (db w') \<Longrightarrow> Q () w'"
  shows "wp (softDeleteProject g i ctx) Q E w"
proof (cases "live_in (db w) g i")
  case None
  then show ?thesis by (simp add: softDeleteProject_def wp_simps assms(1))
next
  case (Some p)
  have "prj_id p = i" using live_inD [OF Some] by auto
  then show ?thesis
    unfolding softDeleteProject_def using Some
    by (auto simp: wp_simps recordProjectEvent_def
        intro: recordedI intro!: wp_insertSecurityEvent assms(2) [OF Some] assms(1))
qed

section \<open>Interfaces the operations meet\<close>

lemma project_count_events [simp]: "project_count (d\<lparr>securityEvents := es\<rparr>) h = project_count d h"
  by (simp add: project_count_def)

lemma project_count_insert:
  "project_count (insert_project p d) h = project_count d h + (if live_project h p then 1 else 0)"
  by (simp add: project_count_def)

lemma live_new_project [simp]: "live_project h (new_project i g n u t) \<longleftrightarrow> h = g"
  by (auto simp: live_project_def new_project_def)

interpretation create_project_gated: quota_gated
    "\<lambda>i. createProject (si_organizationId i) (fst (si_payload i)) (snd (si_payload i))
      \<lparr>ac_actorUserId = si_actorUserId i, ac_actorMembershipId = si_actorMembershipId i, ac_ctx = si_ctx i\<rparr>"
    si_organizationId project_count max_projects
  by unfold_locales
    (rule wp_createProject; auto simp: plan_limit_def project_count_insert recorded_def)

lemma project_rows:
  "db_ok d \<Longrightarrow> live_in d g i = Some t \<Longrightarrow> p \<in> set (projects d) \<Longrightarrow> prj_id p = i \<Longrightarrow> prj_organizationId p = g"
  using distinct_key_eq [OF db_ok_project_facts(1)] by (metis live_inD)

lemma outside_recorded: "recorded g t d d' \<Longrightarrow> outside g d' = outside g d"
  by (auto simp: recorded_def outside_def)

lemma outside_insert_project: "prj_organizationId p = g \<Longrightarrow> outside g (insert_project p d) = outside g d"
  by (simp add: outside_def insert_project_def)

lemma outside_set_project_name:
  "db_ok d \<Longrightarrow> live_in d g i = Some t \<Longrightarrow> outside g (set_project_name i n now d) = outside g d"
  using project_rows by (auto simp: outside_def set_project_name_def filter_update_where_frame)

lemma outside_set_project_deleted:
  "db_ok d \<Longrightarrow> live_in d g i = Some t \<Longrightarrow> outside g (set_project_deleted i u now d) = outside g d"
  using project_rows by (auto simp: outside_def set_project_deleted_def filter_update_where_frame)

interpretation create_project_scoped: tenant_scoped
    "\<lambda>i. createProject (si_organizationId i) (fst (si_payload i)) (snd (si_payload i))
      \<lparr>ac_actorUserId = si_actorUserId i, ac_actorMembershipId = si_actorMembershipId i, ac_ctx = si_ctx i\<rparr>"
    si_organizationId
  by unfold_locales (rule wp_createProject; simp add: outside_recorded outside_insert_project new_project_def)

interpretation update_project_scoped: tenant_scoped
    "\<lambda>i. updateProject (si_organizationId i) (fst (si_payload i)) (snd (si_payload i))
      \<lparr>ac_actorUserId = si_actorUserId i, ac_actorMembershipId = si_actorMembershipId i, ac_ctx = si_ctx i\<rparr>"
    si_organizationId
  by unfold_locales (rule wp_updateProject; simp add: outside_recorded outside_set_project_name)

interpretation delete_project_scoped: tenant_scoped
    "\<lambda>i. softDeleteProject (si_organizationId i) (si_payload i)
      \<lparr>ac_actorUserId = si_actorUserId i, ac_actorMembershipId = si_actorMembershipId i, ac_ctx = si_ctx i\<rparr>"
    si_organizationId
  by unfold_locales (rule wp_softDeleteProject; simp add: outside_recorded outside_set_project_deleted)

section \<open>What the operations keep\<close>

lemma keeps_createProject [preserve_intros]: "keeps (stable Q) (createProject g name u ctx)"
  unfolding createProject_def recordProjectEvent_def lockOrganizationEntitlements_def Let_def
  by (intro preserve_intros keeps_stable_sql) (simp_all add: backbone_def insert_project_def)

lemma keeps_findActiveProject [preserve_intros]: "preserves P (findActiveProject g i)"
  unfolding findActiveProject_def by (intro preserve_intros)

lemma keeps_updateProject [preserve_intros]: "keeps (stable Q) (updateProject g i name ctx)"
  unfolding updateProject_def recordProjectEvent_def
  by (intro preserve_intros keeps_stable_sql) (simp_all add: backbone_def set_project_name_def)

lemma keeps_softDeleteProject [preserve_intros]: "keeps (stable Q) (softDeleteProject g i ctx)"
  unfolding softDeleteProject_def recordProjectEvent_def
  by (intro preserve_intros keeps_stable_sql) (simp_all add: backbone_def set_project_deleted_def)

lemmas project_services = listProjects_def listProjects_body_def createProject_service_def
  createProject_body_def readProject_def readProject_body_def updateProject_service_def
  updateProject_body_def deleteProject_def deleteProject_body_def

lemma keeps_project_services [preserve_intros]:
  "keeps (stable Q) (listProjects li)" "keeps (stable Q) (createProject_service opts ci)"
  "keeps (stable Q) (readProject ri)" "keeps (stable Q) (updateProject_service opts ui)"
  "keeps (stable Q) (deleteProject opts di)"
  unfolding project_services by (intro preserve_intros)+

section \<open>Creation succeeds below the limit\<close>

lemma plan_row_organization: "db_ok d \<Longrightarrow> plan_row d g = Some p \<Longrightarrow> g \<in> org_id ` set (organizations d)"
  using db_ok_plan_facts(3) [of d] by (auto dest!: plan_rowD)

lemma db_ok_insert_project:
  assumes "db_ok d" and "i \<notin> prj_id ` set (projects d)" and "g \<in> org_id ` set (organizations d)"
    and "u \<in> u_id ` set (users d)"
  shows "db_ok (insert_project (new_project i g n u t) d)"
  unfolding insert_project_def
  by (rule db_ok_upd_projects [OF assms(1)])
    (use db_ok_project_facts [OF assms(1)] assms in \<open>simp_all add: new_project_def somes_snoc\<close>)

lemma createProject_through:
  assumes ok: "db_ok (db w)" and pl: "plan_row (db w) g = Some pl" and u: "u \<in> u_id ` set (users (db w))"
    and actor: "ac_actorUserId ctx \<in> u_id ` set (users (db w))"
    and room: "project_count (db w) g < max_projects (entitlementsForPlan (op_planKey pl))"
    and prj: "newId ''prj'' w \<notin> prj_id ` set (projects (db w))"
    and ev: "newId ''sevt'' (drawn DEFAULT_RANDOM_LENGTH w) \<notin> se_id ` set (securityEvents (db w))"
  shows "wp (createProject g name u ctx)
    (\<lambda>p w'. p = new_project (newId ''prj'' w) g name u (pgNow w) \<and>
      recorded g ''project.created'' (insert_project p (db w)) (db w')) (\<lambda>e w'. False) w"
proof -
  have ins: "db_ok (insert_project (new_project (newId ''prj'' w) g name u (pgNow w)) (db w))"
    by (rule db_ok_insert_project [OF ok prj plan_row_organization [OF ok pl] u])
  have ev': "newId ''sevt'' (drawn DEFAULT_RANDOM_LENGTH w) \<noteq> se_id x" if "x \<in> set (securityEvents (db w))" for x
    using ev that by auto
  show ?thesis
    unfolding createProject_def using pl room
    by (auto simp: wp_simps recordProjectEvent_def Let_def ins ev' actor
        intro: recordedI intro!: wp_insertSecurityEvent_ok)
qed

section \<open>Properties\<close>

text \<open>
  C14. Creating a project is decided by the plan the organization has at that moment: without a
  plan row it is the missing-plan-state error; with as many live projects as the plan's limit, or
  more, it is the quota error carrying limit and count, and nothing changes; below the limit, with
  fresh ids, it succeeds, adds exactly that project and one event, and the count stays at most at
  the limit.
\<close>

theorem createProject_spec:
  assumes "db_ok (db w)" and "u \<in> u_id ` set (users (db w))"
    and "ac_actorUserId ctx \<in> u_id ` set (users (db w))"
    and "newId ''prj'' w \<notin> prj_id ` set (projects (db w))"
    and "newId ''sevt'' (drawn DEFAULT_RANDOM_LENGTH w) \<notin> se_id ` set (securityEvents (db w))"
  shows "case plan_row (db w) g of
      None \<Rightarrow> createProject g name u ctx w = (Inl planStateMissingError, w)
    | Some pl \<Rightarrow>
        let limit = max_projects (entitlementsForPlan (op_planKey pl)); n = project_count (db w) g in
        if limit \<le> n then createProject g name u ctx w = (Inl (quotaExceededError MaxProjects limit n), w)
        else (\<exists>p w' e. createProject g name u ctx w = (Inr p, w') \<and>
          p = new_project (newId ''prj'' w) g name u (pgNow w) \<and>
          db w' = (insert_project p (db w))\<lparr>securityEvents := securityEvents (db w) @ [e]\<rparr> \<and>
          project_count (db w') g = n + 1 \<and> project_count (db w') g \<le> limit)"
proof (cases "plan_row (db w) g")
  case None
  then show ?thesis
    by (simp add: createProject_def lockOrganizationEntitlements_def prog_simps)
next
  case (Some pl)
  show ?thesis
  proof (cases "max_projects (entitlementsForPlan (op_planKey pl)) \<le> project_count (db w) g")
    case True
    with Some show ?thesis
      by (simp add: createProject_def lockOrganizationEntitlements_def requireQuota_def
          evaluateCountQuota_def prog_simps Let_def)
  next
    case False
    with createProject_through [OF assms(1) Some assms(2,3) _ assms(4,5), of name] obtain w' e where
      "createProject g name u ctx w = (Inr (new_project (newId ''prj'' w) g name u (pgNow w)), w')"
      "db w' = (insert_project (new_project (newId ''prj'' w) g name u (pgNow w)) (db w))
        \<lparr>securityEvents := securityEvents (db w) @ [e]\<rparr>"
      by (auto simp: wp_def recorded_def split: prod.splits sum.splits)
    with Some False show ?thesis by (auto simp: Let_def project_count_insert)
  qed
qed

lemma sample_plan_o1: "plan_row sample_db ''o1'' = Some (sample_plan ''p1'' ''o1'' Pro)"
  by code_simp

lemma sample_counts: "project_count sample_db ''o1'' = 2" "map prj_id (projects sample_db) = [''q1'', ''q2'', ''q3'']"
  by code_simp+

lemma newId_length: "length p < length (newId p w)"
  by (simp add: newId_def)

lemma createProject_spec_witness:
  "\<exists>p w'. createProject ''o1'' ''Atlas'' ''ann''
       \<lparr>ac_actorUserId = ''ann'', ac_actorMembershipId = ''m1'', ac_ctx = sample_ctx\<rparr> demo_world = (Inr p, w') \<and>
     project_count (db w') ''o1'' = 3"
proof -
  have "newId ''prj'' demo_world \<notin> set (map prj_id (projects sample_db))"
    unfolding sample_counts(2) using newId_length [of "''prj''" demo_world] by auto
  then show ?thesis
    using createProject_spec [of demo_world "''ann''"
        "\<lparr>ac_actorUserId = ''ann'', ac_actorMembershipId = ''m1'', ac_ctx = sample_ctx\<rparr>" "''o1''" "''Atlas''"]
    by (auto simp: sample_plan_o1 sample_counts(1) sample_plan_def Let_def entitlementsForPlan_def)
qed



text \<open>
  C16. The page cursor is a millisecond instant while the column holds microseconds: when a page
  ends at a row, a live project created earlier in the same millisecond (at an instant that is not
  a whole millisecond) is on no page behind that cursor, whatever the page size. A walk past such a
  boundary never shows it.
\<close>

theorem project_cursor_drops_millisecond:
  fixes x y :: project_row
  assumes "decodeProjectCursor (Some (encodePageCursor (toDate (prj_createdAt x)) (prj_id x))) = Inr c"
    and "toDate (prj_createdAt y) = toDate (prj_createdAt x)" and "\<not> whole_ms (prj_createdAt y)"
  shows "y \<notin> set (listActiveProjects g d c limit)"
  using project_pages.cursor_drops [OF assms(2,3)] assms(1) by (simp add: decodeProjectCursor_def)

lemma project_cursor_drops_millisecond_witness:
  "let x = sample_project ''q8'' ''o1'' 1000900; y = sample_project ''q9'' ''o1'' 1000500;
     d = sample_db\<lparr>projects := [y, x]\<rparr> in
   listActiveProjects ''o1'' d None 1 = [x, y] \<and>
   y \<notin> set (listActiveProjects ''o1'' d (Some (1000, ''q8'')) 1)"
proof -
  have "listActiveProjects ''o1'' (sample_db\<lparr>projects := [sample_project ''q9'' ''o1'' 1000500,
      sample_project ''q8'' ''o1'' 1000900]\<rparr>) None 1 =
      [sample_project ''q8'' ''o1'' 1000900, sample_project ''q9'' ''o1'' 1000500]"
    by code_simp
  then show ?thesis
    using project_cursor_drops_millisecond [of "sample_project ''q8'' ''o1'' 1000900" "Some (1000, ''q8'')"
        "sample_project ''q9'' ''o1'' 1000500"]
    by (simp add: Let_def decodeProjectCursor_def sample_project_def toDate_def whole_ms_def)
qed

end
