(* ===== verification/ApiKeys.thy ===== *)
theory ApiKeys
  imports Projects
begin

text \<open>
  API keys (\<^verbatim>\<open>apps/api/src/modules/api-keys\<close>): the secret and its parsing, the repository, the
  management service, the authenticator of the external API with its bounded failure events, and
  the external project listing.
\<close>

section \<open>The secret (\<open>api-key-secret.ts\<close>)\<close>

definition SCHEME :: string where
  "SCHEME = ''orgistry''"

definition SEPARATOR :: string where
  "SEPARATOR = ''_''"

definition DISPLAY_ALPHABET :: string where
  "DISPLAY_ALPHABET = ''0123456789ABCDEFGHJKMNPQRSTVWXYZ''"

definition DISPLAY_ID_LENGTH :: nat where
  "DISPLAY_ID_LENGTH = 8"

definition SECRET_BYTES :: nat where
  "SECRET_BYTES = 32"

definition randomBase32 :: "nat \<Rightarrow> string api" where
  "randomBase32 n = bindP (randomBytes n) (\<lambda>bytes. ret (randomAlphabetString DISPLAY_ALPHABET bytes))"

record generated_api_key =
  gk_raw :: string
  gk_displayPrefix :: string
  gk_secretHash :: string

definition hashApiKeySecret :: "crypto \<Rightarrow> string \<Rightarrow> string" where
  "hashApiKeySecret c secretComponent = sha256 c secretComponent"

definition generateApiKeySecret :: "crypto \<Rightarrow> generated_api_key api" where
  "generateApiKeySecret c =
    bindP (randomBase32 DISPLAY_ID_LENGTH) (\<lambda>displayId.
    bindP (randomBytes SECRET_BYTES) (\<lambda>bytes.
      let secret = base64url bytes; displayPrefix = SCHEME @ SEPARATOR @ displayId in
      ret \<lparr>gk_raw = displayPrefix @ SEPARATOR @ secret, gk_displayPrefix = displayPrefix,
           gk_secretHash = hashApiKeySecret c secret\<rparr>))"

record parsed_api_key =
  pk_displayPrefix :: string
  pk_secretComponent :: string

definition parseApiKey :: "string option \<Rightarrow> parsed_api_key option" where
  "parseApiKey raw =
    (case raw of
       None \<Rightarrow> None
     | Some r \<Rightarrow>
         if r = [] then None
         else if \<not> startsWith r (SCHEME @ SEPARATOR) then None
         else
           let remainder = drop (length (SCHEME @ SEPARATOR)) r in
           (case indexOf (CHR ''_'') remainder of
              None \<Rightarrow> None
            | Some i \<Rightarrow>
                if i \<le> 0 then None
                else
                  let displayId = take i remainder; secretComponent = drop (i + 1) remainder in
                  if length displayId = 0 \<or> length secretComponent = 0 then None
                  else Some \<lparr>pk_displayPrefix = SCHEME @ SEPARATOR @ displayId,
                             pk_secretComponent = secretComponent\<rparr>))"

lemma display_alphabet_facts:
  "length DISPLAY_ALPHABET = 32" "CHR ''_'' \<notin> set DISPLAY_ALPHABET"
  by (simp_all add: DISPLAY_ALPHABET_def)

lemma randomAlphabetString_display:
  "length (randomAlphabetString DISPLAY_ALPHABET bytes) = length bytes"
  "CHR ''_'' \<notin> set (randomAlphabetString DISPLAY_ALPHABET bytes)"
  using set_randomAlphabetString [of DISPLAY_ALPHABET bytes] display_alphabet_facts
  by (auto simp: length_randomAlphabetString)

lemma parseApiKey_layout:
  assumes "CHR ''_'' \<notin> set i" and "i \<noteq> []" and "s \<noteq> []"
  shows "parseApiKey (Some (SCHEME @ SEPARATOR @ i @ SEPARATOR @ s)) =
    Some \<lparr>pk_displayPrefix = SCHEME @ SEPARATOR @ i, pk_secretComponent = s\<rparr>"
proof -
  have "startsWith (SCHEME @ SEPARATOR @ i @ SEPARATOR @ s) (SCHEME @ SEPARATOR)"
    using startsWith_append [of "SCHEME @ SEPARATOR"] by simp
  then show ?thesis
    using assms by (simp add: parseApiKey_def SEPARATOR_def indexOf_append Let_def SCHEME_def)
qed

section \<open>The repository\<close>

fun scopeString :: "api_key_scope \<Rightarrow> string" where
  "scopeString ProjectsReadScope = ''projects:read''"

definition recordKeyEvent :: "string \<Rightarrow> string \<Rightarrow> string \<Rightarrow> metadata \<Rightarrow> action_ctx \<Rightarrow> unit api" where
  "recordKeyEvent organizationId eventType apiKeyId md ctx =
    insertSecurityEvent (Some (ac_actorUserId ctx)) None (Some organizationId) UserActor eventType
      ([(''actorMembershipId'', JStr (ac_actorMembershipId ctx)), (''targetType'', JStr ''api_key''),
        (''targetKeyId'', JStr apiKeyId)] @ md) (ac_ctx ctx)"

definition active_key :: "string \<Rightarrow> date \<Rightarrow> api_key_row \<Rightarrow> bool" where
  "active_key organizationId now k =
    (key_organizationId k = organizationId \<and> key_revokedAt k = None \<and>
     (case key_expiresAt k of None \<Rightarrow> True | Some t \<Rightarrow> fromDate now < t))"

definition active_key_count :: "date \<Rightarrow> database \<Rightarrow> string \<Rightarrow> nat" where
  "active_key_count now d organizationId = count_where (active_key organizationId now) (apiKeys d)"

definition countActiveApiKeys :: "string \<Rightarrow> date \<Rightarrow> nat api" where
  "countActiveApiKeys organizationId now = select (\<lambda>d. active_key_count now d organizationId)"

record create_key_params =
  kp_organizationId :: string
  kp_name :: string
  kp_displayPrefix :: string
  kp_secretHash :: string
  kp_scopes :: "api_key_scope list"
  kp_expiresAt :: "date option"
  kp_createdByUserId :: string
  kp_now :: date
  kp_ctx :: action_ctx

definition new_key :: "create_key_params \<Rightarrow> string \<Rightarrow> timestamptz \<Rightarrow> api_key_row" where
  "new_key params i t =
    \<lparr>key_id = i, key_organizationId = kp_organizationId params, key_name = kp_name params,
     key_displayPrefix = kp_displayPrefix params, key_secretHash = kp_secretHash params,
     key_scopes = kp_scopes params, key_expiresAt = map_option fromDate (kp_expiresAt params),
     key_lastUsedAt = None, key_revokedAt = None, key_revokedByUserId = None,
     key_createdByUserId = kp_createdByUserId params, key_createdAt = t, key_updatedAt = t\<rparr>"

definition insert_key :: "api_key_row \<Rightarrow> database \<Rightarrow> database" where
  "insert_key k d = d\<lparr>apiKeys := apiKeys d @ [k]\<rparr>"

definition createApiKey :: "create_key_params \<Rightarrow> api_key_row api" where
  "createApiKey params =
    transaction
     (bindP (lockOrganizationEntitlements (kp_organizationId params)) (\<lambda>(planKey, values).
      thenP (requireEntitlement values ApiKeysAccess)
     (bindP (countActiveApiKeys (kp_organizationId params) (kp_now params)) (\<lambda>activeCount.
      thenP (requireQuota MaxApiKeys (evaluateCountQuota activeCount (max_api_keys values)))
     (bindP (getsP pgNow) (\<lambda>t.
      bindP (createId ''key'') (\<lambda>i.
      let key = new_key params i t in
      thenP (sql (insert_key key))
     (thenP (recordKeyEvent (kp_organizationId params) ''api_key.created'' (key_id key)
          [(''displayPrefix'', JStr (key_displayPrefix key)),
           (''scopes'', JArr (map (\<lambda>s. JStr (scopeString s)) (key_scopes key)))] (kp_ctx params))
        (ret key)))))))))"

definition keys_of :: "string \<Rightarrow> database \<Rightarrow> api_key_row list" where
  "keys_of organizationId d = filter (\<lambda>k. key_organizationId k = organizationId) (apiKeys d)"

definition repo_listApiKeys :: "string \<Rightarrow> database \<Rightarrow> (date \<times> string) option \<Rightarrow> nat \<Rightarrow> api_key_row list" where
  "repo_listApiKeys organizationId d cursor limit =
    page_query key_createdAt key_id cursor limit (keys_of organizationId d)"

definition findBySecretHash :: "string \<Rightarrow> api_key_row option api" where
  "findBySecretHash secretHash =
    select (\<lambda>d. select_first (\<lambda>k. key_secretHash k = secretHash) (apiKeys d))"

definition set_key_revoked :: "string \<Rightarrow> string \<Rightarrow> date \<Rightarrow> database \<Rightarrow> database" where
  "set_key_revoked i userId now d =
    d\<lparr>apiKeys := update_where (\<lambda>k. key_id k = i)
      (\<lambda>k. k\<lparr>key_revokedAt := Some (fromDate now), key_revokedByUserId := Some userId,
             key_updatedAt := fromDate now\<rparr>) (apiKeys d)\<rparr>"

definition key_in :: "database \<Rightarrow> string \<Rightarrow> string \<Rightarrow> api_key_row option" where
  "key_in d organizationId apiKeyId =
    select_first (\<lambda>k. key_organizationId k = organizationId \<and> key_id k = apiKeyId) (apiKeys d)"

definition repo_revokeApiKey :: "string \<Rightarrow> string \<Rightarrow> action_ctx \<Rightarrow> (string \<times> bool) api" where
  "repo_revokeApiKey organizationId apiKeyId ctx =
    transaction
     (bindP (select (\<lambda>d. key_in d organizationId apiKeyId)) (\<lambda>target.
      case target of
        None \<Rightarrow> throw apiKeyNotFoundError
      | Some k \<Rightarrow>
          if key_revokedAt k \<noteq> None then ret (key_id k, True)
          else
            bindP (getsP nowMs) (\<lambda>now.
            thenP (sql (set_key_revoked (key_id k) (ac_actorUserId ctx) now))
           (thenP (recordKeyEvent organizationId ''api_key.revoked'' (key_id k) [] ctx)
              (ret (key_id k, False))))))"

definition set_last_used :: "string \<Rightarrow> date \<Rightarrow> database \<Rightarrow> database" where
  "set_last_used i t d =
    d\<lparr>apiKeys := update_where (\<lambda>k. key_id k = i) (\<lambda>k. k\<lparr>key_lastUsedAt := Some (fromDate t)\<rparr>) (apiKeys d)\<rparr>"

definition touchLastUsed :: "string \<Rightarrow> date \<Rightarrow> unit api" where
  "touchLastUsed apiKeyId usedAt = sql (set_last_used apiKeyId usedAt)"

text \<open>The request context of the external API may carry a logger.\<close>

record api_key_request_ctx = request_ctx +
  ctx_log :: bool

record auth_event =
  ae_eventType :: string
  ae_apiKeyId :: "string option"
  ae_organizationId :: "string option"
  ae_metadata :: metadata
  ae_ctx :: api_key_request_ctx


definition recordAuthEvent :: "auth_event \<Rightarrow> unit api" where
  "recordAuthEvent ev =
    insertSecurityEvent None None (ae_organizationId ev)
      (if truthy (ae_apiKeyId ev) then ApiKeyActorType else AnonymousActor) (ae_eventType ev)
      ([(''targetType'', JStr ''api_key'')] @
       (if truthy (ae_apiKeyId ev) then [(''targetKeyId'', JStr (the (ae_apiKeyId ev)))] else []) @
       ae_metadata ev) (request_ctx.truncate (ae_ctx ev))"

interpretation key_pages: paged_endpoint key_createdAt key_id keys_of repo_listApiKeys
  by unfold_locales (simp add: repo_listApiKeys_def)

section \<open>The management service\<close>

record api_key_options = limiter_options +
  ak_windowSeconds :: nat
  ak_createPerUserMax :: nat

record create_key_input =
  ck_userId :: string
  ck_organizationId :: string
  ck_name :: string
  ck_scopes :: "api_key_scope list"
  ck_expiresAt :: "date option"
  ck_ctx :: request_ctx

record revoke_key_input =
  rk_userId :: string
  rk_organizationId :: string
  rk_apiKeyId :: string
  rk_ctx :: request_ctx

datatype api_key_status = KeyActive | KeyRevoked | KeyExpired

record api_key_dto =
  kd_id :: string
  kd_organizationId :: string
  kd_name :: string
  kd_displayPrefix :: string
  kd_scopes :: "api_key_scope list"
  kd_status :: api_key_status
  kd_createdByUserId :: string
  kd_createdAt :: date
  kd_lastUsedAt :: "date option"
  kd_expiresAt :: "date option"
  kd_revokedAt :: "date option"

definition apiKeyStatus :: "api_key_row \<Rightarrow> date \<Rightarrow> api_key_status" where
  "apiKeyStatus row now =
    (if key_revokedAt row \<noteq> None then KeyRevoked
     else case key_expiresAt row of
       None \<Rightarrow> KeyActive
     | Some t \<Rightarrow> if toDate t \<le> now then KeyExpired else KeyActive)"

definition toApiKey :: "date \<Rightarrow> api_key_row \<Rightarrow> api_key_dto" where
  "toApiKey now row =
    \<lparr>kd_id = key_id row, kd_organizationId = key_organizationId row, kd_name = key_name row,
     kd_displayPrefix = key_displayPrefix row, kd_scopes = key_scopes row,
     kd_status = apiKeyStatus row now, kd_createdByUserId = key_createdByUserId row,
     kd_createdAt = toDate (key_createdAt row), kd_lastUsedAt = map_option toDate (key_lastUsedAt row),
     kd_expiresAt = map_option toDate (key_expiresAt row),
     kd_revokedAt = map_option toDate (key_revokedAt row)\<rparr>"

definition decodeApiKeyCursor :: "string option \<Rightarrow> error + (date \<times> string) option" where
  "decodeApiKeyCursor cursor = decodePageCursor cursor"

definition createApiKey_body ::
  "crypto \<Rightarrow> api_key_options \<Rightarrow> create_key_input \<Rightarrow> organization_actor \<Rightarrow> (api_key_dto \<times> string) api" where
  "createApiKey_body c opts input actor =
    thenP (enforceMutationRateLimit (limiter_options.truncate opts)
        (''rl:api-key:create:user:'' @ act_userId actor) (ak_createPerUserMax opts) (ak_windowSeconds opts))
   (thenP (requireApiKeysAccess (act_organizationId actor))
   (bindP (generateApiKeySecret c) (\<lambda>generated.
    bindP (getsP nowMs) (\<lambda>now.
    bindP (createApiKey
        \<lparr>kp_organizationId = act_organizationId actor, kp_name = ck_name input,
         kp_displayPrefix = gk_displayPrefix generated, kp_secretHash = gk_secretHash generated,
         kp_scopes = ck_scopes input, kp_expiresAt = ck_expiresAt input,
         kp_createdByUserId = act_userId actor, kp_now = now,
         kp_ctx = actionContext actor (ck_ctx input)\<rparr>) (\<lambda>row.
      ret (toApiKey now row, gk_raw generated))))))"

definition createApiKey_service ::
  "crypto \<Rightarrow> api_key_options \<Rightarrow> create_key_input \<Rightarrow> (api_key_dto \<times> string) api" where
  "createApiKey_service c opts input =
    bindP (requireMembership (ck_userId input) (ck_organizationId input) (ctx_requestId (ck_ctx input)))
     (\<lambda>actor. thenP (requirePermission actor ApiKeysCreate) (createApiKey_body c opts input actor))"

definition listApiKeys_body :: "list_input \<Rightarrow> organization_actor \<Rightarrow> api_key_dto page api" where
  "listApiKeys_body input actor =
    thenP (requireApiKeysAccess (act_organizationId actor))
     (case decodeApiKeyCursor (li_cursor input) of
        Inl e \<Rightarrow> throw e
      | Inr c \<Rightarrow>
          bindP (select (\<lambda>d. repo_listApiKeys (act_organizationId actor) d c (li_limit input))) (\<lambda>rows.
          bindP (getsP nowMs) (\<lambda>now.
            ret (cut_page key_createdAt key_id (toApiKey now) (li_limit input) rows))))"

definition listApiKeys :: "list_input \<Rightarrow> api_key_dto page api" where
  "listApiKeys input =
    bindP (requireMembership (li_userId input) (li_organizationId input) (li_requestId input)) (\<lambda>actor.
    thenP (requirePermission actor ApiKeysRead) (listApiKeys_body input actor))"

definition revokeApiKey_body :: "revoke_key_input \<Rightarrow> organization_actor \<Rightarrow> (string \<times> bool) api" where
  "revokeApiKey_body input actor =
    thenP (requireApiKeysAccess (act_organizationId actor))
   (thenP (bindP (repo_revokeApiKey (act_organizationId actor) (rk_apiKeyId input)
        (actionContext actor (rk_ctx input))) (\<lambda>_. ret ()))
      (ret (rk_apiKeyId input, True)))"

definition revokeApiKey_service :: "revoke_key_input \<Rightarrow> (string \<times> bool) api" where
  "revokeApiKey_service input =
    bindP (requireMembership (rk_userId input) (rk_organizationId input) (ctx_requestId (rk_ctx input)))
     (\<lambda>actor. thenP (requirePermission actor ApiKeysRevoke) (revokeApiKey_body input actor))"

interpretation create_key: guarded_operation "createApiKey_service c opts" ck_userId ck_organizationId
    "\<lambda>i. ctx_requestId (ck_ctx i)" ApiKeysCreate "createApiKey_body c opts"
  by unfold_locales (simp add: createApiKey_service_def)

interpretation list_keys: guarded_operation listApiKeys li_userId li_organizationId li_requestId
    ApiKeysRead listApiKeys_body
  by unfold_locales (simp add: listApiKeys_def)

interpretation revoke_key: guarded_operation revokeApiKey_service rk_userId rk_organizationId
    "\<lambda>i. ctx_requestId (rk_ctx i)" ApiKeysRevoke revokeApiKey_body
  by unfold_locales (simp add: revokeApiKey_service_def)

section \<open>The authenticator of the external API\<close>

record authenticator_options = limiter_options +
  au_windowSeconds :: nat
  au_perKeyMax :: nat
  au_perOrgMax :: nat
  au_authFailEventsPerIpMax :: nat
  au_lastUsedThrottleSeconds :: nat

record api_key_actor =
  ka_apiKeyId :: string
  ka_organizationId :: string
  ka_scopes :: "api_key_scope list"
  ka_requestId :: "string option"

definition SUPPRESSION_LOG :: string where
  "SUPPRESSION_LOG = ''External API failed-auth durable event writes suppressed for this window''"

definition recordFailedAuthEventBounded :: "authenticator_options \<Rightarrow> auth_event \<Rightarrow> unit api" where
  "recordFailedAuthEventBounded opts ev =
    (let sourceBucket = (case ctx_ipAddress (ae_ctx ev) of None \<Rightarrow> ''unknown'' | Some ip \<Rightarrow> ip) in
     bindP (rl_consume (rateLimiter opts) (''rl:ext:auth-fail-events:ip:'' @ sourceBucket)
        (au_authFailEventsPerIpMax opts) (au_windowSeconds opts)) (\<lambda>decision.
      if decision = Allowed then recordAuthEvent ev
      else
        bindP (getsP nowMs) (\<lambda>now.
        bindP (getsP suppressionLastLoggedAtMs) (\<lambda>lastLogged.
          if (case lastLogged of
                None \<Rightarrow> True
              | Some t \<Rightarrow> int (au_windowSeconds opts) * 1000 \<le> now - t)
          then
            thenP (modifyP (\<lambda>w. w\<lparr>suppressionLastLoggedAtMs := Some now\<rparr>))
              (whenP (ctx_log (ae_ctx ev)) (modifyP (\<lambda>w. w\<lparr>logs := logs w @ [SUPPRESSION_LOG]\<rparr>)))
          else ret ()))))"

definition auth_ev ::
  "string \<Rightarrow> api_key_row option \<Rightarrow> metadata \<Rightarrow> api_key_request_ctx \<Rightarrow> auth_event" where
  "auth_ev eventType row md ctx =
    \<lparr>ae_eventType = eventType, ae_apiKeyId = map_option key_id row,
     ae_organizationId = map_option key_organizationId row, ae_metadata = md, ae_ctx = ctx\<rparr>"

definition refuse :: "authenticator_options \<Rightarrow> auth_event \<Rightarrow> 'a api" where
  "refuse opts ev = thenP (recordFailedAuthEventBounded opts ev) (throw apiKeyUnauthorizedError)"

text \<open>The part after the key's row is found: its life, its organization, its plan, its scope.\<close>

definition authenticateRow ::
  "authenticator_options \<Rightarrow> api_key_row \<Rightarrow> api_key_request_ctx \<Rightarrow> api_key_scope \<Rightarrow> date \<Rightarrow> unit api" where
  "authenticateRow opts row ctx requiredScope now =
    (if key_revokedAt row \<noteq> None then refuse opts (auth_ev ''api_key.auth_revoked'' (Some row) [] ctx)
     else if (case key_expiresAt row of None \<Rightarrow> False | Some t \<Rightarrow> toDate t \<le> now)
     then refuse opts (auth_ev ''api_key.auth_expired'' (Some row) [] ctx)
     else
       bindP (findOrganizationById (key_organizationId row)) (\<lambda>organization.
         if (case organization of None \<Rightarrow> True | Some g \<Rightarrow> org_status g \<noteq> OrgActive)
         then refuse opts (auth_ev ''api_key.auth_organization_inactive'' (Some row) [] ctx)
         else
           bindP (resolveApiKeyEntitlements (key_organizationId row)) (\<lambda>(access, limit).
             if \<not> access
             then thenP (recordAuthEvent (auth_ev ''api_key.auth_entitlement_missing'' (Some row) [] ctx))
               (throw (entitlementRequiredError ApiKeysAccess))
             else if requiredScope \<notin> set (key_scopes row)
             then thenP (recordAuthEvent (auth_ev ''api_key.auth_scope_missing'' (Some row)
                 [(''requiredScope'', JStr (scopeString requiredScope))] ctx))
               (throw (apiKeyScopeRequiredError requiredScope))
             else ret ())))"

text \<open>The two limiter buckets, then the throttled last-used mark.\<close>

definition admitKey :: "authenticator_options \<Rightarrow> api_key_row \<Rightarrow> api_key_request_ctx \<Rightarrow> unit api" where
  "admitKey opts row ctx =
    bindP (limiterAdmits (limiter_options.truncate opts) (''rl:ext:key:'' @ key_id row)
        (au_perKeyMax opts) (au_windowSeconds opts)) (\<lambda>perKeyOk.
    bindP (if perKeyOk then limiterAdmits (limiter_options.truncate opts)
          (''rl:ext:org:'' @ key_organizationId row) (au_perOrgMax opts) (au_windowSeconds opts)
        else ret False) (\<lambda>perOrgOk.
      if \<not> perKeyOk \<or> \<not> perOrgOk then
        thenP (recordAuthEvent (auth_ev ''api_key.rate_limit_exceeded'' (Some row)
          [(''bucket'', JStr (if \<not> perKeyOk then ''per_key'' else ''per_organization''))] ctx))
         (throw apiKeyRateLimitedError)
      else ret ()))"

definition markUsed :: "authenticator_options \<Rightarrow> api_key_row \<Rightarrow> date \<Rightarrow> unit api" where
  "markUsed opts row now =
    whenP (case key_lastUsedAt row of
             None \<Rightarrow> True
           | Some t \<Rightarrow> int (au_lastUsedThrottleSeconds opts) * 1000 \<le> now - toDate t)
      (touchLastUsed (key_id row) now)"

definition authenticate ::
  "crypto \<Rightarrow> authenticator_options \<Rightarrow> string option \<Rightarrow> api_key_request_ctx \<Rightarrow> api_key_scope \<Rightarrow>
   api_key_actor api" where
  "authenticate c opts rawKey ctx requiredScope =
    (case parseApiKey rawKey of
       None \<Rightarrow> refuse opts (auth_ev ''api_key.auth_malformed'' None
         [(''reason'', JStr (if truthy rawKey then ''malformed'' else ''missing''))] ctx)
     | Some parsed \<Rightarrow>
         bindP (findBySecretHash (hashApiKeySecret c (pk_secretComponent parsed))) (\<lambda>found.
           case found of
             None \<Rightarrow> refuse opts (auth_ev ''api_key.auth_unknown'' None [] ctx)
           | Some row \<Rightarrow>
               bindP (getsP nowMs) (\<lambda>now.
               thenP (authenticateRow opts row ctx requiredScope now)
              (thenP (admitKey opts row ctx)
              (thenP (markUsed opts row now)
                (ret \<lparr>ka_apiKeyId = key_id row, ka_organizationId = key_organizationId row,
                      ka_scopes = key_scopes row, ka_requestId = ctx_requestId ctx\<rparr>))))))"

section \<open>The external project listing\<close>

record external_project =
  ep_id :: string
  ep_organizationId :: string
  ep_name :: string
  ep_createdAt :: date
  ep_updatedAt :: date

definition toExternalProject :: "project_row \<Rightarrow> external_project" where
  "toExternalProject row =
    \<lparr>ep_id = prj_id row, ep_organizationId = prj_organizationId row, ep_name = prj_name row,
     ep_createdAt = toDate (prj_createdAt row), ep_updatedAt = toDate (prj_updatedAt row)\<rparr>"

definition decodeExternalCursor :: "string option \<Rightarrow> error + (date \<times> string) option" where
  "decodeExternalCursor cursor = decodePageCursor cursor"

definition listExternalProjects :: "string \<Rightarrow> nat \<Rightarrow> string option \<Rightarrow> external_project page api" where
  "listExternalProjects organizationId limit cursor =
    (case decodeExternalCursor cursor of
       Inl e \<Rightarrow> throw e
     | Inr c \<Rightarrow>
         bindP (select (\<lambda>d. listActiveProjects organizationId d c limit)) (\<lambda>rows.
           ret (cut_page prj_createdAt prj_id toExternalProject limit rows)))"

definition bearerCredential :: "string option \<Rightarrow> string option" where
  "bearerCredential header =
    (case header of
       None \<Rightarrow> None
     | Some h \<Rightarrow>
         if h = [] \<or> \<not> startsWith h ''Bearer '' then None
         else let token = trim (drop (length ''Bearer '') h) in
           if length token > 0 then Some token else None)"

text \<open>\<^verbatim>\<open>GET /v1/external/projects\<close>, with the query's limit and cursor.\<close>

definition external_projects ::
  "crypto \<Rightarrow> authenticator_options \<Rightarrow> string option \<Rightarrow> request_ctx \<Rightarrow> nat \<Rightarrow> string option \<Rightarrow>
   external_project page api" where
  "external_projects c opts header ctx limit cursor =
    bindP (authenticate c opts (bearerCredential header) (request_ctx.extend ctx (api_key_request_ctx.fields True))
      ProjectsReadScope) (\<lambda>actor. listExternalProjects (ka_organizationId actor) limit cursor)"

section \<open>What the management operations change\<close>

lemma key_update_fields [simp]:
  "securityEvents (insert_key k d) = securityEvents d" "users (insert_key k d) = users d"
  "organizationPlans (insert_key k d) = organizationPlans d" "apiKeys (insert_key k d) = apiKeys d @ [k]"
  "securityEvents (set_key_revoked i u now d) = securityEvents d" "users (set_key_revoked i u now d) = users d"
  "organizationPlans (set_key_revoked i u now d) = organizationPlans d"
  "securityEvents (set_last_used i t d) = securityEvents d"
  by (simp_all add: insert_key_def set_key_revoked_def set_last_used_def)

lemma db_ok_key_facts:
  assumes "db_ok d"
  shows "distinct (map key_id (apiKeys d))" and "distinct (map key_secretHash (apiKeys d))"
    and "key_organizationId ` set (apiKeys d) \<subseteq> org_id ` set (organizations d)"
    and "key_createdByUserId ` set (apiKeys d) \<subseteq> u_id ` set (users d)"
    and "set (somes (map key_revokedByUserId (apiKeys d))) \<subseteq> u_id ` set (users d)"
  using assms unfolding db_ok_iff by simp_all

lemma wp_createApiKey:
  assumes "\<And>e w'. db w' = db w \<Longrightarrow> E e w'"
    and "\<And>pl w'. plan_row (db w) (kp_organizationId ps) = Some pl \<Longrightarrow>
      api_keys_access (entitlementsForPlan (op_planKey pl)) \<Longrightarrow>
      active_key_count (kp_now ps) (db w) (kp_organizationId ps) < max_api_keys (entitlementsForPlan (op_planKey pl)) \<Longrightarrow>
      recorded (kp_organizationId ps) ''api_key.created''
        (insert_key (new_key ps (newId ''key'' w) (pgNow w)) (db w)) (db w') \<Longrightarrow>
      db_ok (db w') \<Longrightarrow> Q (new_key ps (newId ''key'' w) (pgNow w)) w'"
  shows "wp (createApiKey ps) Q E w"
  unfolding createApiKey_def
  by (auto simp: wp_simps recordKeyEvent_def countActiveApiKeys_def case_prod_beta Let_def split: option.split
      intro: recordedI intro!: wp_insertSecurityEvent assms)

lemma key_inD: "key_in d g i = Some k \<Longrightarrow> k \<in> set (apiKeys d) \<and> key_organizationId k = g \<and> key_id k = i"
  by (auto simp: key_in_def dest: find_SomeD)

lemma wp_revokeApiKey:
  assumes "\<And>e w'. db w' = db w \<Longrightarrow> E e w'"
    and "\<And>k w'. key_in (db w) g i = Some k \<Longrightarrow> key_revokedAt k \<noteq> None \<Longrightarrow> w' = w \<Longrightarrow> Q (i, True) w'"
    and "\<And>k w'. key_in (db w) g i = Some k \<Longrightarrow> key_revokedAt k = None \<Longrightarrow>
      recorded g ''api_key.revoked'' (set_key_revoked i (ac_actorUserId ctx) (nowMs w) (db w)) (db w') \<Longrightarrow>
      db_ok (db w') \<Longrightarrow> Q (i, False) w'"
  shows "wp (repo_revokeApiKey g i ctx) Q E w"
proof (cases "key_in (db w) g i")
  case None
  then show ?thesis by (simp add: repo_revokeApiKey_def wp_simps assms(1))
next
  case (Some k)
  have i: "key_id k = i" using key_inD [OF Some] by auto
  show ?thesis
    unfolding repo_revokeApiKey_def using Some
    by (auto simp: wp_simps i recordKeyEvent_def
        intro: recordedI intro!: wp_insertSecurityEvent assms(2,3) [OF Some] assms(1))
qed

lemma active_key_count_events [simp]:
  "active_key_count now (d\<lparr>securityEvents := es\<rparr>) h = active_key_count now d h"
  by (simp add: active_key_count_def)

lemma active_key_count_insert:
  "active_key_count now (insert_key k d) h = active_key_count now d h + (if active_key h now k then 1 else 0)"
  by (simp add: active_key_count_def)

lemma active_new_key: "active_key h now (new_key ps i t) \<Longrightarrow> h = kp_organizationId ps"
  by (simp add: active_key_def new_key_def)

definition scoped_key_params :: "date \<Rightarrow> (string \<times> string \<times> string \<times> api_key_scope list \<times> date option) scoped_input \<Rightarrow>
  create_key_params" where
  "scoped_key_params now i =
    (case si_payload i of (name, prefix, hash, scopes, expiresAt) \<Rightarrow>
      \<lparr>kp_organizationId = si_organizationId i, kp_name = name, kp_displayPrefix = prefix,
       kp_secretHash = hash, kp_scopes = scopes, kp_expiresAt = expiresAt,
       kp_createdByUserId = si_actorUserId i, kp_now = now,
       kp_ctx = \<lparr>ac_actorUserId = si_actorUserId i, ac_actorMembershipId = si_actorMembershipId i,
         ac_ctx = si_ctx i\<rparr>\<rparr>)"

lemma scoped_key_params_fields [simp]:
  "kp_organizationId (scoped_key_params now i) = si_organizationId i" "kp_now (scoped_key_params now i) = now"
  by (simp_all add: scoped_key_params_def split: prod.split)

interpretation create_key_gated: quota_gated "\<lambda>i. createApiKey (scoped_key_params now i)"
    si_organizationId "active_key_count now" max_api_keys
  by unfold_locales
    (rule wp_createApiKey; auto simp: plan_limit_def active_key_count_insert recorded_def dest!: active_new_key)

lemma outside_insert_key: "key_organizationId k = g \<Longrightarrow> outside g (insert_key k d) = outside g d"
  by (simp add: outside_def insert_key_def)

lemma outside_set_key_revoked:
  assumes "db_ok d" and "key_in d g i = Some k"
  shows "outside g (set_key_revoked i u now d) = outside g d"
proof -
  have "key_organizationId r = g" if "r \<in> set (apiKeys d)" "key_id r = i" for r
    using that key_inD [OF assms(2)] distinct_key_eq [OF db_ok_key_facts(1) [OF assms(1)]] by metis
  then show ?thesis by (auto simp: outside_def set_key_revoked_def filter_update_where_frame)
qed

interpretation create_key_scoped: tenant_scoped "\<lambda>i. createApiKey (scoped_key_params now i)" si_organizationId
  by unfold_locales (rule wp_createApiKey; simp add: outside_recorded outside_insert_key new_key_def)

interpretation revoke_key_scoped: tenant_scoped
    "\<lambda>i. repo_revokeApiKey (si_organizationId i) (si_payload i)
      \<lparr>ac_actorUserId = si_actorUserId i, ac_actorMembershipId = si_actorMembershipId i, ac_ctx = si_ctx i\<rparr>"
    si_organizationId
  by unfold_locales (rule wp_revokeApiKey; simp add: outside_recorded outside_set_key_revoked)

section \<open>What the operations keep\<close>

lemma keeps_createApiKey [preserve_intros]: "keeps (stable Q) (createApiKey ps)"
  unfolding createApiKey_def recordKeyEvent_def lockOrganizationEntitlements_def countActiveApiKeys_def Let_def
  by (intro preserve_intros keeps_stable_sql) (simp_all add: backbone_def insert_key_def)

lemma keeps_revokeApiKey [preserve_intros]: "keeps (stable Q) (repo_revokeApiKey g i ctx)"
  unfolding repo_revokeApiKey_def recordKeyEvent_def
  by (intro preserve_intros keeps_stable_sql) (simp_all add: backbone_def set_key_revoked_def)

lemma keeps_findOrganizationById [preserve_intros]: "preserves P (findOrganizationById g)"
  unfolding findOrganizationById_def by (intro preserve_intros)

lemma keeps_generateApiKeySecret [preserve_intros]: "keeps P (generateApiKeySecret c)"
  unfolding generateApiKeySecret_def randomBase32_def Let_def by (intro preserve_intros)

lemma keeps_entitlement_reads [preserve_intros]:
  "preserves P (requireApiKeysAccess g)" "preserves P (resolveApiKeyEntitlements g)"
  unfolding requireApiKeysAccess_def resolveApiKeyEntitlements_def by (intro preserve_intros)+

lemma keeps_recordAuthEvent [preserve_intros]: "keeps (stable Q) (recordAuthEvent ev)"
  unfolding recordAuthEvent_def by (intro preserve_intros)

lemma keeps_refuse [preserve_intros]: "keeps (stable Q) (refuse opts ev)"
  unfolding refuse_def recordFailedAuthEventBounded_def Let_def by (intro preserve_intros) simp_all

lemma keeps_authenticate [preserve_intros]: "keeps (stable Q) (authenticate c opts raw ctx scope)"
  unfolding authenticate_def authenticateRow_def admitKey_def markUsed_def touchLastUsed_def findBySecretHash_def
  by (intro preserve_intros keeps_stable_sql) (simp_all add: backbone_def set_last_used_def)

lemma keeps_api_key_services [preserve_intros]:
  "keeps (stable Q) (createApiKey_service c opts ci)" "keeps (stable Q) (listApiKeys li)"
  "keeps (stable Q) (revokeApiKey_service ri)" "keeps (stable Q) (external_projects c aopts h ctx limit cursor)"
  unfolding createApiKey_service_def createApiKey_body_def listApiKeys_def listApiKeys_body_def
    revokeApiKey_service_def revokeApiKey_body_def external_projects_def listExternalProjects_def
  by (intro preserve_intros)+

section \<open>What the authenticator does\<close>

lemma wp_recordAuthEvent:
  assumes "\<And>w'. only_events (db w) (db w') \<Longrightarrow> Q () w'" and "\<And>e w'. db w' = db w \<Longrightarrow> E e w'"
  shows "wp (recordAuthEvent ev) Q E w"
  unfolding recordAuthEvent_def by (rule wp_insertSecurityEvent) (auto intro: assms)

lemma wp_refuse:
  assumes "\<And>e w'. only_events (db w) (db w') \<Longrightarrow> E e w'"
  shows "wp (refuse opts ev) Q E w"
  unfolding refuse_def recordFailedAuthEventBounded_def Let_def
  by (auto simp: wp_simps same_but_limiter_fields intro!: wp_rl_consume wp_recordAuthEvent assms)

text \<open>What the key's row must satisfy for the external API to serve it.\<close>

definition usable_key :: "database \<Rightarrow> date \<Rightarrow> api_key_scope \<Rightarrow> api_key_row \<Rightarrow> bool" where
  "usable_key d now scope k =
    (apiKeyStatus k now = KeyActive \<and>
     (case select_first (\<lambda>g. org_id g = key_organizationId k) (organizations d) of
        None \<Rightarrow> False | Some g \<Rightarrow> org_status g = OrgActive) \<and>
     (case plan_row d (key_organizationId k) of
        None \<Rightarrow> False | Some p \<Rightarrow> api_keys_access (entitlementsForPlan (op_planKey p))) \<and>
     scope \<in> set (key_scopes k))"

lemma wp_findOrganizationById [wp_simps]:
  "wp (findOrganizationById g) Q E = (\<lambda>w. Q (select_first (\<lambda>r. org_id r = g) (organizations (db w))) w)"
  by (simp add: findOrganizationById_def wp_simps)

lemma wp_authenticateRow:
  assumes "\<And>e w'. only_events (db w) (db w') \<Longrightarrow> E e w'"
    and "usable_key (db w) now scope k \<Longrightarrow> Q () w"
  shows "wp (authenticateRow opts k ctx scope now) Q E w"
  unfolding authenticateRow_def
  by (auto simp: wp_simps resolveApiKeyEntitlements_def usable_key_def apiKeyStatus_def
      split: option.splits intro!: wp_refuse wp_recordAuthEvent assms)

lemma wp_admitKey:
  assumes "\<And>e w'. only_events (db w) (db w') \<Longrightarrow> E e w'"
    and "\<And>w'. db w' = db w \<Longrightarrow> nowMs w' = nowMs w \<Longrightarrow> Q () w'"
  shows "wp (admitKey opts k ctx) Q E w"
  unfolding admitKey_def
  by (auto simp: wp_simps same_but_limiter_fields intro!: wp_limiterAdmits wp_recordAuthEvent assms)

lemma wp_authenticate:
  assumes err: "\<And>e w'. only_events (db w) (db w') \<Longrightarrow> E e w'"
    and ok: "\<And>p k w'. parseApiKey raw = Some p \<Longrightarrow> k \<in> set (apiKeys (db w)) \<Longrightarrow>
      key_secretHash k = hashApiKeySecret c (pk_secretComponent p) \<Longrightarrow> usable_key (db w) (nowMs w) scope k \<Longrightarrow>
      db w' = db w \<or> db w' = set_last_used (key_id k) (nowMs w) (db w) \<Longrightarrow>
      Q \<lparr>ka_apiKeyId = key_id k, ka_organizationId = key_organizationId k, ka_scopes = key_scopes k,
         ka_requestId = ctx_requestId ctx\<rparr> w'"
  shows "wp (authenticate c opts raw ctx scope) Q E w"
proof (cases "parseApiKey raw")
  case None
  then show ?thesis unfolding authenticate_def by (simp add: wp_refuse err)
next
  case (Some p)
  show ?thesis
  proof (cases "select_first (\<lambda>k. key_secretHash k = hashApiKeySecret c (pk_secretComponent p)) (apiKeys (db w))")
    case None
    with Some show ?thesis
      unfolding authenticate_def by (simp add: wp_simps findBySecretHash_def wp_refuse err)
  next
    fix k assume k: "select_first (\<lambda>k. key_secretHash k = hashApiKeySecret c (pk_secretComponent p)) (apiKeys (db w)) = Some k"
    note row = find_SomeD [OF k]
    show ?thesis
      unfolding authenticate_def using Some k row
      by (auto simp: wp_simps findBySecretHash_def markUsed_def touchLastUsed_def
          intro!: wp_authenticateRow wp_admitKey err ok [OF Some])
  qed
qed

lemma db_ok_set_last_used: "db_ok d \<Longrightarrow> db_ok (set_last_used i t d)"
  unfolding set_last_used_def
  by (rule db_ok_upd_apiKeys; (assumption | use db_ok_key_facts [of d] in
    \<open>simp_all del: set_update_where set_somes flip: set_map\<close>))

lemma authenticateRow_through:
  "usable_key (db w) now scope k \<Longrightarrow> authenticateRow opts k ctx scope now w = (Inr (), w)"
  by (auto simp: usable_key_def authenticateRow_def apiKeyStatus_def findOrganizationById_def
      resolveApiKeyEntitlements_def prog_simps split: option.splits if_splits)

lemma admitKey_noop: "rateLimiter opts = NoopLimiter \<Longrightarrow> admitKey opts k ctx w = (Inr (), w)"
  by (simp add: admitKey_def limiterAdmits_def noopConsume_def enforceStoreAvailability_def prog_simps
      limiter_options.truncate_def)

lemma authenticate_through:
  assumes "db_ok (db w)" and "rateLimiter opts = NoopLimiter" and "parseApiKey raw = Some p"
    and k: "k \<in> set (apiKeys (db w))" "key_secretHash k = hashApiKeySecret c (pk_secretComponent p)"
    and "usable_key (db w) (nowMs w) scope k"
  shows "\<exists>w'. authenticate c opts raw ctx scope w =
    (Inr \<lparr>ka_apiKeyId = key_id k, ka_organizationId = key_organizationId k, ka_scopes = key_scopes k,
       ka_requestId = ctx_requestId ctx\<rparr>, w')"
proof -
  have "select_first (\<lambda>x. key_secretHash x = hashApiKeySecret c (pk_secretComponent p)) (apiKeys (db w)) = Some k"
    by (rule find_unique_key [OF db_ok_key_facts(2) [OF assms(1)] k(1)]) (simp_all add: k(2))
  then show ?thesis
    by (auto simp: authenticate_def findBySecretHash_def prog_simps assms(3) authenticateRow_through [OF assms(6)]
        admitKey_noop [OF assms(2)] markUsed_def touchLastUsed_def db_ok_set_last_used [OF assms(1)])
qed

lemma usable_new_key:
  assumes "scope \<in> set (key_scopes k)" and "case e of None \<Rightarrow> True | Some t \<Rightarrow> now < t"
    and "key_expiresAt k = map_option fromDate e" and "key_revokedAt k = None" and "key_organizationId k = g"
    and "plan_row d g = Some pl" and "api_keys_access (entitlementsForPlan (op_planKey pl))"
    and "select_first (\<lambda>x. org_id x = g) (organizations d) = Some r" and "org_status r = OrgActive"
  shows "usable_key d now scope k"
  using assms by (auto simp: usable_key_def apiKeyStatus_def split: option.splits)

lemma generateApiKeySecret_law:
  "\<exists>g w' p. generateApiKeySecret c w = (Inr g, w') \<and> db w' = db w \<and> nowMs w' = nowMs w \<and>
     parseApiKey (Some (gk_raw g)) = Some p \<and>
     pk_displayPrefix p = gk_displayPrefix g \<and> hashApiKeySecret c (pk_secretComponent p) = gk_secretHash g"
proof -
  obtain b where b: "randomBytes DISPLAY_ID_LENGTH w = (Inr b, drawn DISPLAY_ID_LENGTH w)" "length b = DISPLAY_ID_LENGTH"
    by (simp add: randomBytes_def drawn_def)
  obtain b' where b': "randomBytes SECRET_BYTES (drawn DISPLAY_ID_LENGTH w) =
      (Inr b', drawn SECRET_BYTES (drawn DISPLAY_ID_LENGTH w))" "length b' = SECRET_BYTES"
    by (simp add: randomBytes_def drawn_def)
  let ?i = "randomAlphabetString DISPLAY_ALPHABET b"
  have "CHR ''_'' \<notin> set ?i" "?i \<noteq> []"
    using randomAlphabetString_display [of b] b(2) by (auto simp: DISPLAY_ID_LENGTH_def)
  moreover have "base64url b' \<noteq> []"
    using b'(2) by (cases b' rule: base64url.cases) (auto simp: SECRET_BYTES_def)
  ultimately have "parseApiKey (Some (SCHEME @ SEPARATOR @ ?i @ SEPARATOR @ base64url b')) =
      Some \<lparr>pk_displayPrefix = SCHEME @ SEPARATOR @ ?i, pk_secretComponent = base64url b'\<rparr>"
    by (rule parseApiKey_layout)
  then show ?thesis
    by (simp add: generateApiKeySecret_def randomBase32_def prog_simps Let_def b(1) b'(1))
qed

lemma wp_generateApiKeySecret:
  assumes "\<And>g w' p. db w' = db w \<Longrightarrow> nowMs w' = nowMs w \<Longrightarrow> parseApiKey (Some (gk_raw g)) = Some p \<Longrightarrow>
    hashApiKeySecret c (pk_secretComponent p) = gk_secretHash g \<Longrightarrow> Q g w'"
  shows "wp (generateApiKeySecret c) Q E w"
  using generateApiKeySecret_law [of c w] assms by (auto simp: wp_def)

lemma db_ok_set_key_revoked:
  assumes "db_ok d" and "u \<in> u_id ` set (users d)"
  shows "db_ok (set_key_revoked i u now d)"
  unfolding set_key_revoked_def
proof (rule db_ok_upd_apiKeys [OF assms(1)])
  let ?ks = "update_where (\<lambda>k. key_id k = i) (\<lambda>k. k\<lparr>key_revokedAt := Some (fromDate now),
    key_revokedByUserId := Some u, key_updatedAt := fromDate now\<rparr>) (apiKeys d)"
  note old = db_ok_key_facts [OF assms(1)]
  show "set (somes (map key_revokedByUserId ?ks)) \<subseteq> set (map u_id (users d))"
  proof
    fix x assume "x \<in> set (somes (map key_revokedByUserId ?ks))"
    then have "x = u \<or> x \<in> set (somes (map key_revokedByUserId (apiKeys d)))"
      by (auto simp: update_where_def image_iff split: if_splits)
    then show "x \<in> set (map u_id (users d))" using old(5) assms(2) by auto
  qed
qed (use db_ok_key_facts [OF assms(1)] in \<open>simp_all del: set_update_where set_somes flip: set_map\<close>)

lemma revokeApiKey_through:
  assumes ok: "db_ok (db w)" and actor: "ac_actorUserId ctx \<in> u_id ` set (users (db w))"
    and ev: "newId ''sevt'' w \<notin> se_id ` set (securityEvents (db w))"
    and k: "key_in (db w) g i = Some k" "key_revokedAt k = None"
  shows "wp (repo_revokeApiKey g i ctx)
    (\<lambda>r w'. r = (i, False) \<and> recorded g ''api_key.revoked'' (set_key_revoked i (ac_actorUserId ctx) (nowMs w) (db w)) (db w'))
    (\<lambda>e w'. False) w"
proof -
  have i: "key_id k = i" using key_inD [OF k(1)] by auto
  have ev': "newId ''sevt'' w \<noteq> se_id x" if "x \<in> set (securityEvents (db w))" for x using ev that by auto
  show ?thesis
    unfolding repo_revokeApiKey_def using k
    by (auto simp: wp_simps i recordKeyEvent_def db_ok_set_key_revoked [OF ok actor] ev' actor
        intro: recordedI intro!: wp_insertSecurityEvent_ok)
qed

lemma db_ok_insert_key:
  assumes "db_ok d" and "i \<notin> key_id ` set (apiKeys d)" and "kp_secretHash ps \<notin> key_secretHash ` set (apiKeys d)"
    and "kp_organizationId ps \<in> org_id ` set (organizations d)" and "kp_createdByUserId ps \<in> u_id ` set (users d)"
  shows "db_ok (insert_key (new_key ps i t) d)"
  unfolding insert_key_def
  by (rule db_ok_upd_apiKeys [OF assms(1)])
    (use db_ok_key_facts [OF assms(1)] assms in \<open>simp_all add: new_key_def somes_snoc\<close>)

lemma createApiKey_through:
  assumes ok: "db_ok (db w)" and pl: "plan_row (db w) (kp_organizationId ps) = Some pl"
    and access: "api_keys_access (entitlementsForPlan (op_planKey pl))"
    and room: "active_key_count (kp_now ps) (db w) (kp_organizationId ps) < max_api_keys (entitlementsForPlan (op_planKey pl))"
    and u: "kp_createdByUserId ps \<in> u_id ` set (users (db w))"
      "ac_actorUserId (kp_ctx ps) \<in> u_id ` set (users (db w))"
    and fresh: "newId ''key'' w \<notin> key_id ` set (apiKeys (db w))"
      "kp_secretHash ps \<notin> key_secretHash ` set (apiKeys (db w))"
    and ev: "newId ''sevt'' (drawn DEFAULT_RANDOM_LENGTH w) \<notin> se_id ` set (securityEvents (db w))"
  shows "wp (createApiKey ps)
    (\<lambda>k w'. k = new_key ps (newId ''key'' w) (pgNow w) \<and>
      recorded (kp_organizationId ps) ''api_key.created'' (insert_key k (db w)) (db w')) (\<lambda>e w'. False) w"
proof -
  have ins: "db_ok (insert_key (new_key ps (newId ''key'' w) (pgNow w)) (db w))"
    by (rule db_ok_insert_key [OF ok fresh plan_row_organization [OF ok pl] u(1)])
  have ev': "newId ''sevt'' (drawn DEFAULT_RANDOM_LENGTH w) \<noteq> se_id x" if "x \<in> set (securityEvents (db w))" for x
    using ev that by auto
  show ?thesis
    unfolding createApiKey_def using pl room access
    by (auto simp: wp_simps recordKeyEvent_def countActiveApiKeys_def Let_def ins ev' u
        intro: recordedI intro!: wp_insertSecurityEvent_ok)
qed

section \<open>Properties\<close>

text \<open>
  C17. The secret shown once is the one that authenticates: whatever bytes are drawn, the raw
  key generated for the client parses, to the display prefix that is stored, and the hash of its
  secret part is the stored hash. The secret may contain the separator itself.
\<close>

theorem api_key_roundtrip:
  "\<exists>g w' p. generateApiKeySecret c w = (Inr g, w') \<and> db w' = db w \<and> parseApiKey (Some (gk_raw g)) = Some p \<and>
     pk_displayPrefix p = gk_displayPrefix g \<and> hashApiKeySecret c (pk_secretComponent p) = gk_secretHash g"
  using generateApiKeySecret_law by blast

text \<open>
  C18. The external API is sound: whenever authentication returns an actor, the presented
  credential parses and hashes to a stored key of the actor's organization that is not revoked, not
  expired at this instant, whose organization is active, whose plan grants API access, and which
  has the required scope; only the key's last-used mark may have changed. When it raises, nothing
  but added events has changed.
\<close>

theorem authenticate_sound:
  "case authenticate c opts raw ctx scope w of
     (Inr a, w') \<Rightarrow> \<exists>p k. parseApiKey raw = Some p \<and> k \<in> set (apiKeys (db w)) \<and>
        key_secretHash k = hashApiKeySecret c (pk_secretComponent p) \<and>
        ka_apiKeyId a = key_id k \<and> ka_organizationId a = key_organizationId k \<and> ka_scopes a = key_scopes k \<and>
        usable_key (db w) (nowMs w) scope k \<and>
        (db w' = db w \<or> db w' = set_last_used (key_id k) (nowMs w) (db w))
   | (Inl e, w') \<Rightarrow> only_events (db w) (db w')"
proof -
  have "wp (authenticate c opts raw ctx scope)
    (\<lambda>a w'. \<exists>p k. parseApiKey raw = Some p \<and> k \<in> set (apiKeys (db w)) \<and>
        key_secretHash k = hashApiKeySecret c (pk_secretComponent p) \<and>
        ka_apiKeyId a = key_id k \<and> ka_organizationId a = key_organizationId k \<and> ka_scopes a = key_scopes k \<and>
        usable_key (db w) (nowMs w) scope k \<and>
        (db w' = db w \<or> db w' = set_last_used (key_id k) (nowMs w) (db w)))
    (\<lambda>e w'. only_events (db w) (db w')) w"
    by (rule wp_authenticate) auto
  then show ?thesis by (auto simp: wp_def split: prod.splits sum.splits)
qed

lemma wp_createApiKey_body:
  assumes err: "\<And>e w'. db w' = db w \<Longrightarrow> E e w'"
    and ok: "\<And>k raw p pl t w'. parseApiKey (Some raw) = Some p \<Longrightarrow> plan_row (db w) (act_organizationId actor) = Some pl \<Longrightarrow>
      api_keys_access (entitlementsForPlan (op_planKey pl)) \<Longrightarrow>
      key_secretHash k = hashApiKeySecret c (pk_secretComponent p) \<Longrightarrow>
      key_organizationId k = act_organizationId actor \<Longrightarrow> key_scopes k = ck_scopes input \<Longrightarrow>
      key_expiresAt k = map_option fromDate (ck_expiresAt input) \<Longrightarrow> key_revokedAt k = None \<Longrightarrow>
      recorded (act_organizationId actor) ''api_key.created'' (insert_key k (db w)) (db w') \<Longrightarrow> db_ok (db w') \<Longrightarrow>
      Q (toApiKey t k, raw) w'"
  shows "wp (createApiKey_body c opts input actor) Q E w"
  unfolding createApiKey_body_def requireApiKeysAccess_def
  by (auto simp: wp_simps same_but_limiter_fields split: option.split
      intro!: wp_enforceMutationRateLimit wp_generateApiKeySecret wp_createApiKey ok err)
    (simp_all add: new_key_def)

lemma holds_role_organization:
  "db_ok d \<Longrightarrow> holds_role d u g k \<Longrightarrow>
    \<exists>r. select_first (\<lambda>x. org_id x = g) (organizations d) = Some r \<and> org_status r = OrgActive"
  using find_unique_key [OF db_ok_organizations, of d] by (fastforce simp: holds_role_def list_ex_iff)

lemma find_organization_recorded [simp]:
  "organizations (insert_key k d) = organizations d" "plan_row (insert_key k d) g = plan_row d g"
  "plan_row (d\<lparr>securityEvents := es\<rparr>) g = plan_row d g"
  by (simp_all add: insert_key_def plan_row_def)



definition sample_crypto :: crypto where
  "sample_crypto =
    \<lparr>sha256 = (\<lambda>s. rev s), argonHash = (\<lambda>salt s. rev s), argonVerify = (\<lambda>h s. Some (h = rev s)),
     jwtSign = (\<lambda>k p. k), jwtVerify = (\<lambda>t j k. Inl ''invalid'')\<rparr>"

definition sample_key_options :: api_key_options where
  "sample_key_options =
    \<lparr>rateLimiter = NoopLimiter, rateLimitFailureMode = FailOpen, ak_windowSeconds = 60, ak_createPerUserMax = 5\<rparr>"

definition sample_auth_options :: authenticator_options where
  "sample_auth_options =
    \<lparr>rateLimiter = NoopLimiter, rateLimitFailureMode = FailOpen, au_windowSeconds = 60, au_perKeyMax = 5,
     au_perOrgMax = 5, au_authFailEventsPerIpMax = 5, au_lastUsedThrottleSeconds = 60\<rparr>"

definition sample_ext_ctx :: api_key_request_ctx where
  "sample_ext_ctx = request_ctx.extend sample_ctx (api_key_request_ctx.fields True)"

definition sample_key_input :: create_key_input where
  "sample_key_input =
    \<lparr>ck_userId = ''ann'', ck_organizationId = ''o1'', ck_name = ''ci'', ck_scopes = [ProjectsReadScope],
     ck_expiresAt = None, ck_ctx = sample_ctx\<rparr>"

lemma sample_plan_of_o1:
  "plan_row sample_db ''o1'' = Some (sample_plan ''p1'' ''o1'' Pro)"
  by code_simp

lemma sample_key_created:
  "\<exists>dto raw w'. createApiKey_service sample_crypto sample_key_options sample_key_input demo_world = (Inr (dto, raw), w')"
proof -
  have may: "may sample_db ''ann'' ''o1'' ApiKeysCreate" by code_simp
  have empty: "apiKeys sample_db = []" by (simp add: sample_db_def)
  obtain actor where served: "createApiKey_service sample_crypto sample_key_options sample_key_input demo_world =
      createApiKey_body sample_crypto sample_key_options sample_key_input actor demo_world"
    and actor: "act_userId actor = ''ann''" "act_organizationId actor = ''o1''"
    using create_key.runs_body [of demo_world sample_key_input sample_crypto sample_key_options] may
    by (auto simp: sample_key_input_def)
  have "wp (createApiKey_body sample_crypto sample_key_options sample_key_input actor) (\<lambda>_ _. True) (\<lambda>_ _. False) demo_world"
    unfolding createApiKey_body_def requireApiKeysAccess_def enforceMutationRateLimit_def limiterAdmits_def
    by (auto simp: wp_simps sample_key_options_def noopConsume_def enforceStoreAvailability_def actor
        sample_plan_of_o1 sample_plan_def entitlementsForPlan_def limiter_options.truncate_def empty
        actionContext_def active_key_count_def
        intro!: wp_generateApiKeySecret wp_mono [OF createApiKey_through])
  with served show ?thesis by (auto simp: wp_def split: prod.splits sum.splits)
qed


definition sample_key :: api_key_row where
  "sample_key =
    \<lparr>key_id = ''k1'', key_organizationId = ''o1'', key_name = ''ci'', key_displayPrefix = ''orgistry_AA'',
     key_secretHash = ''terces'', key_scopes = [ProjectsReadScope], key_expiresAt = None, key_lastUsedAt = None,
     key_revokedAt = None, key_revokedByUserId = None, key_createdByUserId = ''ann'', key_createdAt = 0, key_updatedAt = 0\<rparr>"


end
