(* ===== verification/AuditLog.thy ===== *)
theory AuditLog
  imports ApiKeys
begin

text \<open>
  The organization audit log (\<^verbatim>\<open>apps/api/src/modules/audit\<close>): the public catalog of event types over
  the persisted ones, the mapper, the filtered keyset query and the read service.
\<close>

section \<open>The catalog (\<open>audit.catalog.ts\<close>)\<close>

datatype audit_event_type =
    MemberRoleChanged | MemberRemovedEvent | ProjectCreated | ProjectUpdated | ProjectDeleted
  | PlanChangedDemo | ApiKeyCreated | ApiKeyRevoked | InvitationCreated | InvitationRevoked
  | InvitationAccepted | MembershipCreatedFromInvitation

datatype audit_target_type =
    MembershipTarget | ProjectTarget | PlanTarget | ApiKeyTarget | InvitationTarget
  | OrganizationTarget | UnknownTarget

datatype audit_actor_type = AuditUser | AuditApiKey | AuditSystem | AuditUnknown

definition AUDIT_EVENT_TYPES :: "(audit_event_type \<times> string) list" where
  "AUDIT_EVENT_TYPES =
    [(MemberRoleChanged, ''member.role_changed''), (MemberRemovedEvent, ''member.removed''),
     (ProjectCreated, ''project.created''), (ProjectUpdated, ''project.updated''),
     (ProjectDeleted, ''project.deleted''), (PlanChangedDemo, ''plan.changed_demo''),
     (ApiKeyCreated, ''api_key.created''), (ApiKeyRevoked, ''api_key.revoked''),
     (InvitationCreated, ''invitation.created''), (InvitationRevoked, ''invitation.revoked''),
     (InvitationAccepted, ''invitation.accepted''),
     (MembershipCreatedFromInvitation, ''membership.created_from_invitation'')]"

definition PUBLIC_TO_PERSISTED :: "(audit_event_type \<times> string) list" where
  "PUBLIC_TO_PERSISTED =
    [(MemberRoleChanged, ''org.member_role_changed''), (MemberRemovedEvent, ''org.member_removed''),
     (ProjectCreated, ''project.created''), (ProjectUpdated, ''project.updated''),
     (ProjectDeleted, ''project.deleted''), (PlanChangedDemo, ''plan.changed_demo''),
     (ApiKeyCreated, ''api_key.created''), (ApiKeyRevoked, ''api_key.revoked''),
     (InvitationCreated, ''invitation.created''), (InvitationRevoked, ''invitation.revoked''),
     (InvitationAccepted, ''invitation.accepted''),
     (MembershipCreatedFromInvitation, ''membership.created_from_invitation'')]"

definition PERSISTED_TO_PUBLIC :: "(string \<times> audit_event_type) list" where
  "PERSISTED_TO_PUBLIC = map (\<lambda>(publicType, persisted). (persisted, publicType)) PUBLIC_TO_PERSISTED"

fun TARGET_TYPE_BY_EVENT :: "audit_event_type \<Rightarrow> audit_target_type" where
  "TARGET_TYPE_BY_EVENT MemberRoleChanged = MembershipTarget"
| "TARGET_TYPE_BY_EVENT MemberRemovedEvent = MembershipTarget"
| "TARGET_TYPE_BY_EVENT ProjectCreated = ProjectTarget"
| "TARGET_TYPE_BY_EVENT ProjectUpdated = ProjectTarget"
| "TARGET_TYPE_BY_EVENT ProjectDeleted = ProjectTarget"
| "TARGET_TYPE_BY_EVENT PlanChangedDemo = PlanTarget"
| "TARGET_TYPE_BY_EVENT ApiKeyCreated = ApiKeyTarget"
| "TARGET_TYPE_BY_EVENT ApiKeyRevoked = ApiKeyTarget"
| "TARGET_TYPE_BY_EVENT InvitationCreated = InvitationTarget"
| "TARGET_TYPE_BY_EVENT InvitationRevoked = InvitationTarget"
| "TARGET_TYPE_BY_EVENT InvitationAccepted = InvitationTarget"
| "TARGET_TYPE_BY_EVENT MembershipCreatedFromInvitation = MembershipTarget"

definition AUDITABLE_PERSISTED_EVENT_TYPES :: "string list" where
  "AUDITABLE_PERSISTED_EVENT_TYPES = map snd PUBLIC_TO_PERSISTED"

definition toPublicEventType :: "string \<Rightarrow> audit_event_type option" where
  "toPublicEventType persisted = map_of PERSISTED_TO_PUBLIC persisted"

definition toPersistedEventType :: "audit_event_type \<Rightarrow> string" where
  "toPersistedEventType publicType = the (map_of PUBLIC_TO_PERSISTED publicType)"

definition publicTypeString :: "audit_event_type \<Rightarrow> string" where
  "publicTypeString publicType = the (map_of AUDIT_EVENT_TYPES publicType)"

text \<open>The target type of a public type string; a string outside the catalog has none.\<close>

definition targetTypeForEvent :: "string \<Rightarrow> audit_target_type" where
  "targetTypeForEvent publicType =
    (case map_of (map (\<lambda>(t, s). (s, t)) AUDIT_EVENT_TYPES) publicType of
       None \<Rightarrow> UnknownTarget
     | Some t \<Rightarrow> TARGET_TYPE_BY_EVENT t)"

definition resolvePersistedEventTypes ::
  "audit_event_type option \<Rightarrow> audit_target_type option \<Rightarrow> string list" where
  "resolvePersistedEventTypes eventType targetType =
    (let all = map fst PUBLIC_TO_PERSISTED;
         byType = (case eventType of None \<Rightarrow> all | Some e \<Rightarrow> filter (\<lambda>t. t = e) all);
         byTarget = (case targetType of None \<Rightarrow> byType
           | Some g \<Rightarrow> filter (\<lambda>t. TARGET_TYPE_BY_EVENT t = g) byType) in
     map toPersistedEventType byTarget)"

section \<open>The mapper (\<open>audit.mapper.ts\<close>)\<close>

definition readString :: "metadata \<Rightarrow> string \<Rightarrow> string option" where
  "readString md key = (case map_of md key of Some (JStr s) \<Rightarrow> Some s | _ \<Rightarrow> None)"

fun toPublicActorType :: "actor_type \<Rightarrow> audit_actor_type" where
  "toPublicActorType UserActor = AuditUser"
| "toPublicActorType ApiKeyActorType = AuditApiKey"
| "toPublicActorType SystemActor = AuditSystem"
| "toPublicActorType AnonymousActor = AuditUnknown"

record audit_event_record =
  ar_id :: string
  ar_organizationId :: "string option"
  ar_eventType :: string
  ar_actorType :: actor_type
  ar_actorUserId :: "string option"
  ar_metadata :: metadata
  ar_requestId :: "string option"
  ar_createdAt :: timestamptz

record audit_actor_summary =
  as_type :: audit_actor_type
  as_userId :: "string option"
  as_membershipId :: "string option"
  as_apiKeyId :: "string option"
  as_label :: "string option"

record audit_target_summary =
  at_type :: audit_target_type
  at_id :: "string option"
  at_label :: "string option"

record audit_event_dto =
  ae_id :: string
  ae_orgId :: string
  ae_type :: string
  ae_actor :: audit_actor_summary
  ae_target :: audit_target_summary
  ae_meta :: metadata
  ae_requestId :: "string option"
  ae_createdAt :: date

definition toActorSummary :: "audit_event_record \<Rightarrow> metadata \<Rightarrow> audit_actor_summary" where
  "toActorSummary r md =
    (let type = toPublicActorType (ar_actorType r) in
     if type = AuditUser then
       \<lparr>as_type = type, as_userId = ar_actorUserId r, as_membershipId = readString md ''actorMembershipId'',
        as_apiKeyId = None, as_label = None\<rparr>
     else if type = AuditApiKey then
       \<lparr>as_type = type, as_userId = None, as_membershipId = None,
        as_apiKeyId = readString md ''targetKeyId'', as_label = None\<rparr>
     else \<lparr>as_type = type, as_userId = None, as_membershipId = None, as_apiKeyId = None, as_label = None\<rparr>)"

fun targetIdFor :: "audit_target_type \<Rightarrow> metadata \<Rightarrow> string option" where
  "targetIdFor ProjectTarget md = readString md ''targetProjectId''"
| "targetIdFor ApiKeyTarget md = readString md ''targetKeyId''"
| "targetIdFor InvitationTarget md = readString md ''targetInvitationId''"
| "targetIdFor MembershipTarget md =
    (case readString md ''targetMembershipId'' of
       Some i \<Rightarrow> Some i
     | None \<Rightarrow> readString md ''membershipId'')"
| "targetIdFor _ md = None"

definition toTargetSummary :: "string \<Rightarrow> metadata \<Rightarrow> audit_target_summary" where
  "toTargetSummary publicType md =
    (let targetType = targetTypeForEvent publicType;
         label = (if targetType = PlanTarget then readString md ''newPlanKey'' else None) in
     \<lparr>at_type = targetType, at_id = targetIdFor targetType md, at_label = label\<rparr>)"

definition toAuditEvent :: "string \<Rightarrow> audit_event_record \<Rightarrow> audit_event_dto" where
  "toAuditEvent organizationId r =
    (let md = sanitizeSecurityMetadata (ar_metadata r);
         publicType = (case toPublicEventType (ar_eventType r) of
           Some t \<Rightarrow> publicTypeString t | None \<Rightarrow> ar_eventType r) in
     \<lparr>ae_id = ar_id r, ae_orgId = organizationId, ae_type = publicType,
      ae_actor = toActorSummary r md, ae_target = toTargetSummary publicType md, ae_meta = md,
      ae_requestId = ar_requestId r, ae_createdAt = toDate (ar_createdAt r)\<rparr>)"

section \<open>The query (\<open>audit.repo.ts\<close>)\<close>

definition TARGET_ID_METADATA_KEYS :: "string list" where
  "TARGET_ID_METADATA_KEYS =
    [''targetProjectId'', ''targetKeyId'', ''targetInvitationId'', ''targetMembershipId'', ''membershipId'']"

text \<open>
  \<open>metadata ->> key\<close> is the text of a scalar value. The recorders store strings under these keys;
  the text of an array or object, which no identifier equals, is left out.
\<close>

fun json_text :: "json \<Rightarrow> string option" where
  "json_text (JStr s) = Some s"
| "json_text (JBool b) = Some (if b then ''true'' else ''false'')"
| "json_text (JNum n) = Some (stringify (JNum n))"
| "json_text _ = None"

record audit_filter =
  af_organizationId :: string
  af_eventTypes :: "string list"
  af_actorType :: "actor_type option"
  af_actorId :: "string option"
  af_targetId :: "string option"
  af_createdAfter :: "date option"
  af_createdBefore :: "date option"

definition audit_match :: "audit_filter \<Rightarrow> security_event_row \<Rightarrow> bool" where
  "audit_match f e =
    (se_organizationId e = Some (af_organizationId f) \<and>
     se_eventType e \<in> set (af_eventTypes f) \<and>
     (case af_actorType f of None \<Rightarrow> True | Some a \<Rightarrow> se_actorType e = a) \<and>
     (if truthy (af_actorId f) then se_userId e = af_actorId f else True) \<and>
     (case af_createdAfter f of None \<Rightarrow> True | Some t \<Rightarrow> fromDate t \<le> se_createdAt e) \<and>
     (case af_createdBefore f of None \<Rightarrow> True | Some t \<Rightarrow> se_createdAt e \<le> fromDate t) \<and>
     (if truthy (af_targetId f)
      then list_ex (\<lambda>key. Option.bind (map_of (se_metadata e) key) json_text = af_targetId f) TARGET_ID_METADATA_KEYS
      else True))"

definition audit_rows :: "audit_filter \<Rightarrow> database \<Rightarrow> security_event_row list" where
  "audit_rows f d = filter (audit_match f) (securityEvents d)"

definition audit_query :: "audit_filter \<Rightarrow> database \<Rightarrow> (date \<times> string) option \<Rightarrow> nat \<Rightarrow> security_event_row list" where
  "audit_query f d cursor limit = page_query se_createdAt se_id cursor limit (audit_rows f d)"

definition toRecord :: "security_event_row \<Rightarrow> audit_event_record" where
  "toRecord row =
    \<lparr>ar_id = se_id row, ar_organizationId = se_organizationId row, ar_eventType = se_eventType row,
     ar_actorType = se_actorType row, ar_actorUserId = se_userId row, ar_metadata = se_metadata row,
     ar_requestId = se_requestId row, ar_createdAt = se_createdAt row\<rparr>"

definition repo_listAuditEvents ::
  "audit_filter \<Rightarrow> database \<Rightarrow> (date \<times> string) option \<Rightarrow> nat \<Rightarrow> audit_event_record list" where
  "repo_listAuditEvents f d cursor limit = map toRecord (audit_query f d cursor limit)"

interpretation audit_pages: paged_endpoint se_createdAt se_id audit_rows audit_query
  by unfold_locales (simp add: audit_query_def)

section \<open>The service (\<open>audit.service.ts\<close>)\<close>

record audit_options = limiter_options +
  ao_windowSeconds :: nat
  ao_perUserMax :: nat
  ao_perOrgMax :: nat

text \<open>The two bounds are the instants of the query's ISO strings.\<close>

record list_audit_input =
  la_userId :: string
  la_organizationId :: string
  la_requestId :: "string option"
  la_limit :: nat
  la_cursor :: "string option"
  la_eventType :: "audit_event_type option"
  la_actorType :: "audit_actor_type option"
  la_targetType :: "audit_target_type option"
  la_actorId :: "string option"
  la_targetId :: "string option"
  la_createdAfter :: "date option"
  la_createdBefore :: "date option"

definition decodeAuditCursor :: "string option \<Rightarrow> error + (date \<times> string) option" where
  "decodeAuditCursor cursor = decodePageCursor cursor"

fun persistedActorType :: "audit_actor_type \<Rightarrow> actor_type" where
  "persistedActorType AuditUnknown = AnonymousActor"
| "persistedActorType AuditUser = UserActor"
| "persistedActorType AuditApiKey = ApiKeyActorType"
| "persistedActorType AuditSystem = SystemActor"

definition toPersistedActorType :: "audit_actor_type option \<Rightarrow> actor_type option" where
  "toPersistedActorType actorType = map_option persistedActorType actorType"

definition enforceReadRateLimit :: "audit_options \<Rightarrow> string \<Rightarrow> nat \<Rightarrow> unit api" where
  "enforceReadRateLimit opts key limit =
    enforceMutationRateLimit (limiter_options.truncate opts) key limit (ao_windowSeconds opts)"

definition filter_of :: "list_audit_input \<Rightarrow> string \<Rightarrow> audit_filter" where
  "filter_of input organizationId =
    \<lparr>af_organizationId = organizationId,
     af_eventTypes = resolvePersistedEventTypes (la_eventType input) (la_targetType input),
     af_actorType = toPersistedActorType (la_actorType input), af_actorId = la_actorId input,
     af_targetId = la_targetId input, af_createdAfter = la_createdAfter input,
     af_createdBefore = la_createdBefore input\<rparr>"

definition listAuditEvents_body ::
  "audit_options \<Rightarrow> list_audit_input \<Rightarrow> organization_actor \<Rightarrow> (audit_event_dto page \<times> nat) api" where
  "listAuditEvents_body opts input actor =
    thenP (requireAuditLogAccess (act_organizationId actor))
   (thenP (enforceReadRateLimit opts (''rl:audit:read:user:'' @ act_userId actor) (ao_perUserMax opts))
   (thenP (enforceReadRateLimit opts (''rl:audit:read:org:'' @ act_organizationId actor) (ao_perOrgMax opts))
   (bindP (resolveAuditEntitlements (act_organizationId actor)) (\<lambda>(access, retentionDays).
      let f = filter_of input (act_organizationId actor) in
      if af_eventTypes f = [] then
        ret (\<lparr>items = [], nextCursor = None, hasMore = False\<rparr>, retentionDays)
      else
        (case decodeAuditCursor (la_cursor input) of
           Inl e \<Rightarrow> throw e
         | Inr c \<Rightarrow>
             bindP (select (\<lambda>d. repo_listAuditEvents f d c (la_limit input))) (\<lambda>records.
               ret (cut_page ar_createdAt ar_id (toAuditEvent (act_organizationId actor)) (la_limit input) records,
                 retentionDays)))))))"

definition listAuditEvents ::
  "audit_options \<Rightarrow> list_audit_input \<Rightarrow> (audit_event_dto page \<times> nat) api" where
  "listAuditEvents opts input =
    bindP (requireMembership (la_userId input) (la_organizationId input) (la_requestId input)) (\<lambda>actor.
    thenP (requirePermission actor AuditEventsRead) (listAuditEvents_body opts input actor))"

interpretation list_audit: guarded_operation "listAuditEvents opts" la_userId la_organizationId la_requestId
    AuditEventsRead "listAuditEvents_body opts"
  by unfold_locales (simp add: listAuditEvents_def)

lemma keeps_audit_reads [preserve_intros]:
  "preserves P (requireAuditLogAccess g)" "preserves P (resolveAuditEntitlements g)"
  unfolding requireAuditLogAccess_def resolveAuditEntitlements_def by (intro preserve_intros)+

lemma keeps_listAuditEvents [preserve_intros]: "keeps P (listAuditEvents opts input)"
  unfolding listAuditEvents_def listAuditEvents_body_def enforceReadRateLimit_def Let_def
  by (intro preserve_intros)

section \<open>Properties\<close>

lemma UNIV_audit_event_type: "t \<in> set (map fst PUBLIC_TO_PERSISTED)"
  by (cases t) (simp_all add: PUBLIC_TO_PERSISTED_def)

lemma toPersistedEventType_simps [simp]:
  "toPersistedEventType MemberRoleChanged = ''org.member_role_changed''"
  "toPersistedEventType MemberRemovedEvent = ''org.member_removed''"
  "toPersistedEventType ProjectCreated = ''project.created''"
  "toPersistedEventType ProjectUpdated = ''project.updated''"
  "toPersistedEventType ProjectDeleted = ''project.deleted''"
  "toPersistedEventType PlanChangedDemo = ''plan.changed_demo''"
  "toPersistedEventType ApiKeyCreated = ''api_key.created''"
  "toPersistedEventType ApiKeyRevoked = ''api_key.revoked''"
  "toPersistedEventType InvitationCreated = ''invitation.created''"
  "toPersistedEventType InvitationRevoked = ''invitation.revoked''"
  "toPersistedEventType InvitationAccepted = ''invitation.accepted''"
  "toPersistedEventType MembershipCreatedFromInvitation = ''membership.created_from_invitation''"
  by (simp_all add: toPersistedEventType_def PUBLIC_TO_PERSISTED_def)

lemma persisted_distinct: "distinct (map fst PERSISTED_TO_PUBLIC)"
  by code_simp

text \<open>
  C22. The audit catalog loses nothing: reading a persisted type as a public one and writing a
  public type as a persisted one are inverse to each other, and the persisted types a filter
  resolves to are exactly those of the public types that match it.
\<close>

theorem audit_catalog_exact:
  "(toPublicEventType s = Some t) = (toPersistedEventType t = s) \<and>
   set (resolvePersistedEventTypes e g) =
     toPersistedEventType ` {t. (e = None \<or> e = Some t) \<and> (g = None \<or> g = Some (TARGET_TYPE_BY_EVENT t))}"
proof
  have "map_of PERSISTED_TO_PUBLIC s = Some t \<longleftrightarrow> (s, t) \<in> set PERSISTED_TO_PUBLIC"
    by (rule map_of_eq_Some_iff [OF persisted_distinct])
  also have "\<dots> \<longleftrightarrow> toPersistedEventType t = s"
    by (cases t) (auto simp: PERSISTED_TO_PUBLIC_def PUBLIC_TO_PERSISTED_def)
  finally show "(toPublicEventType s = Some t) = (toPersistedEventType t = s)"
    by (simp add: toPublicEventType_def)
  have all: "set (map fst PUBLIC_TO_PERSISTED) = UNIV" using UNIV_audit_event_type by blast
  show "set (resolvePersistedEventTypes e g) =
     toPersistedEventType ` {t. (e = None \<or> e = Some t) \<and> (g = None \<or> g = Some (TARGET_TYPE_BY_EVENT t))}"
    using all by (auto simp: resolvePersistedEventTypes_def Let_def image_iff split: option.splits)
qed

lemma in_cut_page: "x \<in> set (items (cut_page created rid dto n rows)) \<Longrightarrow> \<exists>r\<in>set rows. x = dto r"
  by (auto simp: cut_page_def Let_def split: if_splits dest: in_set_takeD)

lemma in_page_query: "r \<in> set (page_query created rid c n rows) \<Longrightarrow> r \<in> set rows"
  by (auto simp: page_query_def dest: in_set_takeD)



end
