(* ===== verification/Mail.thy ===== *)
theory Mail
  imports AccessControl
begin

text \<open>
  The account e-mails: the delivery contract with its header check (\<^verbatim>\<open>mail/account-mailer.ts\<close>,
  \<^verbatim>\<open>mail/smtp-transport.ts\<close>) and the templates (\<^verbatim>\<open>invitation.mailer.ts\<close>, \<^verbatim>\<open>registration.email.ts\<close>,
  \<^verbatim>\<open>email-verification.email.ts\<close>, \<^verbatim>\<open>password-recovery.email.ts\<close>). The SMTP library is the world's
  \<open>mailerUp\<close> and \<open>outbox\<close>.
\<close>

section \<open>Instants and URLs of the language\<close>

text \<open>The civil date of a day counted from 1970-01-01, in the proleptic Gregorian calendar.\<close>

definition civil :: "int \<Rightarrow> int \<times> int \<times> int" where
  "civil days =
    (let z = days + 719468; era = z div 146097; doe = z mod 146097;
         yoe = (doe - doe div 1460 + doe div 36524 - doe div 146096) div 365;
         doy = doe - (365 * yoe + yoe div 4 - yoe div 100);
         mp = (5 * doy + 2) div 153;
         d = doy - (153 * mp + 2) div 5 + 1;
         m = (if mp < 10 then mp + 3 else mp - 9)
     in (yoe + era * 400 + (if m \<le> 2 then 1 else 0), m, d))"

definition pad :: "nat \<Rightarrow> nat \<Rightarrow> string" where
  "pad width n = (let s = show_nat n in replicate (width - length s) (CHR ''0'') @ s)"

definition show_year :: "int \<Rightarrow> string" where
  "show_year y =
    (if 0 \<le> y \<and> y \<le> 9999 then pad 4 (nat y)
     else if y < 0 then ''-'' @ pad 6 (nat (- y)) else ''+'' @ pad 6 (nat y))"

definition toISOString :: "date \<Rightarrow> string" where
  "toISOString t =
    (let days = t div 86400000; ms = nat (t mod 86400000); (y, m, d) = civil days in
     show_year y @ ''-'' @ pad 2 (nat m) @ ''-'' @ pad 2 (nat d) @ ''T'' @
     pad 2 (ms div 3600000) @ '':'' @ pad 2 (ms div 60000 mod 60) @ '':'' @ pad 2 (ms div 1000 mod 60) @
     ''.'' @ pad 3 (ms mod 1000) @ ''Z'')"

definition unreserved :: "char \<Rightarrow> bool" where
  "unreserved c =
    (c \<in> set ''ABCDEFGHIJKLMNOPQRSTUVWXYZabcdefghijklmnopqrstuvwxyz0123456789-_.!~*()'' \<or> c = CHR 0x27)"

definition percent :: "nat \<Rightarrow> string" where
  "percent b = (let hex = ''0123456789ABCDEF'' in [CHR ''%'', hex ! (b div 16), hex ! (b mod 16)])"

definition encodeURIComponent :: "string \<Rightarrow> string" where
  "encodeURIComponent s =
    concat (map (\<lambda>c. if unreserved c then [c] else concat (map percent (utf8_encode [c]))) s)"

lemma encodeURIComponent_unreserved: "list_all unreserved s \<Longrightarrow> encodeURIComponent s = s"
  by (induction s) (simp_all add: encodeURIComponent_def)

definition strip_trailing_slashes :: "string \<Rightarrow> string" where
  "strip_trailing_slashes s = rev (dropWhile (\<lambda>c. c = CHR ''/'') (rev s))"

text \<open>
  \<open>[...].join('\n')\<close>. The em dash U+2014 lies outside the 256 values of \<open>char\<close> and is written as
  the control code 151.
\<close>

fun join_lines :: "string list \<Rightarrow> string" where
  "join_lines [] = ''''"
| "join_lines [s] = s"
| "join_lines (s # ss) = s @ CHR 0x0A # join_lines ss"

definition EM_DASH :: string where
  "EM_DASH = [char_of (151 :: nat)]"

section \<open>Delivery\<close>

definition HEADER_FORGING_CHARACTERS :: "char list" where
  "HEADER_FORGING_CHARACTERS = [CHR 0x0D, CHR 0x0A, CHR 0x00]"

definition assertSafeHeaderValue :: "string \<Rightarrow> string \<Rightarrow> error + unit" where
  "assertSafeHeaderValue value field =
    (if list_ex (\<lambda>c. c \<in> set value) HEADER_FORGING_CHARACTERS
     then Inl (ThrownError (''Account email '' @ field @
       '' contains a control character (CR/LF/NUL) and was rejected to prevent header injection''))
     else Inr ())"

definition assertSafeAccountEmail :: "account_email \<Rightarrow> error + unit" where
  "assertSafeAccountEmail email =
    (case assertSafeHeaderValue (em_to email) ''recipient'' of
       Inl e \<Rightarrow> Inl e
     | Inr _ \<Rightarrow> assertSafeHeaderValue (em_subject email) ''subject'')"

definition deliver :: "account_email \<Rightarrow> unit api" where
  "deliver email =
    (case assertSafeAccountEmail email of
       Inl e \<Rightarrow> throw e
     | Inr _ \<Rightarrow>
         bindP (getsP mailerUp) (\<lambda>up.
           if up then modifyP (\<lambda>w. w\<lparr>outbox := outbox w @ [email]\<rparr>)
           else throw (ThrownError ''sendMail failed'')))"

section \<open>Templates\<close>

definition buildInvitationAcceptUrl :: "string \<Rightarrow> string \<Rightarrow> string" where
  "buildInvitationAcceptUrl webBaseUrl rawToken =
    strip_trailing_slashes webBaseUrl @ ''/invitations/accept?token='' @ encodeURIComponent rawToken"

definition renderInvitationEmail :: "string \<Rightarrow> string \<Rightarrow> string \<Rightarrow> string \<Rightarrow> date \<Rightarrow> account_email" where
  "renderInvitationEmail to organizationName roleName acceptUrl expiresAt =
    \<lparr>em_to = to,
     em_subject = ''You're invited to join '' @ organizationName @ '' on Orgistry'',
     em_text = join_lines
       [''You've been invited to join '' @ organizationName @ '' on Orgistry.'', '''',
        ''Role: '' @ roleName, ''Invited address: '' @ to, '''', ''Accept your invitation:'', acceptUrl, '''',
        ''This invitation expires on '' @ toISOString expiresAt @ ''.'', '''',
        ''If you weren't expecting this, you can safely ignore this email.'']\<rparr>"

definition buildRegistrationCompletionUrl :: "string \<Rightarrow> string \<Rightarrow> string" where
  "buildRegistrationCompletionUrl webBaseUrl rawToken =
    strip_trailing_slashes webBaseUrl @ ''/auth/complete-registration#token='' @ encodeURIComponent rawToken"

definition renderRegistrationCompletionEmail ::
  "string \<Rightarrow> string \<Rightarrow> date \<Rightarrow> string option \<Rightarrow> account_email" where
  "renderRegistrationCompletionEmail to completeUrl expiresAt invitationOrganizationName =
    (let intro = (case invitationOrganizationName of
         Some (c # n) \<Rightarrow> ''Finish creating your Orgistry account to join '' @ (c # n) @ ''.''
       | _ \<Rightarrow> ''Finish creating your Orgistry account.'') in
     \<lparr>em_to = to, em_subject = ''Complete your Orgistry registration'',
      em_text = join_lines
       [intro, '''', ''Confirm your email address and complete your registration:'', completeUrl, '''',
        ''This link expires on '' @ toISOString expiresAt @ '' and can be used once. If it has expired, simply register again to receive a new one.'',
        '''',
        ''If you didn't try to create an Orgistry account, you can safely ignore this email '' @ EM_DASH @
          '' no account has been created.'']\<rparr>)"

definition buildLoginUrl :: "string \<Rightarrow> string" where
  "buildLoginUrl webBaseUrl = strip_trailing_slashes webBaseUrl @ ''/auth/login''"

definition buildForgotPasswordUrl :: "string \<Rightarrow> string" where
  "buildForgotPasswordUrl webBaseUrl = strip_trailing_slashes webBaseUrl @ ''/auth/forgot-password''"

definition renderExistingAccountNoticeEmail :: "string \<Rightarrow> string \<Rightarrow> string \<Rightarrow> account_email" where
  "renderExistingAccountNoticeEmail to loginUrl forgotPasswordUrl =
    \<lparr>em_to = to, em_subject = ''A registration was attempted with your email address'',
     em_text = join_lines
       [''Someone attempted to register an Orgistry account using this email address.'', '''',
        ''If this was you: you already have an Orgistry account for this address. You can sign in here:'',
        loginUrl, '''', ''If you have forgotten your password, you can request a reset here:'',
        forgotPasswordUrl, '''',
        ''If this was not you, no action is required '' @ EM_DASH @
          '' your account is unchanged and no new account has been created.'']\<rparr>"

definition buildEmailVerificationUrl :: "string \<Rightarrow> string \<Rightarrow> string" where
  "buildEmailVerificationUrl webBaseUrl rawToken =
    strip_trailing_slashes webBaseUrl @ ''/auth/verify-email#token='' @ encodeURIComponent rawToken"

definition renderEmailVerificationEmail :: "string \<Rightarrow> string \<Rightarrow> date \<Rightarrow> account_email" where
  "renderEmailVerificationEmail to verifyUrl expiresAt =
    \<lparr>em_to = to, em_subject = ''Verify your email address for Orgistry'',
     em_text = join_lines
       [''Confirm that this email address belongs to your Orgistry account.'', '''',
        ''Verify your email address:'', verifyUrl, '''',
        ''This link expires on '' @ toISOString expiresAt @ ''. If it has expired, sign in and request a new verification email.'',
        '''', ''If you didn't create an Orgistry account, you can safely ignore this email.'']\<rparr>"

definition buildPasswordResetUrl :: "string \<Rightarrow> string \<Rightarrow> string" where
  "buildPasswordResetUrl webBaseUrl rawToken =
    strip_trailing_slashes webBaseUrl @ ''/auth/reset-password#token='' @ encodeURIComponent rawToken"

definition renderPasswordResetEmail :: "string \<Rightarrow> string \<Rightarrow> date \<Rightarrow> account_email" where
  "renderPasswordResetEmail to resetUrl expiresAt =
    \<lparr>em_to = to, em_subject = ''Reset your Orgistry password'',
     em_text = join_lines
       [''A password reset was requested for your Orgistry account.'', '''', ''Choose a new password:'',
        resetUrl, '''',
        ''This link expires on '' @ toISOString expiresAt @ '' and can be used once. If it has expired, request a new one from the sign-in page.'',
        '''',
        ''If you didn't request a password reset, you can safely ignore this email '' @ EM_DASH @
          '' your password has not changed.'']\<rparr>"

section \<open>Facts for the clients\<close>

definition safe_header :: "string \<Rightarrow> bool" where
  "safe_header s = list_all (\<lambda>c. c \<notin> set s) HEADER_FORGING_CHARACTERS"

lemma assertSafeAccountEmail_iff:
  "assertSafeAccountEmail email = Inr () \<longleftrightarrow> safe_header (em_to email) \<and> safe_header (em_subject email)"
  by (auto simp: assertSafeAccountEmail_def assertSafeHeaderValue_def safe_header_def list_ex_iff list_all_iff
      split: sum.splits if_splits)

lemma wp_deliver:
  assumes "\<And>w'. db w' = db w \<Longrightarrow> nowMs w' = nowMs w \<Longrightarrow> pgNow w' = pgNow w \<Longrightarrow> outbox w' = outbox w @ [email] \<Longrightarrow>
      safe_header (em_to email) \<Longrightarrow> safe_header (em_subject email) \<Longrightarrow> Q () w'"
    and "\<And>e. E e w"
  shows "wp (deliver email) Q E w"
proof (cases "assertSafeAccountEmail email")
  case (Inl e)
  then show ?thesis by (simp add: deliver_def wp_simps assms(2))
next
  case (Inr u)
  then have eq: "assertSafeAccountEmail email = Inr ()" by simp
  then have safe: "safe_header (em_to email)" "safe_header (em_subject email)"
    by (simp_all add: assertSafeAccountEmail_iff)
  show ?thesis
    by (auto simp: deliver_def eq wp_simps safe intro!: assms)
qed

lemma keeps_deliver [preserve_intros]: "keeps P (deliver email)"
  unfolding deliver_def by (intro preserve_intros) simp

end
