(* ===== verification/AuthCommon.thy ===== *)
theory AuthCommon
  imports AccessControl Mail
begin

text \<open>
  What the authentication services share (\<^verbatim>\<open>packages/auth-core/src\<close> and
  \<^verbatim>\<open>apps/api/src/modules/auth\<close>): access tokens with key rotation, opaque tokens, the errors, the
  event writer and the rate limit that records what it refuses.
\<close>

section \<open>Opaque tokens (\<open>opaque-token.ts\<close>)\<close>

definition generateOpaqueToken :: "nat \<Rightarrow> string api" where
  "generateOpaqueToken byteLength = bindP (randomBytes byteLength) (\<lambda>bytes. ret (base64url bytes))"

definition DEFAULT_TOKEN_BYTES :: nat where
  "DEFAULT_TOKEN_BYTES = 32"

text \<open>The token the next draw of \<open>generateOpaqueToken\<close> delivers.\<close>

definition nextToken :: "world \<Rightarrow> string" where
  "nextToken w = base64url (map (\<lambda>i. entropy w (entropyPos w + i) mod 256) [0..<DEFAULT_TOKEN_BYTES])"

lemma wp_generateOpaqueToken [wp_simps]:
  "wp (generateOpaqueToken DEFAULT_TOKEN_BYTES) Q E = (\<lambda>w. Q (nextToken w) (drawn DEFAULT_TOKEN_BYTES w))"
  by (simp add: generateOpaqueToken_def wp_simps nextToken_def fun_eq_iff)

lemma keeps_generateOpaqueToken [preserve_intros]: "keeps P (generateOpaqueToken n)"
  unfolding generateOpaqueToken_def by (intro preserve_intros)

section \<open>Access tokens (\<open>access-token.ts\<close>)\<close>

definition ACCESS_TOKEN_TYPE :: string where
  "ACCESS_TOKEN_TYPE = ''access''"

record access_token_claims =
  cl_sub :: string
  cl_sessionId :: string
  cl_iat :: int
  cl_exp :: int

definition accessPayload :: "string \<Rightarrow> string \<Rightarrow> nat \<Rightarrow> date \<Rightarrow> jwt_payload" where
  "accessPayload userId sessionId ttlSeconds now =
    (let issuedAt = now div 1000; expiresAt = issuedAt + int ttlSeconds in
     \<lparr>p_sub = Some (StringClaim userId), p_sessionId = Some (StringClaim sessionId),
      p_type = Some (StringClaim ACCESS_TOKEN_TYPE), p_iat = Some (NumberClaim issuedAt),
      p_exp = Some (NumberClaim expiresAt)\<rparr>)"

definition signAccessToken :: "crypto \<Rightarrow> string \<Rightarrow> string \<Rightarrow> string \<Rightarrow> nat \<Rightarrow> string api" where
  "signAccessToken c userId sessionId secret ttlSeconds =
    bindP (getsP nowMs) (\<lambda>now. ret (jwtSign c secret (accessPayload userId sessionId ttlSeconds now)))"

text \<open>\<open>Inl m\<close> is an \<open>AccessTokenError\<close> with the message \<open>m\<close>.\<close>

definition verifyAccessToken :: "crypto \<Rightarrow> date \<Rightarrow> string \<Rightarrow> string \<Rightarrow> string + access_token_claims" where
  "verifyAccessToken c now token secret =
    (case jwtVerify c now token secret of
       Inl m \<Rightarrow> Inl m
     | Inr payload \<Rightarrow>
         if p_type payload \<noteq> Some (StringClaim ACCESS_TOKEN_TYPE) then Inl ''Unexpected token type''
         else (case (p_sub payload, p_sessionId payload) of
             (Some (StringClaim sub), Some (StringClaim sid)) \<Rightarrow>
               (case (p_iat payload, p_exp payload) of
                  (Some (NumberClaim iat), Some (NumberClaim expiry)) \<Rightarrow>
                    Inr \<lparr>cl_sub = sub, cl_sessionId = sid, cl_iat = iat, cl_exp = expiry\<rparr>
                | _ \<Rightarrow> Inl ''Token is missing required timestamps'')
           | _ \<Rightarrow> Inl ''Token is missing required claims''))"

definition verifyAccessTokenWithRotation ::
  "crypto \<Rightarrow> date \<Rightarrow> string \<Rightarrow> string \<Rightarrow> string option \<Rightarrow> string + access_token_claims" where
  "verifyAccessTokenWithRotation c now token current previous =
    (case verifyAccessToken c now token current of
       Inr claims \<Rightarrow> Inr claims
     | Inl currentKeyError \<Rightarrow>
         (case previous of
            None \<Rightarrow> Inl currentKeyError
          | Some p \<Rightarrow>
              (case verifyAccessToken c now token p of
                 Inr claims \<Rightarrow> Inr claims
               | Inl _ \<Rightarrow> Inl currentKeyError)))"

text \<open>
  What is relied on of the JWT library: a token it signed verifies under the same key until the
  second its \<open>exp\<close> names, and under no other key; nothing past its \<open>exp\<close> verifies.
\<close>

definition jwt_sound :: "crypto \<Rightarrow> bool" where
  "jwt_sound c \<longleftrightarrow>
    (\<forall>now k p e. p_exp p = Some (NumberClaim e) \<longrightarrow>
      jwtVerify c now (jwtSign c k p) k = (if now div 1000 < e then Inr p else Inl ''expired'')) \<and>
    (\<forall>now k k' p. k \<noteq> k' \<longrightarrow> (\<exists>m. jwtVerify c now (jwtSign c k p) k' = Inl m))"

lemma verify_signed:
  assumes "jwt_sound c"
  shows "verifyAccessToken c now (jwtSign c k (accessPayload u s ttl t)) k' =
    (if k = k' \<and> now div 1000 < t div 1000 + int ttl
     then Inr \<lparr>cl_sub = u, cl_sessionId = s, cl_iat = t div 1000, cl_exp = t div 1000 + int ttl\<rparr>
     else Inl (projl (jwtVerify c now (jwtSign c k (accessPayload u s ttl t)) k')))"
proof (cases "k = k'")
  case True
  have e: "p_exp (accessPayload u s ttl t) = Some (NumberClaim (t div 1000 + int ttl))"
    by (simp add: accessPayload_def Let_def)
  then have "jwtVerify c now (jwtSign c k (accessPayload u s ttl t)) k =
      (if now div 1000 < t div 1000 + int ttl then Inr (accessPayload u s ttl t) else Inl ''expired'')"
    using assms by (simp add: jwt_sound_def)
  with True show ?thesis by (simp add: verifyAccessToken_def) (simp add: accessPayload_def Let_def)
next
  case False
  then obtain m where "jwtVerify c now (jwtSign c k (accessPayload u s ttl t)) k' = Inl m"
    using assms unfolding jwt_sound_def by blast
  with False show ?thesis by (simp add: verifyAccessToken_def)
qed

section \<open>Errors (\<open>*.errors.ts\<close>)\<close>

definition invalidCredentialsError :: error where
  "invalidCredentialsError = AppError INVALID_CREDENTIALS 401 ''Invalid email or password.'' NoDetails"

definition emailAlreadyRegisteredError :: error where
  "emailAlreadyRegisteredError =
    AppError EMAIL_ALREADY_REGISTERED 409 ''An account with this email already exists.'' NoDetails"

definition unauthorizedError :: error where
  "unauthorizedError = AppError UNAUTHORIZED 401 ''Authentication is required.'' NoDetails"

definition invalidRefreshTokenError :: error where
  "invalidRefreshTokenError = AppError INVALID_REFRESH_TOKEN 401 ''The session could not be refreshed.'' NoDetails"

definition tokenReuseDetectedError :: error where
  "tokenReuseDetectedError =
    AppError TOKEN_REUSE_DETECTED 401 ''The session has been invalidated. Please sign in again.'' NoDetails"

definition csrfRequiredError :: error where
  "csrfRequiredError = AppError CSRF_REQUIRED 403 ''A required security header is missing.'' NoDetails"

definition currentPasswordIncorrectError :: error where
  "currentPasswordIncorrectError =
    AppError INVALID_CREDENTIALS 400 ''The current password is incorrect.'' NoDetails"

definition passwordUnchangedError :: error where
  "passwordUnchangedError =
    AppError VALIDATION_ERROR 400 ''The new password must be different from the current password.'' NoDetails"

definition emailUnchangedError :: error where
  "emailUnchangedError =
    AppError VALIDATION_ERROR 400 ''The new email address must be different from the current one.'' NoDetails"

definition sessionNotFoundError :: error where
  "sessionNotFoundError = AppError NOT_FOUND 404 ''Session not found.'' NoDetails"

definition emailVerificationTokenInvalidError :: error where
  "emailVerificationTokenInvalidError = AppError EMAIL_VERIFICATION_TOKEN_INVALID 404
    ''This verification link is not valid. Request a new verification email and try again.'' NoDetails"

definition emailVerificationTokenExpiredError :: error where
  "emailVerificationTokenExpiredError = AppError EMAIL_VERIFICATION_TOKEN_EXPIRED 410
    ''This verification link has expired. Request a new verification email and try again.'' NoDetails"

definition emailVerificationTokenUsedError :: error where
  "emailVerificationTokenUsedError = AppError EMAIL_VERIFICATION_TOKEN_USED 409
    ''This verification link has already been used or replaced by a newer one. Request a new verification email if your address is still unverified.'' NoDetails"

definition passwordResetTokenInvalidError :: error where
  "passwordResetTokenInvalidError = AppError PASSWORD_RESET_TOKEN_INVALID 404
    ''This password reset link is not valid. Request a new one from the sign-in page.'' NoDetails"

definition passwordResetTokenExpiredError :: error where
  "passwordResetTokenExpiredError = AppError PASSWORD_RESET_TOKEN_EXPIRED 410
    ''This password reset link has expired. Request a new one from the sign-in page.'' NoDetails"

definition passwordResetTokenUsedError :: error where
  "passwordResetTokenUsedError = AppError PASSWORD_RESET_TOKEN_USED 409
    ''This password reset link has already been used or replaced by a newer one. Request a new one from the sign-in page.'' NoDetails"

definition registrationTokenInvalidError :: error where
  "registrationTokenInvalidError = AppError REGISTRATION_TOKEN_INVALID 404
    ''This registration link is not valid. Please register again to receive a new one.'' NoDetails"

definition registrationTokenExpiredError :: error where
  "registrationTokenExpiredError = AppError REGISTRATION_TOKEN_EXPIRED 410
    ''This registration link has expired. Please register again to receive a new one.'' NoDetails"

definition registrationTokenUsedError :: error where
  "registrationTokenUsedError = AppError REGISTRATION_TOKEN_USED 409
    ''This registration link has already been used or was replaced by a newer one.'' NoDetails"

text \<open>\<open>error instanceof AppError\<close>, and its code.\<close>

fun app_error_code :: "error \<Rightarrow> error_code option" where
  "app_error_code (AppError code _ _ _) = Some code"
| "app_error_code _ = None"

section \<open>Events and rate limits\<close>

datatype security_event_type =
    LoginSucceeded | LoginFailed | AccessTokenRejected
  | RefreshTokenRotated | RefreshTokenReuseDetected | RefreshFailed | LogoutSucceeded | SessionRevoked
  | RateLimitExceeded
  | EmailVerificationRequested | EmailVerificationSucceeded | EmailVerificationFailed
  | PasswordResetRequested | PasswordResetCompleted | PasswordResetRejected
  | PasswordChanged | PasswordChangeRejected | EmailChanged | EmailChangeRejected
  | RegistrationRequested | RegistrationCompletionSucceeded | RegistrationCompletionRejected

fun SECURITY_EVENT_TYPES :: "security_event_type \<Rightarrow> string" where
  "SECURITY_EVENT_TYPES LoginSucceeded = ''auth.login_succeeded''"
| "SECURITY_EVENT_TYPES LoginFailed = ''auth.login_failed''"
| "SECURITY_EVENT_TYPES AccessTokenRejected = ''auth.access_token_rejected''"
| "SECURITY_EVENT_TYPES RefreshTokenRotated = ''auth.refresh_token_rotated''"
| "SECURITY_EVENT_TYPES RefreshTokenReuseDetected = ''auth.refresh_token_reuse_detected''"
| "SECURITY_EVENT_TYPES RefreshFailed = ''auth.refresh_failed''"
| "SECURITY_EVENT_TYPES LogoutSucceeded = ''auth.logout_succeeded''"
| "SECURITY_EVENT_TYPES SessionRevoked = ''auth.session_revoked''"
| "SECURITY_EVENT_TYPES RateLimitExceeded = ''auth.rate_limit_exceeded''"
| "SECURITY_EVENT_TYPES EmailVerificationRequested = ''auth.email_verification_requested''"
| "SECURITY_EVENT_TYPES EmailVerificationSucceeded = ''auth.email_verification_succeeded''"
| "SECURITY_EVENT_TYPES EmailVerificationFailed = ''auth.email_verification_failed''"
| "SECURITY_EVENT_TYPES PasswordResetRequested = ''auth.password_reset_requested''"
| "SECURITY_EVENT_TYPES PasswordResetCompleted = ''auth.password_reset_completed''"
| "SECURITY_EVENT_TYPES PasswordResetRejected = ''auth.password_reset_rejected''"
| "SECURITY_EVENT_TYPES PasswordChanged = ''auth.password_changed''"
| "SECURITY_EVENT_TYPES PasswordChangeRejected = ''auth.password_change_rejected''"
| "SECURITY_EVENT_TYPES EmailChanged = ''auth.email_changed''"
| "SECURITY_EVENT_TYPES EmailChangeRejected = ''auth.email_change_rejected''"
| "SECURITY_EVENT_TYPES RegistrationRequested = ''auth.registration_requested''"
| "SECURITY_EVENT_TYPES RegistrationCompletionSucceeded = ''auth.registration_completion_succeeded''"
| "SECURITY_EVENT_TYPES RegistrationCompletionRejected = ''auth.registration_completion_rejected''"

definition writeSecurityEvent ::
  "string option \<Rightarrow> string option \<Rightarrow> actor_type \<Rightarrow> security_event_type \<Rightarrow> metadata \<Rightarrow> request_ctx \<Rightarrow> unit api" where
  "writeSecurityEvent userId sessionId actorType eventType md ctx =
    insertSecurityEvent userId sessionId None actorType (SECURITY_EVENT_TYPES eventType) md ctx"

definition enforceAuthRateLimit ::
  "limiter_options \<Rightarrow> nat \<Rightarrow> string \<Rightarrow> nat \<Rightarrow> string \<Rightarrow> request_ctx \<Rightarrow> unit api" where
  "enforceAuthRateLimit opts windowSeconds key limit bucket ctx =
    bindP (limiterAdmits opts key limit windowSeconds) (\<lambda>allowed.
      if allowed then ret ()
      else thenP (writeSecurityEvent None None AnonymousActor RateLimitExceeded [(''bucket'', JStr bucket)] ctx)
        (throw rateLimitedError))"

text \<open>The limit per address applies when the address is known.\<close>

definition enforceIpRateLimit ::
  "limiter_options \<Rightarrow> nat \<Rightarrow> string \<Rightarrow> nat \<Rightarrow> string \<Rightarrow> request_ctx \<Rightarrow> unit api" where
  "enforceIpRateLimit opts windowSeconds prefix limit bucket ctx =
    whenP (truthy (ctx_ipAddress ctx))
      (enforceAuthRateLimit opts windowSeconds (prefix @ the (ctx_ipAddress ctx)) limit bucket ctx)"

definition recoverable :: "user_row \<Rightarrow> bool" where
  "recoverable u = (u_status u = UserActive \<and> u_deletedAt u = None)"

definition findUserByNormalizedEmail :: "string \<Rightarrow> user_row option api" where
  "findUserByNormalizedEmail email = select (\<lambda>d. select_first (\<lambda>u. u_normalizedEmail u = email) (users d))"

definition user_by_id :: "database \<Rightarrow> string \<Rightarrow> user_row option" where
  "user_by_id d i = select_first (\<lambda>u. u_id u = i) (users d)"

definition findUserById :: "string \<Rightarrow> user_row option api" where
  "findUserById i = select (\<lambda>d. user_by_id d i)"

record auth_user =
  au_id :: string
  au_email :: string
  au_displayName :: string
  au_emailVerified :: bool
  au_createdAt :: date

definition toAuthUser :: "user_row \<Rightarrow> auth_user" where
  "toAuthUser user = \<lparr>au_id = u_id user, au_email = u_email user, au_displayName = u_displayName user,
     au_emailVerified = (u_emailVerifiedAt user \<noteq> None), au_createdAt = toDate (u_createdAt user)\<rparr>"

section \<open>Facts for the clients\<close>

lemma keeps_auth_events [preserve_intros]:
  "(\<And>u s g a t md ctx. keeps P (insertSecurityEvent u s g a t md ctx)) \<Longrightarrow> keeps P (writeSecurityEvent u s a t md ctx)"
  unfolding writeSecurityEvent_def .

lemma keeps_enforceAuthRateLimit [preserve_intros]:
  assumes "\<And>u s g a t md ctx. keeps P (insertSecurityEvent u s g a t md ctx)"
  shows "keeps P (enforceAuthRateLimit opts s k l b ctx)" "keeps P (enforceIpRateLimit opts s k l b ctx)"
  unfolding enforceAuthRateLimit_def enforceIpRateLimit_def by (intro preserve_intros assms)+

lemma wp_enforceAuthRateLimit:
  assumes "\<And>w'. same_but_limiter w w' \<Longrightarrow> Q () w'" and "\<And>e w'. only_events (db w) (db w') \<Longrightarrow> E e w'"
  shows "wp (enforceAuthRateLimit opts s k l b ctx) Q E w"
proof -
  have stop: "wp (thenP (writeSecurityEvent None None AnonymousActor RateLimitExceeded
      [(''bucket'', JStr b)] ctx) (throw rateLimitedError)) Q E w'" if "same_but_limiter w w'" for w'
    using same_but_limiter_fields [OF that]
    by (auto simp: wp_simps writeSecurityEvent_def intro!: wp_insertSecurityEvent assms(2))
  show ?thesis
    unfolding enforceAuthRateLimit_def
    by (simp add: wp_bindP, rule wp_limiterAdmits)
      (auto simp: wp_simps same_but_limiter_fields intro: assms stop [simplified wp_simps])
qed

lemma wp_enforceIpRateLimit:
  assumes "\<And>w'. same_but_limiter w w' \<Longrightarrow> Q () w'" and "\<And>e w'. only_events (db w) (db w') \<Longrightarrow> E e w'"
  shows "wp (enforceIpRateLimit opts s k l b ctx) Q E w"
  unfolding enforceIpRateLimit_def
  by (auto simp: wp_whenP intro!: wp_enforceAuthRateLimit intro: assms)

lemma wp_findUserByNormalizedEmail [wp_simps]:
  "wp (findUserByNormalizedEmail em) Q E = (\<lambda>w. Q (select_first (\<lambda>u. u_normalizedEmail u = em) (users (db w))) w)"
  by (simp add: findUserByNormalizedEmail_def wp_simps)

lemma wp_findUserById [wp_simps]: "wp (findUserById i) Q E = (\<lambda>w. Q (user_by_id (db w) i) w)"
  by (simp add: findUserById_def wp_simps)

lemma wp_signAccessToken [wp_simps]:
  "wp (signAccessToken c u s k ttl) Q E = (\<lambda>w. Q (jwtSign c k (accessPayload u s ttl (nowMs w))) w)"
  by (simp add: signAccessToken_def wp_simps)

lemma wp_hashPassword [wp_simps]:
  "wp (hashPassword c p) Q E = (\<lambda>w. Q (argonHash c (map (\<lambda>i. entropy w (entropyPos w + i) mod 256) [0..<16]) p) (drawn 16 w))"
  by (simp add: hashPassword_def wp_simps)

lemma keeps_auth_reads [preserve_intros]:
  "preserves P (findUserByNormalizedEmail em)" "preserves P (findUserById i)" "preserves P (signAccessToken c u s k ttl)"
  unfolding findUserByNormalizedEmail_def findUserById_def signAccessToken_def by (intro preserve_intros)+

lemma user_by_idD: "user_by_id d i = Some u \<Longrightarrow> u \<in> set (users d) \<and> u_id u = i"
  by (auto simp: user_by_id_def dest: find_SomeD)

text \<open>The limits admit when no limiter is configured.\<close>

lemma noop_auth_limits:
  assumes "rateLimiter opts = NoopLimiter"
  shows "enforceAuthRateLimit opts s k l b ctx w = (Inr (), w)" "enforceIpRateLimit opts s k l b ctx w = (Inr (), w)"
  by (simp_all add: enforceIpRateLimit_def enforceAuthRateLimit_def limiterAdmits_def assms noopConsume_def
      enforceStoreAvailability_def prog_simps)

end
