(* ===== verification/Invitations.thy ===== *)
theory Invitations
  imports AuditLog AuthCommon
begin

text \<open>
  Invitations (\<^verbatim>\<open>apps/api/src/modules/invitations\<close>): the lifecycle of a row, the acceptance inside a
  transaction, the repository, and the service with its registration guard.
\<close>

section \<open>Tokens and lifecycle\<close>

definition generateInvitationToken :: "string api" where
  "generateInvitationToken = generateOpaqueToken DEFAULT_TOKEN_BYTES"

definition hashInvitationToken :: "crypto \<Rightarrow> string \<Rightarrow> string" where
  "hashInvitationToken c rawToken = hashOpaqueToken c rawToken"

definition invitationInspectRateLimitKey :: "crypto \<Rightarrow> string \<Rightarrow> string" where
  "invitationInspectRateLimitKey c rawToken = hashOpaqueToken c (hashOpaqueToken c rawToken)"

definition isExpired :: "invitation_row \<Rightarrow> date \<Rightarrow> bool" where
  "isExpired invitation now = (toDate (inv_expiresAt invitation) \<le> now)"

definition deriveInvitationStatus :: "invitation_row \<Rightarrow> date \<Rightarrow> invitation_status" where
  "deriveInvitationStatus invitation now =
    (if inv_status invitation = InvAccepted then InvAccepted
     else if inv_status invitation = InvRevoked then InvRevoked
     else if isExpired invitation now then InvExpired else InvPending)"

definition isAcceptable :: "invitation_row \<Rightarrow> date \<Rightarrow> bool" where
  "isAcceptable invitation now = (inv_status invitation = InvPending \<and> \<not> isExpired invitation now)"

definition assertAcceptable :: "invitation_row \<Rightarrow> date \<Rightarrow> unit api" where
  "assertAcceptable invitation now =
    thenP (guardP (inv_status invitation \<noteq> InvAccepted) invitationAlreadyAcceptedError)
   (thenP (guardP (inv_status invitation \<noteq> InvRevoked) invitationRevokedError)
     (guardP (\<not> isExpired invitation now) invitationExpiredError))"

section \<open>Acceptance (\<open>invitation.acceptance.ts\<close>)\<close>

record invitation_action_ctx =
  ia_actorUserId :: string
  ia_actorMembershipId :: "string option"
  ia_ctx :: request_ctx

fun json_of :: "string option \<Rightarrow> json" where
  "json_of None = JNull"
| "json_of (Some s) = JStr s"

definition recordInvitationEvent :: "string \<Rightarrow> string \<Rightarrow> metadata \<Rightarrow> invitation_action_ctx \<Rightarrow> unit api" where
  "recordInvitationEvent organizationId eventType md ctx =
    insertSecurityEvent (Some (ia_actorUserId ctx)) None (Some organizationId) UserActor eventType
      ((''actorMembershipId'', json_of (ia_actorMembershipId ctx)) # md) (ia_ctx ctx)"

datatype invitation_selector = ByTokenHash string | ByInvitationId string

fun selects :: "invitation_selector \<Rightarrow> invitation_row \<Rightarrow> bool" where
  "selects (ByTokenHash h) i = (inv_tokenHash i = h)"
| "selects (ByInvitationId x) i = (inv_id i = x)"

definition selected :: "database \<Rightarrow> invitation_selector \<Rightarrow> invitation_row option" where
  "selected d sel = select_first (selects sel) (invitations d)"

record accept_result =
  acc_invitation :: invitation_row
  acc_membership :: membership_row
  acc_organization :: organization_row
  acc_role :: role_row

definition active_member_in :: "database \<Rightarrow> string \<Rightarrow> string \<Rightarrow> bool" where
  "active_member_in d userId organizationId =
    list_ex (\<lambda>m. mem_userId m = userId \<and> mem_organizationId m = organizationId \<and> mem_status m = MemActive)
      (memberships d)"

definition member_count :: "database \<Rightarrow> string \<Rightarrow> nat" where
  "member_count d organizationId =
    count_where (\<lambda>m. mem_organizationId m = organizationId \<and> mem_status m = MemActive) (memberships d)"

definition joined_membership :: "string \<Rightarrow> string \<Rightarrow> invitation_row \<Rightarrow> date \<Rightarrow> timestamptz \<Rightarrow> membership_row" where
  "joined_membership i userId invitation now t =
    \<lparr>mem_id = i, mem_userId = userId, mem_organizationId = inv_organizationId invitation,
     mem_roleId = inv_roleId invitation, mem_status = MemActive,
     mem_invitedByUserId = Some (inv_invitedByUserId invitation), mem_joinedAt = fromDate now,
     mem_removedAt = None, mem_removedByUserId = None, mem_createdAt = t, mem_updatedAt = t\<rparr>"

definition insert_membership :: "membership_row \<Rightarrow> database \<Rightarrow> database" where
  "insert_membership m d = d\<lparr>memberships := memberships d @ [m]\<rparr>"

definition set_invitation_accepted :: "string \<Rightarrow> string \<Rightarrow> date \<Rightarrow> database \<Rightarrow> database" where
  "set_invitation_accepted i userId now d =
    d\<lparr>invitations := update_where (\<lambda>r. inv_id r = i)
      (\<lambda>r. r\<lparr>inv_status := InvAccepted, inv_acceptedAt := Some (fromDate now),
             inv_acceptedByUserId := Some userId, inv_updatedAt := fromDate now\<rparr>) (invitations d)\<rparr>"

definition acceptInvitationWithinTransaction ::
  "invitation_selector \<Rightarrow> string \<Rightarrow> string \<Rightarrow> invitation_action_ctx \<Rightarrow> accept_result api" where
  "acceptInvitationWithinTransaction selector acceptingUserId acceptingUserNormalizedEmail ctx =
    bindP (getsP nowMs) (\<lambda>now.
    bindP (select (\<lambda>d. map_option inv_organizationId (selected d selector))) (\<lambda>preRead.
      case preRead of
        None \<Rightarrow> throw invitationInvalidError
      | Some organizationId \<Rightarrow>
          bindP (lockOrganizationEntitlements organizationId) (\<lambda>(planKey, values).
          bindP (select (\<lambda>d. selected d selector)) (\<lambda>row.
            case row of
              None \<Rightarrow> throw invitationInvalidError
            | Some invitation \<Rightarrow>
                thenP (assertAcceptable invitation now)
               (thenP (guardP (inv_invitedEmailNormalized invitation = acceptingUserNormalizedEmail)
                    invitationEmailMismatchError)
               (bindP (select (\<lambda>d. active_member_in d acceptingUserId (inv_organizationId invitation))) (\<lambda>existing.
                thenP (guardP (\<not> existing) alreadyActiveMemberError)
               (bindP (select (\<lambda>d. member_count d (inv_organizationId invitation))) (\<lambda>activeMembers.
                thenP (guardP (activeMembers < max_members values)
                    (quotaExceededError MaxMembers (max_members values) activeMembers))
               (bindP (findOrganizationById (inv_organizationId invitation)) (\<lambda>organization.
                  case organization of
                    None \<Rightarrow> throw invitationInvalidError
                  | Some org \<Rightarrow>
                      bindP (select (\<lambda>d. select_first (\<lambda>r. role_id r = inv_roleId invitation) (roles d))) (\<lambda>role.
                        case role of
                          None \<Rightarrow> throw (ThrownError (''Role '' @ inv_roleId invitation @ '' is missing from the baseline.''))
                        | Some r \<Rightarrow>
                            bindP (getsP pgNow) (\<lambda>t.
                            bindP (createId ''mem'') (\<lambda>mid.
                            let membership = joined_membership mid acceptingUserId invitation now t in
                            thenP (catchP (sql (insert_membership membership))
                                (\<lambda>e. if isUniqueViolation e then throw alreadyActiveMemberError else throw e))
                           (thenP (sql (set_invitation_accepted (inv_id invitation) acceptingUserId now))
                           (bindP (select (\<lambda>d. select_first (\<lambda>x. inv_id x = inv_id invitation) (invitations d))) (\<lambda>returned.
                            bindP (requireRow ''invitations accepted update'' returned) (\<lambda>accepted.
                            thenP (recordInvitationEvent (inv_organizationId invitation) ''invitation.accepted''
                                [(''targetType'', JStr ''invitation''), (''targetInvitationId'', JStr (inv_id invitation)),
                                 (''targetUserId'', JStr acceptingUserId), (''targetMembershipId'', JStr mid),
                                 (''invitedEmailNormalized'', JStr (inv_invitedEmailNormalized invitation)),
                                 (''roleId'', JStr (inv_roleId invitation))] ctx)
                           (thenP (recordInvitationEvent (inv_organizationId invitation)
                                ''membership.created_from_invitation''
                                [(''targetType'', JStr ''membership''), (''targetMembershipId'', JStr mid),
                                 (''targetUserId'', JStr acceptingUserId), (''targetInvitationId'', JStr (inv_id invitation)),
                                 (''roleId'', JStr (inv_roleId invitation))] ctx)
                              (ret \<lparr>acc_invitation = accepted, acc_membership = membership,
                                    acc_organization = org, acc_role = r\<rparr>))))))))))))))))))))"

section \<open>The repository\<close>

definition loadRole :: "string \<Rightarrow> role_row api" where
  "loadRole roleId =
    bindP (select (\<lambda>d. select_first (\<lambda>r. role_id r = roleId) (roles d))) (\<lambda>role.
      case role of
        None \<Rightarrow> throw (ThrownError (''Role '' @ roleId @ '' is missing from the role baseline.''))
      | Some r \<Rightarrow> ret r)"

record invitation_view =
  iv_invitation :: invitation_row
  iv_role :: role_row

record invitation_context_view =
  ic_invitation :: invitation_row
  ic_role :: role_row
  ic_organization :: organization_row

record create_invitation_params =
  ip_organizationId :: string
  ip_invitedEmail :: string
  ip_invitedEmailNormalized :: string
  ip_roleId :: string
  ip_tokenHash :: string
  ip_expiresAt :: date
  ip_ctx :: invitation_action_ctx

definition live_pending :: "string \<Rightarrow> date \<Rightarrow> invitation_row \<Rightarrow> bool" where
  "live_pending organizationId now i =
    (inv_organizationId i = organizationId \<and> inv_status i = InvPending \<and> fromDate now < inv_expiresAt i)"

definition pending_count :: "date \<Rightarrow> database \<Rightarrow> string \<Rightarrow> nat" where
  "pending_count now d organizationId = count_where (live_pending organizationId now) (invitations d)"

definition stale_pending :: "string \<Rightarrow> string \<Rightarrow> date \<Rightarrow> invitation_row \<Rightarrow> bool" where
  "stale_pending organizationId email now i =
    (inv_organizationId i = organizationId \<and> inv_invitedEmailNormalized i = email \<and>
     inv_status i = InvPending \<and> inv_expiresAt i < fromDate now)"

definition expire_stale :: "string \<Rightarrow> string \<Rightarrow> date \<Rightarrow> database \<Rightarrow> database" where
  "expire_stale organizationId email now d =
    d\<lparr>invitations := update_where (stale_pending organizationId email now)
      (\<lambda>r. r\<lparr>inv_status := InvExpired, inv_updatedAt := fromDate now\<rparr>) (invitations d)\<rparr>"

definition new_invitation :: "create_invitation_params \<Rightarrow> string \<Rightarrow> timestamptz \<Rightarrow> invitation_row" where
  "new_invitation params i t =
    \<lparr>inv_id = i, inv_organizationId = ip_organizationId params, inv_invitedEmail = ip_invitedEmail params,
     inv_invitedEmailNormalized = ip_invitedEmailNormalized params, inv_roleId = ip_roleId params,
     inv_tokenHash = ip_tokenHash params, inv_status = InvPending,
     inv_invitedByUserId = ia_actorUserId (ip_ctx params), inv_acceptedByUserId = None,
     inv_revokedByUserId = None, inv_expiresAt = fromDate (ip_expiresAt params), inv_acceptedAt = None,
     inv_revokedAt = None, inv_createdAt = t, inv_updatedAt = t\<rparr>"

definition insert_invitation :: "invitation_row \<Rightarrow> database \<Rightarrow> database" where
  "insert_invitation i d = d\<lparr>invitations := invitations d @ [i]\<rparr>"

definition repo_createInvitation :: "create_invitation_params \<Rightarrow> invitation_view api" where
  "repo_createInvitation params =
    catchP (transaction
     (bindP (getsP nowMs) (\<lambda>now.
      bindP (lockOrganizationEntitlements (ip_organizationId params)) (\<lambda>(planKey, values).
      bindP (select (\<lambda>d. member_count d (ip_organizationId params))) (\<lambda>activeMembers.
      bindP (select (\<lambda>d. pending_count now d (ip_organizationId params))) (\<lambda>pending.
      thenP (requireQuota MaxMembers (evaluateCountQuota (activeMembers + pending) (max_members values)))
     (thenP (sql (expire_stale (ip_organizationId params) (ip_invitedEmailNormalized params) now))
     (bindP (getsP pgNow) (\<lambda>t.
      bindP (createId ''inv'') (\<lambda>i.
      let invitation = new_invitation params i t in
      thenP (sql (insert_invitation invitation))
     (thenP (recordInvitationEvent (ip_organizationId params) ''invitation.created''
          [(''targetType'', JStr ''invitation''), (''targetInvitationId'', JStr (inv_id invitation)),
           (''invitedEmailNormalized'', JStr (inv_invitedEmailNormalized invitation)),
           (''roleId'', JStr (inv_roleId invitation))] (ip_ctx params))
     (bindP (loadRole (inv_roleId invitation)) (\<lambda>role.
        ret \<lparr>iv_invitation = invitation, iv_role = role\<rparr>)))))))))))))
    (\<lambda>e. if uniqueViolationConstraint e = Some ''uq_invitations_org_email_pending''
      then throw duplicatePendingInvitationError else throw e)"

definition invitation_views :: "database \<Rightarrow> (invitation_row \<times> role_row) list" where
  "invitation_views d = inner_join (\<lambda>i r. inv_roleId i = role_id r) (invitations d) (roles d)"

definition invitations_of :: "string \<Rightarrow> database \<Rightarrow> invitation_view list" where
  "invitations_of organizationId d =
    map (\<lambda>(i, r). \<lparr>iv_invitation = i, iv_role = r\<rparr>)
      (filter (\<lambda>(i, r). inv_organizationId i = organizationId) (invitation_views d))"

definition iv_created :: "invitation_view \<Rightarrow> timestamptz" where
  "iv_created v = inv_createdAt (iv_invitation v)"

definition iv_key :: "invitation_view \<Rightarrow> string" where
  "iv_key v = inv_id (iv_invitation v)"

definition repo_listInvitations ::
  "string \<Rightarrow> database \<Rightarrow> (date \<times> string) option \<Rightarrow> nat \<Rightarrow> invitation_view list" where
  "repo_listInvitations organizationId d cursor limit =
    page_query iv_created iv_key cursor limit (invitations_of organizationId d)"

definition findContextByTokenHash :: "string \<Rightarrow> invitation_context_view option api" where
  "findContextByTokenHash tokenHash =
    select (\<lambda>d. map_option (\<lambda>((i, r), g). \<lparr>ic_invitation = i, ic_role = r, ic_organization = g\<rparr>)
      (select_first (\<lambda>((i, r), g). inv_tokenHash i = tokenHash)
        (inner_join (\<lambda>(i, r) g. inv_organizationId i = org_id g) (invitation_views d) (organizations d))))"

definition findInvitationById :: "string \<Rightarrow> invitation_row option api" where
  "findInvitationById invitationId = select (\<lambda>d. select_first (\<lambda>i. inv_id i = invitationId) (invitations d))"

definition repo_acceptInvitation ::
  "invitation_selector \<Rightarrow> string \<Rightarrow> string \<Rightarrow> invitation_action_ctx \<Rightarrow> accept_result api" where
  "repo_acceptInvitation selector userId email ctx =
    transaction (acceptInvitationWithinTransaction selector userId email ctx)"

definition set_invitation_revoked :: "string \<Rightarrow> string \<Rightarrow> date \<Rightarrow> database \<Rightarrow> database" where
  "set_invitation_revoked i userId now d =
    d\<lparr>invitations := update_where (\<lambda>r. inv_id r = i)
      (\<lambda>r. r\<lparr>inv_status := InvRevoked, inv_revokedAt := Some (fromDate now),
             inv_revokedByUserId := Some userId, inv_updatedAt := fromDate now\<rparr>) (invitations d)\<rparr>"

definition invitation_in :: "database \<Rightarrow> string \<Rightarrow> string \<Rightarrow> invitation_row option" where
  "invitation_in d organizationId invitationId =
    select_first (\<lambda>i. inv_organizationId i = organizationId \<and> inv_id i = invitationId) (invitations d)"

definition repo_revokeInvitation :: "string \<Rightarrow> string \<Rightarrow> invitation_action_ctx \<Rightarrow> unit api" where
  "repo_revokeInvitation organizationId invitationId ctx =
    transaction
     (bindP (getsP nowMs) (\<lambda>now.
      bindP (select (\<lambda>d. invitation_in d organizationId invitationId)) (\<lambda>row.
        case row of
          None \<Rightarrow> throw invitationInvalidError
        | Some invitation \<Rightarrow>
            thenP (assertAcceptable invitation now)
           (thenP (sql (set_invitation_revoked (inv_id invitation) (ia_actorUserId ctx) now))
             (recordInvitationEvent organizationId ''invitation.revoked''
               [(''targetType'', JStr ''invitation''), (''targetInvitationId'', JStr (inv_id invitation)),
                (''invitedEmailNormalized'', JStr (inv_invitedEmailNormalized invitation)),
                (''roleId'', JStr (inv_roleId invitation))] ctx)))))"

definition findPendingInvitation :: "string \<Rightarrow> string \<Rightarrow> invitation_row option api" where
  "findPendingInvitation organizationId email =
    bindP (getsP nowMs) (\<lambda>now.
      select (\<lambda>d. select_first (\<lambda>i. live_pending organizationId now i \<and> inv_invitedEmailNormalized i = email)
        (invitations d)))"

definition hasActiveMemberWithEmail :: "string \<Rightarrow> string \<Rightarrow> bool api" where
  "hasActiveMemberWithEmail organizationId email =
    select (\<lambda>d. list_ex (\<lambda>(m, u). mem_organizationId m = organizationId \<and> mem_status m = MemActive \<and>
        u_normalizedEmail u = email)
      (inner_join (\<lambda>m u. mem_userId m = u_id u) (memberships d) (users d)))"

definition countPendingInvitations :: "string \<Rightarrow> nat api" where
  "countPendingInvitations organizationId =
    bindP (getsP nowMs) (\<lambda>now. select (\<lambda>d. pending_count now d organizationId))"

interpretation invitation_pages: paged_endpoint iv_created iv_key invitations_of repo_listInvitations
  by unfold_locales (simp add: repo_listInvitations_def)

section \<open>The service\<close>

record invitation_options = limiter_options +
  io_windowSeconds :: nat
  io_inspectPerIpMax :: nat
  io_inspectPerTokenMax :: nat
  io_acceptPerUserMax :: nat
  io_createPerUserMax :: nat
  io_createPerOrgMax :: nat
  io_ttlSeconds :: nat
  io_webBaseUrl :: string

record create_invitation_input =
  cii_userId :: string
  cii_organizationId :: string
  cii_email :: string
  cii_role :: role_key
  cii_ctx :: request_ctx

record revoke_invitation_input =
  rii_userId :: string
  rii_organizationId :: string
  rii_invitationId :: string
  rii_ctx :: request_ctx

record accept_invitation_input =
  aii_userId :: string
  aii_userEmail :: string
  aii_rawToken :: string
  aii_ctx :: request_ctx

record invitation_dto =
  ind_id :: string
  ind_organizationId :: string
  ind_invitedEmail :: string
  ind_role :: role_summary
  ind_status :: invitation_status
  ind_invitedByUserId :: string
  ind_expiresAt :: date
  ind_createdAt :: date
  ind_acceptedAt :: "date option"
  ind_revokedAt :: "date option"

record public_invitation =
  pinv_organizationName :: string
  pinv_invitedEmail :: string
  pinv_roleKey :: role_key
  pinv_roleName :: string
  pinv_expiresAt :: date

definition ROLE_NAME_BY_KEY :: "role_key \<Rightarrow> string" where
  "ROLE_NAME_BY_KEY k = the (map_of (rev (map (\<lambda>r. (role_key r, role_name r)) ROLE_SEED)) k)"

definition toInvitation :: "date \<Rightarrow> invitation_view \<Rightarrow> invitation_dto" where
  "toInvitation now v =
    (let i = iv_invitation v in
     \<lparr>ind_id = inv_id i, ind_organizationId = inv_organizationId i, ind_invitedEmail = inv_invitedEmail i,
      ind_role = toRoleSummary (iv_role v), ind_status = deriveInvitationStatus i now,
      ind_invitedByUserId = inv_invitedByUserId i, ind_expiresAt = toDate (inv_expiresAt i),
      ind_createdAt = toDate (inv_createdAt i), ind_acceptedAt = map_option toDate (inv_acceptedAt i),
      ind_revokedAt = map_option toDate (inv_revokedAt i)\<rparr>)"

definition decodeInvitationCursor :: "string option \<Rightarrow> error + (date \<times> string) option" where
  "decodeInvitationCursor cursor = decodePageCursor cursor"

definition enforceRateLimit :: "invitation_options \<Rightarrow> string \<Rightarrow> nat \<Rightarrow> unit api" where
  "enforceRateLimit opts key limit =
    enforceMutationRateLimit (limiter_options.truncate opts) key limit (io_windowSeconds opts)"

definition invitationActionContext :: "organization_actor \<Rightarrow> request_ctx \<Rightarrow> invitation_action_ctx" where
  "invitationActionContext actor ctx =
    \<lparr>ia_actorUserId = act_userId actor, ia_actorMembershipId = Some (act_membershipId actor), ia_ctx = ctx\<rparr>"

definition createInvitation_body ::
  "crypto \<Rightarrow> invitation_options \<Rightarrow> create_invitation_input \<Rightarrow> organization_actor \<Rightarrow> invitation_dto api" where
  "createInvitation_body c opts input actor =
    thenP (enforceRateLimit opts (''rl:invitation:create:user:'' @ cii_userId input) (io_createPerUserMax opts))
   (thenP (enforceRateLimit opts (''rl:invitation:create:org:'' @ act_organizationId actor) (io_createPerOrgMax opts))
   (let email = normalizeEmail (cii_email input); roleId = ROLE_IDS (cii_role input) in
    bindP (hasActiveMemberWithEmail (act_organizationId actor) email) (\<lambda>already.
    thenP (guardP (\<not> already) alreadyActiveMemberError)
   (bindP (findPendingInvitation (act_organizationId actor) email) (\<lambda>pending.
    thenP (guardP (pending = None) duplicatePendingInvitationError)
   (bindP (countPendingInvitations (act_organizationId actor)) (\<lambda>pendingCount.
    thenP (requireMemberReservationQuota (act_organizationId actor) pendingCount)
   (bindP generateInvitationToken (\<lambda>rawToken.
    bindP (getsP nowMs) (\<lambda>now.
    let expiresAt = now + int (io_ttlSeconds opts) * 1000 in
    bindP (findOrganizationById (act_organizationId actor)) (\<lambda>organization.
      case organization of
        None \<Rightarrow> throw invitationInvalidError
      | Some org \<Rightarrow>
          thenP (deliver (renderInvitationEmail (cii_email input) (org_name org) (ROLE_NAME_BY_KEY (cii_role input))
              (buildInvitationAcceptUrl (io_webBaseUrl opts) rawToken) expiresAt))
         (bindP (repo_createInvitation
              \<lparr>ip_organizationId = act_organizationId actor, ip_invitedEmail = cii_email input,
               ip_invitedEmailNormalized = email, ip_roleId = roleId,
               ip_tokenHash = hashInvitationToken c rawToken, ip_expiresAt = expiresAt,
               ip_ctx = invitationActionContext actor (cii_ctx input)\<rparr>) (\<lambda>v.
            ret (toInvitation now v))))))))))))))"

definition createInvitation ::
  "crypto \<Rightarrow> invitation_options \<Rightarrow> create_invitation_input \<Rightarrow> invitation_dto api" where
  "createInvitation c opts input =
    bindP (requireMembership (cii_userId input) (cii_organizationId input) (ctx_requestId (cii_ctx input)))
     (\<lambda>actor. thenP (requirePermission actor InvitationsCreate) (createInvitation_body c opts input actor))"

definition listInvitations_body :: "list_input \<Rightarrow> organization_actor \<Rightarrow> invitation_dto page api" where
  "listInvitations_body input actor =
    (case decodeInvitationCursor (li_cursor input) of
       Inl e \<Rightarrow> throw e
     | Inr c \<Rightarrow>
         bindP (select (\<lambda>d. repo_listInvitations (act_organizationId actor) d c (li_limit input))) (\<lambda>rows.
         bindP (getsP nowMs) (\<lambda>now.
           ret (cut_page iv_created iv_key (toInvitation now) (li_limit input) rows))))"

definition listInvitations :: "list_input \<Rightarrow> invitation_dto page api" where
  "listInvitations input =
    bindP (requireMembership (li_userId input) (li_organizationId input) (li_requestId input)) (\<lambda>actor.
    thenP (requirePermission actor InvitationsRead) (listInvitations_body input actor))"

definition revokeInvitation_body :: "revoke_invitation_input \<Rightarrow> organization_actor \<Rightarrow> (string \<times> bool) api" where
  "revokeInvitation_body input actor =
    thenP (repo_revokeInvitation (act_organizationId actor) (rii_invitationId input)
        (invitationActionContext actor (rii_ctx input)))
      (ret (rii_invitationId input, True))"

definition revokeInvitation :: "revoke_invitation_input \<Rightarrow> (string \<times> bool) api" where
  "revokeInvitation input =
    bindP (requireMembership (rii_userId input) (rii_organizationId input) (ctx_requestId (rii_ctx input)))
     (\<lambda>actor. thenP (requirePermission actor InvitationsRevoke) (revokeInvitation_body input actor))"

definition inspectInvitation ::
  "crypto \<Rightarrow> invitation_options \<Rightarrow> string \<Rightarrow> request_ctx \<Rightarrow> public_invitation api" where
  "inspectInvitation c opts rawToken ctx =
    thenP (whenP (truthy (ctx_ipAddress ctx))
        (enforceRateLimit opts (''rl:invitation:inspect:ip:'' @ the (ctx_ipAddress ctx)) (io_inspectPerIpMax opts)))
   (thenP (enforceRateLimit opts (''rl:invitation:inspect:token:'' @ invitationInspectRateLimitKey c rawToken)
        (io_inspectPerTokenMax opts))
   (bindP (findContextByTokenHash (hashInvitationToken c rawToken)) (\<lambda>context.
      case context of
        None \<Rightarrow> throw invitationInvalidError
      | Some v \<Rightarrow>
          bindP (getsP nowMs) (\<lambda>now.
          thenP (assertAcceptable (ic_invitation v) now)
            (ret \<lparr>pinv_organizationName = org_name (ic_organization v),
                  pinv_invitedEmail = inv_invitedEmail (ic_invitation v),
                  pinv_roleKey = role_key (ic_role v), pinv_roleName = role_name (ic_role v),
                  pinv_expiresAt = toDate (inv_expiresAt (ic_invitation v))\<rparr>)))))"

definition acceptInvitation ::
  "crypto \<Rightarrow> invitation_options \<Rightarrow> accept_invitation_input \<Rightarrow> (organization_dto \<times> membership_summary) api" where
  "acceptInvitation c opts input =
    thenP (enforceRateLimit opts (''rl:invitation:accept:user:'' @ aii_userId input) (io_acceptPerUserMax opts))
   (let normalized = normalizeEmail (aii_userEmail input); tokenHash = hashInvitationToken c (aii_rawToken input) in
    bindP (findContextByTokenHash tokenHash) (\<lambda>context.
      case context of
        None \<Rightarrow> throw invitationInvalidError
      | Some v \<Rightarrow>
          bindP (getsP nowMs) (\<lambda>now.
          thenP (assertAcceptable (ic_invitation v) now)
         (thenP (guardP (inv_invitedEmailNormalized (ic_invitation v) = normalized) invitationEmailMismatchError)
         (bindP (repo_acceptInvitation (ByTokenHash tokenHash) (aii_userId input) normalized
              \<lparr>ia_actorUserId = aii_userId input, ia_actorMembershipId = None, ia_ctx = aii_ctx input\<rparr>) (\<lambda>r.
            ret (toOrganization (acc_organization r), toMembershipSummary (acc_membership r) (acc_role r))))))))"

definition prepareForRegistration :: "crypto \<Rightarrow> string \<Rightarrow> string \<Rightarrow> (string \<times> string) api" where
  "prepareForRegistration c rawToken normalizedEmail =
    bindP (findContextByTokenHash (hashInvitationToken c rawToken)) (\<lambda>context.
      case context of
        None \<Rightarrow> throw invitationInvalidError
      | Some v \<Rightarrow>
          bindP (getsP nowMs) (\<lambda>now.
          thenP (assertAcceptable (ic_invitation v) now)
         (thenP (guardP (inv_invitedEmailNormalized (ic_invitation v) = normalizedEmail) invitationEmailMismatchError)
         (thenP (requireMemberAdditionQuota (inv_organizationId (ic_invitation v)))
           (ret (inv_id (ic_invitation v), org_name (ic_organization v)))))))"

definition resolveCompletionContext :: "string \<Rightarrow> bool api" where
  "resolveCompletionContext invitationId = bindP (findInvitationById invitationId) (\<lambda>i. ret (i \<noteq> None))"

interpretation create_invitation: guarded_operation "createInvitation c opts" cii_userId cii_organizationId
    "\<lambda>i. ctx_requestId (cii_ctx i)" InvitationsCreate "createInvitation_body c opts"
  by unfold_locales (simp add: createInvitation_def)

interpretation list_invitations: guarded_operation listInvitations li_userId li_organizationId li_requestId
    InvitationsRead listInvitations_body
  by unfold_locales (simp add: listInvitations_def)

interpretation revoke_invitation: guarded_operation revokeInvitation rii_userId rii_organizationId
    "\<lambda>i. ctx_requestId (rii_ctx i)" InvitationsRevoke revokeInvitation_body
  by unfold_locales (simp add: revokeInvitation_def)

section \<open>What the operations change\<close>

lemma invitation_update_fields [simp]:
  "securityEvents (insert_membership m d) = securityEvents d" "users (insert_membership m d) = users d"
  "organizationPlans (insert_membership m d) = organizationPlans d" "organizations (insert_membership m d) = organizations d"
  "memberships (insert_membership m d) = memberships d @ [m]" "invitations (insert_membership m d) = invitations d"
  "roles (insert_membership m d) = roles d"
  "securityEvents (set_invitation_accepted i u now d) = securityEvents d" "users (set_invitation_accepted i u now d) = users d"
  "organizationPlans (set_invitation_accepted i u now d) = organizationPlans d"
  "organizations (set_invitation_accepted i u now d) = organizations d"
  "memberships (set_invitation_accepted i u now d) = memberships d" "roles (set_invitation_accepted i u now d) = roles d"
  "securityEvents (set_invitation_revoked i u now d) = securityEvents d" "users (set_invitation_revoked i u now d) = users d"
  "memberships (set_invitation_revoked i u now d) = memberships d"
  "securityEvents (expire_stale g em now d) = securityEvents d" "users (expire_stale g em now d) = users d"
  "organizationPlans (expire_stale g em now d) = organizationPlans d" "memberships (expire_stale g em now d) = memberships d"
  "roles (expire_stale g em now d) = roles d"
  "securityEvents (insert_invitation i' d) = securityEvents d" "users (insert_invitation i' d) = users d"
  "organizationPlans (insert_invitation i' d) = organizationPlans d" "memberships (insert_invitation i' d) = memberships d"
  "invitations (insert_invitation i' d) = invitations d @ [i']" "roles (insert_invitation i' d) = roles d"
  by (simp_all add: insert_membership_def set_invitation_accepted_def set_invitation_revoked_def
      expire_stale_def insert_invitation_def)

definition joined :: "invitation_row \<Rightarrow> string \<Rightarrow> string \<Rightarrow> date \<Rightarrow> timestamptz \<Rightarrow> database \<Rightarrow> database \<Rightarrow> bool" where
  "joined i u mid now t d d' =
    (\<exists>e1 e2. d' = (set_invitation_accepted (inv_id i) u now (insert_membership (joined_membership mid u i now t) d))
        \<lparr>securityEvents := securityEvents d @ [e1, e2]\<rparr> \<and>
      se_organizationId e1 = Some (inv_organizationId i) \<and> se_eventType e1 = ''invitation.accepted'' \<and>
      se_organizationId e2 = Some (inv_organizationId i) \<and>
      se_eventType e2 = ''membership.created_from_invitation'' \<and>
      se_createdAt e1 = t \<and> se_createdAt e2 = t \<and>
      clean_obj (se_metadata e1) \<and> clean_obj (se_metadata e2))"

lemma joinedI:
  "d' = (set_invitation_accepted (inv_id i) u now (insert_membership (joined_membership mid u i now t) d))
      \<lparr>securityEvents := securityEvents d @ [e1, e2]\<rparr> \<Longrightarrow>
   se_organizationId e1 = Some (inv_organizationId i) \<Longrightarrow> se_eventType e1 = ''invitation.accepted'' \<Longrightarrow>
   se_organizationId e2 = Some (inv_organizationId i) \<Longrightarrow>
   se_eventType e2 = ''membership.created_from_invitation'' \<Longrightarrow> se_createdAt e1 = t \<Longrightarrow> se_createdAt e2 = t \<Longrightarrow>
   clean_obj (se_metadata e1) \<Longrightarrow> clean_obj (se_metadata e2) \<Longrightarrow> joined i u mid now t d d'"
  by (auto simp: joined_def)

text \<open>The guards of the acceptance, as one predicate on the tables.\<close>

definition may_join :: "database \<Rightarrow> date \<Rightarrow> invitation_row \<Rightarrow> string \<Rightarrow> string \<Rightarrow> bool" where
  "may_join d now i u email =
    (inv_status i \<noteq> InvAccepted \<and> inv_status i \<noteq> InvRevoked \<and> \<not> isExpired i now \<and>
     inv_invitedEmailNormalized i = email \<and> \<not> active_member_in d u (inv_organizationId i) \<and>
     member_count d (inv_organizationId i) < plan_limit max_members d (inv_organizationId i))"

lemma wp_assertAcceptable [wp_simps]:
  "wp (assertAcceptable i now) Q E = (\<lambda>w.
    if inv_status i = InvAccepted then E invitationAlreadyAcceptedError w
    else if inv_status i = InvRevoked then E invitationRevokedError w
    else if isExpired i now then E invitationExpiredError w else Q () w)"
  by (auto simp: assertAcceptable_def wp_simps fun_eq_iff)

lemma wp_acceptInvitationWithinTransaction:
  assumes err: "\<And>e w'. E e w'"
    and through: "\<And>r i mid w'. selected (db w) sel = Some i \<Longrightarrow> may_join (db w) (nowMs w) i u email \<Longrightarrow>
      mid = newId ''mem'' w \<Longrightarrow> acc_membership r = joined_membership mid u i (nowMs w) (pgNow w) \<Longrightarrow>
      select_first (\<lambda>x. org_id x = inv_organizationId i) (organizations (db w)) = Some (acc_organization r) \<Longrightarrow>
      select_first (\<lambda>x. role_id x = inv_roleId i) (roles (db w)) = Some (acc_role r) \<Longrightarrow>
      joined i u mid (nowMs w) (pgNow w) (db w) (db w') \<Longrightarrow> db_ok (db w') \<Longrightarrow>
      nowMs w' = nowMs w \<Longrightarrow> pgNow w' = pgNow w \<Longrightarrow> outbox w' = outbox w \<Longrightarrow> Q r w'"
  shows "wp (acceptInvitationWithinTransaction sel u email ctx) Q E w"
proof (cases "selected (db w) sel")
  case None
  then show ?thesis by (simp add: acceptInvitationWithinTransaction_def wp_simps err)
next
  case (Some i)
  show ?thesis
    unfolding acceptInvitationWithinTransaction_def using Some
    by (auto simp: wp_simps case_prod_beta Let_def recordInvitationEvent_def err split: option.split
        intro!: wp_insertSecurityEvent)
      (rule through [OF Some]; auto simp: may_join_def plan_limit_def intro!: joinedI)
qed

lemma selectedD: "selected d sel = Some i \<Longrightarrow> i \<in> set (invitations d) \<and> selects sel i"
  by (auto simp: selected_def dest: find_SomeD)

lemma wp_repo_acceptInvitation:
  assumes err: "\<And>e w'. db w' = db w \<Longrightarrow> E e w'"
    and through: "\<And>r i mid w'. selected (db w) sel = Some i \<Longrightarrow> may_join (db w) (nowMs w) i u email \<Longrightarrow>
      joined i u mid (nowMs w) (pgNow w) (db w) (db w') \<Longrightarrow> db_ok (db w') \<Longrightarrow> Q r w'"
  shows "wp (repo_acceptInvitation sel u email ctx) Q E w"
  unfolding repo_acceptInvitation_def
  by (auto simp: wp_simps err intro!: wp_acceptInvitationWithinTransaction through)

section \<open>What an acceptance keeps\<close>

lemma joined_tables:
  assumes "joined i u mid now t d d'"
  shows "memberships d' = memberships d @ [joined_membership mid u i now t]"
    and "organizations d' = organizations d" and "organizationPlans d' = organizationPlans d"
    and "roles d' = roles d" and "permissions d' = permissions d" and "rolePermissions d' = rolePermissions d"
    and "users d' = users d"
  using assms by (auto simp: joined_def set_invitation_accepted_def insert_membership_def)

lemma member_count_joined:
  "joined i u mid now t d d' \<Longrightarrow>
    member_count d' g = member_count d g + (if g = inv_organizationId i then 1 else 0)"
  by (auto simp: member_count_def joined_tables(1) joined_membership_def)

lemma plan_row_joined: "joined i u mid now t d d' \<Longrightarrow> plan_row d' g = plan_row d g"
  by (simp add: plan_row_def joined_tables)

lemma catalogued_joined: "joined i u mid now t d d' \<Longrightarrow> catalogued d \<Longrightarrow> catalogued d'"
  by (simp add: catalogued_def joined_tables)

lemma owned_joined: "joined i u mid now t d d' \<Longrightarrow> owned d \<Longrightarrow> owned d'"
  by (auto simp: owned_iff joined_tables)

lemma planned_joined: "joined i u mid now t d d' \<Longrightarrow> planned d \<Longrightarrow> planned d'"
  by (simp add: planned_iff joined_tables)

lemma clean_joined: "joined i u mid now t d d' \<Longrightarrow> clean_events d \<Longrightarrow> clean_events d'"
  by (auto simp: joined_def clean_events_def)

lemma db_ok_invitation_facts:
  assumes "db_ok d"
  shows "distinct (map inv_id (invitations d))"
    and "distinct (map inv_tokenHash (invitations d))"
    and "distinct (map (\<lambda>i. (inv_organizationId i, inv_invitedEmailNormalized i))
      (filter (\<lambda>i. inv_status i = InvPending) (invitations d)))"
    and "inv_organizationId ` set (invitations d) \<subseteq> org_id ` set (organizations d)"
    and "inv_roleId ` set (invitations d) \<subseteq> role_id ` set (roles d)"
    and "inv_invitedByUserId ` set (invitations d) \<subseteq> u_id ` set (users d)"
    and "set (somes (map inv_acceptedByUserId (invitations d))) \<subseteq> u_id ` set (users d)"
    and "set (somes (map inv_revokedByUserId (invitations d))) \<subseteq> u_id ` set (users d)"
  using assms unfolding db_ok_iff by simp_all

lemma invitation_rows:
  "db_ok d \<Longrightarrow> i \<in> set (invitations d) \<Longrightarrow> j \<in> set (invitations d) \<Longrightarrow> inv_id j = inv_id i \<Longrightarrow>
    inv_organizationId j = inv_organizationId i"
  using distinct_key_eq [OF db_ok_invitation_facts(1)] by metis

lemma outside_joined:
  assumes "db_ok d" and "i \<in> set (invitations d)" and "joined i u mid now t d d'"
  shows "outside (inv_organizationId i) d' = outside (inv_organizationId i) d"
  using assms(3) invitation_rows [OF assms(1,2)]
  by (auto simp: joined_def outside_def set_invitation_accepted_def insert_membership_def
      joined_membership_def intro!: filter_update_where_frame)

section \<open>What creation and revocation change\<close>

lemma wp_loadRole [wp_simps]:
  "wp (loadRole i) Q E = (\<lambda>w. case select_first (\<lambda>r. role_id r = i) (roles (db w)) of
      None \<Rightarrow> E (ThrownError (''Role '' @ i @ '' is missing from the role baseline.'')) w
    | Some r \<Rightarrow> Q r w)"
  by (simp add: loadRole_def wp_simps fun_eq_iff split: option.split)

definition invited :: "create_invitation_params \<Rightarrow> string \<Rightarrow> date \<Rightarrow> timestamptz \<Rightarrow> database \<Rightarrow> database \<Rightarrow> bool" where
  "invited ps i now t d d' =
    recorded (ip_organizationId ps) ''invitation.created''
      (insert_invitation (new_invitation ps i t)
        (expire_stale (ip_organizationId ps) (ip_invitedEmailNormalized ps) now d)) d'"

lemma recorded_snoc:
  "securityEvents d = es \<Longrightarrow> se_organizationId e = Some g \<Longrightarrow> se_eventType e = t \<Longrightarrow>
    recorded g t d (d\<lparr>securityEvents := es @ [e]\<rparr>)"
  by (auto simp: recorded_def)

lemma wp_repo_createInvitation:
  assumes err: "\<And>e w'. db w' = db w \<Longrightarrow> E e w'"
    and through: "\<And>v w'. iv_invitation v = new_invitation ps (newId ''inv'' w) (pgNow w) \<Longrightarrow>
      member_count (db w) (ip_organizationId ps) + pending_count (nowMs w) (db w) (ip_organizationId ps) <
        plan_limit max_members (db w) (ip_organizationId ps) \<Longrightarrow>
      invited ps (newId ''inv'' w) (nowMs w) (pgNow w) (db w) (db w') \<Longrightarrow> db_ok (db w') \<Longrightarrow> Q v w'"
  shows "wp (repo_createInvitation ps) Q E w"
  unfolding repo_createInvitation_def wp_catchP
proof (rule wp_mono [where E = "\<lambda>_ w'. db w' = db w" and Q = Q], goal_cases)
  case 1
  show ?case
    by (auto simp: wp_simps case_prod_beta Let_def recordInvitationEvent_def invited_def plan_limit_def
        split: option.split intro!: wp_insertSecurityEvent through recorded_snoc)
next
  case 2 then show ?case by simp
next
  case (3 e t)
  then show ?case by (simp add: wp_simps err)
qed

lemma invitation_inD:
  "invitation_in d g x = Some i \<Longrightarrow> i \<in> set (invitations d) \<and> inv_organizationId i = g \<and> inv_id i = x"
  by (auto simp: invitation_in_def dest: find_SomeD)

lemma wp_repo_revokeInvitation:
  assumes err: "\<And>e w'. db w' = db w \<Longrightarrow> E e w'"
    and through: "\<And>i w'. invitation_in (db w) g x = Some i \<Longrightarrow> inv_status i \<noteq> InvAccepted \<Longrightarrow>
      inv_status i \<noteq> InvRevoked \<Longrightarrow> \<not> isExpired i (nowMs w) \<Longrightarrow>
      recorded g ''invitation.revoked''
        (set_invitation_revoked (inv_id i) (ia_actorUserId ctx) (nowMs w) (db w)) (db w') \<Longrightarrow>
      db_ok (db w') \<Longrightarrow> Q () w'"
  shows "wp (repo_revokeInvitation g x ctx) Q E w"
proof (cases "invitation_in (db w) g x")
  case None
  then show ?thesis by (simp add: repo_revokeInvitation_def wp_simps err)
next
  case (Some i)
  show ?thesis
    unfolding repo_revokeInvitation_def using Some
    by (auto simp: wp_simps recordInvitationEvent_def err intro: recordedI
        intro!: wp_insertSecurityEvent through [OF Some])
qed

lemma outside_invited: "invited ps i now t d d' \<Longrightarrow> outside (ip_organizationId ps) d' = outside (ip_organizationId ps) d"
  by (auto simp: invited_def recorded_def outside_def insert_invitation_def new_invitation_def expire_stale_def
      stale_pending_def intro!: filter_update_where_frame)

lemma outside_revoked:
  assumes "db_ok d" and "invitation_in d g x = Some i"
  shows "outside g (set_invitation_revoked (inv_id i) u now d) = outside g d"
proof -
  have "inv_organizationId j = g" if "j \<in> set (invitations d)" "inv_id j = inv_id i" for j
    using invitation_inD [OF assms(2)] invitation_rows [OF assms(1) _ that] by simp
  then show ?thesis
    by (auto simp: outside_def set_invitation_revoked_def intro!: filter_update_where_frame)
qed

interpretation create_invitation_scoped: tenant_scoped repo_createInvitation ip_organizationId
  by unfold_locales (rule wp_repo_createInvitation; blast intro: outside_invited)

interpretation revoke_invitation_scoped: tenant_scoped
    "\<lambda>i. repo_revokeInvitation (si_organizationId i) (fst (si_payload i)) (snd (si_payload i))" si_organizationId
proof (unfold_locales, goal_cases)
  case (1 w i)
  then show ?case
    by (rule_tac wp_repo_revokeInvitation)
      (assumption, erule outside_recorded [THEN trans], erule (1) outside_revoked)
qed

section \<open>What the services keep\<close>

lemma keeps_invitation_reads [preserve_intros]:
  "preserves P (findContextByTokenHash h)" "preserves P (findInvitationById i)"
  "preserves P (findPendingInvitation g em)" "preserves P (hasActiveMemberWithEmail g em)"
  "preserves P (countPendingInvitations g)" "preserves P (assertAcceptable row now)" "preserves P (loadRole r)"
  "keeps P' (enforceRateLimit opts key limit)" "keeps P' (requireMemberReservationQuota g n)"
  "keeps P' (requireMemberAdditionQuota g)"
  unfolding findContextByTokenHash_def findInvitationById_def findPendingInvitation_def
    hasActiveMemberWithEmail_def countPendingInvitations_def assertAcceptable_def loadRole_def
    enforceRateLimit_def requireMemberReservationQuota_def requireMemberAdditionQuota_def
  by (intro preserve_intros)+

lemma keeps_repo_createInvitation [preserve_intros]: "keeps (stable Q) (repo_createInvitation ps)"
  unfolding repo_createInvitation_def recordInvitationEvent_def lockOrganizationEntitlements_def Let_def
  by (intro preserve_intros keeps_stable_sql) (simp_all add: backbone_def insert_invitation_def expire_stale_def)

lemma keeps_repo_revokeInvitation [preserve_intros]: "keeps (stable Q) (repo_revokeInvitation g x ctx)"
  unfolding repo_revokeInvitation_def recordInvitationEvent_def
  by (intro preserve_intros keeps_stable_sql) (simp_all add: backbone_def set_invitation_revoked_def)

lemmas invitation_services = createInvitation_def createInvitation_body_def generateInvitationToken_def
  listInvitations_def listInvitations_body_def revokeInvitation_def revokeInvitation_body_def
  inspectInvitation_def prepareForRegistration_def resolveCompletionContext_def

lemma keeps_invitation_services [preserve_intros]:
  "keeps (stable Q) (createInvitation c opts ci)" "keeps (stable Q) (listInvitations li)"
  "keeps (stable Q) (revokeInvitation ri)" "keeps (stable Q) (inspectInvitation c opts tok ctx)"
  "keeps (stable Q) (prepareForRegistration c tok em)" "keeps (stable Q) (resolveCompletionContext i)"
  unfolding invitation_services by (intro preserve_intros)+

lemma keeps_repo_acceptInvitation:
  assumes "\<And>d d' i mid now t. db_ok d \<Longrightarrow> P d \<Longrightarrow> joined i u mid now t d d' \<Longrightarrow> db_ok d' \<Longrightarrow> P d'"
  shows "keeps (\<lambda>d. db_ok d \<and> P d) (repo_acceptInvitation sel u email ctx)"
  unfolding preserves_wp by (auto intro!: wp_repo_acceptInvitation intro: assms)

lemma keeps_acceptInvitation:
  assumes "\<And>d d' i mid now t. db_ok d \<Longrightarrow> P d \<Longrightarrow> joined i (aii_userId input) mid now t d d' \<Longrightarrow> db_ok d' \<Longrightarrow> P d'"
  shows "keeps (\<lambda>d. db_ok d \<and> P d) (acceptInvitation c opts input)"
  unfolding acceptInvitation_def Let_def
  by (intro preserve_intros keeps_repo_acceptInvitation) (rule assms)

end
