(* ===== verification/Joining.thy ===== *)
theory Joining
  imports Invitations
begin

text \<open>
  What decides an invitation's creation and acceptance, and what the two together allow: the verdicts
  of the two transactions, the member quota over both, the roles an invitation can hand out, and the
  instant at which an expired invitation still blocks its successor.
\<close>

section \<open>Constraints the invitation table adds\<close>

lemma db_ok_upd_invitations:
  assumes "db_ok d" and "distinct (map inv_id is)" and "distinct (map inv_tokenHash is)"
    and "distinct (map (\<lambda>i. (inv_organizationId i, inv_invitedEmailNormalized i))
      (filter (\<lambda>i. inv_status i = InvPending) is))"
    and "set (map inv_organizationId is) \<subseteq> set (map org_id (organizations d))"
    and "set (map inv_roleId is) \<subseteq> set (map role_id (roles d))"
    and "set (map inv_invitedByUserId is) \<subseteq> set (map u_id (users d))"
    and "set (somes (map inv_acceptedByUserId is)) \<subseteq> set (map u_id (users d))"
    and "set (somes (map inv_revokedByUserId is)) \<subseteq> set (map u_id (users d))"
  shows "db_ok (d\<lparr>invitations := is\<rparr>)"
  using assms unfolding db_ok_iff by simp

lemma filter_update_where_drop:
  assumes "\<And>r. p r \<Longrightarrow> \<not> q (f r)"
  shows "filter q (update_where p f rs) = filter (\<lambda>r. \<not> p r) (filter q rs)"
  using assms by (induction rs) (auto simp: update_where_def)

text \<open>The rows the sweep leaves pending, and their keys.\<close>

definition pending_key :: "invitation_row \<Rightarrow> string \<times> string" where
  "pending_key i = (inv_organizationId i, inv_invitedEmailNormalized i)"

definition blocking :: "string \<Rightarrow> string \<Rightarrow> date \<Rightarrow> invitation_row \<Rightarrow> bool" where
  "blocking g em now i = (inv_organizationId i = g \<and> inv_invitedEmailNormalized i = em \<and>
    inv_status i = InvPending \<and> fromDate now \<le> inv_expiresAt i)"

lemma expire_stale_keeps_columns:
  "map inv_id (invitations (expire_stale g em now d)) = map inv_id (invitations d)"
  "map inv_tokenHash (invitations (expire_stale g em now d)) = map inv_tokenHash (invitations d)"
  "map inv_organizationId (invitations (expire_stale g em now d)) = map inv_organizationId (invitations d)"
  "map inv_roleId (invitations (expire_stale g em now d)) = map inv_roleId (invitations d)"
  "map inv_invitedByUserId (invitations (expire_stale g em now d)) = map inv_invitedByUserId (invitations d)"
  "map inv_acceptedByUserId (invitations (expire_stale g em now d)) = map inv_acceptedByUserId (invitations d)"
  "map inv_revokedByUserId (invitations (expire_stale g em now d)) = map inv_revokedByUserId (invitations d)"
  by (simp_all add: expire_stale_def)

lemma pending_after_sweep:
  "filter (\<lambda>i. inv_status i = InvPending) (invitations (expire_stale g em now d)) =
    filter (\<lambda>i. \<not> stale_pending g em now i) (filter (\<lambda>i. inv_status i = InvPending) (invitations d))"
  unfolding expire_stale_def by (simp add: filter_update_where_drop)

lemma blocking_after_sweep:
  "(g, em) \<in> pending_key ` set (filter (\<lambda>i. inv_status i = InvPending) (invitations (expire_stale g em now d))) \<longleftrightarrow>
    list_ex (blocking g em now) (invitations d)"
proof -
  have "(g, em) = pending_key i \<and> inv_status i = InvPending \<and> \<not> stale_pending g em now i \<longleftrightarrow> blocking g em now i" for i
    by (auto simp: blocking_def stale_pending_def pending_key_def)
  then show ?thesis unfolding pending_after_sweep list_ex_iff by (simp add: image_iff) blast
qed

lemma distinct_pending_after_sweep:
  assumes "db_ok d"
  shows "distinct (map pending_key (filter (\<lambda>i. inv_status i = InvPending) (invitations (expire_stale g em now d))))"
  unfolding pending_after_sweep
  by (rule distinct_map_filter) (use db_ok_invitation_facts(3) [OF assms] in \<open>simp add: pending_key_def [abs_def]\<close>)

section \<open>Creating an invitation\<close>

definition invite_verdict :: "database \<Rightarrow> date \<Rightarrow> string \<Rightarrow> string \<Rightarrow> error option" where
  "invite_verdict d now g em =
    (case plan_row d g of
       None \<Rightarrow> Some planStateMissingError
     | Some p \<Rightarrow>
         let limit = max_members (entitlementsForPlan (op_planKey p));
             n = member_count d g + pending_count now d g in
         if limit \<le> n then Some (quotaExceededError MaxMembers limit n)
         else if list_ex (blocking g em now) (invitations d) then Some duplicatePendingInvitationError
         else None)"

text \<open>What has to exist, and to be new, for the insert itself to be accepted.\<close>

definition invitable :: "create_invitation_params \<Rightarrow> world \<Rightarrow> bool" where
  "invitable ps w =
    (db_ok (db w) \<and> ip_roleId ps \<in> role_id ` set (roles (db w)) \<and>
     ia_actorUserId (ip_ctx ps) \<in> u_id ` set (users (db w)) \<and>
     newId ''inv'' w \<notin> inv_id ` set (invitations (db w)) \<and>
     ip_tokenHash ps \<notin> inv_tokenHash ` set (invitations (db w)) \<and>
     newId ''sevt'' (drawn DEFAULT_RANDOM_LENGTH w) \<notin> se_id ` set (securityEvents (db w)))"

abbreviation invited_db :: "create_invitation_params \<Rightarrow> world \<Rightarrow> database" where
  "invited_db ps w \<equiv> insert_invitation (new_invitation ps (newId ''inv'' w) (pgNow w))
    (expire_stale (ip_organizationId ps) (ip_invitedEmailNormalized ps) (nowMs w) (db w))"

lemma new_invitation_simps [simp]:
  "inv_id (new_invitation ps i t) = i" "inv_organizationId (new_invitation ps i t) = ip_organizationId ps"
  "inv_tokenHash (new_invitation ps i t) = ip_tokenHash ps" "inv_status (new_invitation ps i t) = InvPending"
  "inv_roleId (new_invitation ps i t) = ip_roleId ps"
  "inv_invitedEmailNormalized (new_invitation ps i t) = ip_invitedEmailNormalized ps"
  "inv_invitedByUserId (new_invitation ps i t) = ia_actorUserId (ip_ctx ps)"
  "inv_acceptedByUserId (new_invitation ps i t) = None" "inv_revokedByUserId (new_invitation ps i t) = None"
  "inv_expiresAt (new_invitation ps i t) = fromDate (ip_expiresAt ps)"
  by (simp_all add: new_invitation_def)

lemma image_columns:
  "inv_id ` set (invitations (expire_stale g em now d)) = inv_id ` set (invitations d)"
  "inv_tokenHash ` set (invitations (expire_stale g em now d)) = inv_tokenHash ` set (invitations d)"
  "inv_organizationId ` set (invitations (expire_stale g em now d)) = inv_organizationId ` set (invitations d)"
  "inv_roleId ` set (invitations (expire_stale g em now d)) = inv_roleId ` set (invitations d)"
  "inv_invitedByUserId ` set (invitations (expire_stale g em now d)) = inv_invitedByUserId ` set (invitations d)"
  by (metis expire_stale_keeps_columns set_map)+

lemma db_ok_expire_stale: "db_ok d \<Longrightarrow> db_ok (expire_stale g em now d)"
proof -
  assume ok: "db_ok d"
  note f = db_ok_invitation_facts [OF ok] and c = expire_stale_keeps_columns
  have "expire_stale g em now d = d\<lparr>invitations := invitations (expire_stale g em now d)\<rparr>"
    by (simp add: expire_stale_def)
  moreover have "db_ok (d\<lparr>invitations := invitations (expire_stale g em now d)\<rparr>)"
    using ok f distinct_pending_after_sweep [OF ok, of g em now]
    by (intro db_ok_upd_invitations) (simp_all add: c image_columns pending_key_def [abs_def])
  ultimately show ?thesis by simp
qed

lemma db_ok_invited:
  assumes "invitable ps w" and "plan_row (db w) (ip_organizationId ps) = Some p"
    and "\<not> list_ex (blocking (ip_organizationId ps) (ip_invitedEmailNormalized ps) (nowMs w)) (invitations (db w))"
  shows "db_ok (invited_db ps w)"
proof -
  have ok: "db_ok (db w)" using assms(1) by (simp add: invitable_def)
  let ?d = "expire_stale (ip_organizationId ps) (ip_invitedEmailNormalized ps) (nowMs w) (db w)"
  have tables: "organizations ?d = organizations (db w)" by (simp add: expire_stale_def)
  have org: "ip_organizationId ps \<in> org_id ` set (organizations ?d)"
    using plan_row_organization [OF ok assms(2)] by (simp add: tables)
  have new: "pending_key (new_invitation ps (newId ''inv'' w) (pgNow w)) \<notin>
      pending_key ` set (filter (\<lambda>i. inv_status i = InvPending) (invitations ?d))"
    using assms(3) blocking_after_sweep by (simp add: pending_key_def [of "new_invitation _ _ _"])
  note f = db_ok_invitation_facts [OF db_ok_expire_stale [OF ok, of "ip_organizationId ps" "ip_invitedEmailNormalized ps" "nowMs w"]]
  show ?thesis
    unfolding insert_invitation_def
  proof (rule db_ok_upd_invitations [OF db_ok_expire_stale [OF ok]], goal_cases)
    case 3
    show ?case using f(3) new by (simp add: pending_key_def [abs_def])
  qed (use f org assms(1) in \<open>simp_all add: somes_snoc image_columns invitable_def tables\<close>)
qed

text \<open>A still pending row of the address: the first constraint the insert breaks is the partial unique index.\<close>

lemma invited_violation:
  assumes "invitable ps w"
    and "list_ex (blocking (ip_organizationId ps) (ip_invitedEmailNormalized ps) (nowMs w)) (invitations (db w))"
  shows "db_violation (invited_db ps w) = Some (uniqueViolation ''uq_invitations_org_email_pending'')"
proof -
  let ?d = "expire_stale (ip_organizationId ps) (ip_invitedEmailNormalized ps) (nowMs w) (db w)"
  have ok: "db_ok ?d" using assms(1) by (simp add: invitable_def db_ok_expire_stale)
  have blocked: "\<not> distinct (map (\<lambda>i. (inv_organizationId i, inv_invitedEmailNormalized i))
      (filter (\<lambda>i. inv_status i = InvPending) (invitations (invited_db ps w))))"
    using assms(2) blocking_after_sweep [of "ip_organizationId ps" "ip_invitedEmailNormalized ps" "nowMs w" "db w"]
    by (simp add: pending_key_def [abs_def])
  have ids: "distinct (map inv_id (invitations (invited_db ps w)))"
    "distinct (map inv_tokenHash (invitations (invited_db ps w)))"
    using db_ok_invitation_facts(1,2) [OF ok] assms(1) by (simp_all add: image_columns invitable_def)
  show ?thesis
    using ok ids blocked unfolding db_violation_def unique_constraints_def db_ok_iff
    by (simp add: insert_invitation_def)
qed

lemma repo_createInvitation_refused:
  assumes "invitable ps w"
    and "invite_verdict (db w) (nowMs w) (ip_organizationId ps) (ip_invitedEmailNormalized ps) = Some e"
  shows "\<exists>w'. repo_createInvitation ps w = (Inl e, w') \<and> db w' = db w"
proof -
  have ok: "db_ok (db w)" using assms(1) by (simp add: invitable_def)
  let ?sw = "expire_stale (ip_organizationId ps) (ip_invitedEmailNormalized ps) (nowMs w) (db w)"
  have "wp (repo_createInvitation ps) (\<lambda>_ _. False) (\<lambda>e' w'. e' = e \<and> db w' = db w) w"
  proof (cases "plan_row (db w) (ip_organizationId ps)")
    case None
    then have "e = planStateMissingError" using assms(2) by (simp add: invite_verdict_def)
    with None show ?thesis
      by (simp add: repo_createInvitation_def wp_simps planStateMissingError_def)
  next
    case (Some p)
    show ?thesis
    proof (cases "max_members (entitlementsForPlan (op_planKey p)) \<le>
        member_count (db w) (ip_organizationId ps) + pending_count (nowMs w) (db w) (ip_organizationId ps)")
      case True
      with Some assms(2) have "e = quotaExceededError MaxMembers (max_members (entitlementsForPlan (op_planKey p)))
          (member_count (db w) (ip_organizationId ps) + pending_count (nowMs w) (db w) (ip_organizationId ps))"
        by (simp add: invite_verdict_def Let_def)
      with Some True show ?thesis
        by (simp add: repo_createInvitation_def wp_simps requireQuota_def evaluateCountQuota_def quotaExceededError_def)
    next
      case False
      with Some assms(2) have e: "e = duplicatePendingInvitationError"
        and b: "list_ex (blocking (ip_organizationId ps) (ip_invitedEmailNormalized ps) (nowMs w)) (invitations (db w))"
        by (auto simp: invite_verdict_def Let_def split: if_splits)
      note v = invited_violation [OF assms(1) b]
      then have "\<not> db_ok (invited_db ps w)" by (metis db_violation_None option.distinct(1))
      with Some False v e show ?thesis
        by (simp add: repo_createInvitation_def wp_simps Let_def requireQuota_def evaluateCountQuota_def
            db_ok_expire_stale [OF ok] del: uniqueViolationConstraint.simps)
    qed
  qed
  then show ?thesis by (auto simp: wp_def split: prod.splits sum.splits)
qed

lemma newId_drawn_frame [simp]: "newId p (drawn n (w\<lparr>db := d\<rparr>)) = newId p (drawn n w)"
  by (simp add: newId_def drawn_def)

lemma find_role: "i \<in> role_id ` set (roles d) \<Longrightarrow> \<exists>r. select_first (\<lambda>r. role_id r = i) (roles d) = Some r"
  by (cases "select_first (\<lambda>r. role_id r = i) (roles d)") (auto dest: find_NoneD)

lemma drawn_db [simp]: "drawn n (w\<lparr>db := d\<rparr>) = (drawn n w)\<lparr>db := d\<rparr>"
  by (simp add: drawn_def)

lemma logged_fields [simp]:
  "outbox (logged u s g a t md ctx w) = outbox w" "nowMs (logged u s g a t md ctx w) = nowMs w"
  "pgNow (logged u s g a t md ctx w) = pgNow w" "users (db (logged u s g a t md ctx w)) = users (db w)"
  "roles (db (logged u s g a t md ctx w)) = roles (db w)" "invitations (db (logged u s g a t md ctx w)) = invitations (db w)"
  "memberships (db (logged u s g a t md ctx w)) = memberships (db w)"
  "organizations (db (logged u s g a t md ctx w)) = organizations (db w)"
  "organizationPlans (db (logged u s g a t md ctx w)) = organizationPlans (db w)"
  "newId p (logged u s g a t md ctx w) = newId p (drawn DEFAULT_RANDOM_LENGTH w)"
  "map se_id (securityEvents (db (logged u s g a t md ctx w))) = map se_id (securityEvents (db w)) @ [newId ''sevt'' w]"
  by (simp_all add: logged_def newId_def drawn_def)

lemma logged_event:
  "\<exists>e. db (logged u s g a t md ctx w) = db w\<lparr>securityEvents := securityEvents (db w) @ [e]\<rparr> \<and>
    se_organizationId e = g \<and> se_eventType e = t \<and> se_createdAt e = pgNow w \<and> clean_obj (se_metadata e)"
  by (simp add: logged_def, rule exI, rule conjI, rule refl, simp)

lemma wp_logged:
  assumes "db_ok (db w)" and "newId ''sevt'' w \<notin> se_id ` set (securityEvents (db w))"
    and "\<And>x. u = Some x \<Longrightarrow> x \<in> u_id ` set (users (db w))"
    and "\<And>x. s = Some x \<Longrightarrow> x \<in> s_id ` set (sessions (db w))"
    and "Q () (logged u s g a t md ctx w)"
  shows "wp (insertSecurityEvent u s g a t md ctx) Q E w"
  by (simp add: wp_def insertSecurityEvent_logged(1) [OF assms(1-4)] assms(5))

text \<open>The world after a successful creation.\<close>

definition created_world :: "create_invitation_params \<Rightarrow> world \<Rightarrow> world" where
  "created_world ps w =
    logged (Some (ia_actorUserId (ip_ctx ps))) None (Some (ip_organizationId ps)) UserActor ''invitation.created''
      [(''actorMembershipId'', json_of (ia_actorMembershipId (ip_ctx ps))),
       (''targetType'', JStr ''invitation''), (''targetInvitationId'', JStr (newId ''inv'' w)),
       (''invitedEmailNormalized'', JStr (ip_invitedEmailNormalized ps)), (''roleId'', JStr (ip_roleId ps))]
      (ia_ctx (ip_ctx ps)) ((drawn DEFAULT_RANDOM_LENGTH w)\<lparr>db := invited_db ps w\<rparr>)"

lemma invited_created_world:
  "invited ps (newId ''inv'' w) (nowMs w) (pgNow w) (db w) (db (created_world ps w))"
  "nowMs (created_world ps w) = nowMs w" "pgNow (created_world ps w) = pgNow w"
  by (auto simp: created_world_def invited_def logged_def intro!: recorded_snoc)

lemma repo_createInvitation_through:
  assumes "invitable ps w"
    and "invite_verdict (db w) (nowMs w) (ip_organizationId ps) (ip_invitedEmailNormalized ps) = None"
  shows "\<exists>v. repo_createInvitation ps w = (Inr v, created_world ps w) \<and>
    iv_invitation v = new_invitation ps (newId ''inv'' w) (pgNow w) \<and> db_ok (db (created_world ps w))"
proof -
  have ok: "db_ok (db w)" using assms(1) by (simp add: invitable_def)
  obtain p where p: "plan_row (db w) (ip_organizationId ps) = Some p"
    and room: "\<not> max_members (entitlementsForPlan (op_planKey p)) \<le>
        member_count (db w) (ip_organizationId ps) + pending_count (nowMs w) (db w) (ip_organizationId ps)"
    and free: "\<not> list_ex (blocking (ip_organizationId ps) (ip_invitedEmailNormalized ps) (nowMs w)) (invitations (db w))"
    using assms(2) by (auto simp: invite_verdict_def Let_def split: option.splits if_splits)
  note ins = db_ok_invited [OF assms(1) p free]
  obtain r where r: "select_first (\<lambda>r. role_id r = ip_roleId ps) (roles (db w)) = Some r"
    using assms(1) find_role [of "ip_roleId ps" "db w"] by (auto simp only: invitable_def)
  have ev: "newId ''sevt'' (drawn DEFAULT_RANDOM_LENGTH w) \<notin> se_id ` set (securityEvents (db w))"
    and u: "ia_actorUserId (ip_ctx ps) \<in> u_id ` set (users (db w))"
    using assms(1) by (simp_all add: invitable_def)
  have "db_ok (db (created_world ps w))"
    unfolding created_world_def by (rule insertSecurityEvent_logged(2)) (use ins ev u in auto)
  moreover have "wp (repo_createInvitation ps) (\<lambda>v w'. iv_invitation v = new_invitation ps (newId ''inv'' w) (pgNow w) \<and>
      w' = created_world ps w) (\<lambda>_ _. False) w"
    unfolding repo_createInvitation_def using p room ins r
    by (simp add: wp_simps Let_def db_ok_expire_stale [OF ok] recordInvitationEvent_def requireQuota_def
        evaluateCountQuota_def)
      (rule wp_logged; auto simp: ev u r created_world_def simp del: image_iff)
  ultimately show ?thesis by (auto simp: wp_def split: prod.splits sum.splits)
qed

section \<open>Accepting an invitation\<close>

definition join_verdict :: "database \<Rightarrow> date \<Rightarrow> invitation_selector \<Rightarrow> string \<Rightarrow> string \<Rightarrow> error option" where
  "join_verdict d now sel u email =
    (case selected d sel of
       None \<Rightarrow> Some invitationInvalidError
     | Some i \<Rightarrow>
         let g = inv_organizationId i; n = member_count d g in
         case plan_row d g of
           None \<Rightarrow> Some planStateMissingError
         | Some p \<Rightarrow>
             let limit = max_members (entitlementsForPlan (op_planKey p)) in
             if inv_status i = InvAccepted then Some invitationAlreadyAcceptedError
             else if inv_status i = InvRevoked then Some invitationRevokedError
             else if isExpired i now then Some invitationExpiredError
             else if inv_invitedEmailNormalized i \<noteq> email then Some invitationEmailMismatchError
             else if active_member_in d u g then Some alreadyActiveMemberError
             else if limit \<le> n then Some (quotaExceededError MaxMembers limit n)
             else None)"

lemma repo_acceptInvitation_refused:
  assumes "join_verdict (db w) (nowMs w) sel u email = Some e"
  shows "repo_acceptInvitation sel u email ctx w = (Inl e, w)"
proof -
  note run = repo_acceptInvitation_def acceptInvitationWithinTransaction_def wp_simps Let_def
  have "wp (repo_acceptInvitation sel u email ctx) (\<lambda>_ _. False) (\<lambda>e' w'. e' = e \<and> w' = w) w"
  proof (cases "selected (db w) sel")
    case None
    with assms show ?thesis by (simp add: run join_verdict_def)
  next
    case (Some i)
    show ?thesis
    proof (cases "plan_row (db w) (inv_organizationId i)")
      case None
      with Some assms show ?thesis by (simp add: run join_verdict_def)
    next
      fix p assume "plan_row (db w) (inv_organizationId i) = Some p"
      with Some assms show ?thesis by (simp add: run join_verdict_def split: if_splits)
    qed
  qed
  then show ?thesis by (auto simp: wp_def split: prod.splits sum.splits)
qed

text \<open>What has to exist, and to be new, for the acceptance's writes to be accepted.\<close>

definition joinable :: "string \<Rightarrow> string \<Rightarrow> world \<Rightarrow> bool" where
  "joinable u actor w =
    (db_ok (db w) \<and> u \<in> u_id ` set (users (db w)) \<and> actor \<in> u_id ` set (users (db w)) \<and>
     newId ''mem'' w \<notin> mem_id ` set (memberships (db w)) \<and>
     newId ''sevt'' (drawn DEFAULT_RANDOM_LENGTH w) \<notin> se_id ` set (securityEvents (db w)) \<and>
     newId ''sevt'' (drawn (2 * DEFAULT_RANDOM_LENGTH) w) \<notin>
       insert (newId ''sevt'' (drawn DEFAULT_RANDOM_LENGTH w)) (se_id ` set (securityEvents (db w))))"

lemma db_ok_joined_membership:
  assumes "joinable u actor w" and "i \<in> set (invitations (db w))"
    and "\<not> active_member_in (db w) u (inv_organizationId i)"
  shows "db_ok (insert_membership (joined_membership (newId ''mem'' w) u i now t) (db w))"
proof -
  have ok: "db_ok (db w)" using assms(1) by (simp add: joinable_def)
  note m = db_ok_memberships_facts [OF ok] and f = db_ok_invitation_facts [OF ok]
  have refs: "inv_organizationId i \<in> org_id ` set (organizations (db w))" "inv_roleId i \<in> role_id ` set (roles (db w))"
    "inv_invitedByUserId i \<in> u_id ` set (users (db w))"
    using assms(2) f(4,5,6) by auto
  have new: "(u, inv_organizationId i) \<notin> (\<lambda>m. (mem_userId m, mem_organizationId m)) `
      {m \<in> set (memberships (db w)). active_membership m}"
    using assms(3) by (auto simp: active_member_in_def list_ex_iff active_membership_def)
  show ?thesis
    unfolding insert_membership_def
    by (rule db_ok_upd_memberships [OF ok])
      (use m refs new assms(1) in \<open>simp_all add: joined_membership_def joinable_def somes_snoc active_membership_def\<close>)
qed

lemma db_ok_set_invitation_accepted:
  assumes ok: "db_ok d" and u: "u \<in> u_id ` set (users d)"
  shows "db_ok (set_invitation_accepted x u now d)"
  unfolding set_invitation_accepted_def
proof (rule db_ok_upd_invitations [OF ok], goal_cases)
  case 3
  have "map (\<lambda>i. (inv_organizationId i, inv_invitedEmailNormalized i)) (filter (\<lambda>i. inv_status i = InvPending)
      (update_where (\<lambda>r. inv_id r = x) (\<lambda>r. r\<lparr>inv_status := InvAccepted, inv_acceptedAt := Some (fromDate now),
        inv_acceptedByUserId := Some u, inv_updatedAt := fromDate now\<rparr>) (invitations d))) =
    map (\<lambda>i. (inv_organizationId i, inv_invitedEmailNormalized i))
      (filter (\<lambda>r. inv_id r \<noteq> x) (filter (\<lambda>i. inv_status i = InvPending) (invitations d)))"
    by (simp add: filter_update_where_drop)
  then show ?case using distinct_map_filter [OF db_ok_invitation_facts(3) [OF ok]] by (simp only:)
next
  case 7
  show ?case
  proof
    fix v assume "v \<in> set (somes (map inv_acceptedByUserId (update_where (\<lambda>r. inv_id r = x)
      (\<lambda>r. r\<lparr>inv_status := InvAccepted, inv_acceptedAt := Some (fromDate now),
        inv_acceptedByUserId := Some u, inv_updatedAt := fromDate now\<rparr>) (invitations d))))"
    then have "v = u \<or> v \<in> set (somes (map inv_acceptedByUserId (invitations d)))"
      by (auto simp: update_where_def image_iff split: if_splits)
    then show "v \<in> set (map u_id (users d))" using db_ok_invitation_facts(7) [OF ok] u by auto
  qed
qed (use db_ok_invitation_facts [OF ok] in \<open>simp_all del: set_update_where set_somes flip: set_map\<close>)

lemma accepted_returned:
  assumes "db_ok d" and "i \<in> set (invitations d)"
  shows "select_first (\<lambda>x. inv_id x = inv_id i) (invitations (set_invitation_accepted (inv_id i) u now d)) =
    Some (i\<lparr>inv_status := InvAccepted, inv_acceptedAt := Some (fromDate now),
        inv_acceptedByUserId := Some u, inv_updatedAt := fromDate now\<rparr>)"
  unfolding set_invitation_accepted_def
  using find_updated [OF db_ok_invitation_facts(1) [OF assms(1)] assms(2),
      of "\<lambda>r. r\<lparr>inv_status := InvAccepted, inv_acceptedAt := Some (fromDate now),
        inv_acceptedByUserId := Some u, inv_updatedAt := fromDate now\<rparr>"] by simp

lemma wp_two_events:
  assumes ok: "db_ok (db w)" and u: "u \<in> u_id ` set (users (db w))"
    and f1: "newId ''sevt'' w \<notin> se_id ` set (securityEvents (db w))"
    and f2: "newId ''sevt'' (drawn DEFAULT_RANDOM_LENGTH w) \<noteq> newId ''sevt'' w"
      "newId ''sevt'' (drawn DEFAULT_RANDOM_LENGTH w) \<notin> se_id ` set (securityEvents (db w))"
    and Q: "\<And>w' e1 e2. db w' = db w\<lparr>securityEvents := securityEvents (db w) @ [e1, e2]\<rparr> \<Longrightarrow>
      se_organizationId e1 = g \<Longrightarrow> se_eventType e1 = t1 \<Longrightarrow> se_createdAt e1 = pgNow w \<Longrightarrow>
      se_organizationId e2 = g \<Longrightarrow> se_eventType e2 = t2 \<Longrightarrow> se_createdAt e2 = pgNow w \<Longrightarrow>
      clean_obj (se_metadata e1) \<Longrightarrow> clean_obj (se_metadata e2) \<Longrightarrow> Q () w'"
  shows "wp (insertSecurityEvent (Some u) None g a t1 md1 ctx)
    (\<lambda>_. wp (insertSecurityEvent (Some u) None g a t2 md2 ctx) Q E) E w"
proof (rule wp_logged [OF ok f1], goal_cases)
  case 3
  let ?w = "logged (Some u) None g a t1 md1 ctx w"
  have ok': "db_ok (db ?w)" by (rule insertSecurityEvent_logged(2) [OF ok f1]) (use u in auto)
  show ?case
  proof (rule wp_logged [OF ok'], goal_cases)
    case 1
    have "se_id ` set (securityEvents (db ?w)) = insert (newId ''sevt'' w) (se_id ` set (securityEvents (db w)))"
      by (simp add: logged_def)
    then show ?case using f2 by simp
  next
    case 4
    show ?case by (rule Q, simp add: logged_def) simp_all
  qed (use u in simp_all)
qed (use u in simp_all)

lemma repo_acceptInvitation_through:
  assumes j: "joinable u (ia_actorUserId ctx) w" and none: "join_verdict (db w) (nowMs w) sel u email = None"
  shows "\<exists>r i w'. repo_acceptInvitation sel u email ctx w = (Inr r, w') \<and> selected (db w) sel = Some i \<and>
    joined i u (newId ''mem'' w) (nowMs w) (pgNow w) (db w) (db w') \<and>
    acc_membership r = joined_membership (newId ''mem'' w) u i (nowMs w) (pgNow w)"
proof -
  have ok: "db_ok (db w)" using j by (simp add: joinable_def)
  obtain i p where sel: "selected (db w) sel = Some i" and p: "plan_row (db w) (inv_organizationId i) = Some p"
    and guards: "inv_status i \<noteq> InvAccepted" "inv_status i \<noteq> InvRevoked" "\<not> isExpired i (nowMs w)"
      "inv_invitedEmailNormalized i = email" "\<not> active_member_in (db w) u (inv_organizationId i)"
      "member_count (db w) (inv_organizationId i) < max_members (entitlementsForPlan (op_planKey p))"
    using none by (auto simp: join_verdict_def Let_def split: option.splits if_splits)
  have i: "i \<in> set (invitations (db w))" using selectedD [OF sel] by simp
  let ?d = "insert_membership (joined_membership (newId ''mem'' w) u i (nowMs w) (pgNow w)) (db w)"
  let ?d' = "set_invitation_accepted (inv_id i) u (nowMs w) ?d"
  have ok1: "db_ok ?d" by (rule db_ok_joined_membership [OF j i guards(5)])
  have uu: "u \<in> u_id ` set (users (db w))" "ia_actorUserId ctx \<in> u_id ` set (users (db w))"
    using j by (simp_all add: joinable_def)
  have ok2: "db_ok ?d'" by (rule db_ok_set_invitation_accepted [OF ok1]) (simp add: uu)
  have ret: "select_first (\<lambda>x. inv_id x = inv_id i) (invitations ?d') = Some (i\<lparr>inv_status := InvAccepted,
      inv_acceptedAt := Some (fromDate (nowMs w)), inv_acceptedByUserId := Some u, inv_updatedAt := fromDate (nowMs w)\<rparr>)"
    by (rule accepted_returned [OF ok1]) (simp add: i)
  obtain g where g: "select_first (\<lambda>x. org_id x = inv_organizationId i) (organizations (db w)) = Some g"
    using plan_row_organization [OF ok p]
    by (cases "select_first (\<lambda>x. org_id x = inv_organizationId i) (organizations (db w))") (auto dest: find_NoneD)
  obtain r where r: "select_first (\<lambda>x. role_id x = inv_roleId i) (roles (db w)) = Some r"
    using find_role [of "inv_roleId i" "db w"] db_ok_invitation_facts(5) [OF ok] i by blast
  have e1: "newId ''sevt'' (drawn DEFAULT_RANDOM_LENGTH w) \<notin> se_id ` set (securityEvents (db w))"
    using j by (simp add: joinable_def)
  have e2: "newId ''sevt'' (drawn (2 * DEFAULT_RANDOM_LENGTH) w) \<noteq> newId ''sevt'' (drawn DEFAULT_RANDOM_LENGTH w)"
    "newId ''sevt'' (drawn (2 * DEFAULT_RANDOM_LENGTH) w) \<notin> se_id ` set (securityEvents (db w))"
    using j by (simp_all add: joinable_def)
  have twice: "drawn DEFAULT_RANDOM_LENGTH (drawn DEFAULT_RANDOM_LENGTH w) = drawn (2 * DEFAULT_RANDOM_LENGTH) w"
    by (simp add: drawn_def)
  have "wp (repo_acceptInvitation sel u email ctx) (\<lambda>r w'. joined i u (newId ''mem'' w) (nowMs w) (pgNow w) (db w) (db w') \<and>
    acc_membership r = joined_membership (newId ''mem'' w) u i (nowMs w) (pgNow w)) (\<lambda>_ _. False) w"
    unfolding repo_acceptInvitation_def acceptInvitationWithinTransaction_def
    using sel p guards g r
    by (simp add: wp_simps Let_def findOrganizationById_def ok1 ok2 ret recordInvitationEvent_def)
      (rule wp_two_events; auto simp: ok2 uu e1 e2 twice intro: joinedI)
  then show ?thesis using sel by (auto simp: wp_def split: prod.splits sum.splits)
qed

text \<open>The row an acceptance used stays the selected one, now accepted.\<close>

lemma find_update_where_same:
  assumes "\<And>r. p (f r) = p r"
  shows "select_first p (update_where q f rs) = map_option (\<lambda>r. if q r then f r else r) (select_first p rs)"
  using assms by (induction rs) (auto simp: update_where_def)

lemma selected_joined:
  assumes "selected d sel = Some i" and "joined i u mid now t d d'"
  shows "\<exists>i'. selected d' sel = Some i' \<and> inv_status i' = InvAccepted \<and>
    inv_organizationId i' = inv_organizationId i \<and> inv_acceptedByUserId i' = Some u"
proof -
  have "selected d' sel = select_first (selects sel) (update_where (\<lambda>r. inv_id r = inv_id i)
      (\<lambda>r. r\<lparr>inv_status := InvAccepted, inv_acceptedAt := Some (fromDate now),
             inv_acceptedByUserId := Some u, inv_updatedAt := fromDate now\<rparr>) (invitations d))"
    using assms(2) by (auto simp: joined_def selected_def set_invitation_accepted_def insert_membership_def)
  also have "\<dots> = Some (i\<lparr>inv_status := InvAccepted, inv_acceptedAt := Some (fromDate now),
             inv_acceptedByUserId := Some u, inv_updatedAt := fromDate now\<rparr>)"
    using assms(1) by (subst find_update_where_same) (cases sel; simp_all add: selected_def)+
  finally show ?thesis by simp
qed

lemma pending_count_invited:
  assumes "invited ps i now t d d'" and "now < ip_expiresAt ps"
  shows "pending_count now d' (ip_organizationId ps) = pending_count now d (ip_organizationId ps) + 1"
proof -
  have "count_where (live_pending g now) (invitations (expire_stale g em now d)) =
      count_where (live_pending g now) (invitations d)" for g em
    unfolding expire_stale_def
    by (simp, rule count_update_where_eq) (auto simp: live_pending_def stale_pending_def)
  then show ?thesis
    using assms by (auto simp: invited_def recorded_def pending_count_def live_pending_def)
qed

section \<open>Properties\<close>

text \<open>
  C24. Creating an invitation is decided by its verdict: without a plan row it is the
  missing-plan-state error; when the active members and the live pending invitations together reach
  the plan's member limit it is the quota error with both numbers; when a pending invitation of the
  address is still in the way it is the conflict error; each refusal leaves the tables as they were.
  Otherwise it returns, exactly one pending row with the requested address, role and token hash is
  added, only expired rows of that address were swept, one event is recorded, and members plus live
  invitations stay within the limit.
\<close>

theorem createInvitation_decided:
  assumes "invitable ps w" and "nowMs w < ip_expiresAt ps"
  shows "case invite_verdict (db w) (nowMs w) (ip_organizationId ps) (ip_invitedEmailNormalized ps) of
      Some e \<Rightarrow> (\<exists>w'. repo_createInvitation ps w = (Inl e, w') \<and> db w' = db w)
    | None \<Rightarrow> (\<exists>v w' e. repo_createInvitation ps w = (Inr v, w') \<and>
        iv_invitation v = new_invitation ps (newId ''inv'' w) (pgNow w) \<and>
        db w' = (invited_db ps w)\<lparr>securityEvents := securityEvents (db w) @ [e]\<rparr> \<and>
        member_count (db w') (ip_organizationId ps) + pending_count (nowMs w) (db w') (ip_organizationId ps) \<le>
          plan_limit max_members (db w') (ip_organizationId ps))"
proof (cases "invite_verdict (db w) (nowMs w) (ip_organizationId ps) (ip_invitedEmailNormalized ps)")
  case (Some e)
  with repo_createInvitation_refused [OF assms(1) Some] show ?thesis by simp
next
  case None
  let ?g = "ip_organizationId ps"
  obtain v w' where run: "repo_createInvitation ps w = (Inr v, w')"
    "iv_invitation v = new_invitation ps (newId ''inv'' w) (pgNow w)"
    and inv: "invited ps (newId ''inv'' w) (nowMs w) (pgNow w) (db w) (db w')"
    using repo_createInvitation_through [OF assms(1) None] invited_created_world(1) by blast
  obtain e where d': "db w' = (invited_db ps w)\<lparr>securityEvents := securityEvents (db w) @ [e]\<rparr>"
    using inv by (auto simp: invited_def recorded_def)
  have "member_count (db w') ?g = member_count (db w) ?g" "plan_limit max_members (db w') ?g = plan_limit max_members (db w) ?g"
    by (simp_all add: d' member_count_def plan_limit_def plan_row_def)
  moreover have "member_count (db w) ?g + pending_count (nowMs w) (db w) ?g < plan_limit max_members (db w) ?g"
    using None by (auto simp: invite_verdict_def plan_limit_def Let_def split: option.splits if_splits)
  ultimately show ?thesis
    using None run d' pending_count_invited [OF inv assms(2)] by auto
qed

text \<open>
  C25. Accepting an invitation is decided by its verdict, on every branch and in its order:
  unknown token, missing plan state, already accepted, revoked, expired, addressed to someone else,
  already a member, no room in the plan; each refusal changes nothing at all. Otherwise it returns,
  the accepting user gains exactly one active membership with the invitation's role in its
  organization, the members stay within the plan's limit, two events are recorded, and every later
  attempt with the same token or id, by anyone and at any time, is refused as already accepted.
\<close>

theorem acceptInvitation_decided:
  assumes "joinable u (ia_actorUserId ctx) w"
  shows "case join_verdict (db w) (nowMs w) sel u email of
      Some e \<Rightarrow> repo_acceptInvitation sel u email ctx w = (Inl e, w)
    | None \<Rightarrow> (\<exists>r i w'. repo_acceptInvitation sel u email ctx w = (Inr r, w') \<and> selected (db w) sel = Some i \<and>
        memberships (db w') = memberships (db w) @ [joined_membership (newId ''mem'' w) u i (nowMs w) (pgNow w)] \<and>
        length (securityEvents (db w')) = length (securityEvents (db w)) + 2 \<and>
        member_count (db w') (inv_organizationId i) \<le> plan_limit max_members (db w') (inv_organizationId i) \<and>
        (\<forall>u' email' ctx' w''. db w'' = db w' \<longrightarrow>
          repo_acceptInvitation sel u' email' ctx' w'' = (Inl invitationAlreadyAcceptedError, w'')))"
proof (cases "join_verdict (db w) (nowMs w) sel u email")
  case (Some e)
  with repo_acceptInvitation_refused [OF Some] show ?thesis by simp
next
  case None
  obtain r i w' where run: "repo_acceptInvitation sel u email ctx w = (Inr r, w')" and sel: "selected (db w) sel = Some i"
    and j: "joined i u (newId ''mem'' w) (nowMs w) (pgNow w) (db w) (db w')"
    using repo_acceptInvitation_through [OF assms None] by blast
  obtain p where p: "plan_row (db w) (inv_organizationId i) = Some p"
    and room: "member_count (db w) (inv_organizationId i) < max_members (entitlementsForPlan (op_planKey p))"
    using None sel by (auto simp: join_verdict_def Let_def split: option.splits if_splits)
  obtain i' where "selected (db w') sel = Some i'" "inv_status i' = InvAccepted"
    "inv_organizationId i' = inv_organizationId i"
    using selected_joined [OF sel j] by blast
  then have "join_verdict (db w'') (nowMs w'') sel u' email' = Some invitationAlreadyAcceptedError"
    if "db w'' = db w'" for w'' u' email'
    using that p plan_row_joined [OF j] by (simp add: join_verdict_def Let_def)
  then have again: "\<forall>u' email' ctx' w''. db w'' = db w' \<longrightarrow>
      repo_acceptInvitation sel u' email' ctx' w'' = (Inl invitationAlreadyAcceptedError, w'')"
    by (metis repo_acceptInvitation_refused)
  have "length (securityEvents (db w')) = length (securityEvents (db w)) + 2" using j by (auto simp: joined_def)
  then show ?thesis
    using None run sel again joined_tables(1) [OF j] member_count_joined [OF j] plan_row_joined [OF j] p room
    by (auto simp: plan_limit_def)
qed

text \<open>
  C26. At the very instant an invitation expires it is expired for everyone who would use it,
  and no longer counted against the plan, yet the sweep that precedes a new invitation (which looks
  for expiries strictly in the past) leaves it pending: inviting the same address again is refused as
  a duplicate. One millisecond later that row is no longer in the way.
\<close>

theorem expired_invitation_blocks:
  assumes "invitable ps w" and "i \<in> set (invitations (db w))" and "inv_status i = InvPending"
    and "inv_organizationId i = ip_organizationId ps"
    and "inv_invitedEmailNormalized i = ip_invitedEmailNormalized ps"
    and "inv_expiresAt i = fromDate (nowMs w)"
    and "member_count (db w) (ip_organizationId ps) + pending_count (nowMs w) (db w) (ip_organizationId ps) <
      plan_limit max_members (db w) (ip_organizationId ps)"
  shows "deriveInvitationStatus i (nowMs w) = InvExpired \<and>
    \<not> live_pending (ip_organizationId ps) (nowMs w) i \<and>
    (\<exists>w'. repo_createInvitation ps w = (Inl duplicatePendingInvitationError, w')) \<and>
    \<not> blocking (ip_organizationId ps) (ip_invitedEmailNormalized ps) (nowMs w + 1) i"
proof -
  have "list_ex (blocking (ip_organizationId ps) (ip_invitedEmailNormalized ps) (nowMs w)) (invitations (db w))"
    using assms(2-6) by (auto simp: list_ex_iff blocking_def)
  then have "invite_verdict (db w) (nowMs w) (ip_organizationId ps) (ip_invitedEmailNormalized ps) =
      Some duplicatePendingInvitationError"
    using assms(7) by (auto simp: invite_verdict_def plan_limit_def Let_def split: option.splits)
  then have "\<exists>w'. repo_createInvitation ps w = (Inl duplicatePendingInvitationError, w')"
    using repo_createInvitation_refused [OF assms(1)] by blast
  then show ?thesis
    using assms(3-6)
    by (simp add: deriveInvitationStatus_def isExpired_def live_pending_def blocking_def)
qed

definition sample_invitation :: invitation_row where
  "sample_invitation =
    \<lparr>inv_id = ''i1'', inv_organizationId = ''o1'', inv_invitedEmail = ''eve@example.com'',
     inv_invitedEmailNormalized = ''eve@example.com'', inv_roleId = ROLE_IDS Viewer, inv_tokenHash = ''h1'',
     inv_status = InvPending, inv_invitedByUserId = ''ann'', inv_acceptedByUserId = None,
     inv_revokedByUserId = None, inv_expiresAt = 1000000, inv_acceptedAt = None, inv_revokedAt = None,
     inv_createdAt = 0, inv_updatedAt = 0\<rparr>"

definition sample_invite :: create_invitation_params where
  "sample_invite =
    \<lparr>ip_organizationId = ''o1'', ip_invitedEmail = ''eve@example.com'', ip_invitedEmailNormalized = ''eve@example.com'',
     ip_roleId = ROLE_IDS Viewer, ip_tokenHash = ''h2'', ip_expiresAt = 5000,
     ip_ctx = \<lparr>ia_actorUserId = ''ann'', ia_actorMembershipId = Some ''m1'', ia_ctx = sample_ctx\<rparr>\<rparr>"

definition invited_world :: world where
  "invited_world = demo_world\<lparr>db := sample_db\<lparr>invitations := [sample_invitation]\<rparr>\<rparr>"

lemma invited_world_simps [simp]:
  "db invited_world = sample_db\<lparr>invitations := [sample_invitation]\<rparr>" "nowMs invited_world = 1000"
  by (simp_all add: invited_world_def)

lemma sample_tables [simp]: "invitations sample_db = []" "roles sample_db = ROLE_SEED"
  "org_id ` set (organizations sample_db) = {''o1'', ''o2''}"
  by (simp_all add: sample_db_def sample_org_def)

lemma sample_roles [simp]: "ROLE_IDS k \<in> role_id ` set ROLE_SEED"
  using catalogued_role [OF sample_catalogued] by simp

lemma invited_world_ok: "db_ok (sample_db\<lparr>invitations := [sample_invitation]\<rparr>)"
  by (rule db_ok_upd_invitations [OF sample_ok]) (simp_all add: sample_invitation_def)

lemma sample_invitable: "invitable sample_invite demo_world" "invitable sample_invite invited_world"
  using newId_length [of "''inv''" invited_world] invited_world_ok
  by (auto simp: invitable_def sample_invite_def sample_invitation_def)

lemma createInvitation_decided_witness:
  "\<exists>v w'. repo_createInvitation sample_invite demo_world = (Inr v, w') \<and>
    member_count (db w') ''o1'' + pending_count 1000 (db w') ''o1'' \<le> plan_limit max_members (db w') ''o1''"
proof -
  have "invite_verdict sample_db 1000 ''o1'' ''eve@example.com'' = None" by code_simp
  then show ?thesis
    using createInvitation_decided [OF sample_invitable(1)] by (auto simp: sample_invite_def)
qed

lemma expired_invitation_blocks_witness:
  "\<exists>w'. repo_createInvitation sample_invite invited_world = (Inl duplicatePendingInvitationError, w')"
proof -
  have "member_count (sample_db\<lparr>invitations := [sample_invitation]\<rparr>) ''o1'' +
      pending_count 1000 (sample_db\<lparr>invitations := [sample_invitation]\<rparr>) ''o1'' <
      plan_limit max_members (sample_db\<lparr>invitations := [sample_invitation]\<rparr>) ''o1''" by code_simp
  then show ?thesis
    using expired_invitation_blocks [OF sample_invitable(2), of sample_invitation]
    by (simp add: sample_invite_def sample_invitation_def fromDate_def)
qed

definition sample_invitation_options :: invitation_options where
  "sample_invitation_options =
    \<lparr>rateLimiter = NoopLimiter, rateLimitFailureMode = FailOpen, io_windowSeconds = 60, io_inspectPerIpMax = 5,
     io_inspectPerTokenMax = 5, io_acceptPerUserMax = 5, io_createPerUserMax = 5, io_createPerOrgMax = 5,
     io_ttlSeconds = 3600, io_webBaseUrl = ''https://app''\<rparr>"

lemma sample_enforceRateLimit [simp]: "enforceRateLimit sample_invitation_options key limit w = (Inr (), w)"
  by (simp add: enforceRateLimit_def enforceMutationRateLimit_def limiterAdmits_def prog_simps noopConsume_def
      enforceStoreAvailability_def sample_invitation_options_def limiter_options.truncate_def)

lemma sample_io [simp]: "io_ttlSeconds sample_invitation_options = 3600"
  "io_webBaseUrl sample_invitation_options = ''https://app''"
  by (simp_all add: sample_invitation_options_def)

text \<open>Bob, an Admin of \<open>o1\<close>, invites Dan's address as an Owner; Dan accepts with the mailed token.\<close>

definition owner_invite :: create_invitation_input where
  "owner_invite = \<lparr>cii_userId = ''bob'', cii_organizationId = ''o1'', cii_email = ''dan@example.com'',
     cii_role = Owner, cii_ctx = sample_ctx\<rparr>"

definition mailed_token :: string where
  "mailed_token = base64url (map (\<lambda>i. i mod 256) [0..<32])"

definition owner_acceptance :: accept_invitation_input where
  "owner_acceptance = \<lparr>aii_userId = ''dan'', aii_userEmail = ''dan@example.com'', aii_rawToken = mailed_token,
     aii_ctx = sample_ctx\<rparr>"

definition owner_params :: "crypto \<Rightarrow> organization_actor \<Rightarrow> create_invitation_params" where
  "owner_params c actor =
    \<lparr>ip_organizationId = ''o1'', ip_invitedEmail = ''dan@example.com'', ip_invitedEmailNormalized = ''dan@example.com'',
     ip_roleId = ROLE_IDS Owner, ip_tokenHash = sha256 c mailed_token, ip_expiresAt = 3601000,
     ip_ctx = invitationActionContext actor sample_ctx\<rparr>"

lemma owner_params_simps [simp]:
  "ip_organizationId (owner_params c actor) = ''o1''" "ip_invitedEmailNormalized (owner_params c actor) = ''dan@example.com''"
  "ip_roleId (owner_params c actor) = ROLE_IDS Owner" "ip_tokenHash (owner_params c actor) = sha256 c mailed_token"
  "ip_expiresAt (owner_params c actor) = 3601000" "ia_actorUserId (ip_ctx (owner_params c actor)) = act_userId actor"
  by (simp_all add: owner_params_def invitationActionContext_def)

lemma owner_guards:
  "normalizeEmail ''dan@example.com'' = ''dan@example.com''"
  "\<not> list_ex (\<lambda>(m, u). mem_organizationId m = ''o1'' \<and> mem_status m = MemActive \<and> u_normalizedEmail u = ''dan@example.com'')
      (inner_join (\<lambda>m u. mem_userId m = u_id u) (memberships sample_db) (users sample_db))"
  "may sample_db ''bob'' ''o1'' InvitationsCreate"
  "invite_verdict sample_db 1000 ''o1'' ''dan@example.com'' = None"
  "select_first (\<lambda>r. org_id r = ''o1'') (organizations sample_db) = Some (sample_org ''o1'' ''ann'')"
  "member_count sample_db ''o1'' = 3" "pending_count 1000 sample_db ''o1'' = 0"
  by code_simp+

lemma owner_mail_safe:
  "assertSafeAccountEmail (renderInvitationEmail ''dan@example.com'' ''o1'' rn url t) = Inr ()"
  by (simp add: assertSafeAccountEmail_iff renderInvitationEmail_def safe_header_def HEADER_FORGING_CHARACTERS_def)

lemma owner_invite_runs:
  "\<exists>v actor m. createInvitation c sample_invitation_options owner_invite demo_world =
    (Inr v, created_world (owner_params c actor) ((drawn 32 demo_world)\<lparr>outbox := m\<rparr>)) \<and> act_userId actor = ''bob''"
proof -
  obtain actor where served: "createInvitation c sample_invitation_options owner_invite demo_world =
      createInvitation_body c sample_invitation_options owner_invite actor demo_world"
    and actor: "act_userId actor = ''bob''" "act_organizationId actor = ''o1''"
    using create_invitation.runs_body [of demo_world owner_invite c sample_invitation_options] owner_guards(3)
    by (auto simp: owner_invite_def)
  let ?m = "[renderInvitationEmail ''dan@example.com'' ''o1'' (ROLE_NAME_BY_KEY Owner)
      (buildInvitationAcceptUrl ''https://app'' mailed_token) 3601000]"
  let ?w = "(drawn 32 demo_world)\<lparr>outbox := ?m\<rparr>"
  have quota: "requireMemberReservationQuota ''o1'' 0 demo_world = (Inr (), demo_world)"
    using owner_guards(6)
    by (simp add: requireMemberReservationQuota_def prog_simps sample_plan_of_o1 countActiveMembers_def member_count_def
        requireQuota_def evaluateCountQuota_def sample_plan_def entitlementsForPlan_def)
  have token: "generateInvitationToken demo_world = (Inr mailed_token, drawn 32 demo_world)"
    by (simp add: generateInvitationToken_def generateOpaqueToken_def prog_simps randomBytes_def mailed_token_def
        DEFAULT_TOKEN_BYTES_def drawn_def demo_world_def sample_world_def)
  have mail: "deliver (hd ?m) (drawn 32 demo_world) = (Inr (), ?w)"
    by (simp add: deliver_def owner_mail_safe prog_simps) (simp add: demo_world_def sample_world_def)
  have ids: "invitable (owner_params c actor) ?w"
    using actor by (simp add: invitable_def owner_params_def invitationActionContext_def)
  have "invite_verdict (db ?w) (nowMs ?w) (ip_organizationId (owner_params c actor))
      (ip_invitedEmailNormalized (owner_params c actor)) = None"
    using owner_guards(4) by (simp add: owner_params_def)
  then obtain v where created: "repo_createInvitation (owner_params c actor) ?w = (Inr v, created_world (owner_params c actor) ?w)"
    using repo_createInvitation_through [OF ids] by blast
  have "\<exists>v. createInvitation_body c sample_invitation_options owner_invite actor demo_world =
      (Inr v, created_world (owner_params c actor) ?w)"
    using owner_guards actor quota token mail created
    by (simp add: createInvitation_body_def prog_simps Let_def owner_invite_def hasActiveMemberWithEmail_def
        findPendingInvitation_def countPendingInvitations_def findOrganizationById_def sample_org_def
        owner_params_def hashInvitationToken_def hashOpaqueToken_def)
  then show ?thesis using served actor by auto
qed

lemma created_world_tables [simp]:
  "memberships (db (created_world ps w)) = memberships (db w)" "users (db (created_world ps w)) = users (db w)"
  "organizations (db (created_world ps w)) = organizations (db w)" "roles (db (created_world ps w)) = roles (db w)"
  "organizationPlans (db (created_world ps w)) = organizationPlans (db w)"
  "nowMs (created_world ps w) = nowMs w"
  "newId p (created_world ps w) = newId p (drawn (2 * DEFAULT_RANDOM_LENGTH) w)"
  "map se_id (securityEvents (db (created_world ps w))) =
    map se_id (securityEvents (db w)) @ [newId ''sevt'' (drawn DEFAULT_RANDOM_LENGTH w)]"
  by (simp_all add: created_world_def newId_def drawn_def expire_stale_def insert_invitation_def logged_def
      mult_2 add.assoc)

lemma created_world_reads [simp]:
  "active_member_in (db (created_world ps w)) u g = active_member_in (db w) u g"
  "member_count (db (created_world ps w)) g = member_count (db w) g"
  "plan_row (db (created_world ps w)) g = plan_row (db w) g"
  by (simp_all add: active_member_in_def member_count_def plan_row_def)

lemma created_world_invitations:
  "invitations (db w) = [] \<Longrightarrow> invitations (db (created_world ps w)) = [new_invitation ps (newId ''inv'' w) (pgNow w)]"
  by (simp add: created_world_def expire_stale_def update_where_def)

lemma demo_ids_distinct:
  "distinct (map (\<lambda>n. newId ''sevt'' (drawn n demo_world)) [58, 110, 136])"
  "newId ''mem'' (drawn 84 demo_world) \<notin> {''m1'', ''m2'', ''m3'', ''m4''}"
proof -
  show "distinct (map (\<lambda>n. newId ''sevt'' (drawn n demo_world)) [58, 110, 136])"
    by (simp add: newId_def drawn_def demo_world_def sample_world_def) code_simp
  show "newId ''mem'' (drawn 84 demo_world) \<notin> {''m1'', ''m2'', ''m3'', ''m4''}"
    using newId_length [of "''mem''" "drawn 84 demo_world"] by auto
qed

lemma joining_guards:
  "\<not> active_member_in sample_db ''dan'' ''o1''" "holds_role sample_db ''bob'' ''o1'' Admin"
  "\<not> holds_role sample_db ''dan'' ''o1'' Owner"
  "change_verdict sample_db ''o1'' ''m3'' Owner ''m2'' = Some permissionDeniedError"
  "map mem_id (memberships sample_db) = [''m1'', ''m2'', ''m3'', ''m4'']"
  by code_simp+

text \<open>The state Dan accepts in.\<close>

abbreviation owner_world :: "crypto \<Rightarrow> organization_actor \<Rightarrow> account_email list \<Rightarrow> world" where
  "owner_world c actor m \<equiv> created_world (owner_params c actor) ((drawn 32 demo_world)\<lparr>outbox := m\<rparr>)"

lemma owner_world_ids:
  "newId p (owner_world c actor m) = newId p (drawn 84 demo_world)"
  "newId p (drawn n (owner_world c actor m)) = newId p (drawn (84 + n) demo_world)"
  "map se_id (securityEvents (db (owner_world c actor m))) = [newId ''sevt'' (drawn 58 demo_world)]"
  by (simp_all add: created_world_def logged_def expire_stale_def insert_invitation_def)
    (simp_all add: newId_def drawn_def DEFAULT_RANDOM_LENGTH_def ac_simps)

lemma owner_joinable:
  assumes "act_userId actor = ''bob''"
  shows "joinable ''dan'' ''dan'' (owner_world c actor m)"
proof -
  have ok: "db_ok (db (owner_world c actor m))"
  proof -
    let ?w = "(drawn 32 demo_world)\<lparr>outbox := m\<rparr>"
    have ids: "invitable (owner_params c actor) ?w"
      using assms by (simp add: invitable_def owner_params_def invitationActionContext_def)
    have v: "invite_verdict (db ?w) (nowMs ?w) (ip_organizationId (owner_params c actor))
        (ip_invitedEmailNormalized (owner_params c actor)) = None"
      using owner_guards(4) by (simp add: owner_params_def)
    show ?thesis using repo_createInvitation_through [OF ids v] by blast
  qed
  have ev: "se_id ` set (securityEvents (db (owner_world c actor m))) = {newId ''sevt'' (drawn 58 demo_world)}"
    using owner_world_ids(3) by (metis list.set(1) list.set(2) set_map)
  have mem: "mem_id ` set (memberships sample_db) = {''m1'', ''m2'', ''m3'', ''m4''}"
    using joining_guards(5) by (metis list.set(1) list.set(2) set_map)
  show ?thesis
    using ok demo_ids_distinct
    by (auto simp add: joinable_def owner_world_ids ev mem DEFAULT_RANDOM_LENGTH_def simp del: created_world_tables(7))
qed

lemma owner_verdict:
  "join_verdict (db (owner_world c actor m)) 1000 (ByTokenHash (sha256 c mailed_token)) ''dan'' ''dan@example.com'' = None"
proof -
  have only: "invitations (db (owner_world c actor m)) =
      [new_invitation (owner_params c actor) (newId ''inv'' ((drawn 32 demo_world)\<lparr>outbox := m\<rparr>)) (pgNow ((drawn 32 demo_world)\<lparr>outbox := m\<rparr>))]"
    by (rule created_world_invitations) simp
  have sel: "selected (db (owner_world c actor m)) (ByTokenHash (sha256 c mailed_token)) =
      Some (new_invitation (owner_params c actor) (newId ''inv'' ((drawn 32 demo_world)\<lparr>outbox := m\<rparr>)) (pgNow ((drawn 32 demo_world)\<lparr>outbox := m\<rparr>)))"
    by (simp add: selected_def only)
  show ?thesis
    using joining_guards(1) owner_guards(6)
    by (simp add: join_verdict_def sel Let_def isExpired_def sample_plan_of_o1 sample_plan_def entitlementsForPlan_def)
qed
lemma owner_joins:
  assumes "act_userId actor = ''bob''"
  shows "\<exists>r i w' mid t. repo_acceptInvitation (ByTokenHash (sha256 c mailed_token)) ''dan'' ''dan@example.com''
      \<lparr>ia_actorUserId = ''dan'', ia_actorMembershipId = None, ia_ctx = sample_ctx\<rparr> (owner_world c actor m) = (Inr r, w') \<and>
    inv_roleId i = ROLE_IDS Owner \<and> inv_organizationId i = ''o1'' \<and>
    joined i ''dan'' mid 1000 t (db (owner_world c actor m)) (db w')"
proof -
  have only: "invitations (db (owner_world c actor m)) =
      [new_invitation (owner_params c actor) (newId ''inv'' ((drawn 32 demo_world)\<lparr>outbox := m\<rparr>)) (pgNow ((drawn 32 demo_world)\<lparr>outbox := m\<rparr>))]"
    by (rule created_world_invitations) simp
  have sel: "selected (db (owner_world c actor m)) (ByTokenHash (sha256 c mailed_token)) =
      Some (new_invitation (owner_params c actor) (newId ''inv'' ((drawn 32 demo_world)\<lparr>outbox := m\<rparr>)) (pgNow ((drawn 32 demo_world)\<lparr>outbox := m\<rparr>)))"
    by (simp add: selected_def only)
  obtain r i w' where run: "repo_acceptInvitation (ByTokenHash (sha256 c mailed_token)) ''dan'' ''dan@example.com''
      \<lparr>ia_actorUserId = ''dan'', ia_actorMembershipId = None, ia_ctx = sample_ctx\<rparr> (owner_world c actor m) = (Inr r, w')"
    "selected (db (owner_world c actor m)) (ByTokenHash (sha256 c mailed_token)) = Some i"
    "joined i ''dan'' (newId ''mem'' (owner_world c actor m)) (nowMs (owner_world c actor m))
      (pgNow (owner_world c actor m)) (db (owner_world c actor m)) (db w')"
    using repo_acceptInvitation_through [of "''dan''" "\<lparr>ia_actorUserId = ''dan'', ia_actorMembershipId = None, ia_ctx = sample_ctx\<rparr>"
        "owner_world c actor m" "ByTokenHash (sha256 c mailed_token)" "''dan@example.com''"] owner_joinable [OF assms] owner_verdict
    by auto
  moreover have "inv_roleId i = ROLE_IDS Owner" "inv_organizationId i = ''o1''"
    using run(2) sel by auto
  moreover have "nowMs (owner_world c actor m) = 1000" by simp
  ultimately show ?thesis by metis
qed

text \<open>
  C27. The Owner-transition policy (only an active Owner grants Owner) has a way around it: an
  Admin, whom the member endpoint refuses to make anyone an Owner, may invite an address with the
  role Owner; the holder of that address accepts with the mailed token and is an active Owner of the
  organization. The invitation operations nowhere compare the invited role with the actor's.
\<close>

theorem admin_hands_out_ownership:
  "holds_role sample_db ''bob'' ''o1'' Admin \<and> \<not> holds_role sample_db ''dan'' ''o1'' Owner \<and>
   changeMemberRole ''o1'' ''m3'' (ROLE_IDS Owner) ''bob'' ''m2'' sample_ctx demo_world = (Inl permissionDeniedError, demo_world) \<and>
   (\<exists>v w1 r w2. createInvitation c sample_invitation_options owner_invite demo_world = (Inr v, w1) \<and>
      acceptInvitation c sample_invitation_options owner_acceptance w1 = (Inr r, w2) \<and>
      holds_role (db w2) ''dan'' ''o1'' Owner)"
proof -
  have "wp (changeMemberRole ''o1'' ''m3'' (ROLE_IDS Owner) ''bob'' ''m2'' sample_ctx) (\<lambda>_ _. False)
      (\<lambda>e w'. e = permissionDeniedError \<and> w' = demo_world) demo_world"
    by (rule wp_changeMemberRole) (use joining_guards(4) in auto)
  then have refused: "changeMemberRole ''o1'' ''m3'' (ROLE_IDS Owner) ''bob'' ''m2'' sample_ctx demo_world =
      (Inl permissionDeniedError, demo_world)"
    by (auto simp: wp_def split: prod.splits sum.splits)
  obtain v actor m where created: "createInvitation c sample_invitation_options owner_invite demo_world = (Inr v, owner_world c actor m)"
    and bob: "act_userId actor = ''bob''"
    using owner_invite_runs by blast
  obtain r i w2 mid t where joins: "repo_acceptInvitation (ByTokenHash (sha256 c mailed_token)) ''dan'' ''dan@example.com''
      \<lparr>ia_actorUserId = ''dan'', ia_actorMembershipId = None, ia_ctx = sample_ctx\<rparr> (owner_world c actor m) = (Inr r, w2)"
    and role: "inv_roleId i = ROLE_IDS Owner" "inv_organizationId i = ''o1''"
    and j: "joined i ''dan'' mid 1000 t (db (owner_world c actor m)) (db w2)"
    using owner_joins [OF bob] by metis
  have only: "invitations (db (owner_world c actor m)) =
      [new_invitation (owner_params c actor) (newId ''inv'' ((drawn 32 demo_world)\<lparr>outbox := m\<rparr>)) (pgNow ((drawn 32 demo_world)\<lparr>outbox := m\<rparr>))]"
    by (rule created_world_invitations) simp
  have orgs: "organizations sample_db = [sample_org ''o1'' ''ann'', sample_org ''o2'' ''dan'']" by (simp add: sample_db_def)
  have found: "\<exists>v. findContextByTokenHash (sha256 c mailed_token) (owner_world c actor m) = (Inr (Some v), owner_world c actor m) \<and>
      inv_status (ic_invitation v) = InvPending \<and> inv_expiresAt (ic_invitation v) = fromDate 3601000 \<and>
      inv_invitedEmailNormalized (ic_invitation v) = ''dan@example.com''"
    by (simp add: findContextByTokenHash_def invitation_views_def only inner_join_def orgs ROLE_SEED_def sample_org_def prog_simps)
  then have "\<exists>x. acceptInvitation c sample_invitation_options owner_acceptance (owner_world c actor m) = (Inr x, w2)"
    using joins
    by (auto simp: acceptInvitation_def owner_acceptance_def prog_simps Let_def owner_guards(1) hashInvitationToken_def
        hashOpaqueToken_def assertAcceptable_def isExpired_def)
  moreover have "holds_role (db w2) ''dan'' ''o1'' Owner"
    using role by (simp add: holds_role_def joined_tables [OF j] joined_membership_def orgs) (simp add: sample_org_def)
  ultimately show ?thesis using refused created joining_guards(2,3) by (metis prod.exhaust)
qed

definition sample_admin :: organization_actor where
  "sample_admin = \<lparr>act_userId = ''bob'', act_organizationId = ''o1'', act_membershipId = ''m2'', act_roleId = ROLE_IDS Admin,
    act_roleKey = Admin, act_roleName = ''Admin'', act_permissions = [], act_requestId = None\<rparr>"

lemma acceptInvitation_decided_witness:
  "\<exists>r w'. repo_acceptInvitation (ByTokenHash (sha256 sample_crypto mailed_token)) ''dan'' ''dan@example.com''
      \<lparr>ia_actorUserId = ''dan'', ia_actorMembershipId = None, ia_ctx = sample_ctx\<rparr>
      (owner_world sample_crypto sample_admin []) = (Inr r, w') \<and> length (securityEvents (db w')) = Suc (Suc (Suc 0))"
proof -
  have "length (securityEvents (db (owner_world sample_crypto sample_admin []))) = 1"
    using owner_world_ids(3) [of sample_crypto sample_admin "[]"] by (metis length_map One_nat_def length_Cons list.size(3))
  then show ?thesis
    using acceptInvitation_decided [of "''dan''" "\<lparr>ia_actorUserId = ''dan'', ia_actorMembershipId = None, ia_ctx = sample_ctx\<rparr>"
        "owner_world sample_crypto sample_admin []" "ByTokenHash (sha256 sample_crypto mailed_token)" "''dan@example.com''"]
      owner_joinable [of sample_admin sample_crypto "[]"] owner_verdict [of sample_crypto sample_admin "[]"]
    by (auto simp: sample_admin_def simp del: created_world_tables(8))
qed

end
