(* ===== verification/AuthSessions.thy ===== *)
theory AuthSessions
  imports AuthCommon
begin

text \<open>
  The authentication repository (\<^verbatim>\<open>apps/api/src/modules/auth/auth.repo.ts\<close>): sessions, refresh-token
  families, rotation, revocation, and the two credential changes; what each does to the tables, and
  the invariant that a family has at most one token that can still be rotated.
\<close>

section \<open>The repository\<close>

definition session_by_id :: "database \<Rightarrow> string \<Rightarrow> session_row option" where
  "session_by_id d i = select_first (\<lambda>s. s_id s = i) (sessions d)"

definition findSessionById :: "string \<Rightarrow> session_row option api" where
  "findSessionById i = select (\<lambda>d. session_by_id d i)"

definition new_session :: "string \<Rightarrow> string \<Rightarrow> request_ctx \<Rightarrow> date \<Rightarrow> timestamptz \<Rightarrow> session_row" where
  "new_session i userId ctx expiresAt t =
    \<lparr>s_id = i, s_userId = userId, s_ipAddress = ctx_ipAddress ctx, s_userAgent = ctx_userAgent ctx,
     s_expiresAt = fromDate expiresAt, s_revokedAt = None, s_revokedReason = None, s_createdAt = t, s_updatedAt = t\<rparr>"

definition insert_session :: "session_row \<Rightarrow> database \<Rightarrow> database" where
  "insert_session s d = d\<lparr>sessions := sessions d @ [s]\<rparr>"

definition insertSession :: "string \<Rightarrow> request_ctx \<Rightarrow> date \<Rightarrow> session_row api" where
  "insertSession userId ctx expiresAt =
    bindP (createId ''sess'') (\<lambda>i.
    bindP (getsP pgNow) (\<lambda>t.
    let s = new_session i userId ctx expiresAt t in
    thenP (sql (insert_session s)) (ret s)))"

definition new_refresh_token ::
  "string \<Rightarrow> string \<Rightarrow> string \<Rightarrow> string \<Rightarrow> string option \<Rightarrow> date \<Rightarrow> timestamptz \<Rightarrow> refresh_token_row" where
  "new_refresh_token i sessionId familyId tokenHash parent expiresAt t =
    \<lparr>rt_id = i, rt_sessionId = sessionId, rt_tokenHash = tokenHash, rt_familyId = familyId,
     rt_parentTokenId = parent, rt_replacementTokenId = None, rt_usedAt = None,
     rt_expiresAt = fromDate expiresAt, rt_revokedAt = None, rt_revokedReason = None, rt_createdAt = t\<rparr>"

definition insert_refresh_token :: "refresh_token_row \<Rightarrow> database \<Rightarrow> database" where
  "insert_refresh_token r d = d\<lparr>refreshTokens := refreshTokens d @ [r]\<rparr>"

definition insertRefreshToken ::
  "string \<Rightarrow> string \<Rightarrow> string \<Rightarrow> string option \<Rightarrow> date \<Rightarrow> refresh_token_row api" where
  "insertRefreshToken sessionId familyId tokenHash parent expiresAt =
    bindP (createId ''rtok'') (\<lambda>i.
    bindP (getsP pgNow) (\<lambda>t.
    let r = new_refresh_token i sessionId familyId tokenHash parent expiresAt t in
    thenP (sql (insert_refresh_token r)) (ret r)))"

definition token_by_hash :: "database \<Rightarrow> string \<Rightarrow> refresh_token_row option" where
  "token_by_hash d h = select_first (\<lambda>r. rt_tokenHash r = h) (refreshTokens d)"

definition findRefreshTokenByHash :: "string \<Rightarrow> refresh_token_row option api" where
  "findRefreshTokenByHash h = select (\<lambda>d. token_by_hash d h)"

datatype rotation =
    Rotated refresh_token_row session_row
  | Reuse string string "string option" \<comment> \<open>family, session, user\<close>
  | RotationExpired
  | RotationNotFound

definition consumed :: "refresh_token_row \<Rightarrow> bool" where
  "consumed r = (rt_usedAt r \<noteq> None \<or> rt_revokedAt r \<noteq> None \<or> rt_replacementTokenId r \<noteq> None)"

definition session_live :: "session_row \<Rightarrow> date \<Rightarrow> bool" where
  "session_live s now = (s_revokedAt s = None \<and> \<not> toDate (s_expiresAt s) \<le> now)"

definition set_token_used :: "string \<Rightarrow> string \<Rightarrow> date \<Rightarrow> database \<Rightarrow> database" where
  "set_token_used i successor now d = d\<lparr>refreshTokens := update_where (\<lambda>r. rt_id r = i)
     (\<lambda>r. r\<lparr>rt_usedAt := Some (fromDate now), rt_replacementTokenId := Some successor\<rparr>) (refreshTokens d)\<rparr>"

definition touch_session :: "string \<Rightarrow> date \<Rightarrow> database \<Rightarrow> database" where
  "touch_session i now d = d\<lparr>sessions := update_where (\<lambda>s. s_id s = i)
     (\<lambda>s. s\<lparr>s_updatedAt := fromDate now\<rparr>) (sessions d)\<rparr>"

definition rotateRefreshToken :: "string \<Rightarrow> string \<Rightarrow> date \<Rightarrow> date \<Rightarrow> rotation api" where
  "rotateRefreshToken presentedTokenHash successorTokenHash successorExpiresAt now =
    transaction
     (bindP (select (\<lambda>d. token_by_hash d presentedTokenHash)) (\<lambda>row.
      case row of
        None \<Rightarrow> ret RotationNotFound
      | Some token \<Rightarrow>
          bindP (select (\<lambda>d. session_by_id d (rt_sessionId token))) (\<lambda>srow.
          if consumed token
          then ret (Reuse (rt_familyId token) (rt_sessionId token) (map_option s_userId srow))
          else (case srow of
              None \<Rightarrow> ret (Reuse (rt_familyId token) (rt_sessionId token) None)
            | Some session \<Rightarrow>
                if \<not> session_live session now
                then ret (Reuse (rt_familyId token) (rt_sessionId token) (Some (s_userId session)))
                else if toDate (rt_expiresAt token) \<le> now then ret RotationExpired
                else
                  bindP (insertRefreshToken (rt_sessionId token) (rt_familyId token) successorTokenHash
                      (Some (rt_id token)) successorExpiresAt) (\<lambda>successor.
                  thenP (sql (set_token_used (rt_id token) (rt_id successor) now))
                 (thenP (sql (touch_session (s_id session) now))
                   (ret (Rotated successor session))))))))"

definition revoke_tokens :: "(refresh_token_row \<Rightarrow> bool) \<Rightarrow> string \<Rightarrow> date \<Rightarrow> database \<Rightarrow> database" where
  "revoke_tokens p reason now d = d\<lparr>refreshTokens := update_where (\<lambda>r. p r \<and> rt_revokedAt r = None)
     (\<lambda>r. r\<lparr>rt_revokedAt := Some (fromDate now), rt_revokedReason := Some reason\<rparr>) (refreshTokens d)\<rparr>"

definition revoke_sessions :: "(session_row \<Rightarrow> bool) \<Rightarrow> string \<Rightarrow> date \<Rightarrow> database \<Rightarrow> database" where
  "revoke_sessions p reason now d = d\<lparr>sessions := update_where (\<lambda>s. p s \<and> s_revokedAt s = None)
     (\<lambda>s. s\<lparr>s_revokedAt := Some (fromDate now), s_revokedReason := Some reason,
           s_updatedAt := fromDate now\<rparr>) (sessions d)\<rparr>"

definition revokeRefreshTokenFamily :: "string \<Rightarrow> string \<Rightarrow> unit api" where
  "revokeRefreshTokenFamily familyId reason =
    bindP (getsP nowMs) (\<lambda>now. sql (revoke_tokens (\<lambda>r. rt_familyId r = familyId) reason now))"

definition revokeRefreshTokensForSession :: "string \<Rightarrow> string \<Rightarrow> unit api" where
  "revokeRefreshTokensForSession sessionId reason =
    bindP (getsP nowMs) (\<lambda>now. sql (revoke_tokens (\<lambda>r. rt_sessionId r = sessionId) reason now))"

definition repo_revokeSession :: "string \<Rightarrow> string \<Rightarrow> unit api" where
  "repo_revokeSession sessionId reason =
    bindP (getsP nowMs) (\<lambda>now. sql (revoke_sessions (\<lambda>s. s_id s = sessionId) reason now))"

definition live_sessions_of :: "string \<times> date \<Rightarrow> database \<Rightarrow> session_row list" where
  "live_sessions_of k d =
    filter (\<lambda>s. s_userId s = fst k \<and> s_revokedAt s = None \<and> fromDate (snd k) < s_expiresAt s) (sessions d)"

definition listActiveSessionsForUser ::
  "string \<times> date \<Rightarrow> database \<Rightarrow> (date \<times> string) option \<Rightarrow> nat \<Rightarrow> session_row list" where
  "listActiveSessionsForUser k d cursor limit = page_query s_createdAt s_id cursor limit (live_sessions_of k d)"

interpretation session_pages: paged_endpoint s_createdAt s_id live_sessions_of listActiveSessionsForUser
  by unfold_locales (simp add: listActiveSessionsForUser_def)

definition set_password :: "string \<Rightarrow> string \<Rightarrow> date \<Rightarrow> database \<Rightarrow> database" where
  "set_password userId hash now d = d\<lparr>users := update_where (\<lambda>u. u_id u = userId)
     (\<lambda>u. u\<lparr>u_passwordHash := hash, u_updatedAt := fromDate now\<rparr>) (users d)\<rparr>"

text \<open>The sub-select of a user's session ids, and the tokens of those sessions.\<close>

definition token_of_sessions :: "(session_row \<Rightarrow> bool) \<Rightarrow> database \<Rightarrow> refresh_token_row \<Rightarrow> bool" where
  "token_of_sessions p d r = list_ex (\<lambda>s. p s \<and> s_id s = rt_sessionId r) (sessions d)"

definition other_session :: "string \<Rightarrow> string \<Rightarrow> session_row \<Rightarrow> bool" where
  "other_session userId currentSessionId s = (s_userId s = userId \<and> s_id s \<noteq> currentSessionId)"

definition changePasswordKeepingCurrentSession ::
  "string \<Rightarrow> string \<Rightarrow> string \<Rightarrow> string \<Rightarrow> date \<Rightarrow> unit api" where
  "changePasswordKeepingCurrentSession userId newPasswordHash currentSessionId reason now =
    transaction
     (thenP (sql (set_password userId newPasswordHash now))
     (thenP (sql (revoke_sessions (other_session userId currentSessionId) reason now))
       (sql (\<lambda>d. revoke_tokens (token_of_sessions (other_session userId currentSessionId) d) reason now d))))"

definition set_email :: "string \<Rightarrow> string \<Rightarrow> string \<Rightarrow> date \<Rightarrow> database \<Rightarrow> database" where
  "set_email userId email normalizedEmail now d = d\<lparr>users := update_where (\<lambda>u. u_id u = userId)
     (\<lambda>u. u\<lparr>u_email := email, u_normalizedEmail := normalizedEmail, u_emailVerifiedAt := None,
           u_updatedAt := fromDate now\<rparr>) (users d)\<rparr>"

definition usable_token :: "token_row \<Rightarrow> bool" where
  "usable_token t = (tok_usedAt t = None \<and> tok_invalidatedAt t = None)"

definition invalidate_verification_tokens :: "string \<Rightarrow> date \<Rightarrow> database \<Rightarrow> database" where
  "invalidate_verification_tokens userId now d = d\<lparr>emailVerificationTokens :=
     update_where (\<lambda>t. tok_userId t = userId \<and> usable_token t) (\<lambda>t. t\<lparr>tok_invalidatedAt := Some (fromDate now)\<rparr>)
       (emailVerificationTokens d)\<rparr>"

definition repo_changeEmail :: "string \<Rightarrow> string \<Rightarrow> string \<Rightarrow> date \<Rightarrow> user_row api" where
  "repo_changeEmail userId email normalizedEmail now =
    transaction
     (thenP (catchP (sql (set_email userId email normalizedEmail now))
        (\<lambda>e. if isUniqueViolation e then throw emailAlreadyRegisteredError else throw e))
     (bindP (select (\<lambda>d. user_by_id d userId)) (\<lambda>updatedRows.
      thenP (sql (invalidate_verification_tokens userId now))
        (requireRow ''users email update'' updatedRows))))"

section \<open>What each change does to the tables\<close>

lemma insert_session_fields [simp]:
  "sessions (insert_session s d) = sessions d @ [s]" "refreshTokens (insert_session s d) = refreshTokens d"
  "users (insert_session s d) = users d" "securityEvents (insert_session s d) = securityEvents d"
  by (simp_all add: insert_session_def)

lemma insert_refresh_token_fields [simp]:
  "refreshTokens (insert_refresh_token r d) = refreshTokens d @ [r]"
  "sessions (insert_refresh_token r d) = sessions d" "users (insert_refresh_token r d) = users d"
  "securityEvents (insert_refresh_token r d) = securityEvents d"
  by (simp_all add: insert_refresh_token_def)

lemma set_token_used_fields [simp]:
  "sessions (set_token_used i s now d) = sessions d" "users (set_token_used i s now d) = users d"
  "securityEvents (set_token_used i s now d) = securityEvents d"
  by (simp_all add: set_token_used_def)

lemma touch_session_fields [simp]:
  "refreshTokens (touch_session i now d) = refreshTokens d" "users (touch_session i now d) = users d"
  "securityEvents (touch_session i now d) = securityEvents d"
  by (simp_all add: touch_session_def)

lemma revoke_tokens_fields [simp]:
  "sessions (revoke_tokens p m now d) = sessions d" "users (revoke_tokens p m now d) = users d"
  "securityEvents (revoke_tokens p m now d) = securityEvents d"
  by (simp_all add: revoke_tokens_def)

lemma revoke_sessions_fields [simp]:
  "refreshTokens (revoke_sessions p m now d) = refreshTokens d" "users (revoke_sessions p m now d) = users d"
  "securityEvents (revoke_sessions p m now d) = securityEvents d"
  by (simp_all add: revoke_sessions_def)

lemma set_password_fields [simp]:
  "sessions (set_password u h now d) = sessions d" "refreshTokens (set_password u h now d) = refreshTokens d"
  "securityEvents (set_password u h now d) = securityEvents d"
  by (simp_all add: set_password_def)

lemma marked_session_ids [simp]:
  "s_id ` set (sessions (revoke_sessions p m now d)) = s_id ` set (sessions d)"
  "s_id ` set (sessions (touch_session i now d)) = s_id ` set (sessions d)"
proof -
  have "map s_id (sessions (revoke_sessions p m now d)) = map s_id (sessions d)"
    "map s_id (sessions (touch_session i now d)) = map s_id (sessions d)"
    by (simp_all add: revoke_sessions_def touch_session_def)
  then show "s_id ` set (sessions (revoke_sessions p m now d)) = s_id ` set (sessions d)"
    "s_id ` set (sessions (touch_session i now d)) = s_id ` set (sessions d)"
    by (metis set_map)+
qed

lemma db_ok_sessions: "db_ok d \<Longrightarrow> distinct (map s_id (sessions d))"
  by (simp add: db_ok_iff)

lemma db_ok_users: "db_ok d \<Longrightarrow> distinct (map u_id (users d))"
  by (simp add: db_ok_iff)

lemma db_ok_refresh_tokens:
  assumes "db_ok d"
  shows "distinct (map rt_id (refreshTokens d))" "distinct (map rt_tokenHash (refreshTokens d))"
    "set (map rt_sessionId (refreshTokens d)) \<subseteq> set (map s_id (sessions d))"
  using assms unfolding db_ok_iff by simp_all

text \<open>The changes that only mark rows keep every constraint.\<close>

lemma db_ok_mark_tokens:
  assumes "db_ok d"
    and "\<And>r. rt_id (f r) = rt_id r \<and> rt_tokenHash (f r) = rt_tokenHash r \<and> rt_sessionId (f r) = rt_sessionId r"
  shows "db_ok (d\<lparr>refreshTokens := update_where p f (refreshTokens d)\<rparr>)"
  using db_ok_refresh_tokens [OF assms(1)] assms(2)
  by (intro db_ok_upd_refreshTokens [OF assms(1)]) (simp_all only: map_update_where)

lemma db_ok_revoke_tokens [simp]: "db_ok d \<Longrightarrow> db_ok (revoke_tokens p m now d)"
  unfolding revoke_tokens_def by (rule db_ok_mark_tokens) simp_all

lemma db_ok_set_token_used [simp]: "db_ok d \<Longrightarrow> db_ok (set_token_used i s now d)"
  unfolding set_token_used_def by (rule db_ok_mark_tokens) simp_all

lemma db_ok_revoke_sessions [simp]: "db_ok d \<Longrightarrow> db_ok (revoke_sessions p m now d)"
  unfolding revoke_sessions_def by (rule db_ok_upd_sessions) simp_all

lemma db_ok_touch_session [simp]: "db_ok d \<Longrightarrow> db_ok (touch_session i now d)"
  unfolding touch_session_def by (rule db_ok_upd_sessions) simp_all

lemma db_ok_set_password [simp]: "db_ok d \<Longrightarrow> db_ok (set_password u h now d)"
  unfolding set_password_def by (rule db_ok_upd_users) simp_all

lemma session_by_idD: "session_by_id d i = Some s \<Longrightarrow> s \<in> set (sessions d) \<and> s_id s = i"
  by (auto simp: session_by_id_def dest: find_SomeD)

lemma token_by_hashD: "token_by_hash d h = Some r \<Longrightarrow> r \<in> set (refreshTokens d) \<and> rt_tokenHash r = h"
  by (auto simp: token_by_hash_def dest: find_SomeD)

lemma session_by_id_unique:
  "db_ok d \<Longrightarrow> s \<in> set (sessions d) \<Longrightarrow> session_by_id d (s_id s) = Some s"
  unfolding session_by_id_def by (rule find_unique_key [OF db_ok_sessions]) auto

lemma token_by_hash_unique:
  "db_ok d \<Longrightarrow> r \<in> set (refreshTokens d) \<Longrightarrow> token_by_hash d (rt_tokenHash r) = Some r"
  unfolding token_by_hash_def by (rule find_unique_key [OF db_ok_refresh_tokens(2)]) auto

lemma token_session: "db_ok d \<Longrightarrow> token_by_hash d h = Some r \<Longrightarrow> \<exists>s. session_by_id d (rt_sessionId r) = Some s"
  proof -
  assume ok: "db_ok d" and "token_by_hash d h = Some r"
  then have "r \<in> set (refreshTokens d)" by (auto dest: token_by_hashD)
  with db_ok_refresh_tokens(3) [OF ok] obtain s where "s \<in> set (sessions d)" "s_id s = rt_sessionId r" by force
  then show ?thesis using session_by_id_unique [OF ok] by metis
qed

section \<open>Weakest preconditions of the repository\<close>

lemma wp_findSessionById [wp_simps]: "wp (findSessionById i) Q E = (\<lambda>w. Q (session_by_id (db w) i) w)"
  by (simp add: findSessionById_def wp_simps)

lemma wp_findRefreshTokenByHash [wp_simps]: "wp (findRefreshTokenByHash h) Q E = (\<lambda>w. Q (token_by_hash (db w) h) w)"
  by (simp add: findRefreshTokenByHash_def wp_simps)

text \<open>The tables after a rotation.\<close>

definition rotated_tables :: "refresh_token_row \<Rightarrow> refresh_token_row \<Rightarrow> date \<Rightarrow> database \<Rightarrow> database" where
  "rotated_tables token successor now d =
    touch_session (rt_sessionId token) now (set_token_used (rt_id token) (rt_id successor) now
      (insert_refresh_token successor d))"

definition succeeds :: "refresh_token_row \<Rightarrow> string \<Rightarrow> date \<Rightarrow> refresh_token_row \<Rightarrow> bool" where
  "succeeds token h expiresAt successor =
    (rt_sessionId successor = rt_sessionId token \<and> rt_familyId successor = rt_familyId token \<and>
     rt_tokenHash successor = h \<and> rt_parentTokenId successor = Some (rt_id token) \<and> \<not> consumed successor \<and>
     rt_expiresAt successor = fromDate expiresAt)"

lemma wp_rotateRefreshToken:
  assumes "token_by_hash (db w) h = None \<Longrightarrow> Q RotationNotFound w"
    and "\<And>token s. token_by_hash (db w) h = Some token \<Longrightarrow> s = session_by_id (db w) (rt_sessionId token) \<Longrightarrow>
      consumed token \<or> s = None \<or> \<not> session_live (the s) now \<Longrightarrow>
      Q (Reuse (rt_familyId token) (rt_sessionId token) (map_option s_userId s)) w"
    and "\<And>token session. token_by_hash (db w) h = Some token \<Longrightarrow>
      session_by_id (db w) (rt_sessionId token) = Some session \<Longrightarrow> \<not> consumed token \<Longrightarrow> session_live session now \<Longrightarrow>
      toDate (rt_expiresAt token) \<le> now \<Longrightarrow> Q RotationExpired w"
    and "\<And>token session successor w'. token_by_hash (db w) h = Some token \<Longrightarrow>
      session_by_id (db w) (rt_sessionId token) = Some session \<Longrightarrow> \<not> consumed token \<Longrightarrow> session_live session now \<Longrightarrow>
      \<not> toDate (rt_expiresAt token) \<le> now \<Longrightarrow> succeeds token h' expiresAt successor \<Longrightarrow>
      db w' = rotated_tables token successor now (db w) \<Longrightarrow> db_ok (insert_refresh_token successor (db w)) \<Longrightarrow>
      db_ok (db w') \<Longrightarrow> nowMs w' = nowMs w \<Longrightarrow> Q (Rotated successor session) w'"
    and "\<And>e w'. db w' = db w \<Longrightarrow> E e w'"
  shows "wp (rotateRefreshToken h h' expiresAt now) Q E w"
proof (cases "token_by_hash (db w) h")
  case None
  then show ?thesis by (simp add: rotateRefreshToken_def wp_simps assms(1))
next
  case (Some token)
  define s where "s = session_by_id (db w) (rt_sessionId token)"
  note s = s_def [symmetric]
  show ?thesis
  proof (cases "consumed token \<or> s = None \<or> \<not> session_live (the s) now")
    case True
    then show ?thesis
      using assms(2) [OF Some s_def True]
      by (auto simp: rotateRefreshToken_def wp_simps Some s split: option.splits)
  next
    case False
    then obtain session where "s = Some session" and f: "\<not> consumed token" "session_live session now" by auto
    then have sess: "session_by_id (db w) (rt_sessionId token) = Some session" by (simp add: s)
    then have i: "s_id session = rt_sessionId token" by (auto dest: session_by_idD)
    show ?thesis
      by (auto simp: rotateRefreshToken_def insertRefreshToken_def Let_def wp_simps Some sess f assms(3)
          intro!: assms(4) [OF Some sess f] assms(5))
        (auto simp: succeeds_def new_refresh_token_def consumed_def rotated_tables_def i)
  qed
qed

text \<open>A new session and its first token.\<close>

lemma wp_insertSession:
  assumes "\<And>s w'. s_userId s = u \<Longrightarrow> s_revokedAt s = None \<Longrightarrow> s_expiresAt s = fromDate x \<Longrightarrow>
      s_ipAddress s = ctx_ipAddress ctx \<Longrightarrow> s_userAgent s = ctx_userAgent ctx \<Longrightarrow>
      db w' = insert_session s (db w) \<Longrightarrow> db_ok (db w') \<Longrightarrow> nowMs w' = nowMs w \<Longrightarrow> outbox w' = outbox w \<Longrightarrow> Q s w'"
    and "\<And>e w'. db w' = db w \<Longrightarrow> E e w'"
  shows "wp (insertSession u ctx x) Q E w"
  unfolding insertSession_def Let_def
  by (simp add: wp_simps assms(2)) (auto intro!: assms(1) simp: new_session_def)

lemma wp_insertRefreshToken:
  assumes "\<And>r w'. rt_sessionId r = sid \<Longrightarrow> rt_familyId r = f \<Longrightarrow> rt_tokenHash r = h \<Longrightarrow> rt_parentTokenId r = p \<Longrightarrow>
      \<not> consumed r \<Longrightarrow> rt_expiresAt r = fromDate x \<Longrightarrow> db w' = insert_refresh_token r (db w) \<Longrightarrow> db_ok (db w') \<Longrightarrow>
      nowMs w' = nowMs w \<Longrightarrow> outbox w' = outbox w \<Longrightarrow> Q r w'"
    and "\<And>e w'. db w' = db w \<Longrightarrow> E e w'"
  shows "wp (insertRefreshToken sid f h p x) Q E w"
  unfolding insertRefreshToken_def Let_def
  by (simp add: wp_simps assms(2)) (auto intro!: assms(1) simp: new_refresh_token_def consumed_def)

section \<open>One token per session\<close>

text \<open>
  The tokens of a session are one family, and at most one of them can still be rotated.
\<close>

definition chained :: "refresh_token_row list \<Rightarrow> bool" where
  "chained rs = list_all (\<lambda>r. list_all (\<lambda>r'. rt_sessionId r = rt_sessionId r' \<longrightarrow>
     rt_familyId r = rt_familyId r' \<and> (\<not> consumed r \<longrightarrow> \<not> consumed r' \<longrightarrow> rt_id r = rt_id r')) rs) rs"

lemma chained_iff:
  "chained rs \<longleftrightarrow> (\<forall>r\<in>set rs. \<forall>r'\<in>set rs. rt_sessionId r = rt_sessionId r' \<longrightarrow>
     rt_familyId r = rt_familyId r' \<and> (\<not> consumed r \<longrightarrow> \<not> consumed r' \<longrightarrow> rt_id r = rt_id r'))"
  by (simp add: chained_def list_all_iff)

lemma chainedI:
  assumes "\<And>r r'. r \<in> set rs \<Longrightarrow> r' \<in> set rs \<Longrightarrow> rt_sessionId r = rt_sessionId r' \<Longrightarrow> rt_familyId r = rt_familyId r'"
    and "\<And>r r'. r \<in> set rs \<Longrightarrow> r' \<in> set rs \<Longrightarrow> rt_sessionId r = rt_sessionId r' \<Longrightarrow> \<not> consumed r \<Longrightarrow>
      \<not> consumed r' \<Longrightarrow> rt_id r = rt_id r'"
  shows "chained rs"
  unfolding chained_iff using assms by blast

lemma chainedD:
  assumes "chained rs" and "r \<in> set rs" and "r' \<in> set rs" and "rt_sessionId r = rt_sessionId r'"
  shows "rt_familyId r = rt_familyId r'" and "\<not> consumed r \<Longrightarrow> \<not> consumed r' \<Longrightarrow> rt_id r = rt_id r'"
  using assms unfolding chained_iff by blast+

lemma chained_new:
  assumes "chained (refreshTokens d)" and "rt_sessionId r \<notin> rt_sessionId ` set (refreshTokens d)"
  shows "chained (refreshTokens (insert_refresh_token r d))"
proof -
  have new: "rt_sessionId z \<noteq> rt_sessionId r" if "z \<in> set (refreshTokens d)" for z
    using assms(2) that by (metis imageI)
  show ?thesis
  proof (rule chainedI, goal_cases family single)
    case (family x y)
    then show ?case using new [of x] new [of y] chainedD(1) [OF assms(1), of x y] by auto
  next
    case (single x y)
    then show ?case using new [of x] new [of y] chainedD(2) [OF assms(1), of x y] by auto
  qed
qed

lemma chained_update:
  assumes "chained rs"
    and f: "\<And>r. rt_id (f r) = rt_id r" "\<And>r. rt_sessionId (f r) = rt_sessionId r" "\<And>r. rt_familyId (f r) = rt_familyId r"
    and "\<And>r. p r \<Longrightarrow> consumed (f r)"
  shows "chained (update_where p f rs)"
proof (rule chainedI, goal_cases family single)
  case (family x y)
  then obtain x0 y0 where "x0 \<in> set rs" "x = (if p x0 then f x0 else x0)" "y0 \<in> set rs" "y = (if p y0 then f y0 else y0)"
    unfolding in_update_where by blast
  with family(3) chainedD(1) [OF assms(1), of x0 y0] show ?case by (simp add: f split: if_splits)
next
  case (single x y)
  then obtain x0 y0 where 0: "x0 \<in> set rs" "x = (if p x0 then f x0 else x0)" "y0 \<in> set rs" "y = (if p y0 then f y0 else y0)"
    unfolding in_update_where by blast
  have "x = x0" using 0(2) single(4) assms(5) [of x0] by (cases "p x0") simp_all
  moreover have "y = y0" using 0(4) single(5) assms(5) [of y0] by (cases "p y0") simp_all
  ultimately show ?case
    using chainedD(2) [OF assms(1), of x0 y0] 0(1,3) single(3,4,5) by simp
qed

lemma chained_revoke [simp]: "chained (refreshTokens d) \<Longrightarrow> chained (refreshTokens (revoke_tokens p m now d))"
  unfolding revoke_tokens_def by (auto intro!: chained_update simp: consumed_def)

lemma chained_rotated:
  assumes c: "chained (refreshTokens d)" and t: "token \<in> set (refreshTokens d)" "\<not> consumed token"
    and s: "succeeds token h x successor"
  shows "chained (refreshTokens (rotated_tables token successor now d))"
proof -
  define g where "g = (\<lambda>r :: refresh_token_row. if rt_id r = rt_id token then
    r\<lparr>rt_usedAt := Some (fromDate now), rt_replacementTokenId := Some (rt_id successor)\<rparr> else r)"
  have g: "rt_id (g r) = rt_id r" "rt_sessionId (g r) = rt_sessionId r" "rt_familyId (g r) = rt_familyId r"
    "\<not> consumed (g r) \<Longrightarrow> g r = r \<and> rt_id r \<noteq> rt_id token" for r :: refresh_token_row
    by (auto simp: g_def consumed_def)
  have eq: "refreshTokens (rotated_tables token successor now d) = map g (refreshTokens d) @ [g successor]"
    by (simp add: rotated_tables_def set_token_used_def update_where_def g_def)
  have same: "rt_sessionId successor = rt_sessionId token" "rt_familyId successor = rt_familyId token"
    using s by (simp_all add: succeeds_def)
  have fam: "rt_familyId r = rt_familyId token" if "r \<in> set (refreshTokens d)" "rt_sessionId r = rt_sessionId token" for r
    using chainedD(1) [OF c that(1) t(1) that(2)] .
  have only: "consumed (g r)" if "r \<in> set (refreshTokens d)" "rt_sessionId r = rt_sessionId token" for r
    using chainedD(2) [OF c that(1) t(1) that(2) _ t(2)] g(4) [of r] by metis
  show ?thesis
    unfolding eq
  proof (rule chainedI, goal_cases family single)
    case (family x y)
    have rows: "z \<in> set (map g (refreshTokens d) @ [g successor]) \<Longrightarrow>
        \<exists>r. rt_sessionId z = rt_sessionId r \<and> rt_familyId z = rt_familyId r \<and> r \<in> set (refreshTokens d)" for z
      using t(1) same g by auto
    obtain r r' where "rt_sessionId x = rt_sessionId r" "rt_familyId x = rt_familyId r" "r \<in> set (refreshTokens d)"
      "rt_sessionId y = rt_sessionId r'" "rt_familyId y = rt_familyId r'" "r' \<in> set (refreshTokens d)"
      using rows [OF family(1)] rows [OF family(2)] by blast
    with family(3) chainedD(1) [OF c, of r r'] show ?case by simp
  next
    case (single x y)
    then consider "x = g successor" "y = g successor" | r where "r \<in> set (refreshTokens d)" "x = g r" "y = g successor"
      | r where "r \<in> set (refreshTokens d)" "y = g r" "x = g successor"
      | r r' where "r \<in> set (refreshTokens d)" "x = g r" "r' \<in> set (refreshTokens d)" "y = g r'" by auto
    then show ?case
    proof cases
      case (2 r)
      then show ?thesis using only [of r] single(3,4) same by (simp add: g(2))
    next
      case (3 r)
      then show ?thesis using only [of r] single(3,5) same by (simp add: g(2))
    next
      case (4 r r')
      then show ?thesis using chainedD(2) [OF c 4(1,3)] g(4) [of r] g(4) [of r'] single(3,4,5) by metis
    qed simp
  qed
qed

end
