(* ===== verification/EmailVerification.thy ===== *)
theory EmailVerification
  imports AuthSessions
begin

text \<open>
  E-mail verification (\<^verbatim>\<open>email-verification.repo.ts\<close>, \<^verbatim>\<open>email-verification.service.ts\<close>,
  \<^verbatim>\<open>email-verification.token.ts\<close>): issuing a token supersedes the earlier ones, completing one is
  single-use, and the message is sent before the token is stored.
\<close>

section \<open>One-time tokens\<close>

definition new_token :: "string \<Rightarrow> string \<Rightarrow> string \<Rightarrow> date \<Rightarrow> timestamptz \<Rightarrow> token_row" where
  "new_token i userId tokenHash expiresAt t =
    \<lparr>tok_id = i, tok_userId = userId, tok_tokenHash = tokenHash, tok_expiresAt = fromDate expiresAt,
     tok_usedAt = None, tok_invalidatedAt = None, tok_createdAt = t\<rparr>"

definition invalidate_tokens :: "(token_row \<Rightarrow> bool) \<Rightarrow> date \<Rightarrow> token_row list \<Rightarrow> token_row list" where
  "invalidate_tokens p now ts =
    update_where (\<lambda>t. p t \<and> usable_token t) (\<lambda>t. t\<lparr>tok_invalidatedAt := Some (fromDate now)\<rparr>) ts"

definition use_token :: "string \<Rightarrow> date \<Rightarrow> token_row list \<Rightarrow> token_row list" where
  "use_token i now ts = update_where (\<lambda>t. tok_id t = i) (\<lambda>t. t\<lparr>tok_usedAt := Some (fromDate now)\<rparr>) ts"

definition other_token :: "token_row \<Rightarrow> token_row \<Rightarrow> bool" where
  "other_token token t = (tok_userId t = tok_userId token \<and> tok_id t \<noteq> tok_id token)"

section \<open>The repository\<close>

definition generateEmailVerificationToken :: "string api" where
  "generateEmailVerificationToken = generateOpaqueToken DEFAULT_TOKEN_BYTES"

definition hashEmailVerificationToken :: "crypto \<Rightarrow> string \<Rightarrow> string" where
  "hashEmailVerificationToken c rawToken = hashOpaqueToken c rawToken"

definition insert_verification_token :: "token_row \<Rightarrow> database \<Rightarrow> database" where
  "insert_verification_token t d = d\<lparr>emailVerificationTokens := emailVerificationTokens d @ [t]\<rparr>"

definition issueVerificationToken :: "string \<Rightarrow> string \<Rightarrow> date \<Rightarrow> date \<Rightarrow> unit api" where
  "issueVerificationToken userId tokenHash expiresAt now =
    transaction
     (thenP (sql (invalidate_verification_tokens userId now))
     (bindP (createId ''evtok'') (\<lambda>i.
      bindP (getsP pgNow) (\<lambda>t.
        sql (insert_verification_token (new_token i userId tokenHash expiresAt t))))))"

datatype verification =
    Verified user_row bool \<comment> \<open>and whether it already was\<close>
  | VerificationAlreadyUsed
  | VerificationExpired
  | VerificationNotFound
  | UserNotVerifiable

definition verification_token :: "database \<Rightarrow> string \<Rightarrow> token_row option" where
  "verification_token d h = select_first (\<lambda>t. tok_tokenHash t = h) (emailVerificationTokens d)"

definition use_verification_token :: "token_row \<Rightarrow> date \<Rightarrow> database \<Rightarrow> database" where
  "use_verification_token token now d =
    d\<lparr>emailVerificationTokens := use_token (tok_id token) now (emailVerificationTokens d)\<rparr>"

definition supersede_verification_tokens :: "token_row \<Rightarrow> date \<Rightarrow> database \<Rightarrow> database" where
  "supersede_verification_tokens token now d =
    d\<lparr>emailVerificationTokens := invalidate_tokens (other_token token) now (emailVerificationTokens d)\<rparr>"

definition set_verified :: "string \<Rightarrow> date \<Rightarrow> database \<Rightarrow> database" where
  "set_verified userId now d = d\<lparr>users := update_where (\<lambda>u. u_id u = userId \<and> u_emailVerifiedAt u = None)
     (\<lambda>u. u\<lparr>u_emailVerifiedAt := Some (fromDate now), u_updatedAt := fromDate now\<rparr>) (users d)\<rparr>"

definition repo_completeVerification :: "string \<Rightarrow> date \<Rightarrow> verification api" where
  "repo_completeVerification tokenHash now =
    transaction
     (bindP (select (\<lambda>d. verification_token d tokenHash)) (\<lambda>found.
      case found of
        None \<Rightarrow> ret VerificationNotFound
      | Some token \<Rightarrow>
          if \<not> usable_token token then ret VerificationAlreadyUsed
          else if toDate (tok_expiresAt token) \<le> now then ret VerificationExpired
          else
            bindP (select (\<lambda>d. user_by_id d (tok_userId token))) (\<lambda>user.
            case user of
              None \<Rightarrow> ret UserNotVerifiable
            | Some u \<Rightarrow>
                if \<not> recoverable u then ret UserNotVerifiable
                else
                  thenP (sql (use_verification_token token now))
                 (thenP (sql (supersede_verification_tokens token now))
                 (let alreadyVerified = (u_emailVerifiedAt u \<noteq> None) in
                  thenP (whenP (\<not> alreadyVerified) (sql (set_verified (u_id u) now)))
                    (ret (Verified u alreadyVerified)))))))"

section \<open>The service\<close>

record verification_options = limiter_options +
  ev_webBaseUrl :: string
  ev_ttlSeconds :: nat
  ev_windowSeconds :: nat
  ev_requestPerUserMax :: nat
  ev_requestPerIpMax :: nat
  ev_completePerIpMax :: nat

text \<open>
  \<open>issueAndSendVerificationEmail\<close> in its two halves: the message with a new token goes out, then
  the token is stored. Another request may be served between them.
\<close>

definition sendVerificationEmail :: "verification_options \<Rightarrow> string \<Rightarrow> (string \<times> date) api" where
  "sendVerificationEmail opts email =
    bindP generateEmailVerificationToken (\<lambda>rawToken.
    bindP (getsP nowMs) (\<lambda>now.
    let expiresAt = now + int (ev_ttlSeconds opts) * 1000 in
    thenP (deliver (renderEmailVerificationEmail email (buildEmailVerificationUrl (ev_webBaseUrl opts) rawToken) expiresAt))
      (ret (rawToken, expiresAt))))"

definition storeVerificationToken :: "crypto \<Rightarrow> string \<Rightarrow> string \<times> date \<Rightarrow> unit api" where
  "storeVerificationToken c userId sent =
    (case sent of (rawToken, expiresAt) \<Rightarrow>
      bindP (getsP nowMs) (\<lambda>now.
        issueVerificationToken userId (hashEmailVerificationToken c rawToken) expiresAt now))"

definition issueAndSendVerificationEmail :: "crypto \<Rightarrow> verification_options \<Rightarrow> string \<Rightarrow> string \<Rightarrow> unit api" where
  "issueAndSendVerificationEmail c opts userId email =
    bindP (sendVerificationEmail opts email) (storeVerificationToken c userId)"

definition sendEmailChangeVerificationEmail ::
  "crypto \<Rightarrow> verification_options \<Rightarrow> string \<Rightarrow> string \<Rightarrow> request_ctx \<Rightarrow> unit api" where
  "sendEmailChangeVerificationEmail c opts userId email ctx =
    catchP
     (thenP (issueAndSendVerificationEmail c opts userId email)
       (writeSecurityEvent (Some userId) None UserActor EmailVerificationRequested
         [(''delivered'', JBool True), (''trigger'', JStr ''email_change'')] ctx))
     (\<lambda>_. catchP
       (writeSecurityEvent (Some userId) None UserActor EmailVerificationRequested
         [(''delivered'', JBool False), (''trigger'', JStr ''email_change'')] ctx)
       (\<lambda>_. ret ()))"

record verification_response =
  sent :: bool
  alreadyVerified :: bool

definition requestVerificationEmail ::
  "crypto \<Rightarrow> verification_options \<Rightarrow> auth_user \<Rightarrow> request_ctx \<Rightarrow> verification_response api" where
  "requestVerificationEmail c opts user ctx =
    thenP (enforceAuthRateLimit (limiter_options.truncate opts) (ev_windowSeconds opts)
        (''rl:email-verification:request:user:'' @ au_id user) (ev_requestPerUserMax opts)
        ''email_verification_request_per_user'' ctx)
   (thenP (enforceIpRateLimit (limiter_options.truncate opts) (ev_windowSeconds opts)
        ''rl:email-verification:request:ip:'' (ev_requestPerIpMax opts) ''email_verification_request_per_ip'' ctx)
   (bindP (findUserById (au_id user)) (\<lambda>found.
      case found of
        None \<Rightarrow> ret \<lparr>sent = False, alreadyVerified = False\<rparr>
      | Some row \<Rightarrow>
          if \<not> recoverable row then ret \<lparr>sent = False, alreadyVerified = False\<rparr>
          else if u_emailVerifiedAt row \<noteq> None then ret \<lparr>sent = False, alreadyVerified = True\<rparr>
          else
            thenP (issueAndSendVerificationEmail c opts (u_id row) (u_email row))
           (thenP (writeSecurityEvent (Some (u_id row)) None UserActor EmailVerificationRequested
               [(''delivered'', JBool True)] ctx)
             (ret \<lparr>sent = True, alreadyVerified = False\<rparr>)))))"

fun verification_status :: "verification \<Rightarrow> string" where
  "verification_status (Verified _ _) = ''verified''"
| "verification_status VerificationAlreadyUsed = ''already_used''"
| "verification_status VerificationExpired = ''expired''"
| "verification_status VerificationNotFound = ''not_found''"
| "verification_status UserNotVerifiable = ''user_not_verifiable''"

fun verification_error :: "verification \<Rightarrow> error" where
  "verification_error VerificationExpired = emailVerificationTokenExpiredError"
| "verification_error VerificationAlreadyUsed = emailVerificationTokenUsedError"
| "verification_error _ = emailVerificationTokenInvalidError"

definition completeVerification ::
  "crypto \<Rightarrow> verification_options \<Rightarrow> string \<Rightarrow> request_ctx \<Rightarrow> unit api" where
  "completeVerification c opts rawToken ctx =
    thenP (enforceIpRateLimit (limiter_options.truncate opts) (ev_windowSeconds opts)
        ''rl:email-verification:complete:ip:'' (ev_completePerIpMax opts) ''email_verification_complete_per_ip'' ctx)
   (bindP (getsP nowMs) (\<lambda>now.
    bindP (repo_completeVerification (hashEmailVerificationToken c rawToken) now) (\<lambda>outcome.
      case outcome of
        Verified user _ \<Rightarrow>
          writeSecurityEvent (Some (u_id user)) None UserActor EmailVerificationSucceeded [] ctx
      | _ \<Rightarrow>
          thenP (writeSecurityEvent None None AnonymousActor EmailVerificationFailed
              [(''reason'', JStr (verification_status outcome))] ctx)
            (throw (verification_error outcome)))))"

end
