(* ===== verification/PasswordRecovery.thy ===== *)
theory PasswordRecovery
  imports EmailVerification
begin

text \<open>
  Password recovery (\<^verbatim>\<open>password-recovery.repo.ts\<close>, \<^verbatim>\<open>password-recovery.service.ts\<close>,
  \<^verbatim>\<open>password-recovery.token.ts\<close>): a request answers the same whatever the account, a reset is
  single-use and ends every session of the user.
\<close>

section \<open>The repository\<close>

definition REVOKE_REASON_PASSWORD_RESET :: string where
  "REVOKE_REASON_PASSWORD_RESET = ''password_reset''"

definition generatePasswordResetToken :: "string api" where
  "generatePasswordResetToken = generateOpaqueToken DEFAULT_TOKEN_BYTES"

definition hashPasswordResetToken :: "crypto \<Rightarrow> string \<Rightarrow> string" where
  "hashPasswordResetToken c rawToken = hashOpaqueToken c rawToken"

definition passwordResetRateLimitKey :: "crypto \<Rightarrow> string \<Rightarrow> string" where
  "passwordResetRateLimitKey c rawToken = hashOpaqueToken c (hashOpaqueToken c rawToken)"

definition invalidate_reset_tokens :: "(token_row \<Rightarrow> bool) \<Rightarrow> date \<Rightarrow> database \<Rightarrow> database" where
  "invalidate_reset_tokens p now d =
    d\<lparr>passwordResetTokens := invalidate_tokens p now (passwordResetTokens d)\<rparr>"

definition insert_reset_token :: "token_row \<Rightarrow> database \<Rightarrow> database" where
  "insert_reset_token t d = d\<lparr>passwordResetTokens := passwordResetTokens d @ [t]\<rparr>"

definition issueResetToken :: "string \<Rightarrow> string \<Rightarrow> date \<Rightarrow> date \<Rightarrow> unit api" where
  "issueResetToken userId tokenHash expiresAt now =
    transaction
     (thenP (sql (invalidate_reset_tokens (\<lambda>t. tok_userId t = userId) now))
     (bindP (createId ''prtok'') (\<lambda>i.
      bindP (getsP pgNow) (\<lambda>t.
        sql (insert_reset_token (new_token i userId tokenHash expiresAt t))))))"

datatype reset_result =
    ResetDone user_row
  | ResetAlreadyUsed
  | ResetExpired
  | ResetNotFound
  | UserNotRecoverable

definition reset_token :: "database \<Rightarrow> string \<Rightarrow> token_row option" where
  "reset_token d h = select_first (\<lambda>t. tok_tokenHash t = h) (passwordResetTokens d)"

definition use_reset_token :: "string \<Rightarrow> date \<Rightarrow> database \<Rightarrow> database" where
  "use_reset_token i now d = d\<lparr>passwordResetTokens := use_token i now (passwordResetTokens d)\<rparr>"

definition repo_completeReset :: "string \<Rightarrow> string \<Rightarrow> date \<Rightarrow> reset_result api" where
  "repo_completeReset tokenHash newPasswordHash now =
    transaction
     (bindP (select (\<lambda>d. reset_token d tokenHash)) (\<lambda>found.
      case found of
        None \<Rightarrow> ret ResetNotFound
      | Some token \<Rightarrow>
          if \<not> usable_token token then ret ResetAlreadyUsed
          else if toDate (tok_expiresAt token) \<le> now then ret ResetExpired
          else
            bindP (select (\<lambda>d. user_by_id d (tok_userId token))) (\<lambda>user.
            case user of
              None \<Rightarrow> ret UserNotRecoverable
            | Some u \<Rightarrow>
                if \<not> recoverable u then ret UserNotRecoverable
                else
                  thenP (sql (set_password (u_id u) newPasswordHash now))
                 (thenP (sql (use_reset_token (tok_id token) now))
                 (thenP (sql (invalidate_reset_tokens (other_token token) now))
                 (thenP (sql (revoke_sessions (\<lambda>s. s_userId s = u_id u) REVOKE_REASON_PASSWORD_RESET now))
                 (thenP (sql (\<lambda>d. revoke_tokens (token_of_sessions (\<lambda>s. s_userId s = u_id u) d)
                      REVOKE_REASON_PASSWORD_RESET now d))
                   (ret (ResetDone u)))))))))"

section \<open>The service\<close>

record recovery_options = limiter_options +
  pr_webBaseUrl :: string
  pr_ttlSeconds :: nat
  pr_windowSeconds :: nat
  pr_requestPerIpMax :: nat
  pr_requestPerEmailMax :: nat
  pr_completePerIpMax :: nat
  pr_completePerTokenMax :: nat

datatype recovery_outcome = RoSent | RoSendFailed | RoPersistFailed | RoLookupFailed | RoInactiveAccount | RoUnknownEmail

fun recovery_outcome_string :: "recovery_outcome \<Rightarrow> string" where
  "recovery_outcome_string RoSent = ''sent''"
| "recovery_outcome_string RoSendFailed = ''send_failed''"
| "recovery_outcome_string RoPersistFailed = ''persist_failed''"
| "recovery_outcome_string RoLookupFailed = ''lookup_failed''"
| "recovery_outcome_string RoInactiveAccount = ''inactive_account''"
| "recovery_outcome_string RoUnknownEmail = ''unknown_email''"

definition recordRecoveryOutcome :: "recovery_outcome \<Rightarrow> request_ctx \<Rightarrow> unit api" where
  "recordRecoveryOutcome outcome ctx =
    catchP
     (writeSecurityEvent None None AnonymousActor PasswordResetRequested
       [(''outcome'', JStr (recovery_outcome_string outcome)), (''delivered'', JBool (outcome = RoSent))] ctx)
     (\<lambda>_. ret ())"

text \<open>
  The request's steps after the limits. Each \<open>try\<close> of the code that ends in an early return is a
  program with an optional value: \<open>None\<close> when its \<open>catch\<close> returned.
\<close>

definition attempt :: "'a api \<Rightarrow> unit api \<Rightarrow> 'a option api" where
  "attempt m onError = catchP (bindP m (\<lambda>x. ret (Some x))) (\<lambda>_. thenP onError (ret None))"

definition andThen :: "'a option api \<Rightarrow> ('a \<Rightarrow> unit api) \<Rightarrow> unit api" where
  "andThen m k = bindP m (\<lambda>r. case r of None \<Rightarrow> ret () | Some x \<Rightarrow> k x)"

definition issueReset :: "crypto \<Rightarrow> recovery_options \<Rightarrow> user_row \<Rightarrow> request_ctx \<Rightarrow> unit api" where
  "issueReset c opts user ctx =
    bindP generatePasswordResetToken (\<lambda>rawToken.
    bindP (getsP nowMs) (\<lambda>now.
    let expiresAt = now + int (pr_ttlSeconds opts) * 1000 in
    andThen (attempt (issueResetToken (u_id user) (hashPasswordResetToken c rawToken) expiresAt now)
        (recordRecoveryOutcome RoPersistFailed ctx)) (\<lambda>_.
    andThen (attempt (deliver (renderPasswordResetEmail (u_email user)
          (buildPasswordResetUrl (pr_webBaseUrl opts) rawToken) expiresAt))
        (recordRecoveryOutcome RoSendFailed ctx)) (\<lambda>_.
    recordRecoveryOutcome RoSent ctx))))"

definition resetAccount :: "crypto \<Rightarrow> recovery_options \<Rightarrow> string \<Rightarrow> request_ctx \<Rightarrow> unit api" where
  "resetAccount c opts normalizedEmail ctx =
    andThen (attempt (findUserByNormalizedEmail normalizedEmail) (recordRecoveryOutcome RoLookupFailed ctx)) (\<lambda>found.
      case found of
        None \<Rightarrow> recordRecoveryOutcome RoUnknownEmail ctx
      | Some user \<Rightarrow>
          if \<not> recoverable user then recordRecoveryOutcome RoInactiveAccount ctx
          else issueReset c opts user ctx)"

definition requestResetLimits :: "crypto \<Rightarrow> recovery_options \<Rightarrow> string \<Rightarrow> request_ctx \<Rightarrow> unit api" where
  "requestResetLimits c opts normalizedEmail ctx =
    thenP (enforceIpRateLimit (limiter_options.truncate opts) (pr_windowSeconds opts)
        ''rl:password-recovery:request:ip:'' (pr_requestPerIpMax opts) ''password_recovery_request_per_ip'' ctx)
      (enforceAuthRateLimit (limiter_options.truncate opts) (pr_windowSeconds opts)
        (''rl:password-recovery:request:email:'' @ hashOpaqueToken c normalizedEmail) (pr_requestPerEmailMax opts)
        ''password_recovery_request_per_email'' ctx)"

text \<open>The answer \<open>accepted\<close> is the unit value.\<close>

definition requestReset :: "crypto \<Rightarrow> recovery_options \<Rightarrow> string \<Rightarrow> request_ctx \<Rightarrow> unit api" where
  "requestReset c opts email ctx =
    (let normalizedEmail = normalizeEmail email in
     thenP (requestResetLimits c opts normalizedEmail ctx) (resetAccount c opts normalizedEmail ctx))"

fun reset_status :: "reset_result \<Rightarrow> string" where
  "reset_status (ResetDone _) = ''reset''"
| "reset_status ResetAlreadyUsed = ''already_used''"
| "reset_status ResetExpired = ''expired''"
| "reset_status ResetNotFound = ''not_found''"
| "reset_status UserNotRecoverable = ''user_not_recoverable''"

fun reset_error :: "reset_result \<Rightarrow> error" where
  "reset_error ResetExpired = passwordResetTokenExpiredError"
| "reset_error ResetAlreadyUsed = passwordResetTokenUsedError"
| "reset_error _ = passwordResetTokenInvalidError"

definition completeResetLimits :: "crypto \<Rightarrow> recovery_options \<Rightarrow> string \<Rightarrow> request_ctx \<Rightarrow> unit api" where
  "completeResetLimits c opts token ctx =
    thenP (enforceIpRateLimit (limiter_options.truncate opts) (pr_windowSeconds opts)
        ''rl:password-recovery:complete:ip:'' (pr_completePerIpMax opts) ''password_recovery_complete_per_ip'' ctx)
      (enforceAuthRateLimit (limiter_options.truncate opts) (pr_windowSeconds opts)
        (''rl:password-recovery:complete:token:'' @ passwordResetRateLimitKey c token) (pr_completePerTokenMax opts)
        ''password_recovery_complete_per_token'' ctx)"

definition completeReset ::
  "crypto \<Rightarrow> recovery_options \<Rightarrow> string \<Rightarrow> string \<Rightarrow> request_ctx \<Rightarrow> unit api" where
  "completeReset c opts token newPassword ctx =
    thenP (completeResetLimits c opts token ctx)
   (bindP (hashPassword c newPassword) (\<lambda>newPasswordHash.
    bindP (getsP nowMs) (\<lambda>now.
    bindP (repo_completeReset (hashPasswordResetToken c token) newPasswordHash now) (\<lambda>outcome.
      case outcome of
        ResetDone user \<Rightarrow>
          writeSecurityEvent (Some (u_id user)) None UserActor PasswordResetCompleted
            [(''sessionsRevoked'', JBool True)] ctx
      | _ \<Rightarrow>
          thenP (writeSecurityEvent None None AnonymousActor PasswordResetRejected
              [(''reason'', JStr (reset_status outcome))] ctx)
            (throw (reset_error outcome))))))"

end
