(* ===== verification/AuthService.thy ===== *)
theory AuthService
  imports PasswordRecovery
begin

text \<open>
  The authentication service (\<^verbatim>\<open>auth.service.ts\<close>): login, access-token authentication, refresh with
  rotation and reuse detection, logout, the session list, session revocation and the two credential
  changes.
\<close>

section \<open>Options and results\<close>

datatype revoke_reason = ReuseDetected | Logout | SessionRevokedByUser | PasswordChangedByUser

fun REVOKE_REASONS :: "revoke_reason \<Rightarrow> string" where
  "REVOKE_REASONS ReuseDetected = ''refresh_token_reuse_detected''"
| "REVOKE_REASONS Logout = ''logout''"
| "REVOKE_REASONS SessionRevokedByUser = ''session_revoked_by_user''"
| "REVOKE_REASONS PasswordChangedByUser = ''password_changed''"

record auth_options = limiter_options +
  jwtSecret :: string
  previousJwtSecret :: "string option"
  accessTokenTtlSeconds :: nat
  sessionTtlSeconds :: nat
  refreshTokenTtlSeconds :: nat
  auth_windowSeconds :: nat
  loginPerIpMax :: nat
  loginPerEmailMax :: nat
  refreshPerSessionMax :: nat
  refreshPerIpMax :: nat
  changePasswordPerUserMax :: nat
  changeEmailPerUserMax :: nat
  emailChangeVerification :: "verification_options option"

record tokens_response =
  accessToken :: string
  expiresIn :: nat

record session_issue =
  si_user :: auth_user
  si_tokens :: tokens_response
  si_rawRefreshToken :: string

datatype refresh_result = RefreshRotated tokens_response string | RefreshInvalid | RefreshReuseDetected

record session_summary =
  ss_id :: string
  ss_current :: bool
  ss_createdAt :: date
  ss_updatedAt :: date
  ss_expiresAt :: date
  ss_userAgent :: "string option"
  ss_ipAddress :: "string option"

definition toSessionSummary :: "string \<Rightarrow> session_row \<Rightarrow> session_summary" where
  "toSessionSummary currentSessionId session =
    \<lparr>ss_id = s_id session, ss_current = (s_id session = currentSessionId),
     ss_createdAt = toDate (s_createdAt session), ss_updatedAt = toDate (s_updatedAt session),
     ss_expiresAt = toDate (s_expiresAt session), ss_userAgent = s_userAgent session,
     ss_ipAddress = s_ipAddress session\<rparr>"

definition limited :: "auth_options \<Rightarrow> string \<Rightarrow> nat \<Rightarrow> string \<Rightarrow> request_ctx \<Rightarrow> unit api" where
  "limited opts key limit bucket ctx =
    enforceAuthRateLimit (limiter_options.truncate opts) (auth_windowSeconds opts) key limit bucket ctx"

definition limited_ip :: "auth_options \<Rightarrow> string \<Rightarrow> nat \<Rightarrow> string \<Rightarrow> request_ctx \<Rightarrow> unit api" where
  "limited_ip opts prefix limit bucket ctx =
    enforceIpRateLimit (limiter_options.truncate opts) (auth_windowSeconds opts) prefix limit bucket ctx"

text \<open>The memoised hash an attempt against a missing account is verified against.\<close>

definition getDummyHash :: "crypto \<Rightarrow> string api" where
  "getDummyHash c =
    bindP (getsP dummyHash) (\<lambda>memo.
      case memo of
        Some h \<Rightarrow> ret h
      | None \<Rightarrow>
          bindP (hashPassword c ''orgistry-login-timing-equalizer-not-a-secret'') (\<lambda>h.
          thenP (modifyP (\<lambda>w. w\<lparr>dummyHash := Some h\<rparr>)) (ret h)))"

section \<open>Issuing and checking sessions\<close>

definition issue_tokens :: "crypto \<Rightarrow> auth_options \<Rightarrow> string \<Rightarrow> string \<Rightarrow> tokens_response api" where
  "issue_tokens c opts userId sessionId =
    bindP (signAccessToken c userId sessionId (jwtSecret opts) (accessTokenTtlSeconds opts)) (\<lambda>tok.
      ret \<lparr>accessToken = tok, expiresIn = accessTokenTtlSeconds opts\<rparr>)"

definition buildSessionIssueResult ::
  "crypto \<Rightarrow> auth_options \<Rightarrow> user_row \<Rightarrow> session_row \<Rightarrow> string \<Rightarrow> session_issue api" where
  "buildSessionIssueResult c opts user session rawRefreshToken =
    bindP (issue_tokens c opts (u_id user) (s_id session)) (\<lambda>tokens.
      ret \<lparr>si_user = toAuthUser user, si_tokens = tokens, si_rawRefreshToken = rawRefreshToken\<rparr>)"

definition issueSession ::
  "crypto \<Rightarrow> auth_options \<Rightarrow> user_row \<Rightarrow> request_ctx \<Rightarrow> (session_issue \<times> string) api" where
  "issueSession c opts user ctx =
    bindP (getsP nowMs) (\<lambda>now.
    bindP (insertSession (u_id user) ctx (now + int (sessionTtlSeconds opts) * 1000)) (\<lambda>session.
    bindP (generateOpaqueToken DEFAULT_TOKEN_BYTES) (\<lambda>rawRefreshToken.
    bindP (createId ''rtok'') (\<lambda>familyId.
    bindP (insertRefreshToken (s_id session) familyId (hashOpaqueToken c rawRefreshToken) None
        (now + int (refreshTokenTtlSeconds opts) * 1000)) (\<lambda>_.
    bindP (buildSessionIssueResult c opts user session rawRefreshToken) (\<lambda>issue.
      ret (issue, s_id session)))))))"

definition rejectAccessToken ::
  "string option \<Rightarrow> actor_type \<Rightarrow> string \<Rightarrow> request_ctx \<Rightarrow> 'a api" where
  "rejectAccessToken userId actorType reason ctx =
    thenP (writeSecurityEvent userId None actorType AccessTokenRejected [(''reason'', JStr reason)] ctx)
      (throw unauthorizedError)"

definition session_trusted :: "session_row \<Rightarrow> user_row \<Rightarrow> date \<Rightarrow> bool" where
  "session_trusted session user now =
    (s_userId session = u_id user \<and> s_revokedAt session = None \<and> \<not> toDate (s_expiresAt session) \<le> now)"

definition requireAuthenticatedSession ::
  "crypto \<Rightarrow> auth_options \<Rightarrow> string \<Rightarrow> request_ctx \<Rightarrow> (user_row \<times> session_row) api" where
  "requireAuthenticatedSession c opts token ctx =
    bindP (getsP nowMs) (\<lambda>now.
    case verifyAccessTokenWithRotation c now token (jwtSecret opts) (previousJwtSecret opts) of
      Inl _ \<Rightarrow> rejectAccessToken None AnonymousActor ''invalid_token'' ctx
    | Inr claims \<Rightarrow>
        bindP (findUserById (cl_sub claims)) (\<lambda>found.
        case found of
          None \<Rightarrow> rejectAccessToken None AnonymousActor ''user_unavailable'' ctx
        | Some user \<Rightarrow>
            if \<not> recoverable user then rejectAccessToken None AnonymousActor ''user_unavailable'' ctx
            else
              bindP (findSessionById (cl_sessionId claims)) (\<lambda>session.
              case session of
                None \<Rightarrow> rejectAccessToken (Some (u_id user)) UserActor ''session_invalid'' ctx
              | Some s \<Rightarrow>
                  if \<not> session_trusted s user now
                  then rejectAccessToken (Some (u_id user)) UserActor ''session_invalid'' ctx
                  else ret (user, s))))"

section \<open>The operations\<close>

text \<open>
  \<open>login\<close> in its two halves: the password check, whose Argon2 verification takes long, and the
  issue of the session. Another request may be served between them.
\<close>

definition login_check :: "crypto \<Rightarrow> auth_options \<Rightarrow> string \<Rightarrow> string \<Rightarrow> request_ctx \<Rightarrow> user_row api" where
  "login_check c opts email password ctx =
    (let normalizedEmail = normalizeEmail email in
     thenP (limited_ip opts ''rl:login:ip:'' (loginPerIpMax opts) ''login_per_ip'' ctx)
    (thenP (limited opts (''rl:login:email:'' @ hashOpaqueToken c normalizedEmail) (loginPerEmailMax opts)
        ''login_per_email'' ctx)
    (bindP (findUserByNormalizedEmail normalizedEmail) (\<lambda>found.
      if (case found of None \<Rightarrow> True | Some user \<Rightarrow> \<not> recoverable user) then
        bindP (getDummyHash c) (\<lambda>h.
        let _ = verifyPassword c h password in
        thenP (writeSecurityEvent (map_option u_id found) None
            (if found = None then AnonymousActor else UserActor) LoginFailed
            [(''normalizedEmail'', JStr normalizedEmail),
             (''reason'', JStr (if found = None then ''unknown_email'' else ''inactive_account''))] ctx)
          (throw invalidCredentialsError))
      else
        (let user = the found in
         if \<not> verifyPassword c (u_passwordHash user) password then
           thenP (writeSecurityEvent (Some (u_id user)) None UserActor LoginFailed
               [(''normalizedEmail'', JStr normalizedEmail), (''reason'', JStr ''bad_password'')] ctx)
             (throw invalidCredentialsError)
         else ret user)))))"

definition login_issue :: "crypto \<Rightarrow> auth_options \<Rightarrow> user_row \<Rightarrow> request_ctx \<Rightarrow> session_issue api" where
  "login_issue c opts user ctx =
    bindP (issueSession c opts user ctx) (\<lambda>(issue, sessionId).
    thenP (writeSecurityEvent (Some (u_id user)) (Some sessionId) UserActor LoginSucceeded [] ctx)
      (ret issue))"

definition login :: "crypto \<Rightarrow> auth_options \<Rightarrow> string \<Rightarrow> string \<Rightarrow> request_ctx \<Rightarrow> session_issue api" where
  "login c opts email password ctx =
    bindP (login_check c opts email password ctx) (\<lambda>user. login_issue c opts user ctx)"

definition authenticate_user :: "crypto \<Rightarrow> auth_options \<Rightarrow> string \<Rightarrow> request_ctx \<Rightarrow> auth_user api" where
  "authenticate_user c opts token ctx =
    bindP (requireAuthenticatedSession c opts token ctx) (\<lambda>(user, _). ret (toAuthUser user))"

definition refresh :: "crypto \<Rightarrow> auth_options \<Rightarrow> string \<Rightarrow> request_ctx \<Rightarrow> refresh_result api" where
  "refresh c opts rawRefreshToken ctx =
    thenP (limited_ip opts ''rl:refresh:ip:'' (refreshPerIpMax opts) ''refresh_per_ip'' ctx)
   (let presentedTokenHash = hashOpaqueToken c rawRefreshToken in
    bindP (findRefreshTokenByHash presentedTokenHash) (\<lambda>presented.
    thenP (case presented of
        None \<Rightarrow> ret ()
      | Some p \<Rightarrow> limited opts (''rl:refresh:sess:'' @ rt_sessionId p) (refreshPerSessionMax opts) ''refresh_per_session'' ctx)
   (bindP (getsP nowMs) (\<lambda>now.
    bindP (generateOpaqueToken DEFAULT_TOKEN_BYTES) (\<lambda>successorRaw.
    bindP (rotateRefreshToken presentedTokenHash (hashOpaqueToken c successorRaw)
        (now + int (refreshTokenTtlSeconds opts) * 1000) now) (\<lambda>rotation.
    case rotation of
      Rotated successor session \<Rightarrow>
        bindP (issue_tokens c opts (s_userId session) (s_id session)) (\<lambda>tokens.
        thenP (writeSecurityEvent (Some (s_userId session)) (Some (s_id session)) UserActor RefreshTokenRotated [] ctx)
          (ret (RefreshRotated tokens successorRaw)))
    | Reuse familyId sessionId userId \<Rightarrow>
        thenP (revokeRefreshTokenFamily familyId (REVOKE_REASONS ReuseDetected))
       (thenP (repo_revokeSession sessionId (REVOKE_REASONS ReuseDetected))
       (thenP (writeSecurityEvent userId (Some sessionId)
            (if truthy userId then UserActor else SystemActor) RefreshTokenReuseDetected [] ctx)
         (ret RefreshReuseDetected)))
    | RotationExpired \<Rightarrow>
        thenP (writeSecurityEvent None None AnonymousActor RefreshFailed [(''reason'', JStr ''expired'')] ctx)
          (ret RefreshInvalid)
    | RotationNotFound \<Rightarrow>
        thenP (writeSecurityEvent None None AnonymousActor RefreshFailed [(''reason'', JStr ''not_found'')] ctx)
          (ret RefreshInvalid)))))))"

definition logout :: "crypto \<Rightarrow> string option \<Rightarrow> request_ctx \<Rightarrow> unit api" where
  "logout c rawRefreshToken ctx =
    (if \<not> truthy rawRefreshToken then ret ()
     else
       bindP (findRefreshTokenByHash (hashOpaqueToken c (the rawRefreshToken))) (\<lambda>found.
       case found of
         None \<Rightarrow> ret ()
       | Some token \<Rightarrow>
           bindP (findSessionById (rt_sessionId token)) (\<lambda>session.
           thenP (repo_revokeSession (rt_sessionId token) (REVOKE_REASONS Logout))
          (thenP (revokeRefreshTokensForSession (rt_sessionId token) (REVOKE_REASONS Logout))
            (writeSecurityEvent (map_option s_userId session) (Some (rt_sessionId token))
              (if session = None then SystemActor else UserActor) LogoutSucceeded [] ctx)))))"

definition listSessions ::
  "crypto \<Rightarrow> auth_options \<Rightarrow> string \<Rightarrow> nat \<Rightarrow> string option \<Rightarrow> request_ctx \<Rightarrow> session_summary page api" where
  "listSessions c opts token limit cursor ctx =
    bindP (requireAuthenticatedSession c opts token ctx) (\<lambda>(user, session).
    case decodePageCursor cursor of
      Inl e \<Rightarrow> throw e
    | Inr decoded \<Rightarrow>
        bindP (getsP nowMs) (\<lambda>now.
        bindP (select (\<lambda>d. listActiveSessionsForUser (u_id user, now) d decoded limit)) (\<lambda>rows.
          ret (cut_page s_createdAt s_id (toSessionSummary (s_id session)) limit rows))))"

definition revokeSession ::
  "crypto \<Rightarrow> auth_options \<Rightarrow> string \<Rightarrow> string \<Rightarrow> request_ctx \<Rightarrow> bool api" where
  "revokeSession c opts token targetSessionId ctx =
    bindP (requireAuthenticatedSession c opts token ctx) (\<lambda>(user, currentSession).
    bindP (findSessionById targetSessionId) (\<lambda>found.
    case found of
      None \<Rightarrow> throw sessionNotFoundError
    | Some target \<Rightarrow>
        if s_userId target \<noteq> u_id user then throw sessionNotFoundError
        else
          thenP (whenP (s_revokedAt target = None)
             (thenP (repo_revokeSession (s_id target) (REVOKE_REASONS SessionRevokedByUser))
             (thenP (revokeRefreshTokensForSession (s_id target) (REVOKE_REASONS SessionRevokedByUser))
               (writeSecurityEvent (Some (u_id user)) (Some (s_id target)) UserActor SessionRevoked [] ctx))))
            (ret (s_id target = s_id currentSession))))"

definition changePassword ::
  "crypto \<Rightarrow> auth_options \<Rightarrow> string \<Rightarrow> string \<Rightarrow> string \<Rightarrow> request_ctx \<Rightarrow> unit api" where
  "changePassword c opts token currentPassword newPassword ctx =
    bindP (requireAuthenticatedSession c opts token ctx) (\<lambda>(user, session).
    let rejected = (\<lambda>reason. writeSecurityEvent (Some (u_id user)) (Some (s_id session)) UserActor
      PasswordChangeRejected [(''reason'', JStr reason)] ctx) in
    thenP (limited opts (''rl:change-password:user:'' @ u_id user) (changePasswordPerUserMax opts)
        ''change_password_per_user'' ctx)
   (if \<not> verifyPassword c (u_passwordHash user) currentPassword then
      thenP (rejected ''bad_current_password'') (throw currentPasswordIncorrectError)
    else if verifyPassword c (u_passwordHash user) newPassword then
      thenP (rejected ''password_unchanged'') (throw passwordUnchangedError)
    else
      bindP (hashPassword c newPassword) (\<lambda>newPasswordHash.
      bindP (getsP nowMs) (\<lambda>now.
      thenP (changePasswordKeepingCurrentSession (u_id user) newPasswordHash (s_id session)
          (REVOKE_REASONS PasswordChangedByUser) now)
        (writeSecurityEvent (Some (u_id user)) (Some (s_id session)) UserActor PasswordChanged
          [(''otherSessionsRevoked'', JBool True)] ctx)))))"

definition changeEmail ::
  "crypto \<Rightarrow> auth_options \<Rightarrow> string \<Rightarrow> string \<Rightarrow> string \<Rightarrow> request_ctx \<Rightarrow> auth_user api" where
  "changeEmail c opts token newEmail currentPassword ctx =
    bindP (requireAuthenticatedSession c opts token ctx) (\<lambda>(user, session).
    let rejected = (\<lambda>reason. writeSecurityEvent (Some (u_id user)) (Some (s_id session)) UserActor
      EmailChangeRejected [(''reason'', JStr reason)] ctx);
      normalizedEmail = normalizeEmail newEmail in
    thenP (limited opts (''rl:change-email:user:'' @ u_id user) (changeEmailPerUserMax opts)
        ''change_email_per_user'' ctx)
   (if normalizedEmail = u_normalizedEmail user then throw emailUnchangedError
    else if \<not> verifyPassword c (u_passwordHash user) currentPassword then
      thenP (rejected ''bad_current_password'') (throw currentPasswordIncorrectError)
    else
      bindP (getsP nowMs) (\<lambda>now.
      bindP (catchP (repo_changeEmail (u_id user) (trim newEmail) normalizedEmail now)
        (\<lambda>e. thenP (whenP (app_error_code e = Some EMAIL_ALREADY_REGISTERED) (rejected ''duplicate_email'')) (throw e)))
       (\<lambda>updated.
      thenP (writeSecurityEvent (Some (u_id user)) (Some (s_id session)) UserActor EmailChanged
          [(''verificationCleared'', JBool True)] ctx)
     (thenP (case emailChangeVerification opts of
         None \<Rightarrow> ret ()
       | Some ev \<Rightarrow> sendEmailChangeVerificationEmail c ev (u_id updated) (u_email updated) ctx)
       (ret (toAuthUser updated)))))))"

section \<open>What the operations do\<close>

lemma wp_auth_event:
  assumes "\<And>w'. only_events (db w) (db w') \<Longrightarrow> db_ok (db w') \<Longrightarrow> nowMs w' = nowMs w \<Longrightarrow> outbox w' = outbox w \<Longrightarrow> Q () w'"
    and "\<And>e w'. db w' = db w \<Longrightarrow> E e w'"
  shows "wp (writeSecurityEvent u s a t md ctx) Q E w"
  unfolding writeSecurityEvent_def by (rule wp_insertSecurityEvent) (auto intro!: assms)

lemma wp_limited:
  assumes "\<And>w'. same_but_limiter w w' \<Longrightarrow> Q () w'" and "\<And>e w'. only_events (db w) (db w') \<Longrightarrow> E e w'"
  shows "wp (limited opts k l b ctx) Q E w" "wp (limited_ip opts k l b ctx) Q E w"
  unfolding limited_def limited_ip_def
  by (rule wp_enforceAuthRateLimit wp_enforceIpRateLimit; rule assms; assumption)+

text \<open>The user and the session an access token stands for.\<close>

definition token_bearer ::
  "crypto \<Rightarrow> auth_options \<Rightarrow> database \<Rightarrow> date \<Rightarrow> string \<Rightarrow> (user_row \<times> session_row) option" where
  "token_bearer c opts d now token =
    (case verifyAccessTokenWithRotation c now token (jwtSecret opts) (previousJwtSecret opts) of
       Inl _ \<Rightarrow> None
     | Inr claims \<Rightarrow>
         (case user_by_id d (cl_sub claims) of
            None \<Rightarrow> None
          | Some user \<Rightarrow>
              (case session_by_id d (cl_sessionId claims) of
                 None \<Rightarrow> None
               | Some s \<Rightarrow> if recoverable user \<and> session_trusted s user now then Some (user, s) else None)))"

lemma wp_rejectAccessToken:
  assumes "\<And>e w'. only_events (db w) (db w') \<Longrightarrow> E e w'"
  shows "wp (rejectAccessToken u a reason ctx) Q E w"
  unfolding rejectAccessToken_def
  by (auto simp: wp_simps intro!: wp_auth_event assms)

lemma wp_requireAuthenticatedSession:
  assumes "\<And>u s. token_bearer c opts (db w) (nowMs w) token = Some (u, s) \<Longrightarrow> Q (u, s) w"
    and "\<And>e w'. token_bearer c opts (db w) (nowMs w) token = None \<Longrightarrow> only_events (db w) (db w') \<Longrightarrow> E e w'"
  shows "wp (requireAuthenticatedSession c opts token ctx) Q E w"
  unfolding requireAuthenticatedSession_def
  by (auto simp: wp_simps token_bearer_def split: sum.split option.split
      intro!: wp_rejectAccessToken assms)

lemma token_bearerD:
  assumes "token_bearer c opts d now token = Some (u, s)"
  shows "u \<in> set (users d)" "s \<in> set (sessions d)" "recoverable u" "s_userId s = u_id u" "s_revokedAt s = None"
    "now < toDate (s_expiresAt s)" "user_by_id d (u_id u) = Some u" "session_by_id d (s_id s) = Some s"
proof -
  obtain claims where
      "verifyAccessTokenWithRotation c now token (jwtSecret opts) (previousJwtSecret opts) = Inr claims"
    using assms
    by (cases "verifyAccessTokenWithRotation c now token (jwtSecret opts) (previousJwtSecret opts)")
      (simp_all add: token_bearer_def)
  then have 1: "user_by_id d (cl_sub claims) = Some u" "session_by_id d (cl_sessionId claims) = Some s"
      "recoverable u" "session_trusted s u now"
    using assms by (simp_all add: token_bearer_def split: option.splits if_splits)
  then have ids: "u_id u = cl_sub claims" "s_id s = cl_sessionId claims" by (auto dest: user_by_idD session_by_idD)
  with 1 show "u \<in> set (users d)" "s \<in> set (sessions d)" "recoverable u" "s_userId s = u_id u" "s_revokedAt s = None"
    "now < toDate (s_expiresAt s)" "user_by_id d (u_id u) = Some u" "session_by_id d (s_id s) = Some s"
    by (auto simp: session_trusted_def dest: user_by_idD session_by_idD)
qed

lemma authenticate_user_bearer:
  "(authenticate_user c opts token ctx w = (Inr x, w)) =
    (\<exists>u s. token_bearer c opts (db w) (nowMs w) token = Some (u, s) \<and> x = toAuthUser u)"
proof (cases "token_bearer c opts (db w) (nowMs w) token")
  case None
  have "wp (authenticate_user c opts token ctx) (\<lambda>_ _. False) (\<lambda>_ _. True) w"
    unfolding authenticate_user_def by (auto simp: wp_simps None intro!: wp_requireAuthenticatedSession)
  then show ?thesis by (auto simp: wp_def None)
next
  case (Some us)
  obtain u s where us: "us = (u, s)" by (cases us)
  have "wp (authenticate_user c opts token ctx) (\<lambda>y w'. y = toAuthUser u \<and> w' = w) (\<lambda>_ _. False) w"
    unfolding authenticate_user_def by (auto simp: wp_simps Some us intro!: wp_requireAuthenticatedSession)
  then show ?thesis by (auto simp: wp_def Some us split: prod.splits sum.splits)
qed

section \<open>Properties\<close>

text \<open>
  C28. An access token this service signed authenticates exactly when its key is the current or
  the previous one, its second of expiry has not come, its user is active, and its session belongs to
  that user, is not revoked and has not expired; then it yields that user and changes nothing.
\<close>

theorem access_token_decided:
  assumes "jwt_sound c" and "token = jwtSign c k (accessPayload u sid ttl t)"
  shows "authenticate_user c opts token ctx w = (Inr x, w) \<longleftrightarrow>
     (k = jwtSecret opts \<or> Some k = previousJwtSecret opts) \<and> nowMs w div 1000 < t div 1000 + int ttl \<and>
     (\<exists>user s. user_by_id (db w) u = Some user \<and> session_by_id (db w) sid = Some s \<and> recoverable user \<and>
        s_userId s = u \<and> s_revokedAt s = None \<and> nowMs w < toDate (s_expiresAt s) \<and> x = toAuthUser user)"
proof -
  have id: "u_id user = u" if "user_by_id (db w) u = Some user" for user
    using that by (auto dest: user_by_idD)
  show ?thesis
    unfolding authenticate_user_bearer token_bearer_def verifyAccessTokenWithRotation_def assms(2)
    by (auto simp: verify_signed [OF assms(1)] session_trusted_def id split: option.splits)
qed

end
