(* ===== verification/Registration.thy ===== *)
theory Registration
  imports Joining AuthService
begin

text \<open>
  Verification-first registration (\<^verbatim>\<open>registration.repo.ts\<close>, \<^verbatim>\<open>registration.service.ts\<close>,
  \<^verbatim>\<open>registration.token.ts\<close>): a request answers the same whatever the address, and one transaction
  completes it: the account, its personal workspace, its first session, and the invitation that
  brought the user, when it still stands.
\<close>

section \<open>The repository\<close>

definition USERS_EMAIL_CONSTRAINT :: string where
  "USERS_EMAIL_CONSTRAINT = ''uq_users_normalized_email''"

definition isUsersEmailUniqueViolation :: "error \<Rightarrow> bool" where
  "isUsersEmailUniqueViolation e = (uniqueViolationConstraint e = Some USERS_EMAIL_CONSTRAINT)"

definition INVITATION_UNAVAILABLE_CODES :: "error_code list" where
  "INVITATION_UNAVAILABLE_CODES =
    [INVITATION_INVALID, INVITATION_EXPIRED, INVITATION_REVOKED, INVITATION_ALREADY_ACCEPTED,
     INVITATION_EMAIL_MISMATCH, QUOTA_EXCEEDED, CONFLICT]"

definition isInvitationUnavailableError :: "error \<Rightarrow> bool" where
  "isInvitationUnavailableError e = list_ex (\<lambda>code. app_error_code e = Some code) INVITATION_UNAVAILABLE_CODES"

definition generateRegistrationCompletionToken :: "string api" where
  "generateRegistrationCompletionToken = generateOpaqueToken DEFAULT_TOKEN_BYTES"

definition hashRegistrationCompletionToken :: "crypto \<Rightarrow> string \<Rightarrow> string" where
  "hashRegistrationCompletionToken c rawToken = hashOpaqueToken c rawToken"

definition registrationCompletionRateLimitKey :: "crypto \<Rightarrow> string \<Rightarrow> string" where
  "registrationCompletionRateLimitKey c rawToken = hashOpaqueToken c (hashOpaqueToken c rawToken)"

record pending_input =
  pi_email :: string
  pi_normalizedEmail :: string
  pi_passwordHash :: string
  pi_displayName :: string
  pi_tokenHash :: string
  pi_invitationId :: "string option"
  pi_expiresAt :: date

definition new_pending :: "string \<Rightarrow> pending_input \<Rightarrow> timestamptz \<Rightarrow> pending_registration_row" where
  "new_pending i p t =
    \<lparr>preg_id = i, preg_email = pi_email p, preg_normalizedEmail = pi_normalizedEmail p,
     preg_passwordHash = pi_passwordHash p, preg_displayName = pi_displayName p, preg_tokenHash = pi_tokenHash p,
     preg_invitationId = pi_invitationId p, preg_expiresAt = fromDate (pi_expiresAt p), preg_usedAt = None,
     preg_invalidatedAt = None, preg_createdAt = t\<rparr>"

definition invalidate_registrations ::
  "(pending_registration_row \<Rightarrow> bool) \<Rightarrow> date \<Rightarrow> database \<Rightarrow> database" where
  "invalidate_registrations p now d = d\<lparr>pendingRegistrations :=
     update_where (\<lambda>r. p r \<and> usable_registration r) (\<lambda>r. r\<lparr>preg_invalidatedAt := Some (fromDate now)\<rparr>)
       (pendingRegistrations d)\<rparr>"

definition insert_pending :: "pending_registration_row \<Rightarrow> database \<Rightarrow> database" where
  "insert_pending r d = d\<lparr>pendingRegistrations := pendingRegistrations d @ [r]\<rparr>"

definition issuePendingRegistration :: "pending_input \<Rightarrow> date \<Rightarrow> unit api" where
  "issuePendingRegistration p now =
    transaction
     (thenP (sql (invalidate_registrations (\<lambda>r. preg_normalizedEmail r = pi_normalizedEmail p) now))
     (bindP (createId ''preg'') (\<lambda>i.
      bindP (getsP pgNow) (\<lambda>t. sql (insert_pending (new_pending i p t))))))"

definition registration_by_hash :: "database \<Rightarrow> string \<Rightarrow> pending_registration_row option" where
  "registration_by_hash d h = select_first (\<lambda>r. preg_tokenHash r = h) (pendingRegistrations d)"

definition findPendingRegistrationByTokenHash :: "string \<Rightarrow> pending_registration_row option api" where
  "findPendingRegistrationByTokenHash h = select (\<lambda>d. registration_by_hash d h)"

datatype invitation_settlement = SettledNone | SettledAccepted | SettledUnavailable

record completion_params =
  cp_tokenHash :: string
  cp_sessionExpiresAt :: date
  cp_refreshTokenHash :: string
  cp_familyId :: string
  cp_refreshExpiresAt :: date
  cp_invitationId :: "string option" \<comment> \<open>the invitation context, when one resolved\<close>
  cp_ctx :: request_ctx

record completed =
  co_user :: user_row
  co_organization :: organization_row
  co_membership :: membership_row
  co_session :: session_row
  co_refreshToken :: refresh_token_row
  co_invitation :: invitation_settlement

datatype completion =
    Completed completed
  | RegistrationAlreadyUsed
  | RegistrationExpired
  | RegistrationNotFound
  | RegistrationEmailTaken

definition settleInvitation ::
  "string option \<Rightarrow> completion_params \<Rightarrow> string \<Rightarrow> string \<Rightarrow> invitation_settlement api" where
  "settleInvitation pendingInvitationId params newUserId normalizedEmail =
    (case pendingInvitationId of
       None \<Rightarrow> ret SettledNone
     | Some i \<Rightarrow>
         if cp_invitationId params \<noteq> Some i then ret SettledUnavailable
         else
           catchP
            (thenP (transaction (acceptInvitationWithinTransaction (ByInvitationId i) newUserId normalizedEmail
                \<lparr>ia_actorUserId = newUserId, ia_actorMembershipId = None, ia_ctx = cp_ctx params\<rparr>))
              (ret SettledAccepted))
            (\<lambda>e. if isInvitationUnavailableError e then ret SettledUnavailable else throw e))"

definition new_user :: "string \<Rightarrow> pending_registration_row \<Rightarrow> date \<Rightarrow> timestamptz \<Rightarrow> user_row" where
  "new_user i pending now t =
    \<lparr>u_id = i, u_email = preg_email pending, u_normalizedEmail = preg_normalizedEmail pending,
     u_passwordHash = preg_passwordHash pending, u_displayName = preg_displayName pending, u_status = UserActive,
     u_emailVerifiedAt = Some (fromDate now), u_createdAt = t, u_updatedAt = t, u_deletedAt = None\<rparr>"

definition insert_user :: "user_row \<Rightarrow> database \<Rightarrow> database" where
  "insert_user u d = d\<lparr>users := users d @ [u]\<rparr>"

definition set_registration_used :: "string \<Rightarrow> date \<Rightarrow> database \<Rightarrow> database" where
  "set_registration_used i now d = d\<lparr>pendingRegistrations :=
     update_where (\<lambda>r. preg_id r = i) (\<lambda>r. r\<lparr>preg_usedAt := Some (fromDate now)\<rparr>) (pendingRegistrations d)\<rparr>"

definition other_registration :: "pending_registration_row \<Rightarrow> pending_registration_row \<Rightarrow> bool" where
  "other_registration pending r =
    (preg_normalizedEmail r = preg_normalizedEmail pending \<and> preg_id r \<noteq> preg_id pending)"

definition create_account ::
  "pending_registration_row \<Rightarrow> completion_params \<Rightarrow> date \<Rightarrow> completed api" where
  "create_account pending params now =
    bindP (createId ''user'') (\<lambda>uid.
    bindP (getsP pgNow) (\<lambda>t.
    let user = new_user uid pending now t in
    thenP (sql (insert_user user))
   (bindP (personalWorkspaceSlugBase (preg_displayName pending)) (\<lambda>base.
    bindP (resolveUniqueSlug base) (\<lambda>slug.
    bindP (insertOrganizationWithOwnerMembership Personal (personalWorkspaceName (preg_displayName pending)) slug uid uid)
     (\<lambda>(organization, membership).
    bindP (insertSession uid (cp_ctx params) (cp_sessionExpiresAt params)) (\<lambda>session.
    bindP (insertRefreshToken (s_id session) (cp_familyId params) (cp_refreshTokenHash params) None
        (cp_refreshExpiresAt params)) (\<lambda>refreshToken.
    bindP (settleInvitation (preg_invitationId pending) params uid (preg_normalizedEmail pending)) (\<lambda>settled.
    thenP (sql (set_registration_used (preg_id pending) now))
   (thenP (sql (invalidate_registrations (other_registration pending) now))
     (ret \<lparr>co_user = user, co_organization = organization, co_membership = membership, co_session = session,
           co_refreshToken = refreshToken, co_invitation = settled\<rparr>)))))))))))"

definition repo_completeRegistration :: "completion_params \<Rightarrow> date \<Rightarrow> completion api" where
  "repo_completeRegistration params now =
    catchP
     (transaction
       (bindP (select (\<lambda>d. registration_by_hash d (cp_tokenHash params))) (\<lambda>found.
        case found of
          None \<Rightarrow> ret RegistrationNotFound
        | Some pending \<Rightarrow>
            if \<not> usable_registration pending then ret RegistrationAlreadyUsed
            else if toDate (preg_expiresAt pending) \<le> now then ret RegistrationExpired
            else
              bindP (select (\<lambda>d. select_first (\<lambda>u. u_normalizedEmail u = preg_normalizedEmail pending) (users d)))
               (\<lambda>existing.
                if existing \<noteq> None then ret RegistrationEmailTaken
                else bindP (create_account pending params now) (\<lambda>x. ret (Completed x))))))
     (\<lambda>e. if isUsersEmailUniqueViolation e then ret RegistrationEmailTaken else throw e)"

section \<open>The service\<close>

record registration_options = limiter_options +
  rg_webBaseUrl :: string
  rg_completionTtlSeconds :: nat
  rg_jwtSecret :: string
  rg_accessTokenTtlSeconds :: nat
  rg_sessionTtlSeconds :: nat
  rg_refreshTokenTtlSeconds :: nat
  rg_windowSeconds :: nat
  rg_requestPerIpMax :: nat
  rg_requestPerEmailMax :: nat
  rg_completePerIpMax :: nat
  rg_completePerTokenMax :: nat
  rg_existingAccountNoticePerEmailMax :: nat
  rg_invitations :: bool

datatype request_outcome =
    RqSent | RqSendFailed | RqPersistFailed | RqLookupFailed
  | RqExistingAccountNoticeSent | RqExistingAccountNoticeFailed | RqExistingAccountNoticeThrottled
  | RqIneligibleAccount | RqInvitationRejected | RqInvitationLookupFailed

fun request_outcome_string :: "request_outcome \<Rightarrow> string" where
  "request_outcome_string RqSent = ''sent''"
| "request_outcome_string RqSendFailed = ''send_failed''"
| "request_outcome_string RqPersistFailed = ''persist_failed''"
| "request_outcome_string RqLookupFailed = ''lookup_failed''"
| "request_outcome_string RqExistingAccountNoticeSent = ''existing_account_notice_sent''"
| "request_outcome_string RqExistingAccountNoticeFailed = ''existing_account_notice_failed''"
| "request_outcome_string RqExistingAccountNoticeThrottled = ''existing_account_notice_throttled''"
| "request_outcome_string RqIneligibleAccount = ''ineligible_account''"
| "request_outcome_string RqInvitationRejected = ''invitation_rejected''"
| "request_outcome_string RqInvitationLookupFailed = ''invitation_lookup_failed''"

datatype invitation_resolution = NoInvitation | ValidInvitation string string | RejectedInvitation request_outcome

definition recordRequestOutcome :: "request_outcome \<Rightarrow> request_ctx \<Rightarrow> unit api" where
  "recordRequestOutcome outcome ctx =
    catchP
     (writeSecurityEvent None None AnonymousActor RegistrationRequested
       [(''outcome'', JStr (request_outcome_string outcome)), (''delivered'', JBool (outcome = RqSent))] ctx)
     (\<lambda>_. ret ())"

definition sendExistingAccountGuidance ::
  "crypto \<Rightarrow> registration_options \<Rightarrow> user_row \<Rightarrow> string \<Rightarrow> request_ctx \<Rightarrow> unit api" where
  "sendExistingAccountGuidance c opts user normalizedEmail ctx =
    bindP (rl_consume (rateLimiter opts) (''rl:register:notice:email:'' @ hashOpaqueToken c normalizedEmail)
        (rg_existingAccountNoticePerEmailMax opts) (rg_windowSeconds opts)) (\<lambda>decision.
    if decision \<noteq> Allowed then recordRequestOutcome RqExistingAccountNoticeThrottled ctx
    else
      catchP
       (thenP (deliver (renderExistingAccountNoticeEmail (u_email user) (buildLoginUrl (rg_webBaseUrl opts))
            (buildForgotPasswordUrl (rg_webBaseUrl opts))))
         (recordRequestOutcome RqExistingAccountNoticeSent ctx))
       (\<lambda>_. recordRequestOutcome RqExistingAccountNoticeFailed ctx))"

definition resolveRequestInvitation ::
  "crypto \<Rightarrow> registration_options \<Rightarrow> string option \<Rightarrow> string \<Rightarrow> invitation_resolution api" where
  "resolveRequestInvitation c opts rawToken normalizedEmail =
    (if \<not> truthy rawToken then ret NoInvitation
     else if \<not> rg_invitations opts then ret (RejectedInvitation RqInvitationRejected)
     else
       catchP
        (bindP (prepareForRegistration c (the rawToken) normalizedEmail) (\<lambda>(invitationId, organizationName).
          ret (ValidInvitation invitationId organizationName)))
        (\<lambda>e. ret (RejectedInvitation
          (if app_error_code e \<noteq> None then RqInvitationRejected else RqInvitationLookupFailed))))"

definition resolveCompletionInvitation ::
  "registration_options \<Rightarrow> string option \<Rightarrow> string option api" where
  "resolveCompletionInvitation opts invitationId =
    (case invitationId of
       None \<Rightarrow> ret None
     | Some i \<Rightarrow>
         if \<not> rg_invitations opts then ret None
         else
           bindP (catchP (resolveCompletionContext i)
             (\<lambda>e. if app_error_code e \<noteq> None then ret False else throw e)) (\<lambda>resolves.
             ret (if resolves then Some i else None)))"

record register_input =
  ri_email :: string
  ri_password :: string
  ri_displayName :: string
  ri_invitationToken :: "string option"

definition requestRegistrationLimits ::
  "crypto \<Rightarrow> registration_options \<Rightarrow> string \<Rightarrow> request_ctx \<Rightarrow> unit api" where
  "requestRegistrationLimits c opts normalizedEmail ctx =
    thenP (enforceIpRateLimit (limiter_options.truncate opts) (rg_windowSeconds opts) ''rl:register:ip:''
        (rg_requestPerIpMax opts) ''register_per_ip'' ctx)
      (enforceAuthRateLimit (limiter_options.truncate opts) (rg_windowSeconds opts)
        (''rl:register:email:'' @ hashOpaqueToken c normalizedEmail) (rg_requestPerEmailMax opts)
        ''register_per_email'' ctx)"

definition issueRegistration ::
  "crypto \<Rightarrow> registration_options \<Rightarrow> register_input \<Rightarrow> string \<Rightarrow> (string \<times> string) option \<Rightarrow> request_ctx \<Rightarrow> unit api" where
  "issueRegistration c opts input passwordHash invitation ctx =
    bindP generateRegistrationCompletionToken (\<lambda>rawToken.
    bindP (getsP nowMs) (\<lambda>now.
    let expiresAt = now + int (rg_completionTtlSeconds opts) * 1000 in
    andThen (attempt (issuePendingRegistration
         \<lparr>pi_email = trim (ri_email input), pi_normalizedEmail = normalizeEmail (ri_email input),
          pi_passwordHash = passwordHash, pi_displayName = ri_displayName input,
          pi_tokenHash = hashRegistrationCompletionToken c rawToken,
          pi_invitationId = map_option fst invitation, pi_expiresAt = expiresAt\<rparr> now)
        (recordRequestOutcome RqPersistFailed ctx)) (\<lambda>_.
    andThen (attempt (deliver (renderRegistrationCompletionEmail (trim (ri_email input))
          (buildRegistrationCompletionUrl (rg_webBaseUrl opts) rawToken) expiresAt (map_option snd invitation)))
        (recordRequestOutcome RqSendFailed ctx)) (\<lambda>_.
    recordRequestOutcome RqSent ctx))))"

definition registerAddress ::
  "crypto \<Rightarrow> registration_options \<Rightarrow> register_input \<Rightarrow> string \<Rightarrow> (string \<times> string) option \<Rightarrow> request_ctx \<Rightarrow> unit api" where
  "registerAddress c opts input passwordHash invitation ctx =
    (let normalizedEmail = normalizeEmail (ri_email input) in
     andThen (attempt (findUserByNormalizedEmail normalizedEmail) (recordRequestOutcome RqLookupFailed ctx))
      (\<lambda>existingUser.
        case existingUser of
          Some u \<Rightarrow>
            if recoverable u then sendExistingAccountGuidance c opts u normalizedEmail ctx
            else recordRequestOutcome RqIneligibleAccount ctx
        | None \<Rightarrow> issueRegistration c opts input passwordHash invitation ctx))"

definition requestRegistration ::
  "crypto \<Rightarrow> registration_options \<Rightarrow> register_input \<Rightarrow> request_ctx \<Rightarrow> unit api" where
  "requestRegistration c opts input ctx =
    (let normalizedEmail = normalizeEmail (ri_email input) in
     thenP (requestRegistrationLimits c opts normalizedEmail ctx)
    (bindP (hashPassword c (ri_password input)) (\<lambda>passwordHash.
     bindP (resolveRequestInvitation c opts (ri_invitationToken input) normalizedEmail) (\<lambda>invitation.
     case invitation of
       RejectedInvitation outcome \<Rightarrow> recordRequestOutcome outcome ctx
     | NoInvitation \<Rightarrow> registerAddress c opts input passwordHash None ctx
     | ValidInvitation i name \<Rightarrow> registerAddress c opts input passwordHash (Some (i, name)) ctx))))"

record registration_completion =
  rc_user :: auth_user
  rc_tokens :: tokens_response
  rc_invitation :: "bool option" \<comment> \<open>accepted, unavailable, or no invitation\<close>
  rc_rawRefreshToken :: string

fun toInvitationOutcome :: "invitation_settlement \<Rightarrow> bool option" where
  "toInvitationOutcome SettledNone = None"
| "toInvitationOutcome SettledAccepted = Some True"
| "toInvitationOutcome SettledUnavailable = Some False"

fun settlement_string :: "invitation_settlement \<Rightarrow> string" where
  "settlement_string SettledNone = ''none''"
| "settlement_string SettledAccepted = ''accepted''"
| "settlement_string SettledUnavailable = ''unavailable''"

fun completion_status :: "completion \<Rightarrow> string" where
  "completion_status (Completed _) = ''completed''"
| "completion_status RegistrationAlreadyUsed = ''already_used''"
| "completion_status RegistrationExpired = ''expired''"
| "completion_status RegistrationNotFound = ''not_found''"
| "completion_status RegistrationEmailTaken = ''email_taken''"

fun completion_error :: "completion \<Rightarrow> error" where
  "completion_error RegistrationExpired = registrationTokenExpiredError"
| "completion_error RegistrationAlreadyUsed = registrationTokenUsedError"
| "completion_error _ = registrationTokenInvalidError"

definition completeRegistrationLimits :: "crypto \<Rightarrow> registration_options \<Rightarrow> string \<Rightarrow> request_ctx \<Rightarrow> unit api" where
  "completeRegistrationLimits c opts token ctx =
    thenP (enforceIpRateLimit (limiter_options.truncate opts) (rg_windowSeconds opts) ''rl:register:complete:ip:''
        (rg_completePerIpMax opts) ''registration_complete_per_ip'' ctx)
      (enforceAuthRateLimit (limiter_options.truncate opts) (rg_windowSeconds opts)
        (''rl:register:complete:token:'' @ registrationCompletionRateLimitKey c token) (rg_completePerTokenMax opts)
        ''registration_complete_per_token'' ctx)"

definition completeRegistration ::
  "crypto \<Rightarrow> registration_options \<Rightarrow> string \<Rightarrow> request_ctx \<Rightarrow> registration_completion api" where
  "completeRegistration c opts token ctx =
    thenP (completeRegistrationLimits c opts token ctx)
   (let tokenHash = hashRegistrationCompletionToken c token in
    bindP (findPendingRegistrationByTokenHash tokenHash) (\<lambda>pending.
    bindP (resolveCompletionInvitation opts (Option.bind pending preg_invitationId)) (\<lambda>invitation.
    bindP (getsP nowMs) (\<lambda>now.
    bindP (generateOpaqueToken DEFAULT_TOKEN_BYTES) (\<lambda>rawRefreshToken.
    bindP (createId ''rtok'') (\<lambda>familyId.
    bindP (repo_completeRegistration
       \<lparr>cp_tokenHash = tokenHash, cp_sessionExpiresAt = now + int (rg_sessionTtlSeconds opts) * 1000,
        cp_refreshTokenHash = hashOpaqueToken c rawRefreshToken, cp_familyId = familyId,
        cp_refreshExpiresAt = now + int (rg_refreshTokenTtlSeconds opts) * 1000,
        cp_invitationId = invitation, cp_ctx = ctx\<rparr> now) (\<lambda>outcome.
    case outcome of
      Completed x \<Rightarrow>
        bindP (signAccessToken c (u_id (co_user x)) (s_id (co_session x)) (rg_jwtSecret opts)
            (rg_accessTokenTtlSeconds opts)) (\<lambda>tok.
        thenP (writeSecurityEvent (Some (u_id (co_user x))) (Some (s_id (co_session x))) UserActor
            RegistrationCompletionSucceeded [(''invitation'', JStr (settlement_string (co_invitation x)))] ctx)
          (ret \<lparr>rc_user = toAuthUser (co_user x),
               rc_tokens = \<lparr>accessToken = tok, expiresIn = rg_accessTokenTtlSeconds opts\<rparr>,
               rc_invitation = toInvitationOutcome (co_invitation x), rc_rawRefreshToken = rawRefreshToken\<rparr>))
    | _ \<Rightarrow>
        thenP (writeSecurityEvent None None AnonymousActor RegistrationCompletionRejected
            [(''reason'', JStr (completion_status outcome))] ctx)
          (throw (completion_error outcome)))))))))"

end
