(* ===== verification/Rbac.thy ===== *)
theory Rbac
  imports Tenancy "HOL-Library.AList"
begin

text \<open>
  Reading the role and permission catalog (\<^verbatim>\<open>rbac/rbac.repo.ts\<close>, \<^verbatim>\<open>rbac/rbac.service.ts\<close>) and its
  organization-scoped wrapper (\<^verbatim>\<open>organization/org-rbac.service.ts\<close>).
\<close>

section \<open>The repository\<close>

definition repo_listRoles :: "role_row list api" where
  "repo_listRoles = select roles"

definition repo_listPermissions :: "permission_row list api" where
  "repo_listPermissions = select permissions"

definition repo_listRolePermissions :: "role_permission_row list api" where
  "repo_listRolePermissions = select rolePermissions"

section \<open>The service\<close>

record role_dto =
  ro_id :: string
  ro_key :: role_key
  ro_name :: string
  ro_description :: string

record permission_dto =
  pe_key :: permission_key
  pe_name :: string
  pe_description :: string

definition toRole :: "role_row \<Rightarrow> role_dto" where
  "toRole row = \<lparr>ro_id = role_id row, ro_key = role_key row, ro_name = role_name row, ro_description = role_description row\<rparr>"

definition toPermission :: "permission_row \<Rightarrow> permission_dto" where
  "toPermission row = \<lparr>pe_key = perm_key row, pe_name = perm_name row, pe_description = perm_description row\<rparr>"

text \<open>A rank is the position in the canonical order, 0 for a key that is not in it.\<close>

fun rank_in :: "'k list \<Rightarrow> 'k \<Rightarrow> nat" where
  "rank_in [] k = 0"
| "rank_in (x # xs) k = (if x = k then 0 else if k \<in> set xs then rank_in xs k + 1 else 0)"

definition ROLE_RANK :: "role_key \<Rightarrow> nat" where
  "ROLE_RANK = rank_in ROLE_KEY_ORDER"

definition PERMISSION_RANK :: "permission_key \<Rightarrow> nat" where
  "PERMISSION_RANK = rank_in PERMISSION_KEY_LIST"

definition byRoleOrder :: "role_row list \<Rightarrow> role_row list" where
  "byRoleOrder rs = sort_key (\<lambda>r. ROLE_RANK (role_key r)) rs"

definition byPermissionOrder :: "permission_row list \<Rightarrow> permission_row list" where
  "byPermissionOrder ps = sort_key (\<lambda>p. PERMISSION_RANK (perm_key p)) ps"

definition listRoles :: "role_dto list api" where
  "listRoles = bindP repo_listRoles (\<lambda>rs. ret (map toRole (byRoleOrder rs)))"

definition listPermissions :: "permission_dto list api" where
  "listPermissions = bindP repo_listPermissions (\<lambda>ps. ret (map toPermission (byPermissionOrder ps)))"

text \<open>
  The matrix is an object keyed by role, built empty in role order; a grant whose role or
  permission row is missing is skipped, the others are pushed to the role's list.
\<close>

type_synonym matrix = "(role_key \<times> permission_key list) list"

definition empty_matrix :: "role_row list \<Rightarrow> matrix" where
  "empty_matrix sortedRoles = foldl (\<lambda>m r. AList.update (role_key r) [] m) [] sortedRoles"

definition requireDefined :: "'a option \<Rightarrow> string \<Rightarrow> error + 'a" where
  "requireDefined value label =
    (case value of
       None \<Rightarrow> Inl (ThrownError (''Expected '' @ label @ '' to be defined''))
     | Some x \<Rightarrow> Inr x)"

fun roleKeyString :: "role_key \<Rightarrow> string" where
  "roleKeyString Owner = ''owner''"
| "roleKeyString Admin = ''admin''"
| "roleKeyString Member = ''member''"
| "roleKeyString Viewer = ''viewer''"

fun add_grants ::
  "(string \<Rightarrow> role_key option) \<Rightarrow> (string \<Rightarrow> permission_key option) \<Rightarrow> role_permission_row list \<Rightarrow> matrix \<Rightarrow>
   error + matrix" where
  "add_grants roleKeyById permissionKeyById [] m = Inr m"
| "add_grants roleKeyById permissionKeyById (g # gs) m =
    (case (roleKeyById (rp_roleId g), permissionKeyById (rp_permissionId g)) of
       (Some r, Some p) \<Rightarrow>
         (case requireDefined (map_of m r)
             (''permission matrix entry for role '' @ [CHR 0x27] @ roleKeyString r @ [CHR 0x27]) of
            Inl e \<Rightarrow> Inl e
          | Inr ps \<Rightarrow> add_grants roleKeyById permissionKeyById gs (AList.update r (ps @ [p]) m))
     | _ \<Rightarrow> add_grants roleKeyById permissionKeyById gs m)"

definition sort_matrix :: "matrix \<Rightarrow> matrix" where
  "sort_matrix m = map (\<lambda>(r, ps). (r, sort_key PERMISSION_RANK ps)) m"

record matrix_response =
  mx_roles :: "role_dto list"
  mx_permissions :: "permission_dto list"
  mx_matrix :: matrix

definition getMatrix :: "matrix_response api" where
  "getMatrix =
    bindP repo_listRoles (\<lambda>roleRows.
    bindP repo_listPermissions (\<lambda>permissionRows.
    bindP repo_listRolePermissions (\<lambda>grants.
      let sortedRoles = byRoleOrder roleRows;
          sortedPermissions = byPermissionOrder permissionRows;
          roleKeyById = map_of (rev (map (\<lambda>r. (role_id r, role_key r)) roleRows));
          permissionKeyById = map_of (rev (map (\<lambda>p. (perm_id p, perm_key p)) permissionRows)) in
      case add_grants roleKeyById permissionKeyById grants (empty_matrix sortedRoles) of
        Inl e \<Rightarrow> throw e
      | Inr m \<Rightarrow> ret \<lparr>mx_roles = map toRole sortedRoles,
          mx_permissions = map toPermission sortedPermissions, mx_matrix = sort_matrix m\<rparr>)))"

section \<open>The organization-scoped reads\<close>

record org_scoped_read_input =
  os_userId :: string
  os_organizationId :: string
  os_requestId :: "string option"

definition org_listRoles :: "org_scoped_read_input \<Rightarrow> role_dto list api" where
  "org_listRoles input =
    bindP (requireMembership (os_userId input) (os_organizationId input) (os_requestId input)) (\<lambda>actor.
    thenP (requirePermission actor RolesRead) listRoles)"

definition org_listPermissions :: "org_scoped_read_input \<Rightarrow> permission_dto list api" where
  "org_listPermissions input =
    bindP (requireMembership (os_userId input) (os_organizationId input) (os_requestId input)) (\<lambda>actor.
    thenP (requirePermission actor PermissionsRead) listPermissions)"

definition org_getMatrix :: "org_scoped_read_input \<Rightarrow> matrix_response api" where
  "org_getMatrix input =
    bindP (requireMembership (os_userId input) (os_organizationId input) (os_requestId input)) (\<lambda>actor.
    thenP (requirePermission actor PermissionsRead) getMatrix)"

text \<open>Any active member may ask for their own role and effective permissions.\<close>

definition getEffectivePermissions ::
  "org_scoped_read_input \<Rightarrow> (string \<times> (string \<times> role_key \<times> string) \<times> permission_key list) api" where
  "getEffectivePermissions input =
    bindP (requireMembership (os_userId input) (os_organizationId input) (os_requestId input)) (\<lambda>actor.
      ret (act_organizationId actor, (act_roleId actor, act_roleKey actor, act_roleName actor),
        act_permissions actor))"

interpretation org_roles: guarded_operation org_listRoles os_userId os_organizationId os_requestId
    RolesRead "\<lambda>_ _. listRoles"
  by unfold_locales (simp add: org_listRoles_def)

interpretation org_permissions: guarded_operation org_listPermissions os_userId os_organizationId
    os_requestId PermissionsRead "\<lambda>_ _. listPermissions"
  by unfold_locales (simp add: org_listPermissions_def)

interpretation org_matrix: guarded_operation org_getMatrix os_userId os_organizationId os_requestId
    PermissionsRead "\<lambda>_ _. getMatrix"
  by unfold_locales (simp add: org_getMatrix_def)

lemma keeps_rbac [preserve_intros]:
  "keeps P (org_listRoles i)" "keeps P (org_listPermissions i)" "keeps P (org_getMatrix i)"
  "keeps P (getEffectivePermissions i)"
  unfolding org_listRoles_def org_listPermissions_def org_getMatrix_def getEffectivePermissions_def
    listRoles_def listPermissions_def getMatrix_def Let_def
    repo_listRoles_def repo_listPermissions_def repo_listRolePermissions_def
  by (intro preserve_intros)+

section \<open>Properties\<close>

lemma matrix_of_seed:
  "add_grants (map_of (rev (map (\<lambda>r. (role_id r, role_key r)) ROLE_SEED)))
      (map_of (rev (map (\<lambda>p. (perm_id p, perm_key p)) PERMISSION_SEED))) ROLE_PERMISSION_SEED
      (empty_matrix (byRoleOrder ROLE_SEED)) =
   Inr (map (\<lambda>k. (k, ROLE_PERMISSIONS k)) ROLE_KEY_ORDER)"
  by code_simp

lemma sorted_seed:
  "map toRole (byRoleOrder ROLE_SEED) = map toRole ROLE_SEED"
  "map toPermission (byPermissionOrder PERMISSION_SEED) = map toPermission PERMISSION_SEED"
  "sort_matrix (map (\<lambda>k. (k, ROLE_PERMISSIONS k)) ROLE_KEY_ORDER) =
    map (\<lambda>k. (k, filter (\<lambda>p. p \<in> set (ROLE_PERMISSIONS k)) PERMISSION_KEY_LIST)) ROLE_KEY_ORDER"
  by code_simp+

text \<open>
  C21. The matrix a member who may read permissions is shown is the one that is enforced: for
  each role, in canonical order, exactly the permissions of the role matrix, each once, in
  canonical order; and it agrees with the effective permissions any member is shown for their own
  role. Others are refused.
\<close>

theorem matrix_shown_is_enforced:
  assumes "db_ok (db w)" and "catalogued (db w)"
  shows "case org_getMatrix \<lparr>os_userId = u, os_organizationId = g, os_requestId = rq\<rparr> w of
      (Inr mx, w') \<Rightarrow> w' = w \<and> may (db w) u g PermissionsRead \<and>
        mx_matrix mx = map (\<lambda>k. (k, filter (\<lambda>p. p \<in> set (ROLE_PERMISSIONS k)) PERMISSION_KEY_LIST)) ROLE_KEY_ORDER \<and>
        (\<exists>i k n ps. getEffectivePermissions \<lparr>os_userId = u, os_organizationId = g, os_requestId = rq\<rparr> w =
            (Inr (g, (i, k, n), ps), w) \<and> map_option set (map_of (mx_matrix mx) k) = Some (set ps))
    | (Inl e, w') \<Rightarrow> w' = w \<and> \<not> may (db w) u g PermissionsRead"
proof -
  let ?i = "\<lparr>os_userId = u, os_organizationId = g, os_requestId = rq\<rparr>"
  have matrix: "map_of (map (\<lambda>k. (k, f k)) ROLE_KEY_ORDER) k = Some (f k)" for f :: "role_key \<Rightarrow> permission_key list" and k
    using ROLE_KEY_ORDER_complete [of k] by (simp add: map_of_map_restrict)
  have ps: "set (filter (\<lambda>p. p \<in> set (ROLE_PERMISSIONS k)) PERMISSION_KEY_LIST) = set (ROLE_PERMISSIONS k)" for k
    using PERMISSION_KEY_LIST_complete by auto
  show ?thesis
  proof (rule requireMembership_cases [OF assms, of u g rq], goal_cases member stranger)
    case (member actor m k)
    have eff: "getEffectivePermissions ?i w =
        (Inr (g, (act_roleId actor, k, act_roleName actor), act_permissions actor), w)"
      using member by (simp add: getEffectivePermissions_def prog_simps)
    have mx: "getMatrix w = (Inr \<lparr>mx_roles = map toRole ROLE_SEED, mx_permissions = map toPermission PERMISSION_SEED,
        mx_matrix = map (\<lambda>k. (k, filter (\<lambda>p. p \<in> set (ROLE_PERMISSIONS k)) PERMISSION_KEY_LIST)) ROLE_KEY_ORDER\<rparr>, w)"
      using assms(2)
      by (simp add: getMatrix_def prog_simps Let_def repo_listRoles_def repo_listPermissions_def
          repo_listRolePermissions_def catalogued_def matrix_of_seed sorted_seed)
    show ?thesis
    proof (cases "PermissionsRead \<in> set (ROLE_PERMISSIONS k)")
      case True
      then have "org_getMatrix ?i w = getMatrix w" and "may (db w) u g PermissionsRead"
        using member by (auto simp: org_getMatrix_def prog_simps requirePermission_def actorHasPermission_def may_iff)
      then show ?thesis
        using member by (simp add: mx eff matrix ps del: set_filter)
    next
      case False
      then have "org_getMatrix ?i w = (Inl permissionDeniedError, w)"
        using member by (simp add: org_getMatrix_def prog_simps requirePermission_def actorHasPermission_def)
      moreover have "\<not> may (db w) u g PermissionsRead"
        using False member(2) holds_role_unique [OF assms(1)] unfolding may_iff by blast
      ultimately show ?thesis by simp
    qed
  next
    case stranger
    then show ?thesis by (simp add: org_getMatrix_def prog_simps may_iff)
  qed
qed

lemma matrix_shown_is_enforced_witness:
  "\<exists>mx. org_getMatrix \<lparr>os_userId = ''bob'', os_organizationId = ''o1'', os_requestId = None\<rparr> demo_world = (Inr mx, demo_world)"
proof -
  obtain r w' where r: "org_getMatrix \<lparr>os_userId = ''bob'', os_organizationId = ''o1'', os_requestId = None\<rparr> demo_world = (r, w')"
    by (metis surj_pair)
  note shown = matrix_shown_is_enforced [of demo_world "''bob''" "''o1''" None,
      unfolded demo_world_simps r prod.case, OF sample_ok sample_catalogued]
  have may: "may sample_db ''bob'' ''o1'' PermissionsRead" by code_simp
  show ?thesis
  proof (cases r)
    case (Inl e)
    with shown may show ?thesis by (simp only: sum.case) blast
  next
    case (Inr mx)
    with shown r show ?thesis by (simp only: sum.case) blast
  qed
qed

end
