(* ===== verification/Requests.thy ===== *)
theory Requests
  imports Registration AuditLog Rbac
begin

text \<open>
  The request schemas of \<^verbatim>\<open>packages/contracts\<close>: what a body or a query must look like, and what the
  service receives of it. A schema reads a value that may be undefined; \<open>None\<close> is a refusal.
  Which addresses and instants zod accepts, and the instant \<open>new Date\<close> reads, are parameters.
\<close>

section \<open>Schemas\<close>

type_synonym 'a schema = "json option \<Rightarrow> 'a option"

record validators =
  zv_email :: "string \<Rightarrow> bool" \<comment> \<open>\<open>z.string().email()\<close>\<close>
  zv_datetime :: "string \<Rightarrow> bool" \<comment> \<open>\<open>z.string().datetime()\<close>\<close>
  dateParse :: "string \<Rightarrow> date" \<comment> \<open>\<open>new Date(s).getTime()\<close>\<close>

fun z_string :: "string schema" where
  "z_string (Some (JStr s)) = Some s"
| "z_string _ = None"

definition z_check :: "('a \<Rightarrow> bool) \<Rightarrow> 'a schema \<Rightarrow> 'a schema" where
  "z_check p z v = (case z v of None \<Rightarrow> None | Some x \<Rightarrow> if p x then Some x else None)"

definition z_trim :: "string schema \<Rightarrow> string schema" where
  "z_trim z v = map_option trim (z v)"

definition z_min :: "nat \<Rightarrow> 'a list schema \<Rightarrow> 'a list schema" where
  "z_min n = z_check (\<lambda>s. n \<le> length s)"

definition z_max :: "nat \<Rightarrow> 'a list schema \<Rightarrow> 'a list schema" where
  "z_max n = z_check (\<lambda>s. length s \<le> n)"

definition z_optional :: "'a schema \<Rightarrow> 'a option schema" where
  "z_optional z v = (case v of None \<Rightarrow> Some None | Some _ \<Rightarrow> map_option Some (z v))"

text \<open>\<open>z.enum\<close>: the key of the table whose wire string the value is.\<close>

definition z_enum :: "('k \<times> string) list \<Rightarrow> 'k schema" where
  "z_enum table v =
    (case z_string v of None \<Rightarrow> None | Some s \<Rightarrow> map_option fst (List.find (\<lambda>(_, t). t = s) table))"

definition z_array :: "'a schema \<Rightarrow> 'a list schema" where
  "z_array z v =
    (case v of
       Some (JArr xs) \<Rightarrow> those (map (\<lambda>x. z (Some x)) xs)
     | _ \<Rightarrow> None)"

text \<open>\<open>z.object\<close>: the fields of an object; the fields the schema does not name are dropped.\<close>

definition field :: "string \<Rightarrow> 'a schema \<Rightarrow> 'a schema" where
  "field name z v = (case v of Some (JObj fs) \<Rightarrow> z (map_of fs name) | _ \<Rightarrow> None)"

text \<open>\<open>schema.parse(value)\<close> throws when a field is refused, naming the refused ones.\<close>

definition parse_with :: "(string \<times> bool) list \<Rightarrow> 'a \<Rightarrow> 'a api" where
  "parse_with checks x =
    (if list_all snd checks then ret x else throw (ZodError (map fst (filter (\<lambda>f. \<not> snd f) checks))))"

section \<open>Authentication (\<open>auth.ts\<close>)\<close>

definition MIN_PASSWORD_LENGTH :: nat where "MIN_PASSWORD_LENGTH = 12"

definition MAX_PASSWORD_LENGTH :: nat where "MAX_PASSWORD_LENGTH = 200"

definition emailSchema :: "validators \<Rightarrow> string schema" where
  "emailSchema zv = z_check (zv_email zv) (z_max 320 (z_min 1 (z_trim z_string)))"

definition displayNameSchema :: "string schema" where
  "displayNameSchema = z_max 100 (z_min 1 (z_trim z_string))"

definition newPasswordSchema :: "string schema" where
  "newPasswordSchema = z_max MAX_PASSWORD_LENGTH (z_min MIN_PASSWORD_LENGTH z_string)"

definition submittedPasswordSchema :: "string schema" where
  "submittedPasswordSchema = z_max MAX_PASSWORD_LENGTH (z_min 1 z_string)"

definition tokenSchema :: "string schema" where
  "tokenSchema = z_max 512 (z_min 1 z_string)"

definition registerRequestSchema :: "validators \<Rightarrow> json option \<Rightarrow> register_input api" where
  "registerRequestSchema zv body =
    (let email = field ''email'' (emailSchema zv) body;
         password = field ''password'' newPasswordSchema body;
         displayName = field ''displayName'' displayNameSchema body;
         invitationToken = field ''invitationToken'' (z_optional (z_min 1 z_string)) body
     in parse_with
       [(''email'', email \<noteq> None), (''password'', password \<noteq> None), (''displayName'', displayName \<noteq> None),
        (''invitationToken'', invitationToken \<noteq> None)]
       \<lparr>ri_email = the email, ri_password = the password, ri_displayName = the displayName,
        ri_invitationToken = the invitationToken\<rparr>)"

definition loginRequestSchema :: "validators \<Rightarrow> json option \<Rightarrow> (string \<times> string) api" where
  "loginRequestSchema zv body =
    (let email = field ''email'' (emailSchema zv) body;
         password = field ''password'' submittedPasswordSchema body
     in parse_with [(''email'', email \<noteq> None), (''password'', password \<noteq> None)] (the email, the password))"

text \<open>The schemas with one field: the completion tokens and the recovery request.\<close>

definition single_field :: "string \<Rightarrow> 'a schema \<Rightarrow> json option \<Rightarrow> 'a api" where
  "single_field name z body = (let x = field name z body in parse_with [(name, x \<noteq> None)] (the x))"

definition registrationCompleteRequestSchema :: "json option \<Rightarrow> string api" where
  "registrationCompleteRequestSchema = single_field ''token'' tokenSchema"

definition emailVerificationCompleteRequestSchema :: "json option \<Rightarrow> string api" where
  "emailVerificationCompleteRequestSchema = single_field ''token'' tokenSchema"

definition passwordRecoveryRequestSchema :: "validators \<Rightarrow> json option \<Rightarrow> string api" where
  "passwordRecoveryRequestSchema zv = single_field ''email'' (emailSchema zv)"

definition passwordRecoveryCompleteRequestSchema :: "json option \<Rightarrow> (string \<times> string) api" where
  "passwordRecoveryCompleteRequestSchema body =
    (let token = field ''token'' tokenSchema body; newPassword = field ''newPassword'' newPasswordSchema body
     in parse_with [(''token'', token \<noteq> None), (''newPassword'', newPassword \<noteq> None)] (the token, the newPassword))"

definition changePasswordRequestSchema :: "json option \<Rightarrow> (string \<times> string) api" where
  "changePasswordRequestSchema body =
    (let currentPassword = field ''currentPassword'' submittedPasswordSchema body;
         newPassword = field ''newPassword'' newPasswordSchema body
     in parse_with [(''currentPassword'', currentPassword \<noteq> None), (''newPassword'', newPassword \<noteq> None)]
       (the currentPassword, the newPassword))"

definition changeEmailRequestSchema :: "validators \<Rightarrow> json option \<Rightarrow> (string \<times> string) api" where
  "changeEmailRequestSchema zv body =
    (let currentPassword = field ''currentPassword'' submittedPasswordSchema body;
         newEmail = field ''newEmail'' (emailSchema zv) body
     in parse_with [(''currentPassword'', currentPassword \<noteq> None), (''newEmail'', newEmail \<noteq> None)]
       (the currentPassword, the newEmail))"

section \<open>Pages (\<open>pagination.ts\<close>)\<close>

definition DEFAULT_PAGE_LIMIT :: nat where "DEFAULT_PAGE_LIMIT = 20"

definition MAX_PAGE_LIMIT :: nat where "MAX_PAGE_LIMIT = 100"

text \<open>
  \<open>z.coerce.number()\<close> applies \<open>Number\<close> to the query string first; \<open>JNum\<close> stands for an integral
  result, any other value for one that is not.
\<close>

definition limitSchema :: "nat schema" where
  "limitSchema v =
    (case v of
       None \<Rightarrow> Some DEFAULT_PAGE_LIMIT
     | Some (JNum n) \<Rightarrow> if 1 \<le> n \<and> n \<le> int MAX_PAGE_LIMIT then Some (nat n) else None
     | _ \<Rightarrow> None)"

definition cursorPageParamsSchema :: "json option \<Rightarrow> (string option \<times> nat) api" where
  "cursorPageParamsSchema query =
    (let cursor = field ''cursor'' (z_optional (z_min 1 z_string)) query;
         limit = field ''limit'' limitSchema query
     in parse_with [(''cursor'', cursor \<noteq> None), (''limit'', limit \<noteq> None)] (the cursor, the limit))"

section \<open>Organizations, members, plans, projects, keys and invitations\<close>

definition MAX_ORGANIZATION_NAME_LENGTH :: nat where "MAX_ORGANIZATION_NAME_LENGTH = 100"

definition MAX_ORGANIZATION_SLUG_LENGTH :: nat where "MAX_ORGANIZATION_SLUG_LENGTH = 48"

definition organizationSlugSchema :: "string schema" where
  "organizationSlugSchema =
    z_check slug_pattern (z_max MAX_ORGANIZATION_SLUG_LENGTH (z_min 1 (z_trim z_string)))"

definition organizationCreateRequestSchema :: "json option \<Rightarrow> (string \<times> string option) api" where
  "organizationCreateRequestSchema body =
    (let name = field ''name'' (z_max MAX_ORGANIZATION_NAME_LENGTH (z_min 1 (z_trim z_string))) body;
         slug = field ''slug'' (z_optional organizationSlugSchema) body
     in parse_with [(''name'', name \<noteq> None), (''slug'', slug \<noteq> None)] (the name, the slug))"

definition ROLE_KEYS :: "(role_key \<times> string) list" where
  "ROLE_KEYS = [(Owner, ''owner''), (Admin, ''admin''), (Member, ''member''), (Viewer, ''viewer'')]"

definition PLAN_KEYS :: "(plan_key \<times> string) list" where
  "PLAN_KEYS = [(Free, ''free''), (Pro, ''pro''), (Business, ''business'')]"

definition memberRoleChangeRequestSchema :: "json option \<Rightarrow> role_key api" where
  "memberRoleChangeRequestSchema = single_field ''role'' (z_enum ROLE_KEYS)"

definition demoPlanChangeRequestSchema :: "json option \<Rightarrow> plan_key api" where
  "demoPlanChangeRequestSchema = single_field ''planKey'' (z_enum PLAN_KEYS)"

definition MAX_PROJECT_NAME_LENGTH :: nat where "MAX_PROJECT_NAME_LENGTH = 120"

definition projectCreateRequestSchema :: "json option \<Rightarrow> string api" where
  "projectCreateRequestSchema = single_field ''name'' (z_max MAX_PROJECT_NAME_LENGTH (z_min 1 (z_trim z_string)))"

definition projectUpdateRequestSchema :: "json option \<Rightarrow> string api" where
  "projectUpdateRequestSchema = single_field ''name'' (z_max MAX_PROJECT_NAME_LENGTH (z_min 1 (z_trim z_string)))"

definition MAX_API_KEY_NAME_LENGTH :: nat where "MAX_API_KEY_NAME_LENGTH = 120"

definition API_KEY_SCOPES :: "(api_key_scope \<times> string) list" where
  "API_KEY_SCOPES = [(ProjectsReadScope, ''projects.read'')]"

definition apiKeyCreateRequestSchema ::
  "validators \<Rightarrow> json option \<Rightarrow> (string \<times> api_key_scope list \<times> string option) api" where
  "apiKeyCreateRequestSchema zv body =
    (let name = field ''name'' (z_max MAX_API_KEY_NAME_LENGTH (z_min 1 (z_trim z_string))) body;
         scopes = field ''scopes'' (z_min 1 (z_array (z_enum API_KEY_SCOPES))) body;
         expiresAt = field ''expiresAt'' (z_optional (z_check (zv_datetime zv) z_string)) body
     in parse_with [(''name'', name \<noteq> None), (''scopes'', scopes \<noteq> None), (''expiresAt'', expiresAt \<noteq> None)]
       (the name, the scopes, the expiresAt))"

definition MAX_INVITED_EMAIL_LENGTH :: nat where "MAX_INVITED_EMAIL_LENGTH = 320"

definition invitedEmailSchema :: "validators \<Rightarrow> string schema" where
  "invitedEmailSchema zv = z_check (zv_email zv) (z_max MAX_INVITED_EMAIL_LENGTH (z_min 1 (z_trim z_string)))"

definition invitationCreateRequestSchema :: "validators \<Rightarrow> json option \<Rightarrow> (string \<times> role_key) api" where
  "invitationCreateRequestSchema zv body =
    (let email = field ''email'' (invitedEmailSchema zv) body; role = field ''role'' (z_enum ROLE_KEYS) body
     in parse_with [(''email'', email \<noteq> None), (''role'', role \<noteq> None)] (the email, the role))"

definition invitationTokenRequestSchema :: "json option \<Rightarrow> string api" where
  "invitationTokenRequestSchema = single_field ''token'' (z_min 1 z_string)"

section \<open>The audit query (\<open>audit.ts\<close>)\<close>

definition AUDIT_ACTOR_TYPES :: "(audit_actor_type \<times> string) list" where
  "AUDIT_ACTOR_TYPES =
    [(AuditUser, ''user''), (AuditApiKey, ''api_key''), (AuditSystem, ''system''), (AuditUnknown, ''unknown'')]"

definition AUDIT_TARGET_TYPES :: "(audit_target_type \<times> string) list" where
  "AUDIT_TARGET_TYPES =
    [(MembershipTarget, ''membership''), (ProjectTarget, ''project''), (PlanTarget, ''plan''),
     (ApiKeyTarget, ''api_key''), (InvitationTarget, ''invitation''), (OrganizationTarget, ''organization''),
     (UnknownTarget, ''unknown'')]"

definition auditListQuerySchema :: "validators \<Rightarrow> json option \<Rightarrow> list_audit_input \<Rightarrow> list_audit_input api" where
  "auditListQuerySchema zv query base =
    (let cursor = field ''cursor'' (z_optional (z_min 1 z_string)) query;
         limit = field ''limit'' limitSchema query;
         eventType = field ''eventType'' (z_optional (z_enum AUDIT_EVENT_TYPES)) query;
         actorType = field ''actorType'' (z_optional (z_enum AUDIT_ACTOR_TYPES)) query;
         targetType = field ''targetType'' (z_optional (z_enum AUDIT_TARGET_TYPES)) query;
         actorId = field ''actorId'' (z_optional (z_min 1 z_string)) query;
         targetId = field ''targetId'' (z_optional (z_min 1 z_string)) query;
         createdAfter = field ''createdAfter'' (z_optional (z_check (zv_datetime zv) z_string)) query;
         createdBefore = field ''createdBefore'' (z_optional (z_check (zv_datetime zv) z_string)) query
     in parse_with
       [(''cursor'', cursor \<noteq> None), (''limit'', limit \<noteq> None), (''eventType'', eventType \<noteq> None),
        (''actorType'', actorType \<noteq> None), (''targetType'', targetType \<noteq> None), (''actorId'', actorId \<noteq> None),
        (''targetId'', targetId \<noteq> None), (''createdAfter'', createdAfter \<noteq> None),
        (''createdBefore'', createdBefore \<noteq> None)]
       (base\<lparr>la_cursor := the cursor, la_limit := the limit, la_eventType := the eventType,
        la_actorType := the actorType, la_targetType := the targetType, la_actorId := the actorId,
        la_targetId := the targetId, la_createdAfter := map_option (dateParse zv) (the createdAfter),
        la_createdBefore := map_option (dateParse zv) (the createdBefore)\<rparr>))"

text \<open>Route parameters that must not be empty.\<close>

definition routeParamsSchema :: "(string \<times> string) list \<Rightarrow> unit api" where
  "routeParamsSchema ps = parse_with (map (\<lambda>(name, v). (name, v \<noteq> [])) ps) ()"

section \<open>What a schema lets through\<close>

lemma wp_parse_with [wp_simps]:
  "wp (parse_with fs x) Q E = (\<lambda>w. if list_all snd fs then Q x w else E (ZodError (map fst (filter (\<lambda>f. \<not> snd f) fs))) w)"
  by (simp add: parse_with_def wp_simps fun_eq_iff)

lemma keeps_parse_with [preserve_intros]: "preserves P (parse_with fs x)"
  by (simp add: parse_with_def preserve_intros)

lemma keeps_single_field [preserve_intros]: "preserves P (single_field n z v)"
  by (simp add: single_field_def Let_def keeps_parse_with)

lemmas request_schemas = registerRequestSchema_def loginRequestSchema_def registrationCompleteRequestSchema_def
  emailVerificationCompleteRequestSchema_def passwordRecoveryRequestSchema_def
  passwordRecoveryCompleteRequestSchema_def changePasswordRequestSchema_def changeEmailRequestSchema_def
  cursorPageParamsSchema_def organizationCreateRequestSchema_def memberRoleChangeRequestSchema_def
  demoPlanChangeRequestSchema_def projectCreateRequestSchema_def projectUpdateRequestSchema_def
  apiKeyCreateRequestSchema_def invitationCreateRequestSchema_def invitationTokenRequestSchema_def
  auditListQuerySchema_def routeParamsSchema_def

lemma keeps_schemas [preserve_intros]:
  "preserves P (registerRequestSchema zv v)" "preserves P (loginRequestSchema zv v)"
  "preserves P (registrationCompleteRequestSchema v)" "preserves P (emailVerificationCompleteRequestSchema v)"
  "preserves P (passwordRecoveryRequestSchema zv v)" "preserves P (passwordRecoveryCompleteRequestSchema v)"
  "preserves P (changePasswordRequestSchema v)" "preserves P (changeEmailRequestSchema zv v)"
  "preserves P (cursorPageParamsSchema v)" "preserves P (organizationCreateRequestSchema v)"
  "preserves P (memberRoleChangeRequestSchema v)" "preserves P (demoPlanChangeRequestSchema v)"
  "preserves P (projectCreateRequestSchema v)" "preserves P (projectUpdateRequestSchema v)"
  "preserves P (apiKeyCreateRequestSchema zv v)" "preserves P (invitationCreateRequestSchema zv v)"
  "preserves P (invitationTokenRequestSchema v)" "preserves P (auditListQuerySchema zv v b)"
  "preserves P (routeParamsSchema ps)"
  unfolding request_schemas Let_def by (intro preserve_intros)+

end
