(* ===== verification/Http.thy ===== *)
theory Http
  imports Requests
begin

text \<open>
  The HTTP edge of the API (\<^verbatim>\<open>apps/api/src/lib\<close>, \<^verbatim>\<open>apps/api/src/plugins\<close>): the request a handler sees, the
  bearer token, the refresh cookie, the global rate limit and the error handler that turns what a
  handler throws into one envelope. Fastify's routing and header parsing are not modelled: a request
  comes with its parsed body, query and route parameters.
\<close>

section \<open>Requests and replies\<close>

record http_request =
  rq_id :: string
  rq_method :: string
  rq_url :: string
  rq_ip :: string
  rq_userAgent :: "string option"
  rq_authorization :: "string option"
  rq_cookie :: "string option"
  rq_headers :: "string \<Rightarrow> header_value"
  rq_body :: "json option"
  rq_query :: "json option"

definition requestContext :: "http_request \<Rightarrow> request_ctx" where
  "requestContext request =
    \<lparr>ctx_requestId = Some (rq_id request),
     ctx_ipAddress = (if rq_ip request = [] then None else Some (rq_ip request)),
     ctx_userAgent = rq_userAgent request\<rparr>"

definition authenticationRequiredError :: error where
  "authenticationRequiredError = AppError UNAUTHORIZED 401 ''Authentication is required.'' NoDetails"

definition requireBearerToken :: "http_request \<Rightarrow> string api" where
  "requireBearerToken request =
    (case rq_authorization request of
       None \<Rightarrow> throw authenticationRequiredError
     | Some header \<Rightarrow>
         if header = [] \<or> \<not> startsWith header ''Bearer '' then throw authenticationRequiredError
         else let token = trim (drop (length ''Bearer '') header) in
           if length token = 0 then throw authenticationRequiredError else ret token)"

datatype envelope_details = NoEnvelopeDetails | AppDetails error_details | Issues "string list"

datatype 'a envelope =
    SuccessEnvelope 'a
  | ErrorEnvelope error_code string string envelope_details \<comment> \<open>code, message, request id, details\<close>

record 'a http_response =
  rs_status :: nat
  rs_setCookie :: "string option"
  rs_body :: "'a envelope"

definition makeError :: "error_code \<Rightarrow> string \<Rightarrow> string \<Rightarrow> error_details \<Rightarrow> 'a envelope" where
  "makeError code message requestId details =
    ErrorEnvelope code message requestId
      (if details = NoDetails then NoEnvelopeDetails else AppDetails details)"

text \<open>The error handler (\<^verbatim>\<open>plugins/error-handler.ts\<close>): only an \<open>AppError\<close> or a schema refusal speaks for itself.\<close>

fun errorReply :: "string \<Rightarrow> error \<Rightarrow> nat \<times> 'a envelope" where
  "errorReply requestId (AppError code statusCode message details) =
    (statusCode, makeError code message requestId details)"
| "errorReply requestId (ZodError issues) =
    (400, ErrorEnvelope VALIDATION_ERROR ''Request validation failed.'' requestId (Issues issues))"
| "errorReply requestId (DbError _) =
    (500, ErrorEnvelope INTERNAL_ERROR ''An unexpected error occurred.'' requestId NoEnvelopeDetails)"
| "errorReply requestId (ThrownError _) =
    (500, ErrorEnvelope INTERNAL_ERROR ''An unexpected error occurred.'' requestId NoEnvelopeDetails)"

section \<open>The refresh cookie (\<^verbatim>\<open>lib/cookies.ts\<close>)\<close>

record cookie_attributes =
  ck_cookieName :: string
  ck_path :: string
  ck_secure :: bool
  ck_maxAgeSeconds :: nat

definition serializeCookie :: "string \<Rightarrow> cookie_attributes \<Rightarrow> nat \<Rightarrow> string" where
  "serializeCookie v attributes maxAgeSeconds =
    ck_cookieName attributes @ ''='' @ encodeURIComponent v @ ''; Path='' @ ck_path attributes @
    ''; SameSite=Lax; Max-Age='' @ show_nat maxAgeSeconds @ ''; HttpOnly'' @
    (if ck_secure attributes then ''; Secure'' else []) @
    (if maxAgeSeconds = 0 then ''; Expires=Thu, 01 Jan 1970 00:00:00 GMT'' else [])"

definition setRefreshCookie :: "string \<Rightarrow> cookie_attributes \<Rightarrow> string" where
  "setRefreshCookie rawToken attributes = serializeCookie rawToken attributes (ck_maxAgeSeconds attributes)"

definition clearRefreshCookie :: "cookie_attributes \<Rightarrow> string" where
  "clearRefreshCookie attributes = serializeCookie [] attributes 0"

text \<open>
  \<open>decodeURIComponent\<close>: a malformed escape throws a \<open>URIError\<close> (\<open>None\<close>). A character beyond U+00FF
  has no \<open>char\<close> and is read as the substitute of the codec.
\<close>

definition hex_value :: "char \<Rightarrow> nat option" where
  "hex_value c =
    (let n = of_char c :: nat in
     if 48 \<le> n \<and> n \<le> 57 then Some (n - 48)
     else if 65 \<le> n \<and> n \<le> 70 then Some (n - 55)
     else if 97 \<le> n \<and> n \<le> 102 then Some (n - 87) else None)"

fun escaped_byte :: "string \<Rightarrow> (nat \<times> string) option" where
  "escaped_byte (p # a # b # s) =
    (if p = CHR ''%'' then
       case (hex_value a, hex_value b) of (Some x, Some y) \<Rightarrow> Some (16 * x + y, s) | _ \<Rightarrow> None
     else None)"
| "escaped_byte _ = None"

fun continuation_bytes :: "nat \<Rightarrow> nat \<Rightarrow> string \<Rightarrow> (nat \<times> string) option" where
  "continuation_bytes 0 acc s = Some (acc, s)"
| "continuation_bytes (Suc n) acc s =
    (case escaped_byte s of
       Some (b, t) \<Rightarrow> if 128 \<le> b \<and> b < 192 then continuation_bytes n (64 * acc + (b - 128)) t else None
     | None \<Rightarrow> None)"

definition escaped_point :: "string \<Rightarrow> (nat \<times> string) option" where
  "escaped_point s =
    (let long = (\<lambda>n lead t ok. Option.bind (continuation_bytes n lead t) (\<lambda>(cp, u). if ok cp then Some (cp, u) else None)) in
     case escaped_byte s of
       None \<Rightarrow> None
     | Some (b, t) \<Rightarrow>
         if b < 128 then Some (b, t)
         else if 192 \<le> b \<and> b < 224 then long 1 (b - 192) t (\<lambda>cp. 128 \<le> cp)
         else if 224 \<le> b \<and> b < 240 then long 2 (b - 224) t (\<lambda>cp. 2048 \<le> cp \<and> \<not> (55296 \<le> cp \<and> cp < 57344))
         else if 240 \<le> b \<and> b < 248 then long 3 (b - 240) t (\<lambda>cp. 65536 \<le> cp \<and> cp < 1114112)
         else None)"

lemma escaped_byte_shorter: "escaped_byte s = Some (b, t) \<Longrightarrow> length t < length s"
  by (cases s rule: escaped_byte.cases) (auto split: if_splits option.splits)

lemma continuation_bytes_shorter: "continuation_bytes n acc s = Some (cp, t) \<Longrightarrow> length t \<le> length s"
  by (induction n acc s rule: continuation_bytes.induct)
    (fastforce split: option.splits if_splits prod.splits dest: escaped_byte_shorter)+

lemma escaped_point_shorter: "escaped_point s = Some (cp, t) \<Longrightarrow> length t < length s"
  by (fastforce simp: escaped_point_def Let_def bind_eq_Some_conv split: option.splits if_splits prod.splits
      dest: escaped_byte_shorter continuation_bytes_shorter)

function decodeURIComponent :: "string \<Rightarrow> string option" where
  "decodeURIComponent [] = Some []"
| "decodeURIComponent (c # s) =
    (if c \<noteq> CHR ''%'' then map_option ((#) c) (decodeURIComponent s)
     else case escaped_point (c # s) of
            None \<Rightarrow> None
          | Some (cp, t) \<Rightarrow> map_option ((#) (if cp < 256 then char_of cp else SUBSTITUTE)) (decodeURIComponent t))"
  by pat_completeness auto
termination
  by (relation "measure length") (auto dest: escaped_point_shorter)

fun split_on :: "char \<Rightarrow> string \<Rightarrow> string list" where
  "split_on d [] = [[]]"
| "split_on d (c # s) =
    (if c = d then [] # split_on d s
     else case split_on d s of [] \<Rightarrow> [[c]] | w # ws \<Rightarrow> (c # w) # ws)"

fun cookie_in :: "string \<Rightarrow> string list \<Rightarrow> string option" where
  "cookie_in name [] = None"
| "cookie_in name (pair # pairs) =
    (case indexOf (CHR ''='') pair of
       None \<Rightarrow> cookie_in name pairs
     | Some separator \<Rightarrow>
         if separator = 0 then cookie_in name pairs
         else if trim (take separator pair) = name then Some (trim (drop (separator + 1) pair))
         else cookie_in name pairs)"

definition readCookie :: "http_request \<Rightarrow> string \<Rightarrow> string option api" where
  "readCookie request name =
    (case rq_cookie request of
       None \<Rightarrow> ret None
     | Some header \<Rightarrow>
         if header = [] then ret None
         else case cookie_in name (split_on (CHR '';'') header) of
                None \<Rightarrow> ret None
              | Some v \<Rightarrow>
                  case decodeURIComponent v of
                    None \<Rightarrow> throw (ThrownError ''URI malformed'')
                  | Some t \<Rightarrow> ret (Some t))"

section \<open>The CSRF header (\<^verbatim>\<open>auth.routes.ts\<close>)\<close>

definition requireCsrfHeader :: "http_request \<Rightarrow> string \<Rightarrow> unit api" where
  "requireCsrfHeader request headerName =
    guardP (case rq_headers request headerName of
        Absent \<Rightarrow> False | Single v \<Rightarrow> trim v \<noteq> [] | Repeated vs \<Rightarrow> True)
      csrfRequiredError"

section \<open>The global rate limit (\<^verbatim>\<open>plugins/global-rate-limit.ts\<close>)\<close>

record global_limit =
  gl_limiter :: "limiter_kind option" \<comment> \<open>\<open>None\<close>: not registered\<close>
  gl_maxPerIp :: nat
  gl_windowSeconds :: nat

definition EXEMPT_PATHS :: "string list" where
  "EXEMPT_PATHS = [''/health'', ''/ready'']"

definition url_path :: "string \<Rightarrow> string" where
  "url_path url = takeWhile (\<lambda>c. c \<noteq> CHR ''?'') url"

definition globalRateLimit :: "global_limit \<Rightarrow> http_request \<Rightarrow> unit api" where
  "globalRateLimit options request =
    (case gl_limiter options of
       None \<Rightarrow> ret ()
     | Some limiter \<Rightarrow>
         if rq_method request = ''OPTIONS'' then ret ()
         else if url_path (rq_url request) \<in> set EXEMPT_PATHS then ret ()
         else
           bindP (rl_consume limiter (''rl:global:ip:'' @ rq_ip request) (gl_maxPerIp options) (gl_windowSeconds options))
            (\<lambda>decision. if decision = Limited then throw rateLimitedError else ret ()))"

section \<open>Handlers\<close>

text \<open>
  A handler answers with a status and data, or throws; the \<open>Set-Cookie\<close> header it set goes out in
  both cases. What it throws without having set a cookie is the error of the program.
\<close>

record 'a handled =
  hd_cookie :: "string option"
  hd_outcome :: "error + (nat \<times> 'a)"

type_synonym 'a handler = "http_request \<Rightarrow> 'a handled api"

definition sendSuccess :: "'a \<Rightarrow> nat \<Rightarrow> 'a handled api" where
  "sendSuccess x statusCode = ret \<lparr>hd_cookie = None, hd_outcome = Inr (statusCode, x)\<rparr>"

definition sendWithCookie :: "string \<Rightarrow> 'a \<Rightarrow> nat \<Rightarrow> 'a handled api" where
  "sendWithCookie cookie x statusCode = ret \<lparr>hd_cookie = Some cookie, hd_outcome = Inr (statusCode, x)\<rparr>"

definition throwWithCookie :: "string \<Rightarrow> error \<Rightarrow> 'a handled api" where
  "throwWithCookie cookie e = ret \<lparr>hd_cookie = Some cookie, hd_outcome = Inl e\<rparr>"

fun respond :: "string \<Rightarrow> error + 'a handled \<Rightarrow> 'a http_response" where
  "respond requestId (Inl e) =
    (case errorReply requestId e of (statusCode, envelope) \<Rightarrow>
      \<lparr>rs_status = statusCode, rs_setCookie = None, rs_body = envelope\<rparr>)"
| "respond requestId (Inr h) =
    (case hd_outcome h of
       Inl e \<Rightarrow> (case errorReply requestId e of (statusCode, envelope) \<Rightarrow>
         \<lparr>rs_status = statusCode, rs_setCookie = hd_cookie h, rs_body = envelope\<rparr>)
     | Inr (statusCode, x) \<Rightarrow>
         \<lparr>rs_status = statusCode, rs_setCookie = hd_cookie h, rs_body = SuccessEnvelope x\<rparr>)"

definition exchange :: "global_limit \<Rightarrow> 'a handler \<Rightarrow> http_request \<Rightarrow> world \<Rightarrow> 'a http_response \<times> world" where
  "exchange limit handler request w =
    (case thenP (globalRateLimit limit request) (handler request) w of
       (r, w') \<Rightarrow> (respond (rq_id request) r, w'))"

lemma exchange_world: "snd (exchange l h request w) = final (thenP (globalRateLimit l request) (h request)) w"
  by (simp add: exchange_def split_beta)

lemma wp_send [wp_simps]:
  "wp (sendSuccess x n) Q E = Q \<lparr>hd_cookie = None, hd_outcome = Inr (n, x)\<rparr>"
  "wp (sendWithCookie k x n) Q E = Q \<lparr>hd_cookie = Some k, hd_outcome = Inr (n, x)\<rparr>"
  "wp (throwWithCookie k e) Q E = Q \<lparr>hd_cookie = Some k, hd_outcome = Inl e\<rparr>"
  by (simp_all add: sendSuccess_def sendWithCookie_def throwWithCookie_def wp_ret)

lemma keeps_rl_consume: "keeps P (rl_consume k key n s)"
  unfolding preserves_wp by (auto intro!: wp_rl_consume simp: same_but_limiter_fields)

lemma keeps_http [preserve_intros]:
  "preserves P' (requireBearerToken request)" "preserves P' (readCookie request name)"
  "preserves P' (requireCsrfHeader request name)" "keeps P (globalRateLimit l request)"
  "preserves P' (sendSuccess x n)" "preserves P' (sendWithCookie k x n)" "preserves P' (throwWithCookie k e)"
  unfolding requireBearerToken_def readCookie_def requireCsrfHeader_def globalRateLimit_def
    sendSuccess_def sendWithCookie_def throwWithCookie_def Let_def
  by (intro preserve_intros keeps_rl_consume)+

end
