(* ===== verification/Routes.thy ===== *)
theory Routes
  imports Http
begin

text \<open>
  The routes of the API: what each reads of the request, which service operation it calls and what
  it answers. Every route of an organization first resolves the caller from the bearer token; the
  caller's id never comes from the request.
\<close>

section \<open>The services behind the routes\<close>

record environment =
  en_crypto :: crypto
  en_validators :: validators
  en_global :: global_limit
  en_refreshCookie :: cookie_attributes
  en_csrfHeaderName :: string
  en_auth :: auth_options
  en_verification :: verification_options
  en_recovery :: recovery_options
  en_registration :: registration_options
  en_organization :: organization_options
  en_member :: member_options
  en_plan :: plan_options
  en_project :: project_options
  en_apiKey :: api_key_options
  en_authenticator :: authenticator_options
  en_invitation :: invitation_options
  en_audit :: audit_options

datatype payload =
    SessionPayload auth_user tokens_response
  | UserPayload auth_user
  | TokensPayload tokens_response
  | SuccessPayload
  | AcceptedPayload
  | VerifiedPayload
  | ResetPayload
  | VerificationPayload verification_response
  | CompletionPayload auth_user tokens_response "bool option"
  | SessionsPayload "session_summary page"
  | OrganizationPayload "organization_dto \<times> membership_summary"
  | OrganizationsPayload "(organization_dto \<times> membership_summary) page"
  | MemberPayload member_dto
  | MembersPayload "member_dto page"
  | RolesPayload "role_dto list"
  | PermissionsPayload "permission_dto list"
  | MatrixPayload matrix_response
  | EffectivePayload "string \<times> (string \<times> role_key \<times> string) \<times> permission_key list"
  | ProjectPayload project_dto
  | ProjectsPayload "project_dto page"
  | RemovedPayload "string \<times> bool"
  | PlanPayload organization_plan_response
  | EntitlementsPayload "string \<times> plan_key \<times> entitlement_values"
  | PlanChangePayload "string \<times> plan_dto \<times> entitlement_values"
  | ApiKeyPayload "api_key_dto \<times> string"
  | ApiKeysPayload "api_key_dto page"
  | InvitationPayload invitation_dto
  | InvitationsPayload "invitation_dto page"
  | PublicInvitationPayload public_invitation
  | AuditPayload "audit_event_dto page \<times> nat"
  | ExternalProjectsPayload "external_project page"

text \<open>The \<open>authenticate\<close> helper every route file of the organization surface declares.\<close>

definition authenticate_request :: "environment \<Rightarrow> http_request \<Rightarrow> auth_user api" where
  "authenticate_request env request =
    bindP (requireBearerToken request) (\<lambda>token.
      authenticate_user (en_crypto env) (en_auth env) token (requestContext request))"

section \<open>Authentication (\<^verbatim>\<open>auth.routes.ts\<close>)\<close>

definition route_login :: "environment \<Rightarrow> payload handler" where
  "route_login env request =
    bindP (loginRequestSchema (en_validators env) (rq_body request)) (\<lambda>(email, password).
    bindP (login (en_crypto env) (en_auth env) email password (requestContext request)) (\<lambda>issue.
      sendWithCookie (setRefreshCookie (si_rawRefreshToken issue) (en_refreshCookie env))
        (SessionPayload (si_user issue) (si_tokens issue)) 200))"

definition route_me :: "environment \<Rightarrow> payload handler" where
  "route_me env request =
    bindP (requireBearerToken request) (\<lambda>token.
    bindP (authenticate_user (en_crypto env) (en_auth env) token (requestContext request)) (\<lambda>user.
      sendSuccess (UserPayload user) 200))"

definition route_refresh :: "environment \<Rightarrow> payload handler" where
  "route_refresh env request =
    thenP (requireCsrfHeader request (en_csrfHeaderName env))
   (bindP (readCookie request (ck_cookieName (en_refreshCookie env))) (\<lambda>rawToken.
    if \<not> truthy rawToken
    then throwWithCookie (clearRefreshCookie (en_refreshCookie env)) invalidRefreshTokenError
    else
      bindP (refresh (en_crypto env) (en_auth env) (the rawToken) (requestContext request)) (\<lambda>result.
        case result of
          RefreshRotated tokens rawRefreshToken \<Rightarrow>
            sendWithCookie (setRefreshCookie rawRefreshToken (en_refreshCookie env)) (TokensPayload tokens) 200
        | RefreshReuseDetected \<Rightarrow>
            throwWithCookie (clearRefreshCookie (en_refreshCookie env)) tokenReuseDetectedError
        | RefreshInvalid \<Rightarrow>
            throwWithCookie (clearRefreshCookie (en_refreshCookie env)) invalidRefreshTokenError)))"

definition route_logout :: "environment \<Rightarrow> payload handler" where
  "route_logout env request =
    thenP (requireCsrfHeader request (en_csrfHeaderName env))
   (bindP (readCookie request (ck_cookieName (en_refreshCookie env))) (\<lambda>rawToken.
    thenP (logout (en_crypto env) rawToken (requestContext request))
      (sendWithCookie (clearRefreshCookie (en_refreshCookie env)) SuccessPayload 200)))"

definition route_changePassword :: "environment \<Rightarrow> payload handler" where
  "route_changePassword env request =
    bindP (requireBearerToken request) (\<lambda>token.
    bindP (changePasswordRequestSchema (rq_body request)) (\<lambda>(currentPassword, newPassword).
    thenP (changePassword (en_crypto env) (en_auth env) token currentPassword newPassword (requestContext request))
      (sendSuccess SuccessPayload 200)))"

definition route_changeEmail :: "environment \<Rightarrow> payload handler" where
  "route_changeEmail env request =
    bindP (requireBearerToken request) (\<lambda>token.
    bindP (changeEmailRequestSchema (en_validators env) (rq_body request)) (\<lambda>(currentPassword, newEmail).
    bindP (changeEmail (en_crypto env) (en_auth env) token newEmail currentPassword (requestContext request)) (\<lambda>user.
      sendSuccess (UserPayload user) 200)))"

definition route_sessions :: "environment \<Rightarrow> payload handler" where
  "route_sessions env request =
    bindP (requireBearerToken request) (\<lambda>token.
    bindP (cursorPageParamsSchema (rq_query request)) (\<lambda>(cursor, limit).
    bindP (listSessions (en_crypto env) (en_auth env) token limit cursor (requestContext request)) (\<lambda>page.
      sendSuccess (SessionsPayload page) 200)))"

definition route_revokeSession :: "environment \<Rightarrow> string \<Rightarrow> payload handler" where
  "route_revokeSession env sessionId request =
    bindP (requireBearerToken request) (\<lambda>token.
    bindP (revokeSession (en_crypto env) (en_auth env) token sessionId (requestContext request)) (\<lambda>revokedCurrent.
      if revokedCurrent then sendWithCookie (clearRefreshCookie (en_refreshCookie env)) SuccessPayload 200
      else sendSuccess SuccessPayload 200))"

section \<open>Registration, verification, recovery\<close>

definition route_register :: "environment \<Rightarrow> payload handler" where
  "route_register env request =
    bindP (registerRequestSchema (en_validators env) (rq_body request)) (\<lambda>input.
    thenP (requestRegistration (en_crypto env) (en_registration env) input (requestContext request))
      (sendSuccess AcceptedPayload 200))"

definition route_completeRegistration :: "environment \<Rightarrow> payload handler" where
  "route_completeRegistration env request =
    bindP (registrationCompleteRequestSchema (rq_body request)) (\<lambda>token.
    bindP (completeRegistration (en_crypto env) (en_registration env) token (requestContext request)) (\<lambda>r.
      sendWithCookie (setRefreshCookie (rc_rawRefreshToken r) (en_refreshCookie env))
        (CompletionPayload (rc_user r) (rc_tokens r) (rc_invitation r)) 201))"

definition route_requestVerification :: "environment \<Rightarrow> payload handler" where
  "route_requestVerification env request =
    bindP (authenticate_request env request) (\<lambda>user.
    bindP (requestVerificationEmail (en_crypto env) (en_verification env) user (requestContext request)) (\<lambda>response.
      sendSuccess (VerificationPayload response) 200))"

definition route_completeVerification :: "environment \<Rightarrow> payload handler" where
  "route_completeVerification env request =
    bindP (emailVerificationCompleteRequestSchema (rq_body request)) (\<lambda>token.
    thenP (completeVerification (en_crypto env) (en_verification env) token (requestContext request))
      (sendSuccess VerifiedPayload 200))"

definition route_requestReset :: "environment \<Rightarrow> payload handler" where
  "route_requestReset env request =
    bindP (passwordRecoveryRequestSchema (en_validators env) (rq_body request)) (\<lambda>email.
    thenP (requestReset (en_crypto env) (en_recovery env) email (requestContext request))
      (sendSuccess AcceptedPayload 200))"

definition route_completeReset :: "environment \<Rightarrow> payload handler" where
  "route_completeReset env request =
    bindP (passwordRecoveryCompleteRequestSchema (rq_body request)) (\<lambda>(token, newPassword).
    thenP (completeReset (en_crypto env) (en_recovery env) token newPassword (requestContext request))
      (sendSuccess ResetPayload 200))"

section \<open>Organizations and members\<close>

definition route_createOrganization :: "environment \<Rightarrow> payload handler" where
  "route_createOrganization env request =
    bindP (authenticate_request env request) (\<lambda>user.
    bindP (organizationCreateRequestSchema (rq_body request)) (\<lambda>(name, slug).
    bindP (createOrganization (en_organization env) (au_id user) name slug) (\<lambda>result.
      sendSuccess (OrganizationPayload result) 201)))"

definition route_listOrganizations :: "environment \<Rightarrow> payload handler" where
  "route_listOrganizations env request =
    bindP (authenticate_request env request) (\<lambda>user.
    bindP (cursorPageParamsSchema (rq_query request)) (\<lambda>(cursor, limit).
    bindP (listOrganizations (au_id user) limit cursor) (\<lambda>page. sendSuccess (OrganizationsPayload page) 200)))"

definition route_readOrganization :: "environment \<Rightarrow> string \<Rightarrow> payload handler" where
  "route_readOrganization env organizationId request =
    bindP (authenticate_request env request) (\<lambda>user.
    bindP (readOrganization (au_id user) organizationId) (\<lambda>result. sendSuccess (OrganizationPayload result) 200))"

text \<open>A page of an organization: the caller, the query, then the listing.\<close>

definition list_page :: "environment \<Rightarrow> string \<Rightarrow> (list_input \<Rightarrow> 'a api) \<Rightarrow> ('a \<Rightarrow> payload) \<Rightarrow> payload handler" where
  "list_page env organizationId listing wrap request =
    bindP (authenticate_request env request) (\<lambda>user.
    bindP (cursorPageParamsSchema (rq_query request)) (\<lambda>(cursor, limit).
    bindP (listing \<lparr>li_userId = au_id user, li_organizationId = organizationId,
        li_requestId = ctx_requestId (requestContext request), li_limit = limit, li_cursor = cursor\<rparr>) (\<lambda>page.
      sendSuccess (wrap page) 200)))"

definition route_listMembers :: "environment \<Rightarrow> string \<Rightarrow> payload handler" where
  "route_listMembers env organizationId = list_page env organizationId listMembers MembersPayload"

definition route_changeMemberRole :: "environment \<Rightarrow> string \<Rightarrow> string \<Rightarrow> payload handler" where
  "route_changeMemberRole env organizationId membershipId request =
    bindP (authenticate_request env request) (\<lambda>user.
    bindP (memberRoleChangeRequestSchema (rq_body request)) (\<lambda>role.
    bindP (changeMemberRole_service (en_member env)
        \<lparr>cri_userId = au_id user, cri_organizationId = organizationId, cri_membershipId = membershipId,
         cri_newRole = role, cri_ctx = requestContext request\<rparr>) (\<lambda>member.
      sendSuccess (MemberPayload member) 200)))"

definition route_removeMember :: "environment \<Rightarrow> string \<Rightarrow> string \<Rightarrow> payload handler" where
  "route_removeMember env organizationId membershipId request =
    bindP (authenticate_request env request) (\<lambda>user.
    bindP (removeMember_service (en_member env)
        \<lparr>rmi_userId = au_id user, rmi_organizationId = organizationId, rmi_membershipId = membershipId,
         rmi_ctx = requestContext request\<rparr>) (\<lambda>member.
      sendSuccess (MemberPayload member) 200))"

section \<open>The role matrix\<close>

definition readInput :: "auth_user \<Rightarrow> string \<Rightarrow> http_request \<Rightarrow> org_scoped_read_input" where
  "readInput user organizationId request =
    \<lparr>os_userId = au_id user, os_organizationId = organizationId,
     os_requestId = ctx_requestId (requestContext request)\<rparr>"

definition read_matrix :: "environment \<Rightarrow> string \<Rightarrow> (org_scoped_read_input \<Rightarrow> 'a api) \<Rightarrow> ('a \<Rightarrow> payload) \<Rightarrow> payload handler" where
  "read_matrix env organizationId read wrap request =
    bindP (authenticate_request env request) (\<lambda>user.
    bindP (read (readInput user organizationId request)) (\<lambda>x. sendSuccess (wrap x) 200))"

definition route_orgRoles :: "environment \<Rightarrow> string \<Rightarrow> payload handler" where
  "route_orgRoles env organizationId = read_matrix env organizationId org_listRoles RolesPayload"

definition route_orgPermissions :: "environment \<Rightarrow> string \<Rightarrow> payload handler" where
  "route_orgPermissions env organizationId = read_matrix env organizationId org_listPermissions PermissionsPayload"

definition route_orgMatrix :: "environment \<Rightarrow> string \<Rightarrow> payload handler" where
  "route_orgMatrix env organizationId = read_matrix env organizationId org_getMatrix MatrixPayload"

definition route_effectivePermissions :: "environment \<Rightarrow> string \<Rightarrow> payload handler" where
  "route_effectivePermissions env organizationId =
    read_matrix env organizationId getEffectivePermissions EffectivePayload"

definition route_roles :: "environment \<Rightarrow> payload handler" where
  "route_roles env request =
    thenP (authenticate_request env request) (bindP listRoles (\<lambda>x. sendSuccess (RolesPayload x) 200))"

definition route_permissions :: "environment \<Rightarrow> payload handler" where
  "route_permissions env request =
    thenP (authenticate_request env request) (bindP listPermissions (\<lambda>x. sendSuccess (PermissionsPayload x) 200))"

definition route_matrix :: "environment \<Rightarrow> payload handler" where
  "route_matrix env request =
    thenP (authenticate_request env request) (bindP getMatrix (\<lambda>x. sendSuccess (MatrixPayload x) 200))"

section \<open>Projects\<close>

definition route_listProjects :: "environment \<Rightarrow> string \<Rightarrow> payload handler" where
  "route_listProjects env organizationId = list_page env organizationId listProjects ProjectsPayload"

definition route_createProject :: "environment \<Rightarrow> string \<Rightarrow> payload handler" where
  "route_createProject env organizationId request =
    bindP (authenticate_request env request) (\<lambda>user.
    bindP (projectCreateRequestSchema (rq_body request)) (\<lambda>name.
    bindP (createProject_service (en_project env)
        (create_project_input.make (au_id user) organizationId name (requestContext request))) (\<lambda>project.
      sendSuccess (ProjectPayload project) 201)))"

definition route_readProject :: "environment \<Rightarrow> string \<Rightarrow> string \<Rightarrow> payload handler" where
  "route_readProject env organizationId projectId request =
    bindP (authenticate_request env request) (\<lambda>user.
    thenP (routeParamsSchema [(''organizationId'', organizationId), (''projectId'', projectId)])
   (bindP (readProject (read_project_input.make (au_id user) organizationId projectId
        (ctx_requestId (requestContext request)))) (\<lambda>project.
      sendSuccess (ProjectPayload project) 200)))"

definition route_updateProject :: "environment \<Rightarrow> string \<Rightarrow> string \<Rightarrow> payload handler" where
  "route_updateProject env organizationId projectId request =
    bindP (authenticate_request env request) (\<lambda>user.
    thenP (routeParamsSchema [(''organizationId'', organizationId), (''projectId'', projectId)])
   (bindP (projectUpdateRequestSchema (rq_body request)) (\<lambda>name.
    bindP (updateProject_service (en_project env)
        (update_project_input.make (au_id user) organizationId projectId name (requestContext request))) (\<lambda>project.
      sendSuccess (ProjectPayload project) 200))))"

definition route_deleteProject :: "environment \<Rightarrow> string \<Rightarrow> string \<Rightarrow> payload handler" where
  "route_deleteProject env organizationId projectId request =
    bindP (authenticate_request env request) (\<lambda>user.
    thenP (routeParamsSchema [(''organizationId'', organizationId), (''projectId'', projectId)])
   (bindP (deleteProject (en_project env)
        (delete_project_input.make (au_id user) organizationId projectId (requestContext request))) (\<lambda>r.
      sendSuccess (RemovedPayload r) 200)))"

section \<open>Plans\<close>

definition read_plan :: "environment \<Rightarrow> string \<Rightarrow> (plan_input \<Rightarrow> 'a api) \<Rightarrow> ('a \<Rightarrow> payload) \<Rightarrow> payload handler" where
  "read_plan env organizationId read wrap request =
    bindP (authenticate_request env request) (\<lambda>user.
    bindP (read (plan_input.make (au_id user) organizationId (ctx_requestId (requestContext request)))) (\<lambda>x.
      sendSuccess (wrap x) 200))"

definition route_getPlan :: "environment \<Rightarrow> string \<Rightarrow> payload handler" where
  "route_getPlan env organizationId = read_plan env organizationId getPlan PlanPayload"

definition route_getEntitlements :: "environment \<Rightarrow> string \<Rightarrow> payload handler" where
  "route_getEntitlements env organizationId = read_plan env organizationId getEntitlements EntitlementsPayload"

definition route_changeDemoPlan :: "environment \<Rightarrow> string \<Rightarrow> payload handler" where
  "route_changeDemoPlan env organizationId request =
    bindP (authenticate_request env request) (\<lambda>user.
    bindP (demoPlanChangeRequestSchema (rq_body request)) (\<lambda>planKey.
    bindP (changeDemoPlan (en_plan env)
        \<lparr>cpi_userId = au_id user, cpi_organizationId = organizationId, cpi_targetPlanKey = planKey,
         cpi_ctx = requestContext request\<rparr>) (\<lambda>r.
      sendSuccess (PlanChangePayload r) 200)))"

section \<open>API keys\<close>

definition keyExpiry :: "validators \<Rightarrow> string option \<Rightarrow> date option api" where
  "keyExpiry zv expiresAt =
    (if \<not> truthy expiresAt then ret None
     else
       let parsed = dateParse zv (the expiresAt) in
       bindP (getsP nowMs) (\<lambda>now.
         if parsed \<le> now
         then throw (AppError VALIDATION_ERROR 400 ''expiresAt must be in the future.'' NoDetails)
         else ret (Some parsed)))"

definition route_createApiKey :: "environment \<Rightarrow> string \<Rightarrow> payload handler" where
  "route_createApiKey env organizationId request =
    bindP (authenticate_request env request) (\<lambda>user.
    bindP (apiKeyCreateRequestSchema (en_validators env) (rq_body request)) (\<lambda>(name, scopes, expiresAt).
    bindP (keyExpiry (en_validators env) expiresAt) (\<lambda>expiry.
    bindP (createApiKey_service (en_crypto env) (en_apiKey env)
        \<lparr>ck_userId = au_id user, ck_organizationId = organizationId, ck_name = name, ck_scopes = scopes,
         ck_expiresAt = expiry, ck_ctx = requestContext request\<rparr>) (\<lambda>r.
      sendSuccess (ApiKeyPayload r) 201))))"

definition route_listApiKeys :: "environment \<Rightarrow> string \<Rightarrow> payload handler" where
  "route_listApiKeys env organizationId = list_page env organizationId listApiKeys ApiKeysPayload"

definition route_revokeApiKey :: "environment \<Rightarrow> string \<Rightarrow> string \<Rightarrow> payload handler" where
  "route_revokeApiKey env organizationId apiKeyId request =
    bindP (authenticate_request env request) (\<lambda>user.
    thenP (routeParamsSchema [(''organizationId'', organizationId), (''apiKeyId'', apiKeyId)])
   (bindP (revokeApiKey_service
        \<lparr>rk_userId = au_id user, rk_organizationId = organizationId, rk_apiKeyId = apiKeyId,
         rk_ctx = requestContext request\<rparr>) (\<lambda>r.
      sendSuccess (RemovedPayload r) 200)))"

definition route_externalProjects :: "environment \<Rightarrow> payload handler" where
  "route_externalProjects env request =
    bindP (authenticate (en_crypto env) (en_authenticator env) (bearerCredential (rq_authorization request))
        (request_ctx.extend (requestContext request) (api_key_request_ctx.fields True)) ProjectsReadScope) (\<lambda>actor.
    bindP (cursorPageParamsSchema (rq_query request)) (\<lambda>(cursor, limit).
    bindP (listExternalProjects (ka_organizationId actor) limit cursor) (\<lambda>page.
      sendSuccess (ExternalProjectsPayload page) 200)))"

section \<open>Invitations\<close>

definition route_createInvitation :: "environment \<Rightarrow> string \<Rightarrow> payload handler" where
  "route_createInvitation env organizationId request =
    bindP (authenticate_request env request) (\<lambda>user.
    bindP (invitationCreateRequestSchema (en_validators env) (rq_body request)) (\<lambda>(email, role).
    bindP (createInvitation (en_crypto env) (en_invitation env)
        \<lparr>cii_userId = au_id user, cii_organizationId = organizationId, cii_email = email, cii_role = role,
         cii_ctx = requestContext request\<rparr>) (\<lambda>r.
      sendSuccess (InvitationPayload r) 201)))"

definition route_listInvitations :: "environment \<Rightarrow> string \<Rightarrow> payload handler" where
  "route_listInvitations env organizationId = list_page env organizationId listInvitations InvitationsPayload"

definition route_revokeInvitation :: "environment \<Rightarrow> string \<Rightarrow> string \<Rightarrow> payload handler" where
  "route_revokeInvitation env organizationId invitationId request =
    bindP (authenticate_request env request) (\<lambda>user.
    thenP (routeParamsSchema [(''organizationId'', organizationId), (''invitationId'', invitationId)])
   (bindP (revokeInvitation
        \<lparr>rii_userId = au_id user, rii_organizationId = organizationId, rii_invitationId = invitationId,
         rii_ctx = requestContext request\<rparr>) (\<lambda>r.
      sendSuccess (RemovedPayload r) 200)))"

definition route_inspectInvitation :: "environment \<Rightarrow> payload handler" where
  "route_inspectInvitation env request =
    bindP (invitationTokenRequestSchema (rq_body request)) (\<lambda>token.
    bindP (inspectInvitation (en_crypto env) (en_invitation env) token (requestContext request)) (\<lambda>r.
      sendSuccess (PublicInvitationPayload r) 200))"

definition route_acceptInvitation :: "environment \<Rightarrow> payload handler" where
  "route_acceptInvitation env request =
    bindP (authenticate_request env request) (\<lambda>user.
    bindP (invitationTokenRequestSchema (rq_body request)) (\<lambda>token.
    bindP (acceptInvitation (en_crypto env) (en_invitation env)
        \<lparr>aii_userId = au_id user, aii_userEmail = au_email user, aii_rawToken = token,
         aii_ctx = requestContext request\<rparr>) (\<lambda>r.
      sendSuccess (OrganizationPayload r) 200)))"

section \<open>The audit log\<close>

definition route_auditEvents :: "environment \<Rightarrow> string \<Rightarrow> payload handler" where
  "route_auditEvents env organizationId request =
    bindP (authenticate_request env request) (\<lambda>user.
    thenP (routeParamsSchema [(''organizationId'', organizationId)])
   (bindP (auditListQuerySchema (en_validators env) (rq_query request)
        \<lparr>la_userId = au_id user, la_organizationId = organizationId,
         la_requestId = ctx_requestId (requestContext request), la_limit = 0, la_cursor = None,
         la_eventType = None, la_actorType = None, la_targetType = None, la_actorId = None, la_targetId = None,
         la_createdAfter = None, la_createdBefore = None\<rparr>) (\<lambda>input.
    bindP (listAuditEvents (en_audit env) input) (\<lambda>r. sendSuccess (AuditPayload r) 200))))"

section \<open>The application (\<^verbatim>\<open>app.ts\<close>)\<close>

text \<open>A routed request: the route with its parameters. An unknown one is answered 404.\<close>

datatype route =
    PostLogin | GetMe | PostRefresh | PostLogout | PostChangePassword | PostChangeEmail
  | GetSessions | DeleteSession string
  | PostRegister | PostRegistrationComplete
  | PostVerificationRequest | PostVerificationComplete
  | PostRecoveryRequest | PostRecoveryComplete
  | PostOrganizations | GetOrganizations | GetOrganization string
  | GetMembers string | PatchMemberRole string string | DeleteMember string string
  | GetOrgRoles string | GetOrgPermissions string | GetOrgMatrix string | GetEffective string
  | GetRoles | GetPermissions | GetMatrix
  | GetProjects string | PostProjects string | GetProject string string
  | PatchProject string string | DeleteProject string string
  | GetPlan string | GetEntitlements string | PatchDemoPlan string
  | PostApiKeys string | GetApiKeys string | DeleteApiKey string string
  | PostInvitations string | GetInvitations string | DeleteInvitation string string
  | PostInvitationInspect | PostInvitationAccept
  | GetAuditEvents string
  | GetExternalProjects
  | UnknownRoute

definition notFound :: "payload handler" where
  "notFound request =
    throw (AppError NOT_FOUND 404 (''Route '' @ rq_method request @ '' '' @ rq_url request @ '' not found.'') NoDetails)"

fun serve :: "environment \<Rightarrow> route \<Rightarrow> payload handler" where
  "serve env PostLogin = route_login env"
| "serve env GetMe = route_me env"
| "serve env PostRefresh = route_refresh env"
| "serve env PostLogout = route_logout env"
| "serve env PostChangePassword = route_changePassword env"
| "serve env PostChangeEmail = route_changeEmail env"
| "serve env GetSessions = route_sessions env"
| "serve env (DeleteSession s) = route_revokeSession env s"
| "serve env PostRegister = route_register env"
| "serve env PostRegistrationComplete = route_completeRegistration env"
| "serve env PostVerificationRequest = route_requestVerification env"
| "serve env PostVerificationComplete = route_completeVerification env"
| "serve env PostRecoveryRequest = route_requestReset env"
| "serve env PostRecoveryComplete = route_completeReset env"
| "serve env PostOrganizations = route_createOrganization env"
| "serve env GetOrganizations = route_listOrganizations env"
| "serve env (GetOrganization g) = route_readOrganization env g"
| "serve env (GetMembers g) = route_listMembers env g"
| "serve env (PatchMemberRole g m) = route_changeMemberRole env g m"
| "serve env (DeleteMember g m) = route_removeMember env g m"
| "serve env (GetOrgRoles g) = route_orgRoles env g"
| "serve env (GetOrgPermissions g) = route_orgPermissions env g"
| "serve env (GetOrgMatrix g) = route_orgMatrix env g"
| "serve env (GetEffective g) = route_effectivePermissions env g"
| "serve env GetRoles = route_roles env"
| "serve env GetPermissions = route_permissions env"
| "serve env GetMatrix = route_matrix env"
| "serve env (GetProjects g) = route_listProjects env g"
| "serve env (PostProjects g) = route_createProject env g"
| "serve env (GetProject g p) = route_readProject env g p"
| "serve env (PatchProject g p) = route_updateProject env g p"
| "serve env (DeleteProject g p) = route_deleteProject env g p"
| "serve env (GetPlan g) = route_getPlan env g"
| "serve env (GetEntitlements g) = route_getEntitlements env g"
| "serve env (PatchDemoPlan g) = route_changeDemoPlan env g"
| "serve env (PostApiKeys g) = route_createApiKey env g"
| "serve env (GetApiKeys g) = route_listApiKeys env g"
| "serve env (DeleteApiKey g k) = route_revokeApiKey env g k"
| "serve env (PostInvitations g) = route_createInvitation env g"
| "serve env (GetInvitations g) = route_listInvitations env g"
| "serve env (DeleteInvitation g i) = route_revokeInvitation env g i"
| "serve env PostInvitationInspect = route_inspectInvitation env"
| "serve env PostInvitationAccept = route_acceptInvitation env"
| "serve env (GetAuditEvents g) = route_auditEvents env g"
| "serve env GetExternalProjects = route_externalProjects env"
| "serve env UnknownRoute = notFound"

text \<open>One HTTP exchange with the application.\<close>

definition handle :: "environment \<Rightarrow> route \<Rightarrow> http_request \<Rightarrow> world \<Rightarrow> payload http_response \<times> world" where
  "handle env r = exchange (en_global env) (serve env r)"

end
