(* ===== verification/AccountSamples.thy ===== *)
theory AccountSamples
  imports AuthService Samples
begin

text \<open>
  The concrete cryptography, options and accounts the witnesses of the account properties use: a
  token library that is sound, and a world where Ann has two live sessions and Bob one.
\<close>

section \<open>A sound token library\<close>

fun claim_json :: "claim option \<Rightarrow> json" where
  "claim_json None = JNull"
| "claim_json (Some (StringClaim s)) = JStr s"
| "claim_json (Some (NumberClaim n)) = JNum n"
| "claim_json (Some OtherClaim) = JBool True"

fun json_claim :: "json \<Rightarrow> claim option" where
  "json_claim (JStr s) = Some (StringClaim s)"
| "json_claim (JNum n) = Some (NumberClaim n)"
| "json_claim (JBool _) = Some OtherClaim"
| "json_claim _ = None"

lemma json_claim_json [simp]: "json_claim (claim_json x) = x"
  by (cases x rule: claim_json.cases) simp_all

definition sample_sign :: "string \<Rightarrow> jwt_payload \<Rightarrow> string" where
  "sample_sign k p = encodeCursor
    [(''key'', JStr k), (''sub'', claim_json (p_sub p)), (''sid'', claim_json (p_sessionId p)),
     (''typ'', claim_json (p_type p)), (''iat'', claim_json (p_iat p)), (''exp'', claim_json (p_exp p))]"

definition sample_verify :: "date \<Rightarrow> string \<Rightarrow> string \<Rightarrow> string + jwt_payload" where
  "sample_verify now token k =
    (case decodeCursor token of
       Some (JObj [(_, JStr key), (_, sub), (_, sid), (_, typ), (_, iat), (_, expiry)]) \<Rightarrow>
         if key \<noteq> k then Inl ''signature''
         else if (case expiry of JNum e \<Rightarrow> e \<le> now div 1000 | _ \<Rightarrow> False) then Inl ''expired''
         else Inr \<lparr>p_sub = json_claim sub, p_sessionId = json_claim sid, p_type = json_claim typ,
           p_iat = json_claim iat, p_exp = json_claim expiry\<rparr>
     | _ \<Rightarrow> Inl ''malformed'')"

definition sample_crypto :: crypto where
  "sample_crypto =
    \<lparr>sha256 = (\<lambda>s. CHR ''#'' # s), argonHash = (\<lambda>salt p. p), argonVerify = (\<lambda>h p. Some (h = p)),
     jwtSign = sample_sign, jwtVerify = sample_verify\<rparr>"

lemma sample_crypto_simps [simp]:
  "hashOpaqueToken sample_crypto s = CHR ''#'' # s" "verifyPassword sample_crypto h p = (h = p)"
  "jwtSign sample_crypto = sample_sign" "jwtVerify sample_crypto = sample_verify"
  by (simp_all add: sample_crypto_def hashOpaqueToken_def verifyPassword_def)

lemma sample_sound: "jwt_sound sample_crypto"
  unfolding jwt_sound_def
  by (auto simp: sample_sign_def sample_verify_def cursor_roundtrip)

section \<open>Options and accounts\<close>

definition sample_auth :: auth_options where
  "sample_auth =
    \<lparr>rateLimiter = NoopLimiter, rateLimitFailureMode = FailOpen, jwtSecret = ''new'', previousJwtSecret = Some ''old'',
     accessTokenTtlSeconds = 900, sessionTtlSeconds = 2592000, refreshTokenTtlSeconds = 1209600,
     auth_windowSeconds = 60, loginPerIpMax = 20, loginPerEmailMax = 5, refreshPerSessionMax = 10,
     refreshPerIpMax = 60, changePasswordPerUserMax = 5, changeEmailPerUserMax = 5,
     emailChangeVerification = None\<rparr>"

definition sample_session :: "string \<Rightarrow> string \<Rightarrow> session_row" where
  "sample_session i u =
    \<lparr>s_id = i, s_userId = u, s_ipAddress = None, s_userAgent = None, s_expiresAt = 9000000, s_revokedAt = None,
     s_revokedReason = None, s_createdAt = 0, s_updatedAt = 0\<rparr>"

definition sample_token :: "string \<Rightarrow> string \<Rightarrow> string \<Rightarrow> timestamptz option \<Rightarrow> refresh_token_row" where
  "sample_token i sid raw used =
    \<lparr>rt_id = i, rt_sessionId = sid, rt_tokenHash = CHR ''#'' # raw, rt_familyId = ''f'' @ sid, rt_parentTokenId = None,
     rt_replacementTokenId = None, rt_usedAt = used, rt_expiresAt = 8000000, rt_revokedAt = None,
     rt_revokedReason = None, rt_createdAt = 0\<rparr>"

definition account_db :: database where
  "account_db = sample_db
    \<lparr>sessions := [sample_session ''s1'' ''ann'', sample_session ''s2'' ''ann'', sample_session ''s3'' ''bob''],
     refreshTokens := [sample_token ''r1'' ''s1'' ''spent'' (Some 1), sample_token ''r2'' ''s1'' ''live'' None,
       sample_token ''r3'' ''s2'' ''second'' None, sample_token ''r4'' ''s3'' ''bobs'' None]\<rparr>"

definition account_world :: world where
  "account_world = sample_world\<lparr>db := account_db\<rparr>"

definition sample_ctx :: request_ctx where
  "sample_ctx = \<lparr>ctx_requestId = None, ctx_ipAddress = None, ctx_userAgent = None\<rparr>"

lemma account_world_simps [simp]: "db account_world = account_db" "nowMs account_world = 1000"
  by (simp_all add: account_world_def sample_world_def)

lemma account_unique: "list_all (\<lambda>(n, p). p account_db) unique_constraints"
  by code_simp

lemma account_references: "list_all (\<lambda>(n, p). p account_db) foreign_keys"
  by code_simp

lemma account_ok [simp]: "db_ok account_db"
  using account_unique account_references by (simp add: db_ok_def)

lemma account_catalogued [simp]: "catalogued account_db"
  using sample_catalogued by (simp add: catalogued_def account_db_def)

lemma limited_noop:
  "rateLimiter opts = NoopLimiter \<Longrightarrow> limited opts k l b ctx = ret ()"
  "rateLimiter opts = NoopLimiter \<Longrightarrow> limited_ip opts k l b ctx = ret ()"
  by (simp_all add: fun_eq_iff limited_def limited_ip_def noop_auth_limits limiter_options.truncate_def)

lemma sample_auth_simps [simp]:
  "rateLimiter sample_auth = NoopLimiter" "jwtSecret sample_auth = ''new''" "previousJwtSecret sample_auth = Some ''old''"
  "emailChangeVerification sample_auth = None" "refreshTokenTtlSeconds sample_auth = 1209600"
  "sessionTtlSeconds sample_auth = 2592000"
  by (simp_all add: sample_auth_def)

lemma account_rows [simp]:
  "token_by_hash account_db ''#spent'' = Some (sample_token ''r1'' ''s1'' ''spent'' (Some 1))"
  "token_by_hash account_db ''#live'' = Some (sample_token ''r2'' ''s1'' ''live'' None)"
  "session_by_id account_db ''s1'' = Some (sample_session ''s1'' ''ann'')"
  "session_by_id account_db ''s2'' = Some (sample_session ''s2'' ''ann'')"
  "user_by_id account_db ''ann'' = Some (sample_user ''ann'')"
  by code_simp+

lemma account_sets [simp]:
  "securityEvents account_db = []" "u_id ` set (users account_db) = {''ann'', ''bob'', ''cat'', ''dan''}"
  "s_id ` set (sessions account_db) = {''s1'', ''s2'', ''s3''}"
  using sample_users by (simp_all add: account_db_def sample_events sample_session_def)

text \<open>A token signed with the previous key still authenticates Ann's session.\<close>

lemma access_token_decided_witness:
  "authenticate_user sample_crypto sample_auth (sample_sign ''old'' (accessPayload ''ann'' ''s1'' 900 0)) sample_ctx
     account_world = (Inr (toAuthUser (sample_user ''ann'')), account_world)"
proof -
  show ?thesis
    by (simp add: access_token_decided [OF sample_sound, unfolded sample_crypto_simps, OF refl])
      (auto simp: sample_session_def recoverable_def sample_user_def toDate_def)
qed

end
