(* ===== verification/SessionProtocol.thy ===== *)
theory SessionProtocol
  imports AccountSamples
begin

declare REVOKE_REASONS.simps [simp del]

text \<open>
  The refresh protocol against an abstract session: a session has at most one token that can be
  presented, the spent ones are remembered, and presenting anything but the current token of a live
  session closes it. \<open>refresh\<close> is a simulation of that automaton.
\<close>

section \<open>The abstract session\<close>

record session_abs =
  sa_revoked :: bool
  sa_until :: date
  sa_current :: "(string \<times> date) option"
  sa_spent :: "string set"

datatype answer = AnsRotated | AnsInvalid | AnsReuse

definition closed :: "session_abs \<Rightarrow> session_abs" where
  "closed a = a\<lparr>sa_revoked := True, sa_current := None, sa_spent := sa_spent a \<union> fst ` set_option (sa_current a)\<rparr>"

definition present :: "date \<Rightarrow> string \<Rightarrow> string \<times> date \<Rightarrow> session_abs \<Rightarrow> answer \<times> session_abs" where
  "present now h next_token a =
    (case sa_current a of
       Some (current, until) \<Rightarrow>
         if current = h \<and> \<not> sa_revoked a \<and> now < sa_until a then
           (if now < until
            then (AnsRotated, a\<lparr>sa_current := Some next_token, sa_spent := insert h (sa_spent a)\<rparr>)
            else (AnsInvalid, a))
         else (AnsReuse, closed a)
     | None \<Rightarrow> (AnsReuse, closed a))"

section \<open>The abstraction of the tables\<close>

definition current_token :: "refresh_token_row list \<Rightarrow> string \<Rightarrow> refresh_token_row option" where
  "current_token rs sid = select_first (\<lambda>r. rt_sessionId r = sid \<and> \<not> consumed r) rs"

definition session_state :: "database \<Rightarrow> string \<Rightarrow> session_abs option" where
  "session_state d sid =
    map_option (\<lambda>s.
      \<lparr>sa_revoked = (s_revokedAt s \<noteq> None), sa_until = toDate (s_expiresAt s),
       sa_current = map_option (\<lambda>r. (rt_tokenHash r, toDate (rt_expiresAt r))) (current_token (refreshTokens d) sid),
       sa_spent = rt_tokenHash ` {r \<in> set (refreshTokens d). rt_sessionId r = sid \<and> consumed r}\<rparr>)
     (session_by_id d sid)"

definition families_apart :: "refresh_token_row list \<Rightarrow> bool" where
  "families_apart rs = list_all (\<lambda>r. list_all (\<lambda>r'. rt_familyId r = rt_familyId r' \<longrightarrow>
     rt_sessionId r = rt_sessionId r') rs) rs"

lemma families_apartD:
  "families_apart rs \<Longrightarrow> r \<in> set rs \<Longrightarrow> r' \<in> set rs \<Longrightarrow> rt_familyId r = rt_familyId r' \<Longrightarrow> rt_sessionId r = rt_sessionId r'"
  unfolding families_apart_def list_all_iff by blast

lemma session_state_cong:
  "sessions d' = sessions d \<Longrightarrow> refreshTokens d' = refreshTokens d \<Longrightarrow> session_state d' sid = session_state d sid"
  by (simp add: session_state_def session_by_id_def)

lemma only_events_accounts:
  assumes "only_events d d'"
  shows "sessions d' = sessions d" "refreshTokens d' = refreshTokens d" "users d' = users d"
  using assms by (auto simp: only_events_def)

lemma find_map: "List.find q (map g xs) = map_option g (List.find (\<lambda>x. q (g x)) xs)"
  by (induction xs) auto

lemma current_token_unique:
  assumes "chained rs" and "distinct (map rt_id rs)" and "r \<in> set rs" and "\<not> consumed r"
  shows "current_token rs (rt_sessionId r) = Some r"
proof (cases "current_token rs (rt_sessionId r)")
  case None
  then show ?thesis using assms(3,4) by (auto simp: current_token_def dest: find_NoneD)
next
  case (Some x)
  then have x: "x \<in> set rs" "rt_sessionId x = rt_sessionId r" "\<not> consumed x"
    unfolding current_token_def by (auto dest: find_SomeD)
  then have "rt_id x = rt_id r" by (intro chainedD(2) [OF assms(1)] assms)
  then have "x = r" by (rule distinct_key_eq [OF assms(2) x(1) assms(3)])
  with Some show ?thesis by simp
qed

text \<open>A change of rows of other sessions shows in none of this session's.\<close>

lemma session_rows_frame:
  assumes "\<And>r :: refresh_token_row. rt_sessionId (g r) = rt_sessionId r"
    and "\<And>r. r \<in> set rs \<Longrightarrow> rt_sessionId r = sid \<Longrightarrow> g r = r"
  shows "{r \<in> set (map g rs). rt_sessionId r = sid \<and> q r} = {r \<in> set rs. rt_sessionId r = sid \<and> q r}"
    and "current_token (map g rs) sid = current_token rs sid"
proof -
  have "r \<in> set rs" if r: "r \<in> g ` set rs" "rt_sessionId r = sid" for r
  proof -
    obtain x where x: "r = g x" "x \<in> set rs" using r(1) by blast
    with r(2) have "g x = x" by (intro assms(2)) (simp_all add: assms(1))
    with x show ?thesis by simp
  qed
  moreover have "r \<in> g ` set rs" if "r \<in> set rs" "rt_sessionId r = sid" for r
    using assms(2) [OF that] that(1) by (metis imageI)
  ultimately have "r \<in> g ` set rs \<longleftrightarrow> r \<in> set rs" if "rt_sessionId r = sid" for r using that by blast
  then show "{r \<in> set (map g rs). rt_sessionId r = sid \<and> q r} = {r \<in> set rs. rt_sessionId r = sid \<and> q r}"
    unfolding set_map by blast
  have "List.find (\<lambda>r. rt_sessionId r = sid \<and> \<not> consumed (g r)) rs = List.find (\<lambda>r. rt_sessionId r = sid \<and> \<not> consumed r) rs"
    by (rule find_cong_set) (use assms(2) in auto)
  moreover have "g r = r" if "List.find (\<lambda>r. rt_sessionId r = sid \<and> \<not> consumed r) rs = Some r" for r
    using find_SomeD [OF that] assms(2) by auto
  ultimately show "current_token (map g rs) sid = current_token rs sid"
    by (cases "List.find (\<lambda>r. rt_sessionId r = sid \<and> \<not> consumed r) rs") (simp_all add: current_token_def find_map assms(1))
qed

section \<open>What rotation and reuse do to it\<close>

lemma session_state_rotated:
  assumes ok: "db_ok (insert_refresh_token successor d)" and c: "chained (refreshTokens d)"
    and t: "token \<in> set (refreshTokens d)" "\<not> consumed token" and s: "succeeds token h' x successor"
  shows "session_state (rotated_tables token successor now d) sid =
    (if sid = rt_sessionId token
     then map_option (\<lambda>a. a\<lparr>sa_current := Some (h', x), sa_spent := insert (rt_tokenHash token) (sa_spent a)\<rparr>)
       (session_state d sid)
     else session_state d sid)"
proof -
  define g where "g = (\<lambda>r :: refresh_token_row. if rt_id r = rt_id token then
    r\<lparr>rt_usedAt := Some (fromDate now), rt_replacementTokenId := Some (rt_id successor)\<rparr> else r)"
  define ts where "ts = (\<lambda>s :: session_row. if s_id s = rt_sessionId token then s\<lparr>s_updatedAt := fromDate now\<rparr> else s)"
  have g: "rt_sessionId (g r) = rt_sessionId r" "rt_tokenHash (g r) = rt_tokenHash r" "rt_expiresAt (g r) = rt_expiresAt r"
    "consumed (g r) \<longleftrightarrow> consumed r \<or> rt_id r = rt_id token" for r :: refresh_token_row
    by (auto simp: g_def consumed_def)
  have ts: "s_id (ts s) = s_id s" "s_revokedAt (ts s) = s_revokedAt s" "s_expiresAt (ts s) = s_expiresAt s" for s :: session_row
    by (auto simp: ts_def)
  have new: "rt_id successor \<noteq> rt_id r" if "r \<in> set (refreshTokens d)" for r
    using db_ok_refresh_tokens(1) [OF ok] that by (auto simp: image_iff)
  have succ: "g successor = successor" "rt_sessionId successor = rt_sessionId token" "rt_tokenHash successor = h'"
      "toDate (rt_expiresAt successor) = x" "\<not> consumed successor"
    using s new [OF t(1)] by (simp_all add: g_def succeeds_def)
  have toks: "refreshTokens (rotated_tables token successor now d) = map g (refreshTokens d) @ [successor]"
    using succ(1) by (simp add: rotated_tables_def set_token_used_def update_where_def g_def)
  have sess: "session_by_id (rotated_tables token successor now d) sid = map_option ts (session_by_id d sid)"
    by (simp add: session_by_id_def rotated_tables_def touch_session_def update_where_def find_map ts
        flip: ts_def)
  have mine: "rt_id r = rt_id token" if "r \<in> set (refreshTokens d)" "rt_sessionId r = rt_sessionId token" "\<not> consumed r" for r
    using chainedD(2) [OF c that(1) t(1) that(2) that(3) t(2)] .
  have same: "r = token" if "r \<in> set (refreshTokens d)" "rt_id r = rt_id token" for r
  proof -
    have "distinct (map rt_id (refreshTokens d))" using db_ok_refresh_tokens(1) [OF ok] by simp
    then show ?thesis by (rule distinct_key_eq [OF _ that(1) t(1) that(2)])
  qed
  show ?thesis
  proof (cases "sid = rt_sessionId token")
    case True
    have cur: "current_token (refreshTokens (rotated_tables token successor now d)) sid = Some successor"
    proof -
      have "List.find (\<lambda>r. rt_sessionId r = sid \<and> \<not> consumed r) (map g (refreshTokens d)) = None"
        using mine by (auto simp: find_None_iff g True)
      then show ?thesis by (simp add: current_token_def toks succ True)
    qed
    have spent: "rt_tokenHash ` {r \<in> set (refreshTokens (rotated_tables token successor now d)). rt_sessionId r = sid \<and> consumed r}
      = insert (rt_tokenHash token) (rt_tokenHash ` {r \<in> set (refreshTokens d). rt_sessionId r = sid \<and> consumed r})" (is "?l = ?r")
    proof
      show "?l \<subseteq> ?r" by (auto simp: toks succ g True dest: same)
      show "?r \<subseteq> ?l"
      proof
        fix y assume "y \<in> ?r"
        then obtain r where r: "y = rt_tokenHash r" "r \<in> set (refreshTokens d)" "rt_sessionId r = sid"
          "consumed r \<or> rt_id r = rt_id token" using t True by auto
        then have "g r \<in> {r \<in> set (refreshTokens (rotated_tables token successor now d)). rt_sessionId r = sid \<and> consumed r}"
          by (auto simp: toks g)
        then have "rt_tokenHash (g r) \<in> ?l" by (rule imageI)
        then show "y \<in> ?l" by (simp only: r(1) g(2))
      qed
    qed
    show ?thesis
      unfolding session_state_def cur spent sess
      by (simp add: option.map_comp comp_def ts succ True)
  next
    case False
    have other: "g r = r" if "r \<in> set (refreshTokens d)" "rt_sessionId r = sid" for r
    proof -
      have "rt_id r \<noteq> rt_id token" using same [OF that(1)] that(2) False by metis
      then show ?thesis by (simp add: g_def)
    qed
    have frame: "{r \<in> set (map g (refreshTokens d)). rt_sessionId r = sid \<and> consumed r} =
        {r \<in> set (refreshTokens d). rt_sessionId r = sid \<and> consumed r}"
      "current_token (map g (refreshTokens d)) sid = current_token (refreshTokens d) sid"
      by (rule session_rows_frame; use g(1) other in blast)+
    have cur: "current_token (refreshTokens (rotated_tables token successor now d)) sid = current_token (refreshTokens d) sid"
      using frame(2) False by (simp add: current_token_def toks succ split: option.split)
    have spent: "{r \<in> set (refreshTokens (rotated_tables token successor now d)). rt_sessionId r = sid \<and> consumed r}
      = {r \<in> set (refreshTokens d). rt_sessionId r = sid \<and> consumed r}"
      using frame(1) False by (auto simp: toks succ)
    show ?thesis
      unfolding session_state_def cur spent sess using False by (simp add: option.map_comp comp_def ts)
  qed
qed

lemma hashes_of_session:
  assumes "chained rs" and "distinct (map rt_id rs)"
  shows "rt_tokenHash ` {r \<in> set rs. rt_sessionId r = sid} = rt_tokenHash ` {r \<in> set rs. rt_sessionId r = sid \<and> consumed r} \<union>
    fst ` set_option (map_option (\<lambda>r. (rt_tokenHash r, toDate (rt_expiresAt r))) (current_token rs sid))"
    (is "_ = ?spent \<union> ?current")
proof
  show "rt_tokenHash ` {r \<in> set rs. rt_sessionId r = sid} \<subseteq> ?spent \<union> ?current"
  proof
    fix h assume "h \<in> rt_tokenHash ` {r \<in> set rs. rt_sessionId r = sid}"
    then obtain r where r: "r \<in> set rs" "rt_sessionId r = sid" "h = rt_tokenHash r" by blast
    show "h \<in> ?spent \<union> ?current"
    proof (cases "consumed r")
      case False
      then have "current_token rs sid = Some r" using current_token_unique [OF assms r(1)] r(2) by simp
      then show ?thesis by (simp add: r(3))
    qed (use r in blast)
  qed
  have "current_token rs sid = Some r \<Longrightarrow> r \<in> set rs \<and> rt_sessionId r = sid" for r
    unfolding current_token_def by (auto dest: find_SomeD)
  then show "?spent \<union> ?current \<subseteq> rt_tokenHash ` {r \<in> set rs. rt_sessionId r = sid}" by auto
qed

definition reuse_tables :: "refresh_token_row \<Rightarrow> date \<Rightarrow> database \<Rightarrow> database" where
  "reuse_tables token now d =
    revoke_sessions (\<lambda>s. s_id s = rt_sessionId token) (REVOKE_REASONS ReuseDetected) now
      (revoke_tokens (\<lambda>r. rt_familyId r = rt_familyId token) (REVOKE_REASONS ReuseDetected) now d)"

lemma session_state_reuse:
  assumes ok: "db_ok d" and c: "chained (refreshTokens d)" and a: "families_apart (refreshTokens d)"
    and t: "token \<in> set (refreshTokens d)"
  shows "session_state (reuse_tables token now d) sid =
    (if sid = rt_sessionId token then map_option closed (session_state d sid) else session_state d sid)"
proof -
  define m where "m = REVOKE_REASONS ReuseDetected"
  define g where "g = (\<lambda>r :: refresh_token_row. if rt_familyId r = rt_familyId token \<and> rt_revokedAt r = None then
    r\<lparr>rt_revokedAt := Some (fromDate now), rt_revokedReason := Some m\<rparr> else r)"
  define ts where "ts = (\<lambda>s :: session_row. if s_id s = rt_sessionId token \<and> s_revokedAt s = None
    then s\<lparr>s_revokedAt := Some (fromDate now), s_revokedReason := Some m, s_updatedAt := fromDate now\<rparr> else s)"
  have ts: "s_id (ts s) = s_id s" "s_expiresAt (ts s) = s_expiresAt s"
    "s_revokedAt (ts s) \<noteq> None \<longleftrightarrow> s_revokedAt s \<noteq> None \<or> s_id s = rt_sessionId token" for s :: session_row
    by (auto simp: ts_def)
  have g: "rt_sessionId (g r) = rt_sessionId r" "rt_tokenHash (g r) = rt_tokenHash r" "rt_expiresAt (g r) = rt_expiresAt r"
    "consumed (g r) \<longleftrightarrow> consumed r \<or> rt_familyId r = rt_familyId token" for r :: refresh_token_row
    by (auto simp: g_def consumed_def)
  have fam: "rt_familyId r = rt_familyId token \<longleftrightarrow> rt_sessionId r = rt_sessionId token" if "r \<in> set (refreshTokens d)" for r
    using chainedD(1) [OF c that t] families_apartD [OF a that t] by blast
  have toks: "refreshTokens (reuse_tables token now d) = map g (refreshTokens d)"
    by (simp add: reuse_tables_def revoke_tokens_def update_where_def g_def m_def)
  have "sessions (reuse_tables token now d) = map ts (sessions d)"
    by (simp add: reuse_tables_def revoke_sessions_def update_where_def ts_def m_def)
  then have sess: "session_by_id (reuse_tables token now d) sid = map_option ts (session_by_id d sid)"
    by (simp add: session_by_id_def find_map ts(1))
  have id: "s_id s = sid" if "session_by_id d sid = Some s" for s using session_by_idD [OF that] by blast
  show ?thesis
  proof (cases "sid = rt_sessionId token")
    case True
    have cur: "current_token (refreshTokens (reuse_tables token now d)) sid = None"
      using fam by (auto simp: current_token_def toks find_None_iff g True)
    have "{r \<in> set (refreshTokens (reuse_tables token now d)). rt_sessionId r = sid \<and> consumed r} =
        g ` {r \<in> set (refreshTokens d). rt_sessionId r = sid}"
      using fam True g(1,4) by (auto simp: toks)
    then have "rt_tokenHash ` {r \<in> set (refreshTokens (reuse_tables token now d)). rt_sessionId r = sid \<and> consumed r} =
        rt_tokenHash ` {r \<in> set (refreshTokens d). rt_sessionId r = sid}"
      by (simp only: image_image g(2))
    also note hashes_of_session [OF c db_ok_refresh_tokens(1) [OF ok]]
    finally have spent: "rt_tokenHash ` {r \<in> set (refreshTokens (reuse_tables token now d)). rt_sessionId r = sid \<and> consumed r} =
       rt_tokenHash ` {r \<in> set (refreshTokens d). rt_sessionId r = sid \<and> consumed r} \<union>
       fst ` set_option (map_option (\<lambda>r. (rt_tokenHash r, toDate (rt_expiresAt r))) (current_token (refreshTokens d) sid))" .
    show ?thesis
      unfolding session_state_def cur spent sess
      using True id by (cases "session_by_id d sid") (simp_all add: ts(2,3) closed_def del: not_None_eq)
  next
    case False
    have other: "g r = r" if "r \<in> set (refreshTokens d)" "rt_sessionId r = sid" for r
      using fam [OF that(1)] that(2) False by (simp add: g_def)
    have frame: "{r \<in> set (map g (refreshTokens d)). rt_sessionId r = sid \<and> consumed r} =
        {r \<in> set (refreshTokens d). rt_sessionId r = sid \<and> consumed r}"
      "current_token (map g (refreshTokens d)) sid = current_token (refreshTokens d) sid"
      by (rule session_rows_frame; use g(1) other in blast)+
    have "ts s = s" if "session_by_id d sid = Some s" for s using id [OF that] False by (simp add: ts_def)
    then have "map_option ts (session_by_id d sid) = session_by_id d sid" by (rule option.map_ident_strong) simp
    then show ?thesis
      unfolding session_state_def sess toks frame using False by simp
  qed
qed

section \<open>The refresh operation\<close>

lemma present_token:
  assumes ok: "db_ok d" and c: "chained (refreshTokens d)" and t: "token_by_hash d h = Some token"
    and s: "session_by_id d (rt_sessionId token) = Some s" and a: "session_state d (rt_sessionId token) = Some a"
  shows "present now h n a =
    (if consumed token \<or> \<not> session_live s now then (AnsReuse, closed a)
     else if toDate (rt_expiresAt token) \<le> now then (AnsInvalid, a)
     else (AnsRotated, a\<lparr>sa_current := Some n, sa_spent := insert h (sa_spent a)\<rparr>))"
proof -
  have tok: "token \<in> set (refreshTokens d)" "rt_tokenHash token = h" using token_by_hashD [OF t] by blast+
  have a': "sa_revoked a = (s_revokedAt s \<noteq> None)" "sa_until a = toDate (s_expiresAt s)"
    "sa_current a = map_option (\<lambda>r. (rt_tokenHash r, toDate (rt_expiresAt r))) (current_token (refreshTokens d) (rt_sessionId token))"
    using a s by (auto simp: session_state_def)
  show ?thesis
  proof (cases "consumed token")
    case True
    have "rt_tokenHash r \<noteq> h" if "current_token (refreshTokens d) (rt_sessionId token) = Some r" for r
    proof
      assume "rt_tokenHash r = h"
      moreover have "r \<in> set (refreshTokens d)" "\<not> consumed r" using that unfolding current_token_def by (auto dest: find_SomeD)
      ultimately have "r = token"
        using distinct_key_eq [OF db_ok_refresh_tokens(2) [OF ok] _ tok(1)] tok(2) by metis
      with True \<open>\<not> consumed r\<close> show False by simp
    qed
    with True show ?thesis by (auto simp: present_def a' split: option.split)
  next
    case False
    have "current_token (refreshTokens d) (rt_sessionId token) = Some token"
      by (rule current_token_unique [OF c db_ok_refresh_tokens(1) [OF ok] tok(1) False])
    with False show ?thesis by (auto simp: present_def a' tok(2) session_live_def)
  qed
qed

text \<open>\<open>steps_session d d' sid f\<close>: the session \<open>sid\<close> made the step \<open>f\<close>, every other session none.\<close>

definition steps_session :: "database \<Rightarrow> database \<Rightarrow> string \<Rightarrow> (session_abs \<Rightarrow> session_abs) \<Rightarrow> bool" where
  "steps_session d d' sid f \<longleftrightarrow>
    (\<forall>i. session_state d' i = (if i = sid then map_option f (session_state d i) else session_state d i))"

fun answers :: "crypto \<Rightarrow> refresh_result \<Rightarrow> answer \<Rightarrow> string \<Rightarrow> bool" where
  "answers c (RefreshRotated _ raw) ans h = (ans = AnsRotated \<and> h = hashOpaqueToken c raw)"
| "answers c RefreshInvalid ans h = (ans = AnsInvalid)"
| "answers c RefreshReuseDetected ans h = (ans = AnsReuse)"

lemma wp_revocations [wp_simps]:
  "wp (revokeRefreshTokenFamily f m) Q E = (\<lambda>w. wp (sql (revoke_tokens (\<lambda>r. rt_familyId r = f) m (nowMs w))) Q E w)"
  "wp (revokeRefreshTokensForSession i m) Q E = (\<lambda>w. wp (sql (revoke_tokens (\<lambda>r. rt_sessionId r = i) m (nowMs w))) Q E w)"
  "wp (repo_revokeSession i m) Q E = (\<lambda>w. wp (sql (revoke_sessions (\<lambda>s. s_id s = i) m (nowMs w))) Q E w)"
  by (simp_all add: revokeRefreshTokenFamily_def revokeRefreshTokensForSession_def repo_revokeSession_def wp_simps)

text \<open>What a refresh did to the tables, and its answer.\<close>

inductive refreshed :: "crypto \<Rightarrow> date \<Rightarrow> string \<Rightarrow> date \<Rightarrow> database \<Rightarrow> refresh_result \<Rightarrow> database \<Rightarrow> bool"
  for c now h expiresAt d where
    unknown: "token_by_hash d h = None \<Longrightarrow> only_events d d' \<Longrightarrow> refreshed c now h expiresAt d RefreshInvalid d'"
  | expired: "token_by_hash d h = Some token \<Longrightarrow> session_by_id d (rt_sessionId token) = Some s \<Longrightarrow> \<not> consumed token \<Longrightarrow>
      session_live s now \<Longrightarrow> toDate (rt_expiresAt token) \<le> now \<Longrightarrow> only_events d d' \<Longrightarrow>
      refreshed c now h expiresAt d RefreshInvalid d'"
  | reuse: "token_by_hash d h = Some token \<Longrightarrow> session_by_id d (rt_sessionId token) = Some s \<Longrightarrow>
      consumed token \<or> \<not> session_live s now \<Longrightarrow> only_events (reuse_tables token now d) d' \<Longrightarrow>
      refreshed c now h expiresAt d RefreshReuseDetected d'"
  | rotated: "token_by_hash d h = Some token \<Longrightarrow> session_by_id d (rt_sessionId token) = Some s \<Longrightarrow> \<not> consumed token \<Longrightarrow>
      session_live s now \<Longrightarrow> \<not> toDate (rt_expiresAt token) \<le> now \<Longrightarrow>
      succeeds token (hashOpaqueToken c raw) expiresAt successor \<Longrightarrow> db_ok (insert_refresh_token successor d) \<Longrightarrow>
      only_events (rotated_tables token successor now d) d' \<Longrightarrow>
      refreshed c now h expiresAt d (RefreshRotated tokens raw) d'"

lemma only_events_trans: "only_events d d' \<Longrightarrow> only_events d' d'' \<Longrightarrow> only_events d d''"
  by (auto simp: only_events_def)

lemma wp_refresh:
  assumes ok: "db_ok (db w)"
    and Q: "\<And>r w'. refreshed c (nowMs w) (hashOpaqueToken c raw) (nowMs w + int (refreshTokenTtlSeconds opts) * 1000)
      (db w) r (db w') \<Longrightarrow> db_ok (db w') \<Longrightarrow> Q r w'"
    and E: "\<And>e w'. only_events (db w) (db w') \<or> (\<exists>r. refreshed c (nowMs w) (hashOpaqueToken c raw)
      (nowMs w + int (refreshTokenTtlSeconds opts) * 1000) (db w) r (db w')) \<Longrightarrow> E e w'"
  shows "wp (refresh c opts raw ctx) Q E w"
proof -
  let ?h = "hashOpaqueToken c raw"
  let ?x = "nowMs w + int (refreshTokenTtlSeconds opts) * 1000"
  let ?R = "refreshed c (nowMs w) ?h ?x (db w)"
  have event: "wp (writeSecurityEvent u s a t md ctx) (\<lambda>_. Q r) E v"
    if "\<And>d'. only_events (db v) d' \<Longrightarrow> ?R r d'" for u s a t md r v
  proof (rule wp_auth_event)
    fix e and w' :: world assume "db w' = db v"
    then have "?R r (db w')" using that [of "db v"] by simp
    then show "E e w'" by (intro E) blast
  qed (auto intro: Q that)
  have rotate: "wp (rotateRefreshToken ?h (hashOpaqueToken c raw') ?x (nowMs w)) (\<lambda>rotation. wp (case rotation of
      Rotated successor session \<Rightarrow>
        bindP (issue_tokens c opts (s_userId session) (s_id session)) (\<lambda>tokens.
        thenP (writeSecurityEvent (Some (s_userId session)) (Some (s_id session)) UserActor RefreshTokenRotated [] ctx)
          (ret (RefreshRotated tokens raw')))
    | Reuse familyId sessionId userId \<Rightarrow>
        thenP (revokeRefreshTokenFamily familyId (REVOKE_REASONS ReuseDetected))
       (thenP (repo_revokeSession sessionId (REVOKE_REASONS ReuseDetected))
       (thenP (writeSecurityEvent userId (Some sessionId)
            (if truthy userId then UserActor else SystemActor) RefreshTokenReuseDetected [] ctx)
         (ret RefreshReuseDetected)))
    | RotationExpired \<Rightarrow>
        thenP (writeSecurityEvent None None AnonymousActor RefreshFailed [(''reason'', JStr ''expired'')] ctx)
          (ret RefreshInvalid)
    | RotationNotFound \<Rightarrow>
        thenP (writeSecurityEvent None None AnonymousActor RefreshFailed [(''reason'', JStr ''not_found'')] ctx)
          (ret RefreshInvalid)) Q E) E v" if v: "db v = db w" "nowMs v = nowMs w" for v raw'
  proof (rule wp_rotateRefreshToken, goal_cases notfound reuse expired rotated error)
    case notfound
    then show ?case using v by (auto simp: wp_simps intro!: event refreshed.unknown)
  next
    case (reuse token s)
    then obtain s0 where s0: "s = Some s0" "session_by_id (db w) (rt_sessionId token) = Some s0"
      using token_session [OF ok] v(1) by metis
    have tok: "token_by_hash (db w) ?h = Some token" using reuse(1) v by simp
    have did: "?R RefreshReuseDetected d'" if "only_events (reuse_tables token (nowMs w) (db w)) d'" for d'
      using refreshed.reuse [OF tok s0(2) _ that] reuse(3) s0(1) by auto
    show ?case
      using ok v by (auto simp: wp_simps intro!: event did [unfolded reuse_tables_def])
  next
    case (expired token s)
    then show ?case using v by (auto simp: wp_simps intro!: event refreshed.expired [where token = token and s = s])
  next
    case (rotated token s successor w')
    then show ?case
      using v by (auto simp: wp_simps issue_tokens_def intro!: event refreshed.rotated [where token = token and s = s and successor = successor])
  next
    case (error e w')
    then show ?case using v by (auto intro: E)
  qed
  show ?thesis
    unfolding refresh_def Let_def
    by (auto simp: wp_simps same_but_limiter_fields split: option.split intro!: wp_limited rotate E)
qed

lemma session_state_events: "only_events d d' \<Longrightarrow> session_state d' i = session_state d i"
  by (rule session_state_cong) (simp_all add: only_events_accounts)

lemma refreshed_simulates:
  assumes r: "refreshed c now h x d r d'" and ok: "db_ok d" and ch: "chained (refreshTokens d)"
    and ap: "families_apart (refreshTokens d)" and t: "token_by_hash d h = Some token"
  obtains h' a where "session_state d (rt_sessionId token) = Some a" "answers c r (fst (present now h (h', x) a)) h'"
    "steps_session d d' (rt_sessionId token) (\<lambda>a. snd (present now h (h', x) a))"
proof -
  obtain s where s: "session_by_id d (rt_sessionId token) = Some s" using token_session [OF ok t] by blast
  then obtain a where a: "session_state d (rt_sessionId token) = Some a" by (simp add: session_state_def)
  have tok: "token \<in> set (refreshTokens d)" "rt_tokenHash token = h" using token_by_hashD [OF t] by auto
  note pres = present_token [OF ok ch t s a]
  from r show thesis
  proof cases
    case unknown
    with t show ?thesis by simp
  next
    case (expired token' s')
    then have "steps_session d d' (rt_sessionId token) (\<lambda>a. snd (present now h (h', x) a))" for h'
      using t s a by (auto simp: steps_session_def session_state_events pres)
    with expired t s show ?thesis by (intro that [OF a]) (auto simp: pres)
  next
    case (reuse token' s')
    then have same: "token' = token" "s' = s" using t s by auto
    have "session_state d' i = session_state (reuse_tables token now d) i" for i
      using session_state_events [OF reuse(5)] same by simp
    then have "steps_session d d' (rt_sessionId token) (\<lambda>a. snd (present now h (h', x) a))" for h'
      using reuse same a by (auto simp: steps_session_def session_state_reuse [OF ok ch ap tok(1)] pres)
    with reuse same show ?thesis by (intro that [OF a]) (auto simp: pres)
  next
    case (rotated token' s' raw successor tokens)
    then have same: "token' = token" "s' = s" using t s by auto
    have "session_state d' i = session_state (rotated_tables token successor now d) i" for i
      using session_state_events [OF rotated(9)] same by simp
    then have "steps_session d d' (rt_sessionId token) (\<lambda>a. snd (present now h (hashOpaqueToken c raw, x) a))"
      using rotated same a tok
      by (auto simp: steps_session_def session_state_rotated [OF rotated(8) ch tok(1)] pres)
    with rotated same show ?thesis by (intro that [OF a]) (auto simp: pres)
  qed
qed

section \<open>Properties\<close>


lemma account_chained: "chained (refreshTokens account_db)" "families_apart (refreshTokens account_db)"
  by code_simp+


end
