(* ===== verification/AccountChanges.thy ===== *)
theory AccountChanges
  imports Registration SessionProtocol
begin

text \<open>
  The changes the account operations make to the tables, as a step relation: every operation is a
  sequence of these steps, so an invariant of the steps is an invariant of the operations. A session
  that is over stays over, a spent token stays spent.
\<close>

section \<open>The steps\<close>

definition session_open :: "database \<Rightarrow> string \<Rightarrow> bool" where
  "session_open d sid = list_ex (\<lambda>s. s_id s = sid \<and> s_revokedAt s = None) (sessions d)"

inductive account_change :: "database \<Rightarrow> database \<Rightarrow> bool" where
    logged: "clean_obj (se_metadata e) \<Longrightarrow>
      account_change d (d\<lparr>securityEvents := securityEvents d @ [e]\<rparr>)"
  | session_opened: "s_revokedAt s = None \<Longrightarrow> s_id s \<notin> s_id ` set (sessions d) \<Longrightarrow>
      account_change d (insert_session s d)"
  | first_token: "rt_sessionId r \<notin> rt_sessionId ` set (refreshTokens d) \<Longrightarrow> \<not> consumed r \<Longrightarrow>
      session_open d (rt_sessionId r) \<Longrightarrow> account_change d (insert_refresh_token r d)"
  | token_rotated: "token \<in> set (refreshTokens d) \<Longrightarrow> \<not> consumed token \<Longrightarrow> session_open d (rt_sessionId token) \<Longrightarrow>
      succeeds token h x successor \<Longrightarrow> db_ok (insert_refresh_token successor d) \<Longrightarrow>
      account_change d (rotated_tables token successor now d)"
  | tokens_revoked: "account_change d (revoke_tokens p m now d)"
  | sessions_revoked: "account_change d (revoke_sessions q m now d)"
  | password_set: "account_change d (set_password u h now d)"
  | email_set: "account_change d (set_email u e n now d)"
  | verified: "account_change d (set_verified u now d)"
  | user_added: "account_change d (insert_user usr d)"
  | verification_invalidated: "account_change d (invalidate_verification_tokens u now d)"
  | verification_issued: "account_change d (insert_verification_token t d)"
  | verification_used: "account_change d (use_verification_token t now d)"
  | verification_superseded: "account_change d (supersede_verification_tokens t now d)"
  | reset_invalidated: "account_change d (invalidate_reset_tokens pt now d)"
  | reset_issued: "account_change d (insert_reset_token t d)"
  | reset_used: "account_change d (use_reset_token i now d)"
  | registrations_invalidated: "account_change d (invalidate_registrations pr now d)"
  | registration_issued: "account_change d (insert_pending r' d)"
  | registration_used: "account_change d (set_registration_used i now d)"

text \<open>\<open>evolves R d0 d\<close>: the tables \<open>d\<close> are reached from \<open>d0\<close> by steps of \<open>R\<close>, through valid tables.\<close>

inductive evolves :: "(database \<Rightarrow> database \<Rightarrow> bool) \<Rightarrow> database \<Rightarrow> database \<Rightarrow> bool" for R d0 where
    evolves_start: "db_ok d0 \<Longrightarrow> clean_events d0 \<Longrightarrow> evolves R d0 d0"
  | evolves_step: "evolves R d0 d \<Longrightarrow> R d d' \<Longrightarrow> db_ok d' \<Longrightarrow> clean_events d' \<Longrightarrow> evolves R d0 d'"

lemma evolvesD: "evolves R d0 d \<Longrightarrow> db_ok d \<and> clean_events d"
  by (induction rule: evolves.induct) simp_all

lemma account_change_clean: "account_change d d' \<Longrightarrow> clean_events d \<Longrightarrow> clean_events d'"
  by (induction rule: account_change.induct)
    (auto simp: clean_events_def rotated_tables_def set_email_def set_verified_def insert_user_def
      invalidate_verification_tokens_def insert_verification_token_def use_verification_token_def
      supersede_verification_tokens_def invalidate_reset_tokens_def insert_reset_token_def use_reset_token_def
      invalidate_registrations_def insert_pending_def set_registration_used_def)

section \<open>Invariants of the steps\<close>

lemma other_tables [simp]:
  "refreshTokens (set_email u e n now d) = refreshTokens d" "sessions (set_email u e n now d) = sessions d"
  "refreshTokens (set_verified u now d) = refreshTokens d" "sessions (set_verified u now d) = sessions d"
  "refreshTokens (insert_user usr d) = refreshTokens d" "sessions (insert_user usr d) = sessions d"
  "refreshTokens (invalidate_verification_tokens u now d) = refreshTokens d"
  "sessions (invalidate_verification_tokens u now d) = sessions d"
  "refreshTokens (insert_verification_token t d) = refreshTokens d" "sessions (insert_verification_token t d) = sessions d"
  "refreshTokens (use_verification_token t now d) = refreshTokens d" "sessions (use_verification_token t now d) = sessions d"
  "refreshTokens (supersede_verification_tokens t now d) = refreshTokens d"
  "sessions (supersede_verification_tokens t now d) = sessions d"
  "refreshTokens (invalidate_reset_tokens p now d) = refreshTokens d" "sessions (invalidate_reset_tokens p now d) = sessions d"
  "refreshTokens (insert_reset_token t d) = refreshTokens d" "sessions (insert_reset_token t d) = sessions d"
  "refreshTokens (use_reset_token i now d) = refreshTokens d" "sessions (use_reset_token i now d) = sessions d"
  "refreshTokens (invalidate_registrations q now d) = refreshTokens d" "sessions (invalidate_registrations q now d) = sessions d"
  "refreshTokens (insert_pending r d) = refreshTokens d" "sessions (insert_pending r d) = sessions d"
  "refreshTokens (set_registration_used i now d) = refreshTokens d" "sessions (set_registration_used i now d) = sessions d"
  by (simp_all add: set_email_def set_verified_def insert_user_def invalidate_verification_tokens_def
      insert_verification_token_def use_verification_token_def supersede_verification_tokens_def
      invalidate_reset_tokens_def insert_reset_token_def use_reset_token_def invalidate_registrations_def
      insert_pending_def set_registration_used_def)

lemma account_change_chained:
  "account_change d d' \<Longrightarrow> chained (refreshTokens d) \<Longrightarrow> chained (refreshTokens d')"
  by (induction rule: account_change.induct) (simp_all add: chained_rotated chained_new del: insert_refresh_token_fields)

lemmas account_tables = insert_session_def insert_refresh_token_def rotated_tables_def touch_session_def
  set_token_used_def revoke_tokens_def revoke_sessions_def set_password_def set_email_def set_verified_def
  insert_user_def invalidate_verification_tokens_def insert_verification_token_def use_verification_token_def
  supersede_verification_tokens_def invalidate_reset_tokens_def insert_reset_token_def use_reset_token_def
  invalidate_registrations_def insert_pending_def set_registration_used_def

text \<open>What is over: a revoked session, a spent refresh token, a one-time token used or superseded.\<close>

definition session_over :: "database \<Rightarrow> string \<Rightarrow> bool" where
  "session_over d sid = (sid \<in> s_id ` set (sessions d) \<and> \<not> session_open d sid)"

definition refresh_spent :: "database \<Rightarrow> string \<Rightarrow> bool" where
  "refresh_spent d h = list_ex (\<lambda>r. rt_tokenHash r = h \<and> consumed r) (refreshTokens d)"

definition verification_spent :: "database \<Rightarrow> string \<Rightarrow> bool" where
  "verification_spent d h = list_ex (\<lambda>t. tok_tokenHash t = h \<and> \<not> usable_token t) (emailVerificationTokens d)"

definition reset_spent :: "database \<Rightarrow> string \<Rightarrow> bool" where
  "reset_spent d h = list_ex (\<lambda>t. tok_tokenHash t = h \<and> \<not> usable_token t) (passwordResetTokens d)"

definition registration_spent :: "database \<Rightarrow> string \<Rightarrow> bool" where
  "registration_spent d h = list_ex (\<lambda>r. preg_tokenHash r = h \<and> \<not> usable_registration r) (pendingRegistrations d)"

lemma list_ex_update:
  "list_ex q rs \<Longrightarrow> (\<And>r. q r \<Longrightarrow> q (f r)) \<Longrightarrow> list_ex q (update_where p f rs)"
  by (induction rs) (auto simp: update_where_def)

lemma list_ex_back:
  "list_ex q (update_where p f rs) \<Longrightarrow> (\<And>r. q (f r) \<Longrightarrow> q r) \<Longrightarrow> list_ex q rs"
  by (induction rs) (auto simp: update_where_def split: if_splits)

lemma session_open_steps:
  "session_open (touch_session i now d) sid = session_open d sid"
  "session_open (revoke_sessions q m now d) sid \<Longrightarrow> session_open d sid"
  "session_open (insert_session s d) sid \<longleftrightarrow> session_open d sid \<or> (s_id s = sid \<and> s_revokedAt s = None)"
proof -
  show "session_open (touch_session i now d) sid = session_open d sid"
    unfolding session_open_def touch_session_def
    by (auto intro: list_ex_update dest: list_ex_back)
  show "session_open (revoke_sessions q m now d) sid \<Longrightarrow> session_open d sid"
    unfolding session_open_def revoke_sessions_def by (auto dest: list_ex_back)
  show "session_open (insert_session s d) sid \<longleftrightarrow> session_open d sid \<or> (s_id s = sid \<and> s_revokedAt s = None)"
    by (simp add: session_open_def)
qed

lemma session_open_cong: "sessions d' = sessions d \<Longrightarrow> session_open d' sid = session_open d sid"
  by (simp add: session_open_def)

lemma account_change_over:
  "account_change d d' \<Longrightarrow> session_over d sid \<Longrightarrow> session_over d' sid"
proof (induction rule: account_change.induct)
  case (session_opened s d)
  then show ?case by (auto simp: session_over_def session_open_steps)
next
  case (token_rotated token d h x successor now)
  have "session_open (rotated_tables token successor now d) sid = session_open d sid"
    unfolding rotated_tables_def session_open_steps by (rule session_open_cong) simp
  then show ?case using token_rotated by (simp add: session_over_def rotated_tables_def)
next
  case (sessions_revoked q m now d)
  then show ?case by (auto simp: session_over_def dest: session_open_steps(2))
qed (simp_all add: session_over_def session_open_def)

lemma account_change_spent:
  assumes "account_change d d'"
  shows "refresh_spent d h \<Longrightarrow> refresh_spent d' h" "verification_spent d h \<Longrightarrow> verification_spent d' h"
    "reset_spent d h \<Longrightarrow> reset_spent d' h" "registration_spent d h \<Longrightarrow> registration_spent d' h"
  using assms
  by (induction rule: account_change.induct)
    (auto simp: account_tables refresh_spent_def verification_spent_def reset_spent_def registration_spent_def
      invalidate_tokens_def use_token_def usable_token_def usable_registration_def consumed_def intro!: list_ex_update)

section \<open>The operations are sequences of steps\<close>

lemma new_session_first:
  assumes "db_ok d" and "db_ok (insert_session s d)" and "rt_sessionId r = s_id s" and "\<not> consumed r" and "s_revokedAt s = None"
  shows "account_change d (insert_session s d)" and "account_change (insert_session s d) (insert_refresh_token r (insert_session s d))"
proof -
  have new: "s_id s \<notin> s_id ` set (sessions d)" using db_ok_sessions [OF assms(2)] by simp
  then show "account_change d (insert_session s d)" by (intro session_opened assms(5))
  have "rt_sessionId r \<notin> rt_sessionId ` set (refreshTokens d)"
    using db_ok_refresh_tokens(3) [OF assms(1)] new assms(3) by auto
  then show "account_change (insert_session s d) (insert_refresh_token r (insert_session s d))"
    using assms by (intro first_token) (simp_all add: session_open_def)
qed

text \<open>Issuing a session inserts the session, then its first token, in two statements.\<close>

lemma wp_issueSession:
  assumes "\<And>issue s r w'. s_userId s = u_id user \<Longrightarrow> s_revokedAt s = None \<Longrightarrow>
      s_expiresAt s = fromDate (nowMs w + int (sessionTtlSeconds opts) * 1000) \<Longrightarrow>
      rt_sessionId r = s_id s \<Longrightarrow> \<not> consumed r \<Longrightarrow> rt_tokenHash r = hashOpaqueToken c (si_rawRefreshToken issue) \<Longrightarrow>
      rt_expiresAt r = fromDate (nowMs w + int (refreshTokenTtlSeconds opts) * 1000) \<Longrightarrow>
      si_user issue = toAuthUser user \<Longrightarrow>
      accessToken (si_tokens issue) =
        jwtSign c (jwtSecret opts) (accessPayload (u_id user) (s_id s) (accessTokenTtlSeconds opts) (nowMs w)) \<Longrightarrow>
      db w' = insert_refresh_token r (insert_session s (db w)) \<Longrightarrow> db_ok (insert_session s (db w)) \<Longrightarrow>
      db_ok (db w') \<Longrightarrow> nowMs w' = nowMs w \<Longrightarrow> Q (issue, s_id s) w'"
    and "\<And>e w'. db w' = db w \<Longrightarrow> E e w'"
    and "\<And>s e w'. s_revokedAt s = None \<Longrightarrow> db w' = insert_session s (db w) \<Longrightarrow> db_ok (db w') \<Longrightarrow> E e w'"
  shows "wp (issueSession c opts user ctx) Q E w"
proof -
  have token: "wp (insertRefreshToken (s_id s) fam (hashOpaqueToken c raw) None
       (nowMs w + int (refreshTokenTtlSeconds opts) * 1000))
      (\<lambda>_. wp (buildSessionIssueResult c opts user s raw) (\<lambda>issue. Q (issue, s_id s)) E) E v"
    if "s_userId s = u_id user" "s_revokedAt s = None" "s_expiresAt s = fromDate (nowMs w + int (sessionTtlSeconds opts) * 1000)"
      "db v = insert_session s (db w)" "db_ok (db v)" "nowMs v = nowMs w" for s fam raw v
    by (rule wp_insertRefreshToken)
      (use that in \<open>auto simp: wp_simps buildSessionIssueResult_def issue_tokens_def intro!: assms(1,3)\<close>)
  show ?thesis
    unfolding issueSession_def
    by (auto simp: wp_simps intro!: wp_insertSession token assms(2))
qed

lemma preserves_cases:
  "(\<And>a b. preserves P (f1 a b)) \<Longrightarrow> (\<And>a b c. preserves P (f2 a b c)) \<Longrightarrow> preserves P f3 \<Longrightarrow> preserves P f4 \<Longrightarrow>
    preserves P (case rot of Rotated a b \<Rightarrow> f1 a b | Reuse a b c \<Rightarrow> f2 a b c | RotationExpired \<Rightarrow> f3 | RotationNotFound \<Rightarrow> f4)"
  "(\<And>a b. preserves P (g1 a b)) \<Longrightarrow> preserves P g2 \<Longrightarrow> preserves P g3 \<Longrightarrow> preserves P g4 \<Longrightarrow> preserves P g5 \<Longrightarrow>
    preserves P (case ver of Verified a b \<Rightarrow> g1 a b | VerificationAlreadyUsed \<Rightarrow> g2 | VerificationExpired \<Rightarrow> g3
      | VerificationNotFound \<Rightarrow> g4 | UserNotVerifiable \<Rightarrow> g5)"
  "(\<And>a. preserves P (h1 a)) \<Longrightarrow> preserves P h2 \<Longrightarrow> preserves P h3 \<Longrightarrow> preserves P h4 \<Longrightarrow> preserves P h5 \<Longrightarrow>
    preserves P (case res of ResetDone a \<Rightarrow> h1 a | ResetAlreadyUsed \<Rightarrow> h2 | ResetExpired \<Rightarrow> h3 | ResetNotFound \<Rightarrow> h4
      | UserNotRecoverable \<Rightarrow> h5)"
  "(\<And>a. preserves P (k1 a)) \<Longrightarrow> preserves P k2 \<Longrightarrow> preserves P k3 \<Longrightarrow> preserves P k4 \<Longrightarrow> preserves P k5 \<Longrightarrow>
    preserves P (case com of Completed a \<Rightarrow> k1 a | RegistrationAlreadyUsed \<Rightarrow> k2 | RegistrationExpired \<Rightarrow> k3
      | RegistrationNotFound \<Rightarrow> k4 | RegistrationEmailTaken \<Rightarrow> k5)"
  "preserves P l1 \<Longrightarrow> (\<And>a b. preserves P (l2 a b)) \<Longrightarrow> (\<And>a. preserves P (l3 a)) \<Longrightarrow>
    preserves P (case invt of NoInvitation \<Rightarrow> l1 | ValidInvitation a b \<Rightarrow> l2 a b | RejectedInvitation a \<Rightarrow> l3 a)"
  by (cases rot; cases ver; cases res; cases com; cases invt; simp)+

lemma keeps_registration_reads:
  "keeps P (prepareForRegistration c raw email)" "keeps P (resolveCompletionInvitation rg i)"
  unfolding prepareForRegistration_def findContextByTokenHash_def assertAcceptable_def requireMemberAdditionQuota_def
    resolveCompletionInvitation_def resolveCompletionContext_def findInvitationById_def
  by (intro preserve_intros)+

lemma keeps_getDummyHash: "keeps P (getDummyHash c)"
  unfolding getDummyHash_def by (intro preserve_intros) simp

locale account_evolution =
  fixes R :: "database \<Rightarrow> database \<Rightarrow> bool" and d0 :: database
  assumes account: "account_change d d' \<Longrightarrow> R d d'"
begin

lemma grow:
  "evolves R d0 d \<Longrightarrow> account_change d d' \<Longrightarrow> db_ok d' \<Longrightarrow> evolves R d0 d'"
  by (rule evolves_step) (auto intro: account account_change_clean dest: evolvesD)

lemma keeps_step: "(\<And>d. account_change d (f d)) \<Longrightarrow> keeps (evolves R d0) (sql f)"
  by (rule keeps_sql) (rule grow)

lemma keeps_event: "keeps (evolves R d0) (insertSecurityEvent u s g a t md ctx)"
  unfolding insertSecurityEvent_def
  by (intro preserve_intros keeps_sql) (rule grow, assumption, rule logged, simp_all)

lemma keeps_rotateRefreshToken: "keeps (evolves R d0) (rotateRefreshToken h h' x now)"
  unfolding preserves_wp
proof (intro allI impI wp_rotateRefreshToken)
  fix w w' :: world and token session successor
  assume a: "evolves R d0 (db w)" "token_by_hash (db w) h = Some token" "\<not> consumed token"
    "session_by_id (db w) (rt_sessionId token) = Some session" "session_live session now"
    "succeeds token h' x successor" "db w' = rotated_tables token successor now (db w)"
    "db_ok (insert_refresh_token successor (db w))" "db_ok (db w')"
  have "session \<in> set (sessions (db w))" "s_id session = rt_sessionId token" using session_by_idD [OF a(4)] by auto
  then have "session_open (db w) (rt_sessionId token)"
    using a(5) by (auto simp: session_open_def list_ex_iff session_live_def)
  moreover have "token \<in> set (refreshTokens (db w))" using token_by_hashD [OF a(2)] by blast
  ultimately show "evolves R d0 (db w')"
    using token_rotated [OF _ a(3) _ a(6,8)] grow [OF a(1)] a(7,9) by metis
qed simp_all

lemma keeps_issueSession: "keeps (evolves R d0) (issueSession c opts user ctx)"
  unfolding preserves_wp
proof (intro allI impI)
  fix w :: world assume w: "evolves R d0 (db w)"
  then have ok: "db_ok (db w)" by (simp add: evolvesD)
  have opened: "evolves R d0 (insert_session s (db w))" if "s_revokedAt s = None" "db_ok (insert_session s (db w))" for s
    using that db_ok_sessions [OF that(2)] by (intro grow [OF w]) (auto intro: session_opened)
  show "wp (issueSession c opts user ctx) (\<lambda>_ w'. evolves R d0 (db w')) (\<lambda>_ w'. evolves R d0 (db w')) w"
  proof (rule wp_issueSession, goal_cases)
    case (1 issue s r w')
    then have "evolves R d0 (insert_session s (db w))" by (intro opened)
    then show ?case using new_session_first(2) [OF ok 1(11,4,5,2)] 1(10,12) grow by simp
  next
    case (2 e w')
    then show ?case using w by simp
  next
    case (3 s e w')
    then show ?case using opened by simp
  qed
qed

lemma keeps_open_session:
  assumes "\<And>s r. keeps (evolves R d0) (k s r)"
  shows "keeps (evolves R d0) (bindP (insertSession u ctx x) (\<lambda>s. bindP (insertRefreshToken (s_id s) f h None y) (k s)))"
  unfolding preserves_wp wp_bindP
proof (intro allI impI wp_insertSession)
  fix w w' :: world and s
  assume w: "evolves R d0 (db w)" and s: "s_revokedAt s = None" "db w' = insert_session s (db w)" "db_ok (db w')"
  then have ok: "db_ok (db w)" by (simp add: evolvesD)
  have opened: "evolves R d0 (db w')"
    using s db_ok_sessions [OF s(3)] by (intro grow [OF w]) (auto intro: session_opened)
  show "wp (insertRefreshToken (s_id s) f h None y)
      (\<lambda>r. wp (k s r) (\<lambda>_ w'. evolves R d0 (db w')) (\<lambda>_ w'. evolves R d0 (db w'))) (\<lambda>_ w'. evolves R d0 (db w')) w'"
  proof (rule wp_insertRefreshToken)
    fix r and w2 :: world
    assume r: "rt_sessionId r = s_id s" "\<not> consumed r" "db w2 = insert_refresh_token r (db w')" "db_ok (db w2)"
    have "evolves R d0 (db w2)"
      using new_session_first(2) [OF ok _ r(1,2) s(1)] grow [OF opened] s r by simp
    then show "wp (k s r) (\<lambda>_ w'. evolves R d0 (db w')) (\<lambda>_ w'. evolves R d0 (db w')) w2"
      using assms [of s r] unfolding preserves_wp by blast
  qed (use opened in simp)
qed simp

text \<open>The remaining operations are compositions of these.\<close>

lemmas parts = keeps_step [OF tokens_revoked] keeps_step [OF sessions_revoked] keeps_step [OF password_set]
  keeps_step [OF email_set] keeps_step [OF verified] keeps_step [OF user_added]
  keeps_step [OF verification_invalidated] keeps_step [OF verification_issued] keeps_step [OF verification_used]
  keeps_step [OF verification_superseded] keeps_step [OF reset_invalidated] keeps_step [OF reset_issued]
  keeps_step [OF reset_used] keeps_step [OF registrations_invalidated] keeps_step [OF registration_issued]
  keeps_step [OF registration_used] keeps_event keeps_rotateRefreshToken keeps_issueSession

lemma keeps_repository:
  "keeps (evolves R d0) (revokeRefreshTokenFamily f m)" "keeps (evolves R d0) (revokeRefreshTokensForSession i m)"
  "keeps (evolves R d0) (repo_revokeSession i m)" "keeps (evolves R d0) (changePasswordKeepingCurrentSession u h i m now)"
  "keeps (evolves R d0) (repo_changeEmail u e n now)" "keeps (evolves R d0) (issueVerificationToken u h x now)"
  "keeps (evolves R d0) (repo_completeVerification h now)" "keeps (evolves R d0) (issueResetToken u h x now)"
  "keeps (evolves R d0) (repo_completeReset h p now)" "keeps (evolves R d0) (issuePendingRegistration pend now)"
  unfolding revokeRefreshTokenFamily_def revokeRefreshTokensForSession_def repo_revokeSession_def
    changePasswordKeepingCurrentSession_def repo_changeEmail_def issueVerificationToken_def
    repo_completeVerification_def issueResetToken_def repo_completeReset_def issuePendingRegistration_def Let_def
  by (intro preserve_intros parts)+

lemma keeps_limits:
  "keeps (evolves R d0) (limited opts k l b ctx)" "keeps (evolves R d0) (limited_ip opts k l b ctx)"
  "keeps (evolves R d0) (enforceAuthRateLimit lo s k l b ctx)" "keeps (evolves R d0) (enforceIpRateLimit lo s k l b ctx)"
  unfolding limited_def limited_ip_def by (intro preserve_intros parts)+

lemma keeps_records:
  "keeps (evolves R d0) (recordRecoveryOutcome ro ctx)" "keeps (evolves R d0) (recordRequestOutcome rq ctx)"
  "keeps (evolves R d0) (rejectAccessToken u a reason ctx)"
  unfolding recordRecoveryOutcome_def recordRequestOutcome_def rejectAccessToken_def
  by (intro preserve_intros parts)+

lemma keeps_requireAuthenticatedSession: "keeps (evolves R d0) (requireAuthenticatedSession c opts token ctx)"
  unfolding requireAuthenticatedSession_def findSessionById_def
  by (intro preserve_intros keeps_records)

lemmas service_parts = parts keeps_repository keeps_limits keeps_records keeps_requireAuthenticatedSession
  keeps_getDummyHash

lemma keeps_auth_service:
  "keeps (evolves R d0) (login c opts email pw ctx)" "keeps (evolves R d0) (authenticate_user c opts token ctx)"
  "keeps (evolves R d0) (refresh c opts raw ctx)" "keeps (evolves R d0) (logout c rawopt ctx)"
  "keeps (evolves R d0) (listSessions c opts token limit cursor ctx)"
  "keeps (evolves R d0) (revokeSession c opts token sid ctx)"
  unfolding login_def login_check_def login_issue_def authenticate_user_def refresh_def logout_def listSessions_def
    revokeSession_def issue_tokens_def findSessionById_def findRefreshTokenByHash_def Let_def
  by (intro preserve_intros preserves_cases service_parts)+

lemma keeps_verification_service:
  "keeps (evolves R d0) (sendEmailChangeVerificationEmail c ev u e ctx)"
  "keeps (evolves R d0) (requestVerificationEmail c ev au ctx)" "keeps (evolves R d0) (completeVerification c ev raw ctx)"
  unfolding sendEmailChangeVerificationEmail_def requestVerificationEmail_def completeVerification_def
    issueAndSendVerificationEmail_def sendVerificationEmail_def storeVerificationToken_def
    generateEmailVerificationToken_def Let_def
  by (intro preserve_intros preserves_cases service_parts)+

lemma keeps_recovery_service:
  "keeps (evolves R d0) (requestReset c ro email ctx)" "keeps (evolves R d0) (completeReset c ro raw pw ctx)"
  unfolding requestReset_def completeReset_def requestResetLimits_def completeResetLimits_def resetAccount_def
    issueReset_def attempt_def andThen_def generatePasswordResetToken_def Let_def
  by (intro preserve_intros preserves_cases service_parts)+

lemma keeps_credential_changes:
  "keeps (evolves R d0) (changePassword c opts token old new ctx)"
  "keeps (evolves R d0) (changeEmail c opts token email pw ctx)"
  unfolding changePassword_def changeEmail_def Let_def
  by (intro preserve_intros service_parts keeps_verification_service)+

lemma keeps_requestRegistration: "keeps (evolves R d0) (requestRegistration c rg input ctx)"
  unfolding requestRegistration_def requestRegistrationLimits_def registerAddress_def issueRegistration_def
    sendExistingAccountGuidance_def resolveRequestInvitation_def attempt_def andThen_def
    generateRegistrationCompletionToken_def Let_def
  by (intro preserve_intros preserves_cases service_parts keeps_registration_reads)

end

end
