(* ===== verification/SystemChanges.thy ===== *)
theory SystemChanges
  imports AccountChanges Rbac
begin

text \<open>
  The changes all the operations of the program make to the tables, as one step relation over the
  account steps, the changes of memberships, plans and organizations, and the changes that leave all
  of these alone. Every service operation is a sequence of such steps.
\<close>

section \<open>The steps\<close>

inductive system_change :: "database \<Rightarrow> database \<Rightarrow> bool" where
    quiet: "backbone d' = backbone d \<Longrightarrow> system_change d d'"
  | account_step: "account_change d d' \<Longrightarrow> system_change d d'"
  | organization_in: "provisions typ name slug u g m p \<Longrightarrow> system_change d (provisioned d g m p)"
  | role_set: "change_verdict d org mid k actor = None \<Longrightarrow> role_changed org mid k now d d' \<Longrightarrow> system_change d d'"
  | member_out: "remove_verdict d org mid actor = None \<Longrightarrow> target_in d org mid = Some t \<Longrightarrow>
      member_removed org mid u now d d' \<Longrightarrow> system_change d d'"
  | plan_set: "plan_changed org pk u now d d' \<Longrightarrow> system_change d d'"
  | member_in: "joined i u mid now t d d' \<Longrightarrow> system_change d d'"

abbreviation reached :: "database \<Rightarrow> database \<Rightarrow> bool" where
  "reached \<equiv> evolves system_change"

interpretation sys: account_evolution system_change d0 for d0
  by unfold_locales (rule account_step)

lemma reached_valid: "keeps (\<lambda>d. db_ok d \<and> reached d0 d) m \<Longrightarrow> keeps (reached d0) m"
  by (auto simp: preserves_def dest: evolvesD)

lemma reached_step:
  "reached d0 d \<Longrightarrow> system_change d d' \<Longrightarrow> db_ok d' \<Longrightarrow> (clean_events d \<Longrightarrow> clean_events d') \<Longrightarrow> reached d0 d'"
  by (rule evolves_step) (auto dest: evolvesD)

lemma reached_quiet:
  assumes "\<And>Q. keeps (stable Q) m" shows "keeps (reached d0) m"
  unfolding preserves_def
proof (intro allI impI)
  fix w :: world assume w: "reached d0 (db w)"
  have "stable (\<lambda>b. b = backbone (db w)) (db (final m w))"
    by (rule preservesD [OF assms]) (use evolvesD [OF w] in \<open>simp add: stable_def\<close>)
  then show "reached d0 (db (final m w))"
    by (intro evolves_step [OF w]) (auto simp: stable_def intro: quiet)
qed

lemma clean_role_changed: "role_changed org mid k now d d' \<Longrightarrow> clean_events d \<Longrightarrow> clean_events d'"
  by (auto simp: role_changed_def clean_events_def set_role_def)

lemma clean_member_removed: "member_removed org mid u now d d' \<Longrightarrow> clean_events d \<Longrightarrow> clean_events d'"
  by (auto simp: member_removed_def clean_events_def set_removed_def)

lemma clean_plan_changed: "plan_changed org k u now d d' \<Longrightarrow> clean_events d \<Longrightarrow> clean_events d'"
  by (auto simp: plan_changed_def clean_events_def set_plan_def)

lemma clean_provisioned: "clean_events (provisioned d g m p) = clean_events d"
  by (simp add: clean_events_def provisioned_def)

section \<open>Organizations, members, plans, invitations\<close>

lemma reached_createOrganization: "keeps (reached d0) (createOrganization opts u name slug)"
  by (rule keeps_createOrganization) (auto intro: reached_step organization_in simp: clean_provisioned)

lemma reached_changeMemberRole: "keeps (reached d0) (changeMemberRole org mid (ROLE_IDS k) u actor ctx)"
  by (rule reached_valid, rule keeps_changeMemberRole) (auto intro: reached_step role_set clean_role_changed)

lemma reached_removeMember: "keeps (reached d0) (removeMember org mid u actor ctx)"
  by (rule reached_valid, rule keeps_removeMember) (auto intro: reached_step member_out clean_member_removed)

lemma reached_changeOrganizationPlan: "keeps (reached d0) (changeOrganizationPlan org k u m ctx)"
  by (rule reached_valid, rule keeps_changeOrganizationPlan) (auto intro: reached_step plan_set clean_plan_changed)

lemma reached_acceptInvitation: "keeps (reached d0) (acceptInvitation c opts input)"
  by (rule reached_valid, rule keeps_acceptInvitation) (auto intro: reached_step member_in clean_joined)

lemma reached_member_services:
  "keeps (reached d0) (changeMemberRole_service opts cri)" "keeps (reached d0) (removeMember_service opts rmi)"
  "keeps (reached d0) (changeDemoPlan popts cpi)"
  unfolding changeMemberRole_service_def changeMemberRole_body_def removeMember_service_def removeMember_body_def
    changeDemoPlan_def changeDemoPlan_body_def changePlan_def
  by (intro preserve_intros reached_changeMemberRole reached_removeMember reached_changeOrganizationPlan)+


section \<open>Completing a registration\<close>

text \<open>
  Inside the completing transaction only the outcome of a run that returns counts: \<open>keeps_ok\<close> is
  \<open>keeps\<close> on success.
\<close>

definition keeps_ok :: "(database \<Rightarrow> bool) \<Rightarrow> 'a api \<Rightarrow> bool" where
  "keeps_ok P m = (\<forall>w. P (db w) \<longrightarrow> wp m (\<lambda>_ w'. P (db w')) (\<lambda>_ _. True) w)"

lemma keeps_okD: "keeps_ok P m \<Longrightarrow> P (db w) \<Longrightarrow> wp m (\<lambda>_ w'. P (db w')) (\<lambda>_ _. True) w"
  by (simp add: keeps_ok_def)

lemma keeps_ok_keeps: "keeps P m \<Longrightarrow> keeps_ok P m"
  by (auto simp: keeps_ok_def preserves_wp elim!: wp_mono)

lemma keeps_ok_bindP: "keeps_ok P m \<Longrightarrow> (\<And>x. keeps_ok P (k x)) \<Longrightarrow> keeps_ok P (bindP m k)"
  unfolding keeps_ok_def wp_bindP by (blast intro: wp_mono)

lemma keeps_ok_thenP: "keeps_ok P m \<Longrightarrow> keeps_ok P n \<Longrightarrow> keeps_ok P (thenP m n)"
  by (simp add: thenP_def keeps_ok_bindP)

lemma keeps_ok_option:
  "keeps_ok P m \<Longrightarrow> (\<And>y. keeps_ok P (k y)) \<Longrightarrow> keeps_ok P (case x of None \<Rightarrow> m | Some y \<Rightarrow> k y)"
  by (cases x) auto

lemma keeps_ok_if: "keeps_ok P m \<Longrightarrow> keeps_ok P n \<Longrightarrow> keeps_ok P (if b then m else n)"
  by simp

lemma keeps_ok_prod: "(\<And>a b. keeps_ok P (k a b)) \<Longrightarrow> keeps_ok P (case x of (a, b) \<Rightarrow> k a b)"
  by (cases x) auto

lemma keeps_ok_transaction: "keeps_ok P m \<Longrightarrow> keeps P (transaction m)"
  by (rule keeps_transaction_wp) (rule keeps_okD)

lemma reached_insertOrganization:
  "keeps_ok (reached d0) (insertOrganizationWithOwnerMembership typ name slug u u)"
  unfolding keeps_ok_def
  by (auto intro!: wp_insertOrganization)
    (erule reached_step, rule organization_in, simp_all add: clean_provisioned)

lemma keeps_slug_steps: "keeps P shortSlugToken" "keeps P (isSlugTaken slug)" "keeps P (personalWorkspaceSlugBase n)"
  unfolding personalWorkspaceSlugBase_def shortSlugToken_def isSlugTaken_def by (intro preserve_intros)+

lemma keeps_resolve_slug_from: "keeps P (resolve_slug_from suffix base candidate)"
proof (induction suffix base candidate rule: resolve_slug_from.induct)
  case (1 suffix base candidate)
  show ?case
    by (subst resolve_slug_from.simps) (intro preserve_intros keeps_slug_steps 1)
qed

lemma keeps_resolveUniqueSlug: "keeps P (resolveUniqueSlug b)"
  unfolding resolveUniqueSlug_def by (rule keeps_resolve_slug_from)

lemmas keeps_slugs = keeps_slug_steps keeps_resolveUniqueSlug

lemma reached_settleInvitation: "keeps (reached d0) (settleInvitation i params u email)"
proof -
  have "keeps_ok (reached d0) (acceptInvitationWithinTransaction sel u email ctx)" for sel ctx
    unfolding keeps_ok_def
    by (auto intro!: wp_acceptInvitationWithinTransaction intro: reached_step member_in clean_joined)
  then show ?thesis
    unfolding settleInvitation_def by (intro preserve_intros keeps_ok_transaction)
qed

lemma reached_create_account: "keeps_ok (reached d0) (create_account pending params now)"
  unfolding create_account_def Let_def
  by (rule reached_insertOrganization keeps_ok_prod |
      (rule keeps_ok_keeps, (intro preserve_intros sys.keeps_open_session sys.parts keeps_slugs
        reached_settleInvitation; fail)) |
      rule keeps_ok_bindP keeps_ok_thenP)+

lemma reached_completeRegistration: "keeps (reached d0) (completeRegistration c opts token ctx)"
proof -
  have repo: "keeps (reached d0) (repo_completeRegistration params now)" for params now
    unfolding repo_completeRegistration_def
    by (intro preserve_intros keeps_ok_transaction keeps_ok_bindP keeps_ok_option keeps_ok_if
        reached_create_account keeps_ok_keeps)
  show ?thesis
    unfolding completeRegistration_def completeRegistrationLimits_def findPendingRegistrationByTokenHash_def Let_def
    by (intro preserve_intros preserves_cases sys.service_parts keeps_registration_reads repo)
qed

end
