(* ===== verification/SystemRuns.thy ===== *)
theory SystemRuns
  imports Routes SystemChanges
begin

text \<open>
  Runs of the whole program: requests served one after the other while time passes in between. What
  the steps of the tables keep, every run keeps: the tables stay valid, every organization keeps an
  Owner and a plan, nothing that is over comes back.
\<close>

section \<open>Every route is a sequence of steps\<close>

lemmas reached_quiet_services =
  reached_quiet [OF keeps_project_services(1)] reached_quiet [OF keeps_project_services(2)]
  reached_quiet [OF keeps_project_services(3)] reached_quiet [OF keeps_project_services(4)]
  reached_quiet [OF keeps_project_services(5)]
  reached_quiet [OF keeps_api_key_services(1)] reached_quiet [OF keeps_api_key_services(2)]
  reached_quiet [OF keeps_api_key_services(3)] reached_quiet [OF keeps_authenticate]
  reached_quiet [OF keeps_invitation_services(1)] reached_quiet [OF keeps_invitation_services(2)]
  reached_quiet [OF keeps_invitation_services(3)] reached_quiet [OF keeps_invitation_services(4)]

lemma keeps_readers [preserve_intros]:
  "keeps P (listMembers li)" "keeps P (getPlan pi)" "keeps P (getEntitlements pi)"
  "keeps P listRoles" "keeps P listPermissions" "keeps P getMatrix" "keeps P (listExternalProjects g n k)"
  "keeps P (keyExpiry zv x)"
  unfolding listMembers_def listMembers_body_def getPlan_def getPlan_body_def getPlanState_def findOrganizationPlanState_def getEntitlements_def
    getEntitlements_body_def listRoles_def listPermissions_def getMatrix_def repo_listRoles_def
    repo_listPermissions_def repo_listRolePermissions_def listExternalProjects_def keyExpiry_def Let_def
  by (intro preserve_intros preserves_sum)+

lemma reached_authenticate_request: "keeps (reached d0) (authenticate_request env request)"
  unfolding authenticate_request_def by (intro preserve_intros sys.keeps_auth_service)

lemmas reached_services = reached_quiet_services reached_authenticate_request reached_member_services
  reached_createOrganization reached_acceptInvitation reached_completeRegistration
  sys.keeps_auth_service sys.keeps_verification_service sys.keeps_recovery_service
  sys.keeps_credential_changes sys.keeps_requestRegistration

lemmas route_defs = route_login_def route_me_def route_refresh_def route_logout_def route_changePassword_def
  route_changeEmail_def route_sessions_def route_revokeSession_def route_register_def route_completeRegistration_def
  route_requestVerification_def route_completeVerification_def route_requestReset_def route_completeReset_def
  route_createOrganization_def route_listOrganizations_def route_readOrganization_def list_page_def
  route_listMembers_def route_changeMemberRole_def route_removeMember_def read_matrix_def route_orgRoles_def
  route_orgPermissions_def route_orgMatrix_def route_effectivePermissions_def route_roles_def route_permissions_def
  route_matrix_def route_listProjects_def route_createProject_def route_readProject_def route_updateProject_def
  route_deleteProject_def read_plan_def route_getPlan_def route_getEntitlements_def route_changeDemoPlan_def
  route_createApiKey_def route_listApiKeys_def route_revokeApiKey_def route_externalProjects_def
  route_createInvitation_def route_listInvitations_def route_revokeInvitation_def route_inspectInvitation_def
  route_acceptInvitation_def route_auditEvents_def notFound_def

lemma preserves_refresh_result:
  "(\<And>a b. preserves P (f a b)) \<Longrightarrow> preserves P g \<Longrightarrow> preserves P h \<Longrightarrow>
    preserves P (case res of RefreshRotated a b \<Rightarrow> f a b | RefreshInvalid \<Rightarrow> g | RefreshReuseDetected \<Rightarrow> h)"
  by (cases res) simp_all

lemma reached_serve: "keeps (reached d0) (serve env r request)"
  by (cases r; simp only: serve.simps route_defs; intro preserve_intros preserves_refresh_result reached_services)

lemma reached_handle: "reached d0 (db w) \<Longrightarrow> reached d0 (db (snd (handle env r request w)))"
  unfolding handle_def exchange_world
  by (rule preservesD [where P = "\<lambda>w. reached d0 (db w)"]) (intro preserve_intros reached_serve)

section \<open>Runs\<close>

text \<open>
  Between two requests nothing of the program runs: time passes, mail is delivered, the limiter's
  store may lose what it holds, and the tables stay as they are.
\<close>

inductive runs :: "environment \<Rightarrow> world \<Rightarrow> world \<Rightarrow> bool" for env w0 where
    run_start: "runs env w0 w0"
  | run_request: "runs env w0 w \<Longrightarrow> runs env w0 (snd (handle env r request w))"
  | run_idle: "runs env w0 w \<Longrightarrow> db w' = db w \<Longrightarrow> nowMs w \<le> nowMs w' \<Longrightarrow> runs env w0 w'"

lemma runs_reached:
  assumes "runs env w0 w" and "db_ok (db w0)" and "clean_events (db w0)"
  shows "reached (db w0) (db w)"
  using assms by (induction rule: runs.induct) (simp_all add: evolves_start reached_handle)

section \<open>The invariant of the tables\<close>

text \<open>
  \<open>system_ok\<close>: every constraint of the schema holds, the role catalogue is the seeded one, every
  organization has an active Owner and a plan, nothing secret is in the event log, and every session
  has one chain of refresh tokens of which at most one is unspent.
\<close>

definition system_ok :: "database \<Rightarrow> bool" where
  "system_ok d = (db_ok d \<and> catalogued d \<and> owned d \<and> planned d \<and> clean_events d \<and> chained (refreshTokens d))"

lemma quiet_keeps:
  assumes "backbone d' = backbone d"
  shows "catalogued d \<Longrightarrow> catalogued d'" "owned d \<Longrightarrow> owned d'" "planned d \<Longrightarrow> planned d'"
    "refreshTokens d' = refreshTokens d" "sessions d' = sessions d"
    "emailVerificationTokens d' = emailVerificationTokens d" "passwordResetTokens d' = passwordResetTokens d"
    "pendingRegistrations d' = pendingRegistrations d" "users d' = users d"
  using assms by (simp_all add: backbone_def catalogued_def owned_iff planned_iff)

lemma tenant_tables_account:
  assumes "account_change d d'"
  shows "organizations d' = organizations d \<and> memberships d' = memberships d \<and> organizationPlans d' = organizationPlans d \<and>
    roles d' = roles d \<and> permissions d' = permissions d \<and> rolePermissions d' = rolePermissions d"
  using assms by (induction rule: account_change.induct) (simp_all (no_asm) add: account_tables)

text \<open>Only account steps touch the tables of the accounts.\<close>

definition account_part where
  "account_part d = (refreshTokens d, sessions d, emailVerificationTokens d, passwordResetTokens d, pendingRegistrations d)"

lemma system_change_accounts:
  "system_change d d' \<Longrightarrow> account_change d d' \<or> account_part d' = account_part d"
proof (induction rule: system_change.induct)
  case (quiet d' d)
  then show ?case by (simp add: account_part_def quiet_keeps [OF quiet])
next
  case (role_set d org mid k actor now d')
  then have "account_part d' = account_part d"
    by (auto simp: role_changed_def set_role_def account_part_def)
  then show ?case ..
next
  case (member_out d org mid actor t u now d')
  then have "account_part d' = account_part d"
    by (auto simp: member_removed_def set_removed_def account_part_def)
  then show ?case ..
next
  case (plan_set org pk u now d d')
  then have "account_part d' = account_part d"
    by (auto simp: plan_changed_def set_plan_def account_part_def)
  then show ?case ..
next
  case (member_in i u mid now t d d')
  then have "account_part d' = account_part d"
    by (auto simp: joined_def set_invitation_accepted_def insert_membership_def account_part_def)
  then show ?case ..
qed (simp_all add: account_part_def provisioned_def)

lemma chained_step: "system_change d d' \<Longrightarrow> chained (refreshTokens d) \<Longrightarrow> chained (refreshTokens d')"
  using system_change_accounts [of d d'] account_change_chained [of d d'] by (auto simp: account_part_def)

lemma catalogued_step: "system_change d d' \<Longrightarrow> catalogued d \<Longrightarrow> catalogued d'"
proof (induction rule: system_change.induct)
  case (account_step d d')
  then show ?case using tenant_tables_account [of d d'] by (simp add: catalogued_def)
next
  case (role_set d org mid k actor now d')
  then show ?case by (auto simp: catalogued_def role_changed_def set_role_def)
next
  case (member_out d org mid actor t u now d')
  then show ?case by (auto simp: catalogued_def member_removed_def set_removed_def)
next
  case (plan_set org pk u now d d')
  then show ?case by (auto simp: catalogued_def plan_changed_def set_plan_def)
qed (blast intro: quiet_keeps(1) catalogued_joined, simp add: catalogued_def provisioned_def,
    blast intro: catalogued_joined)

lemma owned_step: "system_change d d' \<Longrightarrow> db_ok d \<Longrightarrow> owned d \<Longrightarrow> owned d'"
proof (induction rule: system_change.induct)
  case (account_step d d')
  then show ?case using tenant_tables_account [of d d'] by (simp add: owned_iff)
next
  case (plan_set org pk u now d d')
  then show ?case by (auto simp: owned_iff plan_changed_def set_plan_def)
qed (blast intro: quiet_keeps(2) owned_provisioned owned_role_changed owned_member_removed owned_joined)+

lemma planned_update: "(\<And>r. op_organizationId (f r) = op_organizationId r) \<Longrightarrow>
    planned (d\<lparr>organizationPlans := update_where q f (organizationPlans d)\<rparr>) = planned d"
  by (auto simp: planned_iff in_update_where) (metis+)

lemma planned_step: "system_change d d' \<Longrightarrow> planned d \<Longrightarrow> planned d'"
proof (induction rule: system_change.induct)
  case (account_step d d')
  then show ?case using tenant_tables_account [of d d'] by (simp add: planned_iff)
next
  case (plan_set org pk u now d d')
  then show ?case using planned_update [of "\<lambda>r. r\<lparr>op_planKey := pk, op_changedByUserId := Some u,
      op_assignedAt := fromDate now, op_updatedAt := fromDate now\<rparr>"]
    by (auto simp: plan_changed_def set_plan_def planned_def)
next
  case (role_set d org mid k actor now d')
  then show ?case by (auto simp: planned_iff role_changed_def set_role_def)
next
  case (member_out d org mid actor t u now d')
  then show ?case by (auto simp: planned_iff member_removed_def set_removed_def)
qed (blast intro: quiet_keeps(3) planned_provisioned planned_joined)+

lemma system_ok_reached: "reached d0 d \<Longrightarrow> system_ok d0 \<Longrightarrow> system_ok d"
proof (induction rule: evolves.induct)
  case (evolves_step d d')
  then have "db_ok d" and ok: "system_ok d" by (auto dest: evolvesD)
  with evolves_step.hyps show ?case
    unfolding system_ok_def using catalogued_step owned_step planned_step chained_step by blast
qed simp

lemma runs_from_ok: "runs env w0 w \<Longrightarrow> system_ok (db w0) \<Longrightarrow> reached (db w0) (db w)"
  by (rule runs_reached) (simp_all add: system_ok_def)

section \<open>What is over stays over\<close>

definition all_over :: "database \<Rightarrow> database \<Rightarrow> bool" where
  "all_over d d' =
    ((\<forall>i. session_over d i \<longrightarrow> session_over d' i) \<and> (\<forall>h. refresh_spent d h \<longrightarrow> refresh_spent d' h) \<and>
     (\<forall>h. verification_spent d h \<longrightarrow> verification_spent d' h) \<and> (\<forall>h. reset_spent d h \<longrightarrow> reset_spent d' h) \<and>
     (\<forall>h. registration_spent d h \<longrightarrow> registration_spent d' h))"

lemma over_part:
  assumes "account_part d' = account_part d"
  shows "all_over d d'"
  using assms
  by (simp add: account_part_def all_over_def session_over_def session_open_def refresh_spent_def verification_spent_def
      reset_spent_def registration_spent_def)

lemma over_step: "system_change d d' \<Longrightarrow> all_over d d'"
  using system_change_accounts [of d d'] over_part [of d' d] account_change_over [of d d'] account_change_spent [of d d']
  by (auto simp: all_over_def)

lemma over_reached: "reached d0 d \<Longrightarrow> all_over d0 d"
proof (induction rule: evolves.induct)
  case (evolves_step d d')
  then show ?case using over_step [of d d'] by (auto simp: all_over_def)
qed (simp add: all_over_def)

end
