(* ===== verification/Authorization.thy ===== *)
theory Authorization
  imports SystemRuns
begin

text \<open>
  Who gets what out of a route: the caller a request speaks for, the permission every organization
  route demands, and what happens without it. The guarded services discharge this once and for all
  through their contract; a route adds the bearer token and the schemas.
\<close>

section \<open>The caller of a request\<close>

definition bearer :: "environment \<Rightarrow> database \<Rightarrow> date \<Rightarrow> http_request \<Rightarrow> (user_row \<times> session_row) option" where
  "bearer env d now request =
    (case bearerCredential (rq_authorization request) of
       None \<Rightarrow> None
     | Some token \<Rightarrow> token_bearer (en_crypto env) (en_auth env) d now token)"

lemma requireBearerToken_credential:
  "requireBearerToken request = (case bearerCredential (rq_authorization request) of
     None \<Rightarrow> throw authenticationRequiredError | Some token \<Rightarrow> ret token)"
  by (simp add: requireBearerToken_def bearerCredential_def Let_def split: option.split)

lemma wp_requireBearerToken:
  assumes "\<And>token. bearerCredential (rq_authorization request) = Some token \<Longrightarrow> Q token w"
    and "\<And>e. bearerCredential (rq_authorization request) = None \<Longrightarrow> E e w"
  shows "wp (requireBearerToken request) Q E w"
  unfolding requireBearerToken_credential by (auto simp: wp_simps split: option.split intro: assms)

lemma wp_authenticate_request:
  assumes "\<And>u s. bearer env (db w) (nowMs w) request = Some (u, s) \<Longrightarrow> Q (toAuthUser u) w"
    and "\<And>e w'. bearer env (db w) (nowMs w) request = None \<Longrightarrow> only_events (db w) (db w') \<Longrightarrow> E e w'"
  shows "wp (authenticate_request env request) Q E w"
  unfolding authenticate_request_def authenticate_user_def
  by (auto simp: wp_simps bearer_def intro!: wp_requireBearerToken wp_requireAuthenticatedSession assms)

section \<open>What the routes demand\<close>

text \<open>The routes that speak for a signed-in user.\<close>

fun user_route :: "route \<Rightarrow> bool" where
  "user_route PostLogin = False"
| "user_route PostRefresh = False"
| "user_route PostLogout = False"
| "user_route PostRegister = False"
| "user_route PostRegistrationComplete = False"
| "user_route PostVerificationComplete = False"
| "user_route PostRecoveryRequest = False"
| "user_route PostRecoveryComplete = False"
| "user_route PostInvitationInspect = False"
| "user_route GetExternalProjects = False"
| "user_route UnknownRoute = False"
| "user_route _ = True"

text \<open>The organization and the permission of a route.\<close>

fun route_permission :: "route \<Rightarrow> (string \<times> permission_key) option" where
  "route_permission (GetOrganization g) = Some (g, OrgRead)"
| "route_permission (GetMembers g) = Some (g, MembersRead)"
| "route_permission (PatchMemberRole g m) = Some (g, MembersChangeRole)"
| "route_permission (DeleteMember g m) = Some (g, MembersRemove)"
| "route_permission (GetOrgRoles g) = Some (g, RolesRead)"
| "route_permission (GetOrgPermissions g) = Some (g, PermissionsRead)"
| "route_permission (GetOrgMatrix g) = Some (g, PermissionsRead)"
| "route_permission (GetProjects g) = Some (g, ProjectsRead)"
| "route_permission (PostProjects g) = Some (g, ProjectsCreate)"
| "route_permission (GetProject g p) = Some (g, ProjectsRead)"
| "route_permission (PatchProject g p) = Some (g, ProjectsUpdate)"
| "route_permission (DeleteProject g p) = Some (g, ProjectsDelete)"
| "route_permission (GetPlan g) = Some (g, PlanRead)"
| "route_permission (GetEntitlements g) = Some (g, PlanRead)"
| "route_permission (PatchDemoPlan g) = Some (g, PlanChangeDemo)"
| "route_permission (PostApiKeys g) = Some (g, ApiKeysCreate)"
| "route_permission (GetApiKeys g) = Some (g, ApiKeysRead)"
| "route_permission (DeleteApiKey g k) = Some (g, ApiKeysRevoke)"
| "route_permission (PostInvitations g) = Some (g, InvitationsCreate)"
| "route_permission (GetInvitations g) = Some (g, InvitationsRead)"
| "route_permission (DeleteInvitation g i) = Some (g, InvitationsRevoke)"
| "route_permission (GetAuditEvents g) = Some (g, AuditEventsRead)"
| "route_permission _ = None"

definition is_refusal :: "'a http_response \<Rightarrow> bool" where
  "is_refusal resp = (case rs_body resp of SuccessEnvelope _ \<Rightarrow> False | ErrorEnvelope _ _ _ _ \<Rightarrow> True)"

text \<open>
  A handler that raises, or throws after setting a cookie, leaves a refusal; the global limit before
  it changes no table.
\<close>

lemma refuses_exchange:
  assumes "\<And>v. db v = db w \<Longrightarrow> nowMs v = nowMs w \<Longrightarrow>
      wp (h request) (\<lambda>x w'. isl (hd_outcome x) \<and> P (db w')) (\<lambda>_ w'. P (db w')) v"
    and "P (db w)"
  shows "is_refusal (fst (exchange l h request w)) \<and> P (db (snd (exchange l h request w)))"
proof -
  have error: "is_refusal \<lparr>rs_status = fst (errorReply i e), rs_setCookie = k, rs_body = snd (errorReply i e)\<rparr>" for i e k
    by (cases e) (simp_all add: is_refusal_def makeError_def)
  have "wp (thenP (globalRateLimit l request) (h request)) (\<lambda>x w'. isl (hd_outcome x) \<and> P (db w')) (\<lambda>_ w'. P (db w')) w"
    using assms unfolding globalRateLimit_def
    by (auto simp: wp_simps same_but_limiter_fields split: option.split intro!: wp_rl_consume)
  then show ?thesis
    unfolding wp_def exchange_def using error
    by (auto simp: case_prod_beta isl_def split: sum.splits)
qed

definition raises :: "'a api \<Rightarrow> world \<Rightarrow> bool" where
  "raises m w = wp m (\<lambda>_ _. False) (\<lambda>_ w'. only_events (db w) (db w')) w"

lemma raises_exchange:
  assumes "\<And>v. db v = db w \<Longrightarrow> nowMs v = nowMs w \<Longrightarrow> raises (h request) v"
  shows "is_refusal (fst (exchange l h request w)) \<and> only_events (db w) (db (snd (exchange l h request w)))"
proof (rule refuses_exchange)
  fix v :: world assume v: "db v = db w" "nowMs v = nowMs w"
  show "wp (h request) (\<lambda>x w'. isl (hd_outcome x) \<and> only_events (db w) (db w')) (\<lambda>_ w'. only_events (db w) (db w')) v"
    using assms [OF v] v(1) unfolding raises_def by (auto elim!: wp_mono)
qed simp

section \<open>Without a caller\<close>

lemma raises_authenticate:
  "bearer env (db w) (nowMs w) request = None \<Longrightarrow>
    wp (authenticate_request env request) Q (\<lambda>_ w'. only_events (db w) (db w')) w"
  by (rule wp_authenticate_request) simp_all

lemma raises_session:
  assumes "bearer env (db w) (nowMs w) request = None" and "bearerCredential (rq_authorization request) = Some token"
  shows "wp (requireAuthenticatedSession (en_crypto env) (en_auth env) token ctx) Q
    (\<lambda>_ w'. only_events (db w) (db w')) w"
  by (rule wp_requireAuthenticatedSession) (use assms in \<open>simp_all add: bearer_def\<close>)

lemma raises_stranger:
  assumes "bearer env (db w) (nowMs w) request = None" and "user_route r"
  shows "raises (serve env r request) w"
  using assms
  by (cases r; simp only: serve.simps route_defs user_route.simps raises_def wp_bindP wp_thenP)
    (auto simp: wp_simps case_prod_beta changePassword_def changeEmail_def listSessions_def revokeSession_def
      authenticate_user_def Let_def request_schemas single_field_def
      intro!: raises_authenticate raises_session wp_requireBearerToken)

section \<open>Without the permission\<close>

context guarded_operation
begin

lemma raises_unpermitted:
  assumes "db_ok (db w)" and "catalogued (db w)" and "\<not> may (db w) (user i) (scope i) needs"
  shows "wp (op i) Q (\<lambda>_ w'. only_events (db w) (db w')) w"
  using refused [OF assms] by (simp add: wp_def)

end

lemmas unpermitted = list_members.raises_unpermitted change_member_role.raises_unpermitted
  remove_member.raises_unpermitted org_roles.raises_unpermitted org_permissions.raises_unpermitted
  org_matrix.raises_unpermitted list_projects.raises_unpermitted create_project.raises_unpermitted
  read_project.raises_unpermitted update_project.raises_unpermitted delete_project.raises_unpermitted
  get_plan.raises_unpermitted get_entitlements.raises_unpermitted change_demo_plan.raises_unpermitted
  create_key.raises_unpermitted list_keys.raises_unpermitted revoke_key.raises_unpermitted
  create_invitation.raises_unpermitted list_invitations.raises_unpermitted revoke_invitation.raises_unpermitted
  list_audit.raises_unpermitted

lemma au_id_toAuthUser [simp]: "au_id (toAuthUser u) = u_id u"
  by (simp add: toAuthUser_def)

text \<open>Reading an organization resolves the context itself, and then asks for \<open>org.read\<close>.\<close>

lemma readOrganization_unpermitted:
  assumes "db_ok (db w)" and "catalogued (db w)" and "\<not> may (db w) u g OrgRead"
  shows "wp (readOrganization u g) Q (\<lambda>_ w'. only_events (db w) (db w')) w"
proof (rule requireMembership_cases [OF assms(1,2), of u g None], goal_cases member stranger)
  case (member actor m k)
  then have "OrgRead \<notin> set (act_permissions actor)" using assms(3) by (auto simp: may_iff)
  with member(1) show ?thesis
    by (auto simp: requireMembership_def readOrganization_def prog_simps wp_def split: prod.splits sum.splits)
next
  case stranger
  then show ?thesis
    by (auto simp: requireMembership_def readOrganization_def prog_simps wp_def split: prod.splits sum.splits)
qed

lemma raises_without_right:
  assumes "db_ok (db w)" and "catalogued (db w)" and "route_permission r = Some (g, p)"
    and "\<And>u s. bearer env (db w) (nowMs w) request = Some (u, s) \<Longrightarrow> \<not> may (db w) (u_id u) g p"
  shows "raises (serve env r request) w"
  using assms(3)
  by (cases r; simp only: serve.simps route_defs route_permission.simps raises_def wp_bindP wp_thenP option.inject
        prod.inject simp_thms HOL.simp_thms option.distinct)
    (auto simp: wp_simps case_prod_beta Let_def request_schemas single_field_def keyExpiry_def readInput_def
      read_project_input.make_def create_project_input.make_def update_project_input.make_def
      delete_project_input.make_def plan_input.make_def assms(1,2)
      intro!: wp_authenticate_request unpermitted readOrganization_unpermitted dest!: assms(4))

section \<open>The session of a signed token\<close>

lemma signed_claims:
  assumes "jwt_sound c"
    and "verifyAccessTokenWithRotation c now (jwtSign c k (accessPayload u sid ttl t)) k1 k2 = Inr claims"
  shows "cl_sessionId claims = sid \<and> cl_sub claims = u"
proof -
  let ?token = "jwtSign c k (accessPayload u sid ttl t)"
  have signed: "cl_sessionId cs = sid \<and> cl_sub cs = u" if "verifyAccessToken c now ?token k' = Inr cs" for k' cs
    using that unfolding verify_signed [OF assms(1)] by (auto split: if_splits)
  show ?thesis
  proof (cases "verifyAccessToken c now ?token k1")
    case (Inl e)
    then obtain p where "k2 = Some p" using assms(2) by (cases k2) (simp_all add: verifyAccessTokenWithRotation_def)
    then show ?thesis using assms(2) Inl
      by (cases "verifyAccessToken c now ?token p")
        (auto simp: verifyAccessTokenWithRotation_def dest: signed split: sum.splits)
  next
    case (Inr cs)
    then show ?thesis using assms(2) signed by (auto simp: verifyAccessTokenWithRotation_def)
  qed
qed

lemma bearer_of_signed:
  assumes "jwt_sound c" and "token_bearer c opts d now (jwtSign c k (accessPayload u sid ttl t)) = Some (us, s)"
  shows "s_id s = sid \<and> u_id us = u"
proof -
  obtain claims where v: "verifyAccessTokenWithRotation c now (jwtSign c k (accessPayload u sid ttl t))
      (jwtSecret opts) (previousJwtSecret opts) = Inr claims"
    using assms(2)
    by (cases "verifyAccessTokenWithRotation c now (jwtSign c k (accessPayload u sid ttl t))
        (jwtSecret opts) (previousJwtSecret opts)") (simp_all add: token_bearer_def)
  then have "session_by_id d (cl_sessionId claims) = Some s" "user_by_id d (cl_sub claims) = Some us"
    using assms(2) by (simp_all add: token_bearer_def split: option.splits if_splits)
  then show ?thesis using signed_claims [OF assms(1) v] by (auto dest: session_by_idD user_by_idD)
qed

section \<open>Properties\<close>

text \<open>
  C2. Along every run of the program, an organization route succeeds only for a caller
  whose bearer token stands for a user with an active membership in that organization whose role
  grants the route's permission; every other request is answered with an error and changes no table
  but the event log.
\<close>

theorem authorization_enforced:
  assumes "runs env w0 w" and "system_ok (db w0)" and "route_permission r = Some (g, p)"
    and "handle env r request w = (resp, w')"
  shows "(\<exists>u s. bearer env (db w) (nowMs w) request = Some (u, s) \<and> may (db w) (u_id u) g p) \<or>
    (is_refusal resp \<and> only_events (db w) (db w'))"
proof -
  have ok: "db_ok (db w)" "catalogued (db w)"
    using system_ok_reached [OF runs_from_ok [OF assms(1,2)] assms(2)] by (simp_all add: system_ok_def)
  show ?thesis
  proof (cases "\<exists>u s. bearer env (db w) (nowMs w) request = Some (u, s) \<and> may (db w) (u_id u) g p")
    case False
    then have "raises (serve env r request) v" if "db v = db w" "nowMs v = nowMs w" for v
      using ok that by (intro raises_without_right [OF _ _ assms(3)]) auto
    then have "is_refusal (fst (handle env r request w)) \<and> only_events (db w) (db (snd (handle env r request w)))"
      unfolding handle_def by (rule raises_exchange)
    then show ?thesis using assms(4) by simp
  qed simp
qed

text \<open>
  C3. Once a session is over (revoked by its user, by a password change or reset, by a logout or
  by the reuse of a refresh token), then after any further run no access token issued for it is
  accepted by any route that speaks for a user, under any signing key and however long it was to
  live: every such request is refused and changes no table but the event log.
\<close>

theorem ended_session_refused:
  assumes "jwt_sound (en_crypto env)" and "runs env w0 w" and "system_ok (db w0)" and "session_over (db w0) sid"
    and "bearerCredential (rq_authorization request) = Some (jwtSign (en_crypto env) k (accessPayload u sid ttl t))"
    and "user_route r" and "handle env r request w = (resp, w')"
  shows "is_refusal resp \<and> only_events (db w) (db w')"
proof -
  have over: "session_over (db w) sid"
    using over_reached [OF runs_from_ok [OF assms(2,3)]] assms(4) by (simp add: all_over_def)
  have "bearer env (db w) (nowMs w) request = None"
  proof (rule ccontr)
    assume "bearer env (db w) (nowMs w) request \<noteq> None"
    then obtain us s where b: "token_bearer (en_crypto env) (en_auth env) (db w) (nowMs w)
        (jwtSign (en_crypto env) k (accessPayload u sid ttl t)) = Some (us, s)"
      using assms(5) by (auto simp: bearer_def)
    have "s_id s = sid" using bearer_of_signed [OF assms(1) b] by simp
    with b over show False using token_bearerD(2,5) [OF b] by (auto simp: session_over_def session_open_def list_ex_iff)
  qed
  then have "raises (serve env r request) v" if "db v = db w" "nowMs v = nowMs w" for v
    using that by (intro raises_stranger assms(6)) simp
  then have "is_refusal (fst (handle env r request w)) \<and> only_events (db w) (db (snd (handle env r request w)))"
    unfolding handle_def by (rule raises_exchange)
  then show ?thesis using assms(7) by simp
qed

text \<open>
  C1. Along every run of the program from valid tables, whatever the requests and whatever
  fails, every constraint of the schema holds, the role catalogue stays as seeded, every organization
  keeps an active Owner and a plan, no event carries secret material, and every session keeps one
  chain of refresh tokens with at most one that can still be used.
\<close>

theorem system_invariant:
  assumes "runs env w0 w" and "system_ok (db w0)"
  shows "system_ok (db w)"
  by (rule system_ok_reached [OF runs_from_ok [OF assms] assms(2)])

end
