(* ===== verification/OneTime.thy ===== *)
theory OneTime
  imports Authorization
begin

text \<open>
  One-time tokens (\<^verbatim>\<open>password-recovery\<close>, \<^verbatim>\<open>email-verification\<close>, \<^verbatim>\<open>registration\<close>, refresh): what presenting
  one does, and that a spent one is refused along every run.
\<close>

section \<open>Tokens are told apart by their hash\<close>

lemma db_ok_token_hashes:
  assumes "db_ok d"
  shows "distinct (map tok_tokenHash (passwordResetTokens d))" "distinct (map tok_tokenHash (emailVerificationTokens d))"
    "distinct (map preg_tokenHash (pendingRegistrations d))"
  using assms by (simp_all add: db_ok_iff)

lemma spent_found:
  assumes "list_ex (\<lambda>t. k t = h \<and> \<not> q t) ts" and "distinct (map k ts)"
  shows "\<exists>t. List.find (\<lambda>t. k t = h) ts = Some t \<and> \<not> q t"
proof -
  obtain t where t: "t \<in> set ts" "k t = h" "\<not> q t" using assms(1) by (auto simp: list_ex_iff)
  then have "List.find (\<lambda>t. k t = h) ts = Some t" by (intro find_unique_key [OF assms(2)]) auto
  with t show ?thesis by blast
qed

lemma spent_tokens:
  assumes "db_ok d"
  shows "reset_spent d h \<Longrightarrow> \<exists>t. reset_token d h = Some t \<and> \<not> usable_token t"
    "verification_spent d h \<Longrightarrow> \<exists>t. verification_token d h = Some t \<and> \<not> usable_token t"
    "registration_spent d h \<Longrightarrow> \<exists>t. registration_by_hash d h = Some t \<and> \<not> usable_registration t"
  unfolding reset_spent_def verification_spent_def registration_spent_def reset_token_def verification_token_def
    registration_by_hash_def
  by (intro spent_found db_ok_token_hashes [OF assms]; assumption)+

section \<open>Completing a reset\<close>

text \<open>The tables after a reset for the account of \<open>token\<close>.\<close>

definition reset_tables :: "token_row \<Rightarrow> user_row \<Rightarrow> string \<Rightarrow> date \<Rightarrow> database \<Rightarrow> database" where
  "reset_tables token u h now d =
    (let d1 = revoke_sessions (\<lambda>s. s_userId s = u_id u) REVOKE_REASON_PASSWORD_RESET now
        (invalidate_reset_tokens (other_token token) now
          (use_reset_token (tok_id token) now (set_password (u_id u) h now d)))
     in revoke_tokens (token_of_sessions (\<lambda>s. s_userId s = u_id u) d1) REVOKE_REASON_PASSWORD_RESET now d1)"

definition may_reset :: "database \<Rightarrow> string \<Rightarrow> date \<Rightarrow> token_row \<Rightarrow> user_row \<Rightarrow> bool" where
  "may_reset d h now token u =
    (reset_token d h = Some token \<and> usable_token token \<and> now < toDate (tok_expiresAt token) \<and>
     user_by_id d (tok_userId token) = Some u \<and> recoverable u)"

lemma wp_repo_completeReset:
  assumes "\<And>token u w'. may_reset (db w) h now token u \<Longrightarrow> db w' = reset_tables token u pw now (db w) \<Longrightarrow>
      db_ok (db w') \<Longrightarrow> nowMs w' = nowMs w \<Longrightarrow> Q (ResetDone u) w'"
    and "\<And>r. \<not> (\<exists>token u. may_reset (db w) h now token u) \<Longrightarrow> (\<forall>u. r \<noteq> ResetDone u) \<Longrightarrow> Q r w"
    and "\<And>e w'. db w' = db w \<Longrightarrow> E e w'"
  shows "wp (repo_completeReset h pw now) Q E w"
  unfolding repo_completeReset_def
  by (auto simp: wp_simps may_reset_def reset_tables_def Let_def assms(3) split: option.split intro!: assms(1,2))

text \<open>A refusal is recorded, then thrown.\<close>

lemma wp_recorded_refusal:
  assumes "\<And>e w'. only_events (db w) (db w') \<Longrightarrow> E e w'"
  shows "wp (thenP (writeSecurityEvent u s a t md ctx) (throw e)) Q E w"
  by (auto simp: wp_simps intro!: wp_auth_event assms)

lemma drawn_tables [simp]: "db (drawn n w) = db w" "nowMs (drawn n w) = nowMs w"
  by (simp_all add: drawn_def)

lemma wp_completeReset:
  assumes "\<And>token u salt w'. may_reset (db w) (hashPasswordResetToken c raw) (nowMs w) token u \<Longrightarrow>
      only_events (reset_tables token u (argonHash c salt pw) (nowMs w) (db w)) (db w') \<Longrightarrow> Q w'"
    and "\<And>e w'. only_events (db w) (db w') \<Longrightarrow> E e w'"
    and "\<And>e token u salt w'. may_reset (db w) (hashPasswordResetToken c raw) (nowMs w) token u \<Longrightarrow>
      db w' = reset_tables token u (argonHash c salt pw) (nowMs w) (db w) \<Longrightarrow> E e w'"
  shows "wp (completeReset c ro raw pw ctx) (\<lambda>_. Q) E w"
proof -
  have refused: "wp (case r of
      ResetDone user \<Rightarrow> writeSecurityEvent (Some (u_id user)) None UserActor PasswordResetCompleted
        [(''sessionsRevoked'', JBool True)] ctx
    | _ \<Rightarrow> thenP (writeSecurityEvent None None AnonymousActor PasswordResetRejected
          [(''reason'', JStr (reset_status r))] ctx) (throw (reset_error r))) (\<lambda>_. Q) E v"
    if "\<forall>u. r \<noteq> ResetDone u" "db v = db w" for r v
    using that by (cases r) (auto intro!: wp_recorded_refusal assms(2))
  have core: "wp (bindP (repo_completeReset (hashPasswordResetToken c raw) (argonHash c salt pw) (nowMs w)) (\<lambda>outcome.
      case outcome of
      ResetDone user \<Rightarrow> writeSecurityEvent (Some (u_id user)) None UserActor PasswordResetCompleted
        [(''sessionsRevoked'', JBool True)] ctx
    | _ \<Rightarrow> thenP (writeSecurityEvent None None AnonymousActor PasswordResetRejected
          [(''reason'', JStr (reset_status outcome))] ctx) (throw (reset_error outcome)))) (\<lambda>_. Q) E v"
    if v: "db v = db w" for v salt
    unfolding wp_bindP
  proof (rule wp_repo_completeReset, goal_cases reset refusal failure)
    case (reset token u w')
    then show ?case using v by (auto intro!: wp_auth_event assms(1,3))
  next
    case (refusal r)
    then show ?case using v by (intro refused) auto
  next
    case (failure e w')
    then show ?case using v by (auto intro!: assms(2))
  qed
  show ?thesis
    unfolding completeReset_def completeResetLimits_def
    by (auto simp: wp_thenP wp_hashPassword wp_getsP wp_bindP [of "hashPassword c pw"] wp_bindP [of "getsP nowMs"]
        same_but_limiter_fields intro!: wp_enforceIpRateLimit wp_enforceAuthRateLimit core assms(2))
qed

section \<open>What a reset leaves behind\<close>

lemma revoked_sessions:
  assumes "s \<in> set (sessions (revoke_sessions q m now d))" and "q s"
    and "\<And>x a b c. q (x\<lparr>s_revokedAt := a, s_revokedReason := b, s_updatedAt := c\<rparr>) = q x"
  shows "s_revokedAt s \<noteq> None"
proof -
  obtain r where r: "s = (if q r \<and> s_revokedAt r = None
      then r\<lparr>s_revokedAt := Some (fromDate now), s_revokedReason := Some m, s_updatedAt := fromDate now\<rparr> else r)"
    using assms(1) unfolding revoke_sessions_def by (auto simp: in_update_where simp del: set_update_where)
  then show "s_revokedAt s \<noteq> None" using assms(2,3) by (simp split: if_splits)
qed

lemma reset_tables_sessions:
  assumes "s \<in> set (sessions (reset_tables token u h now d))" and "s_userId s = u_id u"
  shows "s_revokedAt s \<noteq> None"
proof (rule revoked_sessions)
  show "s \<in> set (sessions (revoke_sessions (\<lambda>x. s_userId x = u_id u) REVOKE_REASON_PASSWORD_RESET now
        (invalidate_reset_tokens (other_token token) now
          (use_reset_token (tok_id token) now (set_password (u_id u) h now d)))))"
    using assms(1) by (simp only: reset_tables_def Let_def revoke_tokens_fields)
qed (simp_all add: assms(2))

lemma reset_tables_others:
  "filter (\<lambda>s. s_userId s \<noteq> u_id u) (sessions (reset_tables token u h now d)) =
    filter (\<lambda>s. s_userId s \<noteq> u_id u) (sessions d)"
proof -
  have "sessions (reset_tables token u h now d) = update_where (\<lambda>s. s_userId s = u_id u \<and> s_revokedAt s = None)
      (\<lambda>s. s\<lparr>s_revokedAt := Some (fromDate now), s_revokedReason := Some REVOKE_REASON_PASSWORD_RESET,
        s_updatedAt := fromDate now\<rparr>) (sessions d)"
    by (simp add: reset_tables_def Let_def invalidate_reset_tokens_def use_reset_token_def set_password_def
        revoke_sessions_def)
  then show ?thesis by (simp only:) (rule filter_update_where_frame, simp)
qed

lemma reset_tables_users:
  "users (reset_tables token u h now d) = update_where (\<lambda>x. u_id x = u_id u)
    (\<lambda>x. x\<lparr>u_passwordHash := h, u_updatedAt := fromDate now\<rparr>) (users d)"
  by (simp add: reset_tables_def Let_def invalidate_reset_tokens_def use_reset_token_def set_password_def)

lemma reset_tables_spent:
  assumes "reset_token d h = Some token"
  shows "reset_spent (reset_tables token u pw now d) h"
proof -
  have token: "token \<in> set (passwordResetTokens d)" "tok_tokenHash token = h"
    using assms by (auto simp: reset_token_def dest: find_SomeD)
  have "token\<lparr>tok_usedAt := Some (fromDate now)\<rparr> \<in> set (use_token (tok_id token) now (passwordResetTokens d))"
    using token(1) unfolding use_token_def by (auto simp: in_update_where simp del: set_update_where intro!: bexI [of _ token])
  then have "list_ex (\<lambda>t. tok_tokenHash t = h \<and> \<not> usable_token t) (use_token (tok_id token) now (passwordResetTokens d))"
    unfolding list_ex_iff using token(2) by (intro bexI) (simp_all add: usable_token_def)
  then have "list_ex (\<lambda>t. tok_tokenHash t = h \<and> \<not> usable_token t)
      (invalidate_tokens q now (use_token (tok_id token) now (passwordResetTokens d)))" for q
    unfolding invalidate_tokens_def by (rule list_ex_update) (auto simp: usable_token_def)
  then show ?thesis
    by (simp add: reset_spent_def reset_tables_def Let_def invalidate_reset_tokens_def use_reset_token_def
        revoke_tokens_def revoke_sessions_def set_password_def)
qed

section \<open>The other completions\<close>

lemma wp_completeVerification_spent:
  assumes "verification_token (db w) (hashEmailVerificationToken c raw) = Some t" and "\<not> usable_token t"
  shows "wp (completeVerification c ev raw ctx) (\<lambda>_ _. False) (\<lambda>_ w'. only_events (db w) (db w')) w"
  unfolding completeVerification_def repo_completeVerification_def
  using assms
  by (auto simp: wp_simps same_but_limiter_fields intro!: wp_enforceIpRateLimit wp_auth_event)

lemma wp_completeReset_spent:
  assumes "reset_token (db w) (hashPasswordResetToken c raw) = Some t" and "\<not> usable_token t"
  shows "wp (completeReset c ro raw pw ctx) (\<lambda>_ _. False) (\<lambda>_ w'. only_events (db w) (db w')) w"
  by (rule wp_completeReset) (use assms in \<open>auto simp: may_reset_def\<close>)

lemma wp_resolveCompletionInvitation:
  "(\<And>i. Q i w) \<Longrightarrow> wp (resolveCompletionInvitation rg x) Q E w"
  unfolding resolveCompletionInvitation_def resolveCompletionContext_def findInvitationById_def
  by (auto simp: wp_simps split: option.split)

lemma wp_completeRegistration_spent:
  assumes "registration_by_hash (db w) (hashRegistrationCompletionToken c raw) = Some t" and "\<not> usable_registration t"
  shows "wp (completeRegistration c rg raw ctx) (\<lambda>_ _. False) (\<lambda>_ w'. only_events (db w) (db w')) w"
  unfolding completeRegistration_def completeRegistrationLimits_def repo_completeRegistration_def
    findPendingRegistrationByTokenHash_def Let_def
  using assms
  by (auto simp: wp_simps same_but_limiter_fields intro!: wp_enforceIpRateLimit wp_enforceAuthRateLimit
      wp_resolveCompletionInvitation wp_auth_event)

section \<open>Reuse of a refresh token\<close>

lemma spent_refresh_token:
  assumes "db_ok d" and "refresh_spent d h"
  shows "\<exists>token. token_by_hash d h = Some token \<and> consumed token"
proof -
  obtain r where r: "r \<in> set (refreshTokens d)" "rt_tokenHash r = h" "consumed r"
    using assms(2) by (auto simp: refresh_spent_def list_ex_iff)
  then show ?thesis using token_by_hash_unique [OF assms(1)] by blast
qed

lemma session_over_cong: "sessions d' = sessions d \<Longrightarrow> session_over d' i = session_over d i"
  by (simp add: session_over_def session_open_def)

lemma session_over_reuse:
  assumes "db_ok d" and "token_by_hash d h = Some token"
  shows "session_over (reuse_tables token now d) (rt_sessionId token)"
proof -
  let ?i = "rt_sessionId token"
  obtain s where s: "session_by_id d ?i = Some s" using token_session [OF assms] by blast
  have "?i \<in> s_id ` set (sessions (revoke_sessions (\<lambda>s. s_id s = ?i) m now d'))" if "sessions d' = sessions d" for m d'
  proof -
    have "map s_id (sessions (revoke_sessions (\<lambda>s. s_id s = ?i) m now d')) = map s_id (sessions d)"
      by (simp add: revoke_sessions_def that)
    then have "s_id ` set (sessions (revoke_sessions (\<lambda>s. s_id s = ?i) m now d')) = s_id ` set (sessions d)"
      by (metis list.set_map)
    then show ?thesis using session_by_idD [OF s] by (metis image_eqI)
  qed
  moreover have "\<not> session_open (revoke_sessions (\<lambda>s. s_id s = ?i) m now d') ?i" for m d'
    using revoked_sessions [where q = "\<lambda>s. s_id s = ?i"] by (auto simp: session_open_def list_ex_iff)
  ultimately show ?thesis by (simp add: session_over_def reuse_tables_def)
qed

lemma wp_refresh_spent:
  assumes "db_ok (db w)" and "token_by_hash (db w) (hashOpaqueToken c raw) = Some token" and "consumed token"
  shows "wp (refresh c opts raw ctx)
    (\<lambda>r w'. r = RefreshReuseDetected \<and> session_over (db w') (rt_sessionId token))
    (\<lambda>_ w'. only_events (db w) (db w') \<or> session_over (db w') (rt_sessionId token)) w"
proof -
  have closed: "r = RefreshReuseDetected \<and> session_over d' (rt_sessionId token)"
    if "refreshed c (nowMs w) (hashOpaqueToken c raw) x (db w) r d'" for r d' x
    using that
  proof cases
    case (reuse token' s)
    then have same: "sessions d' = sessions (reuse_tables token (nowMs w) (db w))"
      using assms(2) by (simp add: only_events_accounts)
    show ?thesis
      using session_over_reuse [OF assms(1,2), of "nowMs w"] reuse(1) by (simp add: session_over_cong [OF same])
  qed (use assms(2,3) in simp_all)
  show ?thesis
  proof (rule wp_refresh [OF assms(1)], goal_cases answer failure)
    case (answer r w')
    then show ?case by (intro closed)
  next
    case (failure e w')
    then show ?case using closed by (elim disjE exE) blast+
  qed
qed

section \<open>Presenting a token\<close>

text \<open>The refresh cookie of a request, and the one-time token its body carries, when it is spent.\<close>

definition cookie_token :: "http_request \<Rightarrow> string \<Rightarrow> string option" where
  "cookie_token request name =
    (case rq_cookie request of
       None \<Rightarrow> None
     | Some header \<Rightarrow> Option.bind (cookie_in name (split_on (CHR '';'') header)) decodeURIComponent)"

fun spent_presented :: "environment \<Rightarrow> database \<Rightarrow> route \<Rightarrow> http_request \<Rightarrow> bool" where
  "spent_presented env d PostRecoveryComplete request =
    (case field ''token'' tokenSchema (rq_body request) of None \<Rightarrow> False
     | Some t \<Rightarrow> reset_spent d (hashPasswordResetToken (en_crypto env) t))"
| "spent_presented env d PostVerificationComplete request =
    (case field ''token'' tokenSchema (rq_body request) of None \<Rightarrow> False
     | Some t \<Rightarrow> verification_spent d (hashEmailVerificationToken (en_crypto env) t))"
| "spent_presented env d PostRegistrationComplete request =
    (case field ''token'' tokenSchema (rq_body request) of None \<Rightarrow> False
     | Some t \<Rightarrow> registration_spent d (hashRegistrationCompletionToken (en_crypto env) t))"
| "spent_presented env d PostRefresh request =
    (case cookie_token request (ck_cookieName (en_refreshCookie env)) of None \<Rightarrow> False
     | Some t \<Rightarrow> refresh_spent d (hashOpaqueToken (en_crypto env) t))"
| "spent_presented env d _ request = False"

lemma spent_presented_mono: "all_over d d' \<Longrightarrow> spent_presented env d r request \<Longrightarrow> spent_presented env d' r request"
  by (cases r) (auto simp: all_over_def split: option.splits)

lemma wp_readCookie:
  assumes "cookie_token request name = Some t" and "Q (Some t) w"
  shows "wp (readCookie request name) Q E w"
  using assms by (auto simp: readCookie_def cookie_token_def indexOf_def wp_simps split: option.splits bind_splits)

lemma never_returns: "wp m (\<lambda>_ _. False) E w \<Longrightarrow> wp m Q E w"
  by (erule wp_mono) simp_all

lemma raises_spent_route:
  assumes "db_ok (db w)" and "spent_presented env (db w) r request" and "r \<noteq> PostRefresh"
  shows "raises (serve env r request) w"
proof (cases r)
  case PostRecoveryComplete
  then show ?thesis
    using assms(2)
    by (auto simp: raises_def route_completeReset_def request_schemas wp_simps Let_def split: option.splits
        intro!: never_returns [OF wp_completeReset_spent] dest!: spent_tokens [OF assms(1)])
next
  case PostVerificationComplete
  then show ?thesis
    using assms(2)
    by (auto simp: raises_def route_completeVerification_def request_schemas single_field_def wp_simps Let_def
        split: option.splits intro!: never_returns [OF wp_completeVerification_spent] dest!: spent_tokens [OF assms(1)])
next
  case PostRegistrationComplete
  then show ?thesis
    using assms(2)
    by (auto simp: raises_def route_completeRegistration_def request_schemas single_field_def wp_simps Let_def
        split: option.splits intro!: never_returns [OF wp_completeRegistration_spent] dest!: spent_tokens [OF assms(1)])
qed (use assms(2,3) in simp_all)

lemma refuses_spent_cookie:
  assumes "db_ok (db w)" and "spent_presented env (db w) PostRefresh request"
  shows "\<exists>token. token \<in> set (refreshTokens (db w)) \<and> consumed token \<and>
    wp (route_refresh env request)
      (\<lambda>x w'. isl (hd_outcome x) \<and> (only_events (db w) (db w') \<or> session_over (db w') (rt_sessionId token)))
      (\<lambda>_ w'. only_events (db w) (db w') \<or> session_over (db w') (rt_sessionId token)) w"
proof -
  obtain raw where raw: "cookie_token request (ck_cookieName (en_refreshCookie env)) = Some raw"
    "refresh_spent (db w) (hashOpaqueToken (en_crypto env) raw)"
    using assms(2) by (auto split: option.splits)
  obtain token where token: "token_by_hash (db w) (hashOpaqueToken (en_crypto env) raw) = Some token" "consumed token"
    using spent_refresh_token [OF assms(1) raw(2)] by blast
  let ?P = "\<lambda>w'. only_events (db w) (db w') \<or> session_over (db w') (rt_sessionId token)"
  have core: "wp (refresh (en_crypto env) (en_auth env) raw ctx) (\<lambda>result. wp (case result of
      RefreshRotated tokens rawRefreshToken \<Rightarrow>
        sendWithCookie (setRefreshCookie rawRefreshToken (en_refreshCookie env)) (TokensPayload tokens) 200
    | RefreshReuseDetected \<Rightarrow>
        throwWithCookie (clearRefreshCookie (en_refreshCookie env)) tokenReuseDetectedError
    | RefreshInvalid \<Rightarrow>
        throwWithCookie (clearRefreshCookie (en_refreshCookie env)) invalidRefreshTokenError)
      (\<lambda>x w'. isl (hd_outcome x) \<and> ?P w') (\<lambda>_. ?P)) (\<lambda>_. ?P) w" for ctx
    by (rule wp_mono [OF wp_refresh_spent [OF assms(1) token]]) (auto simp: wp_simps)
  have "wp (route_refresh env request) (\<lambda>x w'. isl (hd_outcome x) \<and> ?P w') (\<lambda>_. ?P) w"
    unfolding route_refresh_def requireCsrfHeader_def
    by (auto simp: wp_simps intro!: wp_readCookie [OF raw(1)] core)
  then show ?thesis using token token_by_hashD by blast
qed

section \<open>Properties\<close>



text \<open>
  C30. A password reset that succeeds was asked for with a usable, unexpired token of an active
  user; it sets that user's password alone, spends the token, and leaves no session of the user open
  while every other session is as it was. One that fails changed no account table, or did all of this
  and only failed to record it.
\<close>

theorem completeReset_spec:
  assumes "db_ok (db w)"
  shows "let h = hashPasswordResetToken c raw;
      complete = (\<lambda>d'. \<exists>token u salt. may_reset (db w) h (nowMs w) token u \<and> reset_spent d' h \<and>
        users d' = update_where (\<lambda>x. u_id x = u_id u)
          (\<lambda>x. x\<lparr>u_passwordHash := argonHash c salt pw, u_updatedAt := fromDate (nowMs w)\<rparr>) (users (db w)) \<and>
        (\<forall>s\<in>set (sessions d'). s_userId s = u_id u \<longrightarrow> s_revokedAt s \<noteq> None) \<and>
        filter (\<lambda>s. s_userId s \<noteq> u_id u) (sessions d') = filter (\<lambda>s. s_userId s \<noteq> u_id u) (sessions (db w)))
    in (case completeReset c ro raw pw ctx w of
        (Inr _, w') \<Rightarrow> complete (db w')
      | (Inl e, w') \<Rightarrow> only_events (db w) (db w') \<or> complete (db w'))"
proof -
  let ?h = "hashPasswordResetToken c raw"
  let ?complete = "\<lambda>d'. \<exists>token u salt. may_reset (db w) ?h (nowMs w) token u \<and> reset_spent d' ?h \<and>
      users d' = update_where (\<lambda>x. u_id x = u_id u)
        (\<lambda>x. x\<lparr>u_passwordHash := argonHash c salt pw, u_updatedAt := fromDate (nowMs w)\<rparr>) (users (db w)) \<and>
      (\<forall>s\<in>set (sessions d'). s_userId s = u_id u \<longrightarrow> s_revokedAt s \<noteq> None) \<and>
      filter (\<lambda>s. s_userId s \<noteq> u_id u) (sessions d') = filter (\<lambda>s. s_userId s \<noteq> u_id u) (sessions (db w))"
  have complete: "?complete d'" if m: "may_reset (db w) ?h (nowMs w) token u"
    and d': "only_events (reset_tables token u (argonHash c salt pw) (nowMs w) (db w)) d'" for token u salt d'
  proof (intro exI conjI ballI impI)
    let ?t = "reset_tables token u (argonHash c salt pw) (nowMs w) (db w)"
    have same: "sessions d' = sessions ?t" "users d' = users ?t" "passwordResetTokens d' = passwordResetTokens ?t"
      using d' by (auto simp: only_events_def)
    show "reset_spent d' ?h"
      using reset_tables_spent m unfolding reset_spent_def same by (auto simp: may_reset_def)
    show "users d' = update_where (\<lambda>x. u_id x = u_id u)
        (\<lambda>x. x\<lparr>u_passwordHash := argonHash c salt pw, u_updatedAt := fromDate (nowMs w)\<rparr>) (users (db w))"
      by (simp add: same reset_tables_users)
    show "s_revokedAt s \<noteq> None" if "s \<in> set (sessions d')" "s_userId s = u_id u" for s
      using reset_tables_sessions that unfolding same by blast
    show "filter (\<lambda>s. s_userId s \<noteq> u_id u) (sessions d') = filter (\<lambda>s. s_userId s \<noteq> u_id u) (sessions (db w))"
      unfolding same by (rule reset_tables_others)
  qed (rule m)
  have "wp (completeReset c ro raw pw ctx) (\<lambda>_ w'. ?complete (db w')) (\<lambda>_ w'. only_events (db w) (db w') \<or> ?complete (db w')) w"
  proof (rule wp_completeReset, goal_cases)
    case (1 token u salt w')
    then show ?case by (rule complete)
  next
    case (3 e token u salt w')
    then show ?case by (metis complete only_events_refl)
  qed simp
  then show ?thesis by (simp add: Let_def wp_def split: prod.splits sum.splits)
qed

end
