(* ===== verification/SystemSamples.thy ===== *)
theory SystemSamples
  imports OneTime
begin

text \<open>
  A concrete environment and concrete requests for the witnesses of the properties of whole runs.
\<close>

section \<open>The environment\<close>

definition sample_verification :: verification_options where
  "sample_verification =
    \<lparr>rateLimiter = NoopLimiter, rateLimitFailureMode = FailOpen, ev_webBaseUrl = ''https://app'', ev_ttlSeconds = 86400,
     ev_windowSeconds = 60, ev_requestPerUserMax = 5, ev_requestPerIpMax = 20, ev_completePerIpMax = 20\<rparr>"

definition sample_recovery :: recovery_options where
  "sample_recovery =
    \<lparr>rateLimiter = NoopLimiter, rateLimitFailureMode = FailOpen, pr_webBaseUrl = ''https://app'', pr_ttlSeconds = 3600,
     pr_windowSeconds = 60, pr_requestPerIpMax = 20, pr_requestPerEmailMax = 5, pr_completePerIpMax = 20,
     pr_completePerTokenMax = 5\<rparr>"

definition sample_registration :: registration_options where
  "sample_registration =
    \<lparr>rateLimiter = NoopLimiter, rateLimitFailureMode = FailOpen, rg_webBaseUrl = ''https://app'',
     rg_completionTtlSeconds = 3600, rg_jwtSecret = ''new'', rg_accessTokenTtlSeconds = 900,
     rg_sessionTtlSeconds = 2592000, rg_refreshTokenTtlSeconds = 1209600, rg_windowSeconds = 60,
     rg_requestPerIpMax = 20, rg_requestPerEmailMax = 5, rg_completePerIpMax = 20, rg_completePerTokenMax = 5,
     rg_existingAccountNoticePerEmailMax = 1, rg_invitations = True\<rparr>"

definition sample_env :: environment where
  "sample_env =
    \<lparr>en_crypto = sample_crypto,
     en_validators = \<lparr>zv_email = (\<lambda>s. CHR ''@'' \<in> set s), zv_datetime = (\<lambda>_. True), dateParse = (\<lambda>_. 0)\<rparr>,
     en_global = \<lparr>gl_limiter = None, gl_maxPerIp = 100, gl_windowSeconds = 60\<rparr>,
     en_refreshCookie = \<lparr>ck_cookieName = ''rt'', ck_path = ''/v1/auth'', ck_secure = True, ck_maxAgeSeconds = 1209600\<rparr>,
     en_csrfHeaderName = ''x-csrf'',
     en_auth = sample_auth, en_verification = sample_verification, en_recovery = sample_recovery,
     en_registration = sample_registration,
     en_organization = \<lparr>rateLimiter = NoopLimiter, rateLimitFailureMode = FailOpen, org_windowSeconds = 60,
       org_createPerUserMax = 5\<rparr>,
     en_member = \<lparr>rateLimiter = NoopLimiter, rateLimitFailureMode = FailOpen, mo_windowSeconds = 60,
       mo_mutationPerUserMax = 20\<rparr>,
     en_plan = \<lparr>rateLimiter = NoopLimiter, rateLimitFailureMode = FailOpen, po_windowSeconds = 60,
       po_changePerOrgMax = 10\<rparr>,
     en_project = \<lparr>rateLimiter = NoopLimiter, rateLimitFailureMode = FailOpen, pj_windowSeconds = 60,
       pj_createPerUserMax = 20, pj_mutationPerUserMax = 60\<rparr>,
     en_apiKey = \<lparr>rateLimiter = NoopLimiter, rateLimitFailureMode = FailOpen, ak_windowSeconds = 60,
       ak_createPerUserMax = 10\<rparr>,
     en_authenticator = \<lparr>rateLimiter = NoopLimiter, rateLimitFailureMode = FailOpen, au_windowSeconds = 60,
       au_perKeyMax = 60, au_perOrgMax = 600, au_authFailEventsPerIpMax = 10, au_lastUsedThrottleSeconds = 60\<rparr>,
     en_invitation = \<lparr>rateLimiter = NoopLimiter, rateLimitFailureMode = FailOpen, io_windowSeconds = 60,
       io_inspectPerIpMax = 20, io_inspectPerTokenMax = 10, io_acceptPerUserMax = 10, io_createPerUserMax = 20,
       io_createPerOrgMax = 50, io_ttlSeconds = 604800, io_webBaseUrl = ''https://app''\<rparr>,
     en_audit = \<lparr>rateLimiter = NoopLimiter, rateLimitFailureMode = FailOpen, ao_windowSeconds = 60,
       ao_perUserMax = 60, ao_perOrgMax = 600\<rparr>\<rparr>"

lemma sample_env_simps [simp]:
  "en_crypto sample_env = sample_crypto" "en_auth sample_env = sample_auth"
  "ck_cookieName (en_refreshCookie sample_env) = ''rt''"
  by (simp_all add: sample_env_def)

text \<open>A request with a bearer token, a cookie header and a body.\<close>

definition sample_request :: "string option \<Rightarrow> string option \<Rightarrow> json option \<Rightarrow> http_request" where
  "sample_request authorization cookie body =
    \<lparr>rq_id = ''r1'', rq_method = ''POST'', rq_url = ''/v1'', rq_ip = ''1.2.3.4'', rq_userAgent = None,
     rq_authorization = authorization, rq_cookie = cookie,
     rq_headers = (\<lambda>h. if h = ''x-csrf'' then Single ''1'' else Absent), rq_body = body, rq_query = None\<rparr>"

lemma sample_request_simps [simp]:
  "rq_authorization (sample_request a k b) = a" "rq_cookie (sample_request a k b) = k" "rq_body (sample_request a k b) = b"
  by (simp_all add: sample_request_def)

section \<open>Valid tables\<close>

lemma account_system_ok: "system_ok account_db"
proof -
  have "owned account_db" "planned account_db" "clean_events account_db" by code_simp+
  then show ?thesis using account_chained by (simp add: system_ok_def)
qed

text \<open>Ann's second session has been revoked.\<close>

definition over_world :: world where
  "over_world = account_world\<lparr>db := revoke_sessions (\<lambda>s. s_id s = ''s2'') ''logout'' 500 account_db\<rparr>"

lemma over_world_simps [simp]:
  "db over_world = revoke_sessions (\<lambda>s. s_id s = ''s2'') ''logout'' 500 account_db" "nowMs over_world = 1000"
  by (simp_all add: over_world_def account_world_def sample_world_def)

lemma over_system_ok: "system_ok (db over_world)"
proof -
  have "owned (db over_world)" "planned (db over_world)" "clean_events (db over_world)"
    unfolding over_world_simps by code_simp+
  moreover have "catalogued (db over_world)"
    using account_catalogued by (simp add: catalogued_def) (simp add: revoke_sessions_def)
  ultimately show ?thesis using account_chained by (simp add: system_ok_def)
qed

section \<open>Witnesses\<close>

lemma system_invariant_witness:
  "system_ok (db (snd (handle sample_env PostLogout (sample_request None (Some ''rt=live'') None) account_world)))"
  by (rule system_invariant [OF run_request [OF run_start]]) (simp add: account_system_ok)

text \<open>Bob, an Admin, may not change the plan.\<close>

definition bobs_request :: http_request where
  "bobs_request = sample_request (Some (''Bearer '' @ sample_sign ''new'' (accessPayload ''bob'' ''s3'' 900 0))) None
    (Some (JObj [(''planKey'', JStr ''business'')]))"

lemma bobs_credential:
  "bearerCredential (rq_authorization bobs_request) = Some (sample_sign ''new'' (accessPayload ''bob'' ''s3'' 900 0))"
  by code_simp

lemma authorization_enforced_witness:
  "is_refusal (fst (handle sample_env (PatchDemoPlan ''o1'') bobs_request account_world)) \<and>
   only_events account_db (db (snd (handle sample_env (PatchDemoPlan ''o1'') bobs_request account_world)))"
proof -
  have "\<not> may account_db ''bob'' ''o1'' PlanChangeDemo" by code_simp
  moreover have "u_id u = ''bob''" if "bearer sample_env account_db 1000 bobs_request = Some (u, s)" for u s
    using that bearer_of_signed [OF sample_sound, unfolded sample_crypto_simps]
    by (auto simp: bearer_def bobs_credential)
  moreover obtain resp w' where h: "handle sample_env (PatchDemoPlan ''o1'') bobs_request account_world = (resp, w')"
    by (cases "handle sample_env (PatchDemoPlan ''o1'') bobs_request account_world")
  moreover have "(\<exists>u s. bearer sample_env (db account_world) (nowMs account_world) bobs_request = Some (u, s) \<and>
      may (db account_world) (u_id u) ''o1'' PlanChangeDemo) \<or> is_refusal resp \<and> only_events (db account_world) (db w')"
    by (rule authorization_enforced [OF run_start _ _ h]) (simp_all add: account_system_ok)
  ultimately show ?thesis by auto
qed

text \<open>Ann's token for her revoked session.\<close>

definition anns_request :: http_request where
  "anns_request = sample_request (Some (''Bearer '' @ sample_sign ''new'' (accessPayload ''ann'' ''s2'' 900 0))) None None"

lemma anns_credential:
  "bearerCredential (rq_authorization anns_request) = Some (sample_sign ''new'' (accessPayload ''ann'' ''s2'' 900 0))"
  by code_simp

lemma ended_session_refused_witness:
  "is_refusal (fst (handle sample_env GetOrganizations anns_request over_world)) \<and>
   only_events (db over_world) (db (snd (handle sample_env GetOrganizations anns_request over_world)))"
proof (rule ended_session_refused [OF _ run_start over_system_ok])
  show "session_over (db over_world) ''s2''" unfolding over_world_simps by code_simp
  show "bearerCredential (rq_authorization anns_request) =
      Some (jwtSign (en_crypto sample_env) ''new'' (accessPayload ''ann'' ''s2'' 900 0))"
    by (simp add: anns_credential)
qed (simp_all add: sample_sound)

text \<open>The refresh token Ann's first session has rotated away.\<close>

lemma spent_cookie: "cookie_token (sample_request None (Some ''a=b; rt=spent'') None) ''rt'' = Some ''spent''"
  by code_simp

lemma spent_refresh: "refresh_spent account_db ''#spent''"
  by code_simp


section \<open>A password reset\<close>

definition reset_db :: database where
  "reset_db = account_db\<lparr>passwordResetTokens :=
     [\<lparr>tok_id = ''t1'', tok_userId = ''ann'', tok_tokenHash = ''#mailed'', tok_expiresAt = 5000000, tok_usedAt = None,
       tok_invalidatedAt = None, tok_createdAt = 0\<rparr>]\<rparr>"

definition reset_world :: world where
  "reset_world = account_world\<lparr>db := reset_db\<rparr>"

lemma reset_world_simps [simp]: "db reset_world = reset_db" "nowMs reset_world = 1000"
  by (simp_all add: reset_world_def account_world_def sample_world_def)

lemma reset_ok: "db_ok reset_db"
  unfolding reset_db_def by (rule db_ok_upd_passwordResetTokens [OF account_ok]) (use account_sets in simp_all)

lemma reset_found:
  "reset_token reset_db ''#mailed'' = Some \<lparr>tok_id = ''t1'', tok_userId = ''ann'', tok_tokenHash = ''#mailed'',
    tok_expiresAt = 5000000, tok_usedAt = None, tok_invalidatedAt = None, tok_createdAt = 0\<rparr>"
  "user_by_id reset_db ''ann'' = Some (sample_user ''ann'')" "recoverable (sample_user ''ann'')"
  "u_id (sample_user ''ann'') = ''ann''" "securityEvents reset_db = []"
  "u_id ` set (users reset_db) = {''ann'', ''bob'', ''cat'', ''dan''}"
  using account_sets by (simp_all add: reset_db_def sample_user_def) code_simp+

lemma reset_limits: "completeResetLimits sample_crypto sample_recovery token ctx = ret ()"
  by (simp add: fun_eq_iff completeResetLimits_def noop_auth_limits sample_recovery_def limiter_options.truncate_def
      prog_simps)

lemma db_ok_tokens_kept:
  assumes "db_ok d"
  shows "db_ok (use_reset_token i now d)" "db_ok (invalidate_reset_tokens q now d)"
proof -
  have "map f (use_token i now ts) = map f ts" if "\<And>t a. f (t\<lparr>tok_usedAt := a\<rparr>) = f t" for f :: "token_row \<Rightarrow> string" and ts
    using that by (simp add: use_token_def)
  then show "db_ok (use_reset_token i now d)"
    using assms unfolding use_reset_token_def by (intro db_ok_upd_passwordResetTokens) (simp_all add: db_ok_iff)
  have "map f (invalidate_tokens q now ts) = map f ts" if "\<And>t a. f (t\<lparr>tok_invalidatedAt := a\<rparr>) = f t"
    for f :: "token_row \<Rightarrow> string" and ts
    using that by (simp add: invalidate_tokens_def)
  then show "db_ok (invalidate_reset_tokens q now d)"
    using assms unfolding invalidate_reset_tokens_def by (intro db_ok_upd_passwordResetTokens) (simp_all add: db_ok_iff)
qed

lemma reset_kept:
  "securityEvents (invalidate_reset_tokens q now (use_reset_token i now (set_password u h now d))) = securityEvents d"
  "u_id ` set (users (invalidate_reset_tokens q now (use_reset_token i now (set_password u h now d)))) = u_id ` set (users d)"
proof -
  show "securityEvents (invalidate_reset_tokens q now (use_reset_token i now (set_password u h now d))) = securityEvents d"
    by (simp add: invalidate_reset_tokens_def use_reset_token_def set_password_def)
  have "map u_id (users (invalidate_reset_tokens q now (use_reset_token i now (set_password u h now d)))) =
      map u_id (users d)"
    by (simp add: invalidate_reset_tokens_def use_reset_token_def set_password_def)
  then show "u_id ` set (users (invalidate_reset_tokens q now (use_reset_token i now (set_password u h now d)))) =
      u_id ` set (users d)"
    by (metis list.set_map)
qed

lemma reset_succeeds:
  "\<exists>w'. completeReset sample_crypto sample_recovery ''mailed'' ''fresh password'' sample_ctx reset_world = (Inr (), w')"
proof -
  have "wp (completeReset sample_crypto sample_recovery ''mailed'' ''fresh password'' sample_ctx)
      (\<lambda>_ _. True) (\<lambda>_ _. False) reset_world"
    unfolding completeReset_def repo_completeReset_def reset_limits
    by (simp add: wp_simps reset_found usable_token_def toDate_def hashPasswordResetToken_def reset_ok db_ok_tokens_kept)
      (auto simp: writeSecurityEvent_def reset_kept reset_found reset_ok db_ok_tokens_kept intro!: wp_insertSecurityEvent_ok)
  then show ?thesis by (auto simp: wp_def split: prod.splits sum.splits)
qed

lemma completeReset_spec_witness:
  "\<exists>w'. completeReset sample_crypto sample_recovery ''mailed'' ''fresh password'' sample_ctx reset_world = (Inr (), w') \<and>
     reset_spent (db w') ''#mailed'' \<and> (\<forall>s\<in>set (sessions (db w')). s_userId s = ''ann'' \<longrightarrow> s_revokedAt s \<noteq> None)"
proof -
  obtain w' where r: "completeReset sample_crypto sample_recovery ''mailed'' ''fresh password'' sample_ctx reset_world = (Inr (), w')"
    using reset_succeeds by blast
  show ?thesis
    using completeReset_spec [of reset_world sample_crypto "''mailed''" "''fresh password''" sample_recovery sample_ctx]
    by (auto simp: r Let_def reset_ok may_reset_def hashPasswordResetToken_def reset_found)
qed

end
