(* ===== verification/Enumeration.thy ===== *)
theory Enumeration
  imports Registration
begin

text \<open>
  What an anonymous caller learns of an address: the answers of the recovery and registration
  requests are those of their rate limits, whatever the tables, the mailer and the invitation say.
\<close>

text \<open>A program that always returns, with a given value.\<close>

definition returns :: "'a api \<Rightarrow> bool" where
  "returns m = (\<forall>w. wp m (\<lambda>_ _. True) (\<lambda>_ _. False) w)"

lemma returnsD: "returns m \<Longrightarrow> (\<And>x w'. Q x w') \<Longrightarrow> wp m Q E w"
  unfolding returns_def by (erule allE, erule wp_mono) simp_all

named_theorems returns_intros

lemma returns_ret [returns_intros]: "returns (ret x)" "returns (getsP f)" "returns (select f')"
  "returns (generateOpaqueToken DEFAULT_TOKEN_BYTES)" "returns (hashPassword c pw)"
  by (simp_all add: returns_def wp_simps)

lemma returns_bindP [returns_intros]: "returns m \<Longrightarrow> (\<And>x. returns (k x)) \<Longrightarrow> returns (bindP m k)"
  unfolding returns_def wp_bindP by (blast intro: wp_mono)

lemma returns_thenP [returns_intros]: "returns m \<Longrightarrow> returns n \<Longrightarrow> returns (thenP m n)"
  unfolding thenP_def by (rule returns_bindP)

lemma returns_catchP [returns_intros]: "(\<And>e. returns (h e)) \<Longrightarrow> returns (catchP m h)"
proof -
  assume h: "\<And>e. returns (h e)"
  have "wp m (\<lambda>_ _. True) (\<lambda>e. wp (h e) (\<lambda>_ _. True) (\<lambda>_ _. False)) w" for w
    by (rule wp_mono [OF wp_True]) (use h in \<open>auto simp: returns_def\<close>)
  then show ?thesis by (simp add: returns_def wp_catchP)
qed

lemma returns_if [returns_intros]: "returns m \<Longrightarrow> returns n \<Longrightarrow> returns (if b then m else n)"
  by simp

lemma returns_option [returns_intros]:
  "returns p \<Longrightarrow> (\<And>y. returns (q y)) \<Longrightarrow> returns (case z of None \<Rightarrow> p | Some y \<Rightarrow> q y)"
  by (cases z) simp_all

lemma returns_rl_consume [returns_intros]: "returns (rl_consume kind k l s)"
  unfolding returns_def by (auto intro: wp_rl_consume)

lemma returns_Let [returns_intros]: "returns (k x) \<Longrightarrow> returns (let y = x in k y)"
  by simp

section \<open>Recovery\<close>

lemma returns_resetAccount: "returns (resetAccount c opts email ctx)"
  unfolding resetAccount_def issueReset_def attempt_def andThen_def recordRecoveryOutcome_def
    generatePasswordResetToken_def
  by (intro returns_intros)

section \<open>Registration\<close>

lemma returns_registration:
  "returns (recordRequestOutcome o' ctx)" "returns (resolveRequestInvitation c opts tok email)"
  "returns (registerAddress c opts input hash invitation ctx)"
  unfolding registerAddress_def issueRegistration_def sendExistingAccountGuidance_def attempt_def andThen_def
    recordRequestOutcome_def resolveRequestInvitation_def generateRegistrationCompletionToken_def
  by (intro returns_intros)+

lemma returns_result:
  assumes "returns (m :: unit api)"
  shows "result (thenP p m) w = result p w"
proof (cases "p w")
  case (Pair r v)
  show ?thesis
  proof (cases r)
    case (Inr x)
    have "wp m (\<lambda>_ _. True) (\<lambda>_ _. False) v" using assms by (simp add: returns_def)
    then show ?thesis using Pair Inr by (auto simp: thenP_apply wp_def split: prod.splits sum.splits)
  qed (simp add: thenP_apply Pair)
qed

section \<open>Properties\<close>

text \<open>
  C31. Neither asking for a password reset nor registering tells whether an address has an
  account: the result of either request is that of its rate limits alone, whatever the tables, the
  mailer, the log or the invitation do afterwards.
\<close>

theorem requests_answer_alike:
  "result (requestReset c ro email ctx) w = result (requestResetLimits c ro (normalizeEmail email) ctx) w \<and>
   result (requestRegistration c rg input ctx) w =
     result (requestRegistrationLimits c rg (normalizeEmail (ri_email input)) ctx) w"
proof
  show "result (requestReset c ro email ctx) w = result (requestResetLimits c ro (normalizeEmail email) ctx) w"
    unfolding requestReset_def Let_def by (rule returns_result [OF returns_resetAccount])
next
  have "returns (case invitation of
       RejectedInvitation outcome \<Rightarrow> recordRequestOutcome outcome ctx
     | NoInvitation \<Rightarrow> registerAddress c rg input hash None ctx
     | ValidInvitation i name \<Rightarrow> registerAddress c rg input hash (Some (i, name)) ctx)" for invitation hash
    by (cases invitation) (simp_all add: returns_registration)
  then show "result (requestRegistration c rg input ctx) w =
      result (requestRegistrationLimits c rg (normalizeEmail (ri_email input)) ctx) w"
    unfolding requestRegistration_def Let_def
    by (intro returns_result returns_intros returns_registration)
qed

end
