(* ===== verification/Retention.thy ===== *)
theory Retention
  imports Mail Rbac
begin

text \<open>
  The retention cleanup (\<^verbatim>\<open>apps/api/src/maintenance\<close>): the catalogue of what may be deleted, the bounded
  batches, the run over the chosen categories and its command line. The text a driver error carries
  is a parameter (\<open>message\<close>).
\<close>

section \<open>The catalogue (\<^verbatim>\<open>retention-policy.ts\<close>)\<close>

datatype retention_category =
    SecurityEvents
  | ExpiredRefreshTokens
  | ExpiredSessions
  | ExpiredEmailVerificationTokens
  | ExpiredPasswordResetTokens
  | ExpiredPendingRegistrations

fun categoryName :: "retention_category \<Rightarrow> string" where
  "categoryName SecurityEvents = ''security_events''"
| "categoryName ExpiredRefreshTokens = ''expired_refresh_tokens''"
| "categoryName ExpiredSessions = ''expired_sessions''"
| "categoryName ExpiredEmailVerificationTokens = ''expired_email_verification_tokens''"
| "categoryName ExpiredPasswordResetTokens = ''expired_password_reset_tokens''"
| "categoryName ExpiredPendingRegistrations = ''expired_pending_registrations''"

fun categoryTable :: "retention_category \<Rightarrow> string" where
  "categoryTable SecurityEvents = ''security_events''"
| "categoryTable ExpiredRefreshTokens = ''refresh_tokens''"
| "categoryTable ExpiredSessions = ''sessions''"
| "categoryTable ExpiredEmailVerificationTokens = ''email_verification_tokens''"
| "categoryTable ExpiredPasswordResetTokens = ''password_reset_tokens''"
| "categoryTable ExpiredPendingRegistrations = ''pending_registrations''"

definition retentionColumn :: "retention_category \<Rightarrow> string" where
  "retentionColumn category = (if category = SecurityEvents then ''created_at'' else ''expires_at'')"

definition RETENTION_CATEGORIES :: "retention_category list" where
  "RETENTION_CATEGORIES =
    [SecurityEvents, ExpiredRefreshTokens, ExpiredSessions, ExpiredEmailVerificationTokens,
     ExpiredPasswordResetTokens, ExpiredPendingRegistrations]"

definition RETENTION_CATEGORY_NAMES :: "string list" where
  "RETENTION_CATEGORY_NAMES =
    [''security_events'', ''expired_refresh_tokens'', ''expired_sessions'', ''expired_email_verification_tokens'',
     ''expired_password_reset_tokens'', ''expired_pending_registrations'']"

definition findRetentionCategory :: "string \<Rightarrow> retention_category option" where
  "findRetentionCategory name = List.find (\<lambda>c. categoryName c = name) RETENTION_CATEGORIES"

record retention_windows =
  securityEventDays :: nat
  expiredAuthTokenDays :: nat
  endedSessionDays :: nat

fun windowDays :: "retention_category \<Rightarrow> retention_windows \<Rightarrow> nat" where
  "windowDays SecurityEvents windows = securityEventDays windows"
| "windowDays ExpiredRefreshTokens windows = endedSessionDays windows"
| "windowDays ExpiredSessions windows = endedSessionDays windows"
| "windowDays _ windows = expiredAuthTokenDays windows"

definition MILLISECONDS_PER_DAY :: int where
  "MILLISECONDS_PER_DAY = 24 * 60 * 60 * 1000"

definition retentionCutoff :: "retention_category \<Rightarrow> retention_windows \<Rightarrow> date \<Rightarrow> date" where
  "retentionCutoff category windows now = now - int (windowDays category windows) * MILLISECONDS_PER_DAY"

text \<open>
  \<open>oldest_ids\<close> are the ids a bounded subselect chooses (\<open>WHERE p ORDER BY k LIMIT n\<close>, rows of equal age
  in table order); \<open>delete_ids\<close> deletes by primary key.
\<close>

definition oldest_ids :: "('r \<Rightarrow> string) \<Rightarrow> ('r \<Rightarrow> timestamptz) \<Rightarrow> ('r \<Rightarrow> bool) \<Rightarrow> nat \<Rightarrow> 'r list \<Rightarrow> string list" where
  "oldest_ids idf k p n rs = map idf (take n (sort_key k (filter p rs)))"

definition delete_ids :: "('r \<Rightarrow> string) \<Rightarrow> string list \<Rightarrow> 'r list \<Rightarrow> 'r list" where
  "delete_ids idf ids rs = delete_where (\<lambda>r. idf r \<in> set ids) rs"

definition ageBasedDelete ::
  "(database \<Rightarrow> 'r list) \<Rightarrow> ('r list \<Rightarrow> database \<Rightarrow> database) \<Rightarrow> ('r \<Rightarrow> string) \<Rightarrow> ('r \<Rightarrow> timestamptz) \<Rightarrow>
   date \<Rightarrow> nat \<Rightarrow> nat api" where
  "ageBasedDelete table upd idf column cutoff batchSize =
    bindP (select (\<lambda>d. oldest_ids idf column (\<lambda>r. column r < fromDate cutoff) batchSize (table d))) (\<lambda>ids.
    bindP (select (\<lambda>d. count_where (\<lambda>r. idf r \<in> set ids) (table d))) (\<lambda>deleted.
      thenP (sql (\<lambda>d. upd (delete_ids idf ids (table d)) d)) (ret deleted)))"

definition deletable_session :: "date \<Rightarrow> retention_windows \<Rightarrow> date \<Rightarrow> database \<Rightarrow> session_row \<Rightarrow> bool" where
  "deletable_session cutoff windows now d s =
    (let securityEventCutoff = now - int (securityEventDays windows) * MILLISECONDS_PER_DAY in
     s_expiresAt s < fromDate cutoff \<and>
     \<not> list_ex (\<lambda>t. rt_sessionId t = s_id s \<and> fromDate cutoff \<le> rt_expiresAt t) (refreshTokens d) \<and>
     \<not> list_ex (\<lambda>e. se_sessionId e = Some (s_id s) \<and> fromDate securityEventCutoff \<le> se_createdAt e)
       (securityEvents d))"

definition deleteSessions :: "date \<Rightarrow> nat \<Rightarrow> retention_windows \<Rightarrow> date \<Rightarrow> nat api" where
  "deleteSessions cutoff batchSize windows now =
    bindP (select (\<lambda>d. oldest_ids s_id s_expiresAt (deletable_session cutoff windows now d) batchSize (sessions d)))
     (\<lambda>sessionIds.
      if sessionIds = [] then ret 0
      else
        thenP (sql (\<lambda>d. d\<lparr>refreshTokens := delete_where (\<lambda>t. rt_sessionId t \<in> set sessionIds) (refreshTokens d)\<rparr>))
       (bindP (select (\<lambda>d. count_where (\<lambda>s. s_id s \<in> set sessionIds) (sessions d))) (\<lambda>deleted.
        thenP (sql (\<lambda>d. d\<lparr>sessions := delete_ids s_id sessionIds (sessions d)\<rparr>)) (ret deleted))))"

fun countEligible :: "retention_category \<Rightarrow> date \<Rightarrow> retention_windows \<Rightarrow> date \<Rightarrow> database \<Rightarrow> nat" where
  "countEligible SecurityEvents cutoff windows now d =
    count_where (\<lambda>e. se_createdAt e < fromDate cutoff) (securityEvents d)"
| "countEligible ExpiredRefreshTokens cutoff windows now d =
    count_where (\<lambda>t. rt_expiresAt t < fromDate cutoff) (refreshTokens d)"
| "countEligible ExpiredSessions cutoff windows now d =
    count_where (deletable_session cutoff windows now d) (sessions d)"
| "countEligible ExpiredEmailVerificationTokens cutoff windows now d =
    count_where (\<lambda>t. tok_expiresAt t < fromDate cutoff) (emailVerificationTokens d)"
| "countEligible ExpiredPasswordResetTokens cutoff windows now d =
    count_where (\<lambda>t. tok_expiresAt t < fromDate cutoff) (passwordResetTokens d)"
| "countEligible ExpiredPendingRegistrations cutoff windows now d =
    count_where (\<lambda>r. preg_expiresAt r < fromDate cutoff) (pendingRegistrations d)"

fun deleteBatch :: "retention_category \<Rightarrow> date \<Rightarrow> nat \<Rightarrow> retention_windows \<Rightarrow> date \<Rightarrow> nat api" where
  "deleteBatch SecurityEvents cutoff n windows now =
    ageBasedDelete securityEvents (\<lambda>x d. d\<lparr>securityEvents := x\<rparr>) se_id se_createdAt cutoff n"
| "deleteBatch ExpiredRefreshTokens cutoff n windows now =
    ageBasedDelete refreshTokens (\<lambda>x d. d\<lparr>refreshTokens := x\<rparr>) rt_id rt_expiresAt cutoff n"
| "deleteBatch ExpiredSessions cutoff n windows now = deleteSessions cutoff n windows now"
| "deleteBatch ExpiredEmailVerificationTokens cutoff n windows now =
    ageBasedDelete emailVerificationTokens (\<lambda>x d. d\<lparr>emailVerificationTokens := x\<rparr>) tok_id tok_expiresAt cutoff n"
| "deleteBatch ExpiredPasswordResetTokens cutoff n windows now =
    ageBasedDelete passwordResetTokens (\<lambda>x d. d\<lparr>passwordResetTokens := x\<rparr>) tok_id tok_expiresAt cutoff n"
| "deleteBatch ExpiredPendingRegistrations cutoff n windows now =
    ageBasedDelete pendingRegistrations (\<lambda>x d. d\<lparr>pendingRegistrations := x\<rparr>) preg_id preg_expiresAt cutoff n"

section \<open>A run (\<^verbatim>\<open>retention.ts\<close>)\<close>

datatype retention_mode = DryRun | Apply

record retention_run =
  ro_mode :: retention_mode
  ro_windows :: retention_windows
  ro_batchSize :: nat
  ro_maxBatches :: nat
  ro_categories :: "retention_category list"
  ro_now :: date

record retention_failure =
  rf_code :: "string option"
  rf_message :: string

record category_result =
  cr_category :: retention_category
  cr_retentionDays :: nat
  cr_cutoff :: string
  cr_eligible :: "nat option"
  cr_deleted :: nat
  cr_batches :: nat
  cr_truncated :: bool
  cr_failure :: "retention_failure option"

record retention_summary =
  sm_mode :: retention_mode
  sm_startedAt :: string
  sm_durationMs :: int
  sm_batchSize :: nat
  sm_results :: "category_result list"
  sm_totalDeleted :: nat
  sm_failedCategories :: nat

text \<open>
  What the catch of a category keeps of an error: the SQLSTATE of the error or of its cause, and the
  first line of its message. Only driver errors can reach it.
\<close>

fun failureCode :: "error \<Rightarrow> string option" where
  "failureCode (DbError (DriverError (Some code) _ _)) = Some code"
| "failureCode (DbError (DriverError None _ (Some (DriverError code _ _)))) = code"
| "failureCode _ = None"

definition describeFailure :: "(error \<Rightarrow> string) \<Rightarrow> error \<Rightarrow> retention_failure" where
  "describeFailure message e =
    \<lparr>rf_code = failureCode e,
     rf_message = (if message e = [] then ''Unknown cleanup failure'' else takeWhile (\<lambda>c. c \<noteq> CHR 0x0A) (message e))\<rparr>"

fun runApplyCategory ::
  "retention_category \<Rightarrow> date \<Rightarrow> retention_run \<Rightarrow> nat \<Rightarrow> nat \<Rightarrow> nat \<Rightarrow> (nat \<times> nat \<times> bool) api" where
  "runApplyCategory category cutoff opts 0 deleted batches = ret (deleted, batches, True)"
| "runApplyCategory category cutoff opts (Suc left) deleted batches =
    bindP (transaction (deleteBatch category cutoff (ro_batchSize opts) (ro_windows opts) (ro_now opts)))
     (\<lambda>batchDeleted.
      if batchDeleted < ro_batchSize opts then ret (deleted + batchDeleted, batches + 1, False)
      else runApplyCategory category cutoff opts left (deleted + batchDeleted) (batches + 1))"

definition result_of ::
  "retention_run \<Rightarrow> retention_category \<Rightarrow> nat option \<Rightarrow> nat \<times> nat \<times> bool \<Rightarrow> retention_failure option \<Rightarrow>
   category_result" where
  "result_of opts category eligible outcome failure =
    (case outcome of (deleted, batches, truncated) \<Rightarrow>
      \<lparr>cr_category = category, cr_retentionDays = windowDays category (ro_windows opts),
       cr_cutoff = toISOString (retentionCutoff category (ro_windows opts) (ro_now opts)),
       cr_eligible = eligible, cr_deleted = deleted, cr_batches = batches, cr_truncated = truncated,
       cr_failure = failure\<rparr>)"

definition run_category ::
  "(error \<Rightarrow> string) \<Rightarrow> retention_run \<Rightarrow> retention_category \<Rightarrow> category_result api" where
  "run_category message opts category =
    (let cutoff = retentionCutoff category (ro_windows opts) (ro_now opts) in
     catchP
      (case ro_mode opts of
         DryRun \<Rightarrow>
           bindP (select (countEligible category cutoff (ro_windows opts) (ro_now opts))) (\<lambda>eligible.
             ret (result_of opts category (Some eligible) (0, 0, False) None))
       | Apply \<Rightarrow>
           bindP (runApplyCategory category cutoff opts (ro_maxBatches opts) 0 0) (\<lambda>outcome.
             ret (result_of opts category None outcome None)))
      (\<lambda>e. ret (result_of opts category None (0, 0, False) (Some (describeFailure message e)))))"

fun run_categories ::
  "(error \<Rightarrow> string) \<Rightarrow> retention_run \<Rightarrow> retention_category list \<Rightarrow> category_result list api" where
  "run_categories message opts [] = ret []"
| "run_categories message opts (c # cs) =
    bindP (run_category message opts c) (\<lambda>r.
    bindP (run_categories message opts cs) (\<lambda>rs. ret (r # rs)))"

definition runRetentionCleanup :: "(error \<Rightarrow> string) \<Rightarrow> retention_run \<Rightarrow> retention_summary api" where
  "runRetentionCleanup message opts =
    bindP (getsP nowMs) (\<lambda>startedAt.
    bindP (run_categories message opts (ro_categories opts)) (\<lambda>results.
    bindP (getsP nowMs) (\<lambda>ended.
      ret \<lparr>sm_mode = ro_mode opts, sm_startedAt = toISOString startedAt, sm_durationMs = ended - startedAt,
        sm_batchSize = ro_batchSize opts, sm_results = results,
        sm_totalDeleted = sum_list (map cr_deleted results),
        sm_failedCategories = count_where (\<lambda>r. cr_failure r \<noteq> None) results\<rparr>)))"

section \<open>The command line (\<^verbatim>\<open>retention-cli.ts\<close>)\<close>

definition DEFAULT_MAX_BATCHES_PER_CATEGORY :: nat where
  "DEFAULT_MAX_BATCHES_PER_CATEGORY = 1000"

definition RETENTION_MAX_BATCH_SIZE :: nat where
  "RETENTION_MAX_BATCH_SIZE = 50000"

record retention_request =
  rr_mode :: retention_mode
  rr_categories :: "retention_category list"
  rr_batchSize :: "nat option"
  rr_maxBatches :: nat
  rr_json :: bool

datatype retention_args = Run retention_request | Help | Refused "string list"

definition flagValue :: "string \<Rightarrow> string \<Rightarrow> string option" where
  "flagValue argument name =
    (let prefix = ''--'' @ name @ ''='' in
     if startsWith argument prefix then Some (drop (length prefix) argument) else None)"

text \<open>\<open>/^\d+$/\<close>, then \<open>Number\<close>: the value of the digits (exact below \<open>2 ^ 53\<close>, far above every bound).\<close>

definition digits_value :: "string \<Rightarrow> nat" where
  "digits_value s = fold (\<lambda>c n. 10 * n + (of_char c - 48)) s 0"

definition parseBoundedInteger :: "string \<Rightarrow> string \<Rightarrow> nat \<Rightarrow> string + nat" where
  "parseBoundedInteger raw flag maximum =
    (if raw = [] \<or> \<not> list_all (\<lambda>c. 48 \<le> (of_char c :: nat) \<and> (of_char c :: nat) \<le> 57) raw
     then Inl (flag @ '' must be a positive integer (got '' @ [CHR 0x22] @ raw @ [CHR 0x22] @ '')'')
     else let v = digits_value raw in
       if v < 1 \<or> v > maximum
       then Inl (flag @ '' must be between 1 and '' @ show_nat maximum @ '' (got '' @ show_nat v @ '')'')
       else Inr v)"

record retention_flags =
  fl_apply :: bool
  fl_dryRun :: bool
  fl_json :: bool
  fl_selected :: "retention_category list"
  fl_batchSize :: "nat option"
  fl_maxBatches :: nat
  fl_errors :: "string list"

fun join_comma :: "string list \<Rightarrow> string" where
  "join_comma [] = ''''"
| "join_comma [s] = s"
| "join_comma (s # ss) = s @ '', '' @ join_comma ss"

definition read_flag :: "string \<Rightarrow> retention_flags \<Rightarrow> retention_flags" where
  "read_flag argument f =
    (case flagValue argument ''category'' of
       Some name \<Rightarrow>
         (case findRetentionCategory name of
            None \<Rightarrow> f\<lparr>fl_errors := fl_errors f @ [''Unknown --category '' @ [CHR 0x22] @ name @ [CHR 0x22] @
                ''. Known categories: '' @ join_comma RETENTION_CATEGORY_NAMES]\<rparr>
          | Some c \<Rightarrow> if c \<in> set (fl_selected f) then f else f\<lparr>fl_selected := fl_selected f @ [c]\<rparr>)
     | None \<Rightarrow>
         (case flagValue argument ''batch-size'' of
            Some raw \<Rightarrow>
              (case parseBoundedInteger raw ''--batch-size'' RETENTION_MAX_BATCH_SIZE of
                 Inl e \<Rightarrow> f\<lparr>fl_batchSize := None, fl_errors := fl_errors f @ [e]\<rparr>
               | Inr n \<Rightarrow> f\<lparr>fl_batchSize := Some n\<rparr>)
          | None \<Rightarrow>
              (case flagValue argument ''max-batches'' of
                 Some raw \<Rightarrow>
                   (case parseBoundedInteger raw ''--max-batches'' DEFAULT_MAX_BATCHES_PER_CATEGORY of
                      Inl e \<Rightarrow> f\<lparr>fl_errors := fl_errors f @ [e]\<rparr>
                    | Inr n \<Rightarrow> f\<lparr>fl_maxBatches := n\<rparr>)
               | None \<Rightarrow>
                   f\<lparr>fl_errors := fl_errors f @ [''Unknown argument '' @ [CHR 0x22] @ argument @ [CHR 0x22]]\<rparr>)))"

text \<open>The loop over the arguments: \<open>None\<close> is the early return for help.\<close>

fun read_flags :: "string list \<Rightarrow> retention_flags \<Rightarrow> retention_flags option" where
  "read_flags [] f = Some f"
| "read_flags (a # as) f =
    (if a = ''--'' then read_flags as f
     else if a = ''--help'' \<or> a = ''-h'' then None
     else if a = ''--apply'' then read_flags as (f\<lparr>fl_apply := True\<rparr>)
     else if a = ''--dry-run'' then read_flags as (f\<lparr>fl_dryRun := True\<rparr>)
     else if a = ''--json'' then read_flags as (f\<lparr>fl_json := True\<rparr>)
     else read_flags as (read_flag a f))"

definition parseRetentionArgs :: "string list \<Rightarrow> retention_args" where
  "parseRetentionArgs argv =
    (case read_flags argv \<lparr>fl_apply = False, fl_dryRun = False, fl_json = False, fl_selected = [],
        fl_batchSize = None, fl_maxBatches = DEFAULT_MAX_BATCHES_PER_CATEGORY, fl_errors = []\<rparr> of
       None \<Rightarrow> Help
     | Some f \<Rightarrow>
         let errors = fl_errors f @
           (if fl_apply f \<and> fl_dryRun f then [''--apply and --dry-run are mutually exclusive''] else []) in
         if errors \<noteq> [] then Refused errors
         else Run \<lparr>rr_mode = (if fl_apply f then Apply else DryRun),
           rr_categories = (if fl_selected f \<noteq> [] then filter (\<lambda>c. c \<in> set (fl_selected f)) RETENTION_CATEGORIES
             else RETENTION_CATEGORIES),
           rr_batchSize = fl_batchSize f, rr_maxBatches = fl_maxBatches f, rr_json = fl_json f\<rparr>)"

definition mode_name :: "retention_mode \<Rightarrow> string" where
  "mode_name m = (case m of DryRun \<Rightarrow> ''dry-run'' | Apply \<Rightarrow> ''apply'')"

definition format_result :: "retention_mode \<Rightarrow> category_result \<Rightarrow> string" where
  "format_result mode r =
    (let scope = categoryName (cr_category r) @ '' table='' @ categoryTable (cr_category r) @ '' retention_days='' @
       show_nat (cr_retentionDays r) @ '' cutoff='' @ cr_cutoff r in
     case cr_failure r of
       Some f \<Rightarrow> ''  FAILED  '' @ scope @ (case rf_code f of None \<Rightarrow> '''' | Some c \<Rightarrow> '' code='' @ c) @ '' error='' @ rf_message f
     | None \<Rightarrow>
         (case mode of
            DryRun \<Rightarrow> ''  dry-run '' @ scope @ '' eligible='' @ show_nat (case cr_eligible r of None \<Rightarrow> 0 | Some n \<Rightarrow> n)
          | Apply \<Rightarrow> ''  applied '' @ scope @ '' deleted='' @ show_nat (cr_deleted r) @ '' batches='' @
              show_nat (cr_batches r) @ (if cr_truncated r then '' truncated=true (rerun to continue)'' else '''')))"

definition formatRetentionSummary :: "retention_summary \<Rightarrow> string" where
  "formatRetentionSummary summary = join_lines
    ([''retention cleanup: mode='' @ mode_name (sm_mode summary) @ '' batch_size='' @ show_nat (sm_batchSize summary) @
      '' started_at='' @ sm_startedAt summary] @
     map (format_result (sm_mode summary)) (sm_results summary) @
     [''retention cleanup: '' @ (case sm_mode summary of
         DryRun \<Rightarrow> ''no rows deleted (dry run)'' | Apply \<Rightarrow> ''deleted='' @ show_nat (sm_totalDeleted summary)) @
      '' failed_categories='' @ show_nat (sm_failedCategories summary) @ '' duration_ms='' @ show_int (sm_durationMs summary)])"

definition retentionExitCode :: "retention_summary \<Rightarrow> nat" where
  "retentionExitCode summary = (if 0 < sm_failedCategories summary then 1 else 0)"

text \<open>\<open>main\<close> of \<^verbatim>\<open>retention-command.ts\<close>: the options of a run from the arguments and the configuration.\<close>

definition retention_options ::
  "retention_request \<Rightarrow> retention_windows \<Rightarrow> nat \<Rightarrow> date \<Rightarrow> retention_run" where
  "retention_options request windows cleanupBatchSize now =
    \<lparr>ro_mode = rr_mode request, ro_windows = windows,
     ro_batchSize = (case rr_batchSize request of None \<Rightarrow> cleanupBatchSize | Some n \<Rightarrow> n),
     ro_maxBatches = rr_maxBatches request, ro_categories = rr_categories request, ro_now = now\<rparr>"

section \<open>Bounded deletes\<close>

lemma oldest_subset: "set (oldest_ids idf k p n rs) \<subseteq> idf ` {r \<in> set rs. p r}"
  using set_take_subset [of n "sort_key k (filter p rs)"] by (auto simp: oldest_ids_def)

lemma oldest_eligible:
  "distinct (map idf rs) \<Longrightarrow> r \<in> set rs \<Longrightarrow> idf r \<in> set (oldest_ids idf k p n rs) \<Longrightarrow> p r"
  using oldest_subset [of idf k p n rs] distinct_key_eq [of idf rs r] by blast

lemma oldest_count:
  "distinct (map idf rs) \<Longrightarrow> distinct (oldest_ids idf k p n rs)"
  "length (oldest_ids idf k p n rs) = min n (count_where p rs)"
proof -
  assume key: "distinct (map idf rs)"
  have "distinct (map idf (sort_key k (filter p rs)))"
    using distinct_map_filter [OF key, of p] by (simp add: distinct_map)
  then show "distinct (oldest_ids idf k p n rs)" by (simp add: oldest_ids_def flip: take_map)
next
  show "length (oldest_ids idf k p n rs) = min n (count_where p rs)"
    by (simp add: oldest_ids_def count_where_def)
qed

lemma deleted_count:
  assumes key: "distinct (map idf rs)"
  shows "count_where (\<lambda>r. idf r \<in> set (oldest_ids idf k p n rs)) rs = min n (count_where p rs)"
proof -
  let ?ids = "oldest_ids idf k p n rs"
  have "set (map idf (filter (\<lambda>r. idf r \<in> set ?ids) rs)) = set ?ids"
    using oldest_subset [of idf k p n rs] by auto
  moreover have "distinct (map idf (filter (\<lambda>r. idf r \<in> set ?ids) rs))" by (rule distinct_map_filter [OF key])
  ultimately have "length (map idf (filter (\<lambda>r. idf r \<in> set ?ids) rs)) = length ?ids"
    using oldest_count(1) [OF key] by (metis distinct_card)
  then show ?thesis by (simp add: count_where_def oldest_count(2))
qed

lemma kept_count:
  assumes key: "distinct (map idf rs)"
  shows "count_where p (delete_ids idf (oldest_ids idf k p n rs) rs) = count_where p rs - min n (count_where p rs)"
proof -
  let ?d = "\<lambda>r. idf r \<in> set (oldest_ids idf k p n rs)"
  have "filter ?d (filter p rs) = filter ?d rs"
    unfolding filter_filter by (rule filter_cong [OF refl]) (use oldest_eligible [OF key] in blast)
  then have "length (filter ?d (filter p rs)) = min n (count_where p rs)"
    using deleted_count [OF key] by (simp only: count_where_def)
  moreover have "filter p (filter (\<lambda>r. \<not> ?d r) rs) = filter (\<lambda>r. \<not> ?d r) (filter p rs)"
    by (simp add: conj_commute)
  ultimately show ?thesis
    using sum_length_filter_compl [of ?d "filter p rs"]
    by (simp only: count_where_def delete_ids_def delete_where_def)
qed

lemma kept_ineligible:
  assumes key: "distinct (map idf rs)"
  shows "filter (\<lambda>r. \<not> p r) (delete_ids idf (oldest_ids idf k p n rs) rs) = filter (\<lambda>r. \<not> p r) rs"
  unfolding delete_ids_def delete_where_def filter_filter
  by (rule filter_cong [OF refl]) (use oldest_eligible [OF key] in blast)

lemma count_where_0: "count_where p rs = 0 \<longleftrightarrow> filter (\<lambda>r. \<not> p r) rs = rs"
  by (simp add: count_where_def filter_empty_conv filter_id_conv)

section \<open>Only aged rows go\<close>

text \<open>\<open>aged col c rs rs'\<close>: \<open>rs'\<close> is \<open>rs\<close> without some rows older than \<open>c\<close>.\<close>

definition aged :: "('r \<Rightarrow> timestamptz) \<Rightarrow> timestamptz \<Rightarrow> 'r list \<Rightarrow> 'r list \<Rightarrow> bool" where
  "aged col c rs rs' = (\<exists>q. rs' = filter q rs \<and> (\<forall>r\<in>set rs. c \<le> col r \<longrightarrow> q r))"

lemma aged_refl [simp]: "aged col c rs rs"
  unfolding aged_def by (rule exI [of _ "\<lambda>_. True"]) simp

lemma aged_filter:
  assumes "aged col c rs rs'" and "\<And>r. r \<in> set rs' \<Longrightarrow> c \<le> col r \<Longrightarrow> q r"
  shows "aged col c rs (filter q rs')"
proof -
  obtain q' where "rs' = filter q' rs" "\<forall>r\<in>set rs. c \<le> col r \<longrightarrow> q' r" using assms(1) by (auto simp: aged_def)
  then show ?thesis unfolding aged_def using assms(2) by (intro exI [of _ "\<lambda>r. q r \<and> q' r"]) (auto simp: conj_commute)
qed

lemma aged_kept: "aged col c rs rs' \<Longrightarrow> r \<in> set rs \<Longrightarrow> c \<le> col r \<Longrightarrow> r \<in> set rs'"
  by (auto simp: aged_def)

text \<open>The tables no category names.\<close>

definition durable :: "database \<Rightarrow> database" where
  "durable d = d\<lparr>securityEvents := [], refreshTokens := [], sessions := [], emailVerificationTokens := [],
    passwordResetTokens := [], pendingRegistrations := []\<rparr>"

text \<open>
  \<open>retained\<close>: between the tables before and after, only the rows of the six categories that are past
  their cutoff may be missing, and only in a category of \<open>cs\<close>.
\<close>

definition retained ::
  "retention_category list \<Rightarrow> retention_windows \<Rightarrow> date \<Rightarrow> database \<Rightarrow> database \<Rightarrow> bool" where
  "retained cs windows now d d' =
    (let cutoff = (\<lambda>c. fromDate (retentionCutoff c windows now)) in
     aged se_createdAt (cutoff SecurityEvents) (securityEvents d) (securityEvents d') \<and>
     aged rt_expiresAt (cutoff ExpiredRefreshTokens) (refreshTokens d) (refreshTokens d') \<and>
     aged s_expiresAt (cutoff ExpiredSessions) (sessions d) (sessions d') \<and>
     aged tok_expiresAt (cutoff ExpiredEmailVerificationTokens) (emailVerificationTokens d) (emailVerificationTokens d') \<and>
     aged tok_expiresAt (cutoff ExpiredPasswordResetTokens) (passwordResetTokens d) (passwordResetTokens d') \<and>
     aged preg_expiresAt (cutoff ExpiredPendingRegistrations) (pendingRegistrations d) (pendingRegistrations d') \<and>
     (SecurityEvents \<notin> set cs \<longrightarrow> securityEvents d' = securityEvents d) \<and>
     (ExpiredRefreshTokens \<notin> set cs \<and> ExpiredSessions \<notin> set cs \<longrightarrow> refreshTokens d' = refreshTokens d) \<and>
     (ExpiredSessions \<notin> set cs \<longrightarrow> sessions d' = sessions d) \<and>
     (ExpiredEmailVerificationTokens \<notin> set cs \<longrightarrow> emailVerificationTokens d' = emailVerificationTokens d) \<and>
     (ExpiredPasswordResetTokens \<notin> set cs \<longrightarrow> passwordResetTokens d' = passwordResetTokens d) \<and>
     (ExpiredPendingRegistrations \<notin> set cs \<longrightarrow> pendingRegistrations d' = pendingRegistrations d) \<and>
     durable d' = durable d)"

lemma retained_refl [simp]: "retained cs windows now d d"
  by (simp add: retained_def)

text \<open>Every batch keeps what \<open>retained\<close> says.\<close>

abbreviation kept where
  "kept cs windows now d0 d \<equiv> db_ok d \<and> retained cs windows now d0 d"

lemma db_ok_ids:
  assumes "db_ok d"
  shows "distinct (map se_id (securityEvents d))" "distinct (map rt_id (refreshTokens d))"
    "distinct (map s_id (sessions d))" "distinct (map tok_id (emailVerificationTokens d))"
    "distinct (map tok_id (passwordResetTokens d))" "distinct (map preg_id (pendingRegistrations d))"
  using assms by (simp_all add: db_ok_iff)

lemma aged_oldest:
  assumes "distinct (map idf rs)" and "aged col c rs0 rs"
  shows "aged col c rs0 (delete_ids idf (oldest_ids idf k (\<lambda>r. col r < c) n rs) rs)"
  unfolding delete_ids_def delete_where_def
  by (rule aged_filter [OF assms(2)]) (use oldest_eligible [OF assms(1)] in fastforce)

lemma wp_ageBasedDelete:
  assumes "distinct (map idf (table (db w)))"
    and "\<And>rs. rs = delete_ids idf (oldest_ids idf column (\<lambda>r. column r < fromDate cutoff) n (table (db w))) (table (db w)) \<Longrightarrow>
      db_ok (upd rs (db w)) \<Longrightarrow>
      Q (min n (count_where (\<lambda>r. column r < fromDate cutoff) (table (db w)))) (w\<lparr>db := upd rs (db w)\<rparr>)"
    and "\<And>e. E e w"
  shows "wp (ageBasedDelete table upd idf column cutoff n) Q E w"
  unfolding ageBasedDelete_def
  by (simp add: wp_simps deleted_count [OF assms(1)] assms(2,3))

lemma retained_updates:
  assumes "retained cs windows now d0 d"
  shows "SecurityEvents \<in> set cs \<Longrightarrow>
      aged se_createdAt (fromDate (retentionCutoff SecurityEvents windows now)) (securityEvents d0) es \<Longrightarrow>
      retained cs windows now d0 (d\<lparr>securityEvents := es\<rparr>)"
    "ExpiredRefreshTokens \<in> set cs \<or> ExpiredSessions \<in> set cs \<Longrightarrow>
      aged rt_expiresAt (fromDate (retentionCutoff ExpiredRefreshTokens windows now)) (refreshTokens d0) ts \<Longrightarrow>
      retained cs windows now d0 (d\<lparr>refreshTokens := ts\<rparr>)"
    "ExpiredSessions \<in> set cs \<Longrightarrow>
      aged s_expiresAt (fromDate (retentionCutoff ExpiredSessions windows now)) (sessions d0) ss \<Longrightarrow>
      retained cs windows now d0 (d\<lparr>sessions := ss\<rparr>)"
    "ExpiredEmailVerificationTokens \<in> set cs \<Longrightarrow>
      aged tok_expiresAt (fromDate (retentionCutoff ExpiredEmailVerificationTokens windows now)) (emailVerificationTokens d0) vs \<Longrightarrow>
      retained cs windows now d0 (d\<lparr>emailVerificationTokens := vs\<rparr>)"
    "ExpiredPasswordResetTokens \<in> set cs \<Longrightarrow>
      aged tok_expiresAt (fromDate (retentionCutoff ExpiredPasswordResetTokens windows now)) (passwordResetTokens d0) vs \<Longrightarrow>
      retained cs windows now d0 (d\<lparr>passwordResetTokens := vs\<rparr>)"
    "ExpiredPendingRegistrations \<in> set cs \<Longrightarrow>
      aged preg_expiresAt (fromDate (retentionCutoff ExpiredPendingRegistrations windows now)) (pendingRegistrations d0) ps \<Longrightarrow>
      retained cs windows now d0 (d\<lparr>pendingRegistrations := ps\<rparr>)"
  using assms unfolding retained_def durable_def Let_def by (blast | (simp; blast) | simp)+

lemma retainedD:
  assumes "retained cs windows now d d'"
  shows "aged se_createdAt (fromDate (retentionCutoff SecurityEvents windows now)) (securityEvents d) (securityEvents d')"
    "aged rt_expiresAt (fromDate (retentionCutoff ExpiredRefreshTokens windows now)) (refreshTokens d) (refreshTokens d')"
    "aged s_expiresAt (fromDate (retentionCutoff ExpiredSessions windows now)) (sessions d) (sessions d')"
    "aged tok_expiresAt (fromDate (retentionCutoff ExpiredEmailVerificationTokens windows now))
      (emailVerificationTokens d) (emailVerificationTokens d')"
    "aged tok_expiresAt (fromDate (retentionCutoff ExpiredPasswordResetTokens windows now))
      (passwordResetTokens d) (passwordResetTokens d')"
    "aged preg_expiresAt (fromDate (retentionCutoff ExpiredPendingRegistrations windows now))
      (pendingRegistrations d) (pendingRegistrations d')"
  using assms by (simp_all add: retained_def Let_def)

text \<open>The two windows of a session and its tokens are one.\<close>

lemma session_cutoff: "retentionCutoff ExpiredRefreshTokens windows now = retentionCutoff ExpiredSessions windows now"
  by (simp add: retentionCutoff_def)

lemma wp_deleteSessions:
  fixes w :: world and windows :: retention_windows and now cutoff :: date and n :: nat
  defines "p \<equiv> deletable_session cutoff windows now (db w)"
    and "ids \<equiv> oldest_ids s_id s_expiresAt (deletable_session cutoff windows now (db w)) n (sessions (db w))"
  assumes "distinct (map s_id (sessions (db w)))"
    and "ids = [] \<Longrightarrow> Q 0 w"
    and "\<And>d. d = (db w)\<lparr>refreshTokens := delete_where (\<lambda>t. rt_sessionId t \<in> set ids) (refreshTokens (db w)),
        sessions := delete_ids s_id ids (sessions (db w))\<rparr> \<Longrightarrow> ids \<noteq> [] \<Longrightarrow> db_ok d \<Longrightarrow>
      Q (min n (count_where p (sessions (db w)))) (w\<lparr>db := d\<rparr>)"
    and "\<And>e w'. E e w'"
  shows "wp (deleteSessions cutoff n windows now) Q E w"
  unfolding deleteSessions_def
  using assms(4-) deleted_count [OF assms(3), of s_expiresAt p n]
  by (auto simp: wp_simps p_def ids_def)

lemma keeps_deleteBatch:
  assumes "c \<in> set cs"
  shows "keeps (kept cs windows now d0) (transaction (deleteBatch c (retentionCutoff c windows now) n windows now))"
proof (rule keeps_transaction_wp)
  fix w :: world
  assume w: "kept cs windows now d0 (db w)"
  note ids = db_ok_ids [OF conjunct1 [OF w]] and old = retainedD [OF conjunct2 [OF w]]
  note gone = aged_oldest [OF ids(1) old(1)] aged_oldest [OF ids(2) old(2)] aged_oldest [OF ids(4) old(4)]
    aged_oldest [OF ids(5) old(5)] aged_oldest [OF ids(6) old(6)]
  show "wp (deleteBatch c (retentionCutoff c windows now) n windows now)
      (\<lambda>_ w'. kept cs windows now d0 (db w')) (\<lambda>_ _. True) w"
  proof (cases "c = ExpiredSessions")
    case False
    then show ?thesis
      using assms ids gone retained_updates [OF conjunct2 [OF w]]
      by (cases c) (auto intro!: wp_ageBasedDelete)
  next
    case True
    let ?c = "retentionCutoff ExpiredSessions windows now"
    let ?ids = "oldest_ids s_id s_expiresAt (deletable_session ?c windows now (db w)) n (sessions (db w))"
    have dead: "deletable_session ?c windows now (db w) s" if "s \<in> set (sessions (db w))" "s_id s \<in> set ?ids" for s
      by (rule oldest_eligible [OF ids(3) that])
    have "\<exists>s\<in>set (sessions (db w)). s_id s = i" if "i \<in> set ?ids" for i
      using that oldest_subset by fastforce
    then have tokens: "rt_expiresAt t < fromDate ?c" if "t \<in> set (refreshTokens (db w))" "rt_sessionId t \<in> set ?ids" for t
      using that dead by (fastforce simp: deletable_session_def list_ex_iff)
    have "aged rt_expiresAt (fromDate (retentionCutoff ExpiredRefreshTokens windows now)) (refreshTokens d0)
        (delete_where (\<lambda>t. rt_sessionId t \<in> set ?ids) (refreshTokens (db w)))"
      unfolding delete_where_def by (rule aged_filter [OF old(2)]) (use tokens in \<open>fastforce simp: session_cutoff\<close>)
    moreover have "aged s_expiresAt (fromDate ?c) (sessions d0) (delete_ids s_id ?ids (sessions (db w)))"
      unfolding delete_ids_def delete_where_def
      by (rule aged_filter [OF old(3)]) (use dead in \<open>fastforce simp: deletable_session_def\<close>)
    ultimately have "retained cs windows now d0 ((db w)\<lparr>refreshTokens := delete_where (\<lambda>t. rt_sessionId t \<in> set ?ids)
        (refreshTokens (db w)), sessions := delete_ids s_id ?ids (sessions (db w))\<rparr>)"
      using assms True by (intro retained_updates conjunct2 [OF w]) simp_all
    then show ?thesis using True w by (auto intro!: wp_deleteSessions ids(3))
  qed
qed

lemma keeps_runApplyCategory:
  assumes "c \<in> set cs"
  shows "keeps (kept cs (ro_windows opts) (ro_now opts) d0)
    (runApplyCategory c (retentionCutoff c (ro_windows opts) (ro_now opts)) opts left deleted batches)"
  by (induction left arbitrary: deleted batches) (auto intro!: preserve_intros keeps_deleteBatch assms)

lemma keeps_run_categories:
  "set cs' \<subseteq> set cs \<Longrightarrow> keeps (kept cs (ro_windows opts) (ro_now opts) before) (run_categories message opts cs')"
  by (induction cs')
    (auto simp: run_category_def Let_def intro!: preserve_intros keeps_runApplyCategory split: retention_mode.split)

text \<open>A run never raises, and a dry run reads only.\<close>

lemma run_categories_returns: "\<exists>rs w'. run_categories message opts cs w = (Inr rs, w')"
proof (induction cs arbitrary: w)
  case (Cons c cs)
  obtain r w1 where r: "run_category message opts c w = (Inr r, w1)"
    by (cases "run_category message opts c w")
      (auto simp: run_category_def Let_def catchP_apply split: sum.splits prod.splits)
  obtain rs w2 where "run_categories message opts cs w1 = (Inr rs, w2)" using Cons by blast
  then show ?case by (simp add: prog_simps r)
qed simp

lemma dry_run_reads: "ro_mode opts = DryRun \<Longrightarrow> run_categories message opts cs w = (r, w') \<Longrightarrow> w' = w"
  by (induction cs arbitrary: r w') (auto simp: run_category_def Let_def prog_simps split: sum.splits prod.splits)

section \<open>Draining a category\<close>

lemma drain_loop:
  assumes step: "\<And>w. Inv (db w) \<Longrightarrow> \<exists>d'. deleteBatch c cutoff (ro_batchSize opts) (ro_windows opts) (ro_now opts) w =
      (Inr (min (ro_batchSize opts) (rest (db w))), w\<lparr>db := d'\<rparr>) \<and> Inv d' \<and>
      rest d' = rest (db w) - min (ro_batchSize opts) (rest (db w))"
    and "0 < ro_batchSize opts" and "Inv (db w)" and "rest (db w) < left * ro_batchSize opts"
  shows "\<exists>d' b. runApplyCategory c cutoff opts left deleted batches w =
      (Inr (deleted + rest (db w), b, False), w\<lparr>db := d'\<rparr>) \<and> Inv d' \<and> rest d' = 0"
  using assms(3,4)
proof (induction left arbitrary: w deleted batches)
  case (Suc left)
  let ?n = "ro_batchSize opts"
  obtain d' where d': "deleteBatch c cutoff ?n (ro_windows opts) (ro_now opts) w =
      (Inr (min ?n (rest (db w))), w\<lparr>db := d'\<rparr>)" "Inv d'" "rest d' = rest (db w) - min ?n (rest (db w))"
    using step [OF Suc.prems(1)] by blast
  show ?case
  proof (cases "rest (db w) < ?n")
    case True
    then show ?thesis using d' by (intro exI [of _ d'] exI [of _ "batches + 1"]) (simp add: prog_simps)
  next
    case False
    then have "rest d' < left * ?n" using d'(3) Suc.prems(2) by simp
    then obtain d2 b where "runApplyCategory c cutoff opts left (deleted + ?n) (batches + 1) (w\<lparr>db := d'\<rparr>) =
        (Inr (deleted + ?n + rest d', b, False), w\<lparr>db := d2\<rparr>)" "Inv d2" "rest d2 = 0"
      using Suc.IH [of "w\<lparr>db := d'\<rparr>" "deleted + ?n" "batches + 1"] d'(2) by auto
    then show ?thesis using d' False by (auto simp: prog_simps)
  qed
qed simp

text \<open>
  A table whose rows may be deleted by age: reading back what was written, a primary key, and no
  foreign key into it.
\<close>

locale purgeable =
  fixes rows :: "database \<Rightarrow> 'r list" and put :: "'r list \<Rightarrow> database \<Rightarrow> database" and key :: "'r \<Rightarrow> string"
  assumes rows_put: "rows (put rs d) = rs" and put_put: "put rs' (put rs d) = put rs' d" and put_rows: "put (rows d) d = d"
    and key_distinct: "db_ok d \<Longrightarrow> distinct (map key (rows d))"
    and ok_filter: "db_ok d \<Longrightarrow> db_ok (put (filter q (rows d)) d)"
begin

lemma drain:
  assumes "db_ok (db w)" and "0 < ro_batchSize opts"
    and "count_where (\<lambda>r. column r < fromDate cutoff) (rows (db w)) < left * ro_batchSize opts"
    and c: "\<And>n windows now. deleteBatch c cutoff n windows now = ageBasedDelete rows put key column cutoff n"
  shows "\<exists>b. runApplyCategory c cutoff opts left 0 0 w =
    (Inr (count_where (\<lambda>r. column r < fromDate cutoff) (rows (db w)), b, False),
     w\<lparr>db := put (filter (\<lambda>r. fromDate cutoff \<le> column r) (rows (db w))) (db w)\<rparr>)"
proof -
  let ?p = "\<lambda>r. column r < fromDate cutoff" and ?d0 = "db w" and ?n = "ro_batchSize opts"
  let ?Inv = "\<lambda>d. db_ok d \<and> (\<exists>rs. d = put rs ?d0 \<and> filter (\<lambda>r. \<not> ?p r) rs = filter (\<lambda>r. \<not> ?p r) (rows ?d0))"
  have "\<exists>d'. deleteBatch c cutoff ?n (ro_windows opts) (ro_now opts) v =
      (Inr (min ?n (count_where ?p (rows (db v)))), v\<lparr>db := d'\<rparr>) \<and> ?Inv d' \<and>
      count_where ?p (rows d') = count_where ?p (rows (db v)) - min ?n (count_where ?p (rows (db v)))"
    if v: "?Inv (db v)" for v
  proof -
    let ?rs = "delete_ids key (oldest_ids key column ?p ?n (rows (db v))) (rows (db v))"
    have key: "distinct (map key (rows (db v)))" using v key_distinct by blast
    obtain rs where rs: "db v = put rs ?d0" "filter (\<lambda>r. \<not> ?p r) rs = filter (\<lambda>r. \<not> ?p r) (rows ?d0)" using v by blast
    have ok: "db_ok (put ?rs (db v))"
      unfolding delete_ids_def delete_where_def by (rule ok_filter) (use v in blast)
    have "deleteBatch c cutoff ?n (ro_windows opts) (ro_now opts) v =
        (Inr (min ?n (count_where ?p (rows (db v)))), v\<lparr>db := put ?rs (db v)\<rparr>)"
      unfolding c ageBasedDelete_def by (simp add: prog_simps deleted_count [OF key] ok)
    moreover have "?Inv (put ?rs (db v))"
      using ok rs kept_ineligible [OF key, of ?p column ?n]
      by (auto simp: put_put rows_put simp del: not_less intro!: exI [of _ ?rs])
    moreover have "count_where ?p (rows (put ?rs (db v))) =
        count_where ?p (rows (db v)) - min ?n (count_where ?p (rows (db v)))"
      by (simp only: rows_put kept_count [OF key])
    ultimately show ?thesis by blast
  qed
  moreover have "?Inv ?d0" using assms(1) put_rows by (metis (no_types, lifting))
  ultimately obtain d' b where run: "runApplyCategory c cutoff opts left 0 0 w =
      (Inr (0 + count_where ?p (rows ?d0), b, False), w\<lparr>db := d'\<rparr>)" and inv: "?Inv d'"
    and rest: "count_where ?p (rows d') = 0"
    using drain_loop [of ?Inv c cutoff opts "\<lambda>d. count_where ?p (rows d)" w left 0 0] assms(2,3) by blast
  obtain rs where "d' = put rs ?d0" "filter (\<lambda>r. \<not> ?p r) rs = filter (\<lambda>r. \<not> ?p r) (rows ?d0)" using inv by blast
  with rest have "d' = put (filter (\<lambda>r. fromDate cutoff \<le> column r) (rows ?d0)) ?d0"
    by (simp add: count_where_0 rows_put not_less)
  with run show ?thesis by auto
qed

end

lemma somes_filter: "set (somes (map f (filter q rs))) \<subseteq> set (somes (map f rs))"
  by (induction rs) (auto split: option.splits)

interpretation events: purgeable securityEvents "\<lambda>x d. d\<lparr>securityEvents := x\<rparr>" se_id
proof (unfold_locales, goal_cases)
  case (5 d q)
  then show ?case
    using somes_filter [of se_userId q "securityEvents d"] somes_filter [of se_sessionId q "securityEvents d"]
    by (intro db_ok_upd_securityEvents) (auto simp: db_ok_iff intro: distinct_map_filter)
qed (simp_all add: db_ok_iff)

interpretation refresh_tokens: purgeable refreshTokens "\<lambda>x d. d\<lparr>refreshTokens := x\<rparr>" rt_id
proof (unfold_locales, goal_cases)
  case (5 d q)
  then show ?case by (intro db_ok_upd_refreshTokens) (auto simp: db_ok_iff intro: distinct_map_filter)
qed (simp_all add: db_ok_iff)

interpretation verification_tokens: purgeable emailVerificationTokens "\<lambda>x d. d\<lparr>emailVerificationTokens := x\<rparr>" tok_id
proof (unfold_locales, goal_cases)
  case (5 d q)
  then show ?case by (intro db_ok_upd_emailVerificationTokens) (auto simp: db_ok_iff intro: distinct_map_filter)
qed (simp_all add: db_ok_iff)

interpretation reset_tokens: purgeable passwordResetTokens "\<lambda>x d. d\<lparr>passwordResetTokens := x\<rparr>" tok_id
proof (unfold_locales, goal_cases)
  case (5 d q)
  then show ?case by (intro db_ok_upd_passwordResetTokens) (auto simp: db_ok_iff intro: distinct_map_filter)
qed (simp_all add: db_ok_iff)

interpretation registrations: purgeable pendingRegistrations "\<lambda>x d. d\<lparr>pendingRegistrations := x\<rparr>" preg_id
proof (unfold_locales, goal_cases)
  case (5 d q)
  have "distinct (map preg_normalizedEmail (filter usable_registration (filter q (pendingRegistrations d))))"
    using 5 distinct_map_filter [of preg_normalizedEmail "filter usable_registration (pendingRegistrations d)" q]
    by (simp add: db_ok_iff conj_commute)
  then show ?case using 5 by (intro db_ok_upd_pendingRegistrations) (auto simp: db_ok_iff intro: distinct_map_filter)
qed (simp_all add: db_ok_iff)

section \<open>Draining the sessions\<close>

lemma db_ok_drop_sessions:
  assumes "db_ok d" and "\<And>s. s \<in> set (sessions d) \<Longrightarrow> \<not> q s \<Longrightarrow>
      s_id s \<notin> rt_sessionId ` set (refreshTokens d) \<and> s_id s \<notin> set (somes (map se_sessionId (securityEvents d)))"
  shows "db_ok (d\<lparr>sessions := filter q (sessions d)\<rparr>)"
proof -
  have refs: "rt_sessionId ` set (refreshTokens d) \<subseteq> s_id ` set (sessions d)"
    "set (somes (map se_sessionId (securityEvents d))) \<subseteq> s_id ` set (sessions d)"
    using assms(1) by (simp_all add: db_ok_iff)
  have "rt_sessionId ` set (refreshTokens d) \<subseteq> s_id ` set (filter q (sessions d))"
    "set (somes (map se_sessionId (securityEvents d))) \<subseteq> s_id ` set (filter q (sessions d))"
    using refs assms(2) by (auto simp: subset_iff image_iff) (metis)+
  moreover have "s_userId ` set (filter q (sessions d)) \<subseteq> u_id ` set (users d)"
    using assms(1) by (auto simp: db_ok_iff)
  ultimately show ?thesis using assms(1) by (simp add: db_ok_iff distinct_map_filter)
qed

lemma in_somes: "x \<in> set (somes xs) \<longleftrightarrow> Some x \<in> set xs"
  by (induction xs rule: somes.induct) auto

text \<open>When no aged referrer is left, a deletable session has none at all.\<close>

definition no_aged_referrers :: "date \<Rightarrow> retention_windows \<Rightarrow> date \<Rightarrow> database \<Rightarrow> bool" where
  "no_aged_referrers cutoff windows now d =
    (list_all (\<lambda>t. fromDate cutoff \<le> rt_expiresAt t) (refreshTokens d) \<and>
     list_all (\<lambda>e. fromDate (retentionCutoff SecurityEvents windows now) \<le> se_createdAt e) (securityEvents d))"

lemma deletable_unreferenced:
  assumes "no_aged_referrers cutoff windows now d" and "deletable_session cutoff windows now d s"
  shows "s_id s \<notin> rt_sessionId ` set (refreshTokens d)" "s_id s \<notin> set (somes (map se_sessionId (securityEvents d)))"
  using assms
  by (fastforce simp: no_aged_referrers_def deletable_session_def list_all_iff list_ex_iff retentionCutoff_def Let_def in_somes)+

lemma drain_sessions:
  assumes "db_ok (db w)" and "0 < ro_batchSize opts" and "no_aged_referrers cutoff (ro_windows opts) (ro_now opts) (db w)"
    and "count_where (deletable_session cutoff (ro_windows opts) (ro_now opts) (db w)) (sessions (db w)) <
      left * ro_batchSize opts"
  shows "\<exists>b. runApplyCategory ExpiredSessions cutoff opts left 0 0 w =
    (Inr (count_where (deletable_session cutoff (ro_windows opts) (ro_now opts) (db w)) (sessions (db w)), b, False),
     w\<lparr>db := (db w)\<lparr>sessions := filter (\<lambda>s. \<not> deletable_session cutoff (ro_windows opts) (ro_now opts) (db w) s)
       (sessions (db w))\<rparr>\<rparr>)"
proof -
  let ?d0 = "db w" and ?n = "ro_batchSize opts"
  let ?p = "deletable_session cutoff (ro_windows opts) (ro_now opts) ?d0"
  let ?put = "\<lambda>ss. ?d0\<lparr>sessions := ss\<rparr>"
  let ?Inv = "\<lambda>d. db_ok d \<and> (\<exists>ss. d = ?put ss \<and> filter (\<lambda>s. \<not> ?p s) ss = filter (\<lambda>s. \<not> ?p s) (sessions ?d0))"
  have p: "deletable_session cutoff (ro_windows opts) (ro_now opts) (?put ss) = ?p" for ss
    by (simp add: deletable_session_def fun_eq_iff)
  have "\<exists>d'. deleteBatch ExpiredSessions cutoff ?n (ro_windows opts) (ro_now opts) v =
      (Inr (min ?n (count_where ?p (sessions (db v)))), v\<lparr>db := d'\<rparr>) \<and> ?Inv d' \<and>
      count_where ?p (sessions d') = count_where ?p (sessions (db v)) - min ?n (count_where ?p (sessions (db v)))"
    if v: "?Inv (db v)" for v
  proof -
    obtain ss where ss: "db v = ?put ss" "filter (\<lambda>s. \<not> ?p s) ss = filter (\<lambda>s. \<not> ?p s) (sessions ?d0)" using v by blast
    have key: "distinct (map s_id ss)" using v ss(1) db_ok_ids(3) by fastforce
    let ?ids = "oldest_ids s_id s_expiresAt ?p ?n ss"
    let ?ss = "delete_ids s_id ?ids ss"
    have dead: "?p s" if "s \<in> set ss" "s_id s \<in> set ?ids" for s by (rule oldest_eligible [OF key that])
    have unreferenced: "i \<notin> rt_sessionId ` set (refreshTokens ?d0)" if i: "i \<in> set ?ids" for i
    proof -
      obtain s where "?p s" "i = s_id s"
        using subsetD [OF oldest_subset i] by (elim imageE) blast
      then show ?thesis using deletable_unreferenced(1) [OF assms(3)] by (simp only: not_False_eq_True)
    qed
    then have same: "delete_where (\<lambda>t. rt_sessionId t \<in> set ?ids) (refreshTokens ?d0) = refreshTokens ?d0"
      by (auto simp: delete_where_def filter_id_conv)
    have "db_ok ((?put ss)\<lparr>sessions := filter (\<lambda>s. s_id s \<notin> set ?ids) (sessions (?put ss))\<rparr>)"
    proof (rule db_ok_drop_sessions)
      show "db_ok (?put ss)" using v ss(1) by simp
    qed (use deletable_unreferenced [OF assms(3)] dead in auto)
    then have ok: "db_ok (?put ?ss)" by (simp add: delete_ids_def delete_where_def)
    have "deleteSessions cutoff ?n (ro_windows opts) (ro_now opts) v =
        (Inr (min ?n (count_where ?p ss)), v\<lparr>db := ?put ?ss\<rparr>)"
    proof (cases "?ids = []")
      case True
      then have "min ?n (count_where ?p ss) = 0" using oldest_count(2) [of s_id s_expiresAt ?p ?n ss] by simp
      moreover have "?ss = ss" using True by (simp add: delete_ids_def delete_where_def)
      moreover have "v\<lparr>db := ?put ss\<rparr> = v" using ss(1) by (metis world.surjective world.update_convs(1))
      ultimately show ?thesis using True by (simp add: deleteSessions_def prog_simps ss(1) p)
    next
      case False
      then show ?thesis
        using v ss(1) by (simp add: deleteSessions_def prog_simps p same deleted_count [OF key] ok)
    qed
    moreover have "?Inv (?put ?ss)" using ok kept_ineligible [OF key, of ?p s_expiresAt ?n] ss(2) by auto
    moreover have "count_where ?p (sessions (?put ?ss)) = count_where ?p ss - min ?n (count_where ?p ss)"
      using kept_count [OF key, of ?p s_expiresAt ?n] by simp
    ultimately show ?thesis using ss(1) by (intro exI [of _ "?put ?ss"]) simp
  qed
  moreover have "?Inv ?d0" using assms(1) by (intro conjI exI [of _ "sessions ?d0"]) simp_all
  ultimately obtain d' b where run: "runApplyCategory ExpiredSessions cutoff opts left 0 0 w =
      (Inr (0 + count_where ?p (sessions ?d0), b, False), w\<lparr>db := d'\<rparr>)" and inv: "?Inv d'"
    and rest: "count_where ?p (sessions d') = 0"
    using drain_loop [of ?Inv ExpiredSessions cutoff opts "\<lambda>d. count_where ?p (sessions d)" w left 0 0] assms(2,4) by blast
  obtain ss where ss: "d' = ?put ss" "filter (\<lambda>s. \<not> ?p s) ss = filter (\<lambda>s. \<not> ?p s) (sessions ?d0)" using inv by blast
  then have "filter (\<lambda>s. \<not> ?p s) ss = ss" using rest by (simp add: count_where_0)
  then have "d' = ?put (filter (\<lambda>s. \<not> ?p s) (sessions ?d0))" using ss by simp
  with run show ?thesis by auto
qed

section \<open>The whole run\<close>

text \<open>The tables when nothing eligible is left.\<close>

definition purged :: "retention_windows \<Rightarrow> date \<Rightarrow> database \<Rightarrow> database" where
  "purged windows now d =
    (let cutoff = (\<lambda>c. fromDate (retentionCutoff c windows now)) in
     d\<lparr>securityEvents := filter (\<lambda>e. cutoff SecurityEvents \<le> se_createdAt e) (securityEvents d),
       refreshTokens := filter (\<lambda>t. cutoff ExpiredRefreshTokens \<le> rt_expiresAt t) (refreshTokens d),
       sessions := filter (\<lambda>s. \<not> deletable_session (retentionCutoff ExpiredSessions windows now) windows now d s)
         (sessions d),
       emailVerificationTokens := filter (\<lambda>t. cutoff ExpiredEmailVerificationTokens \<le> tok_expiresAt t)
         (emailVerificationTokens d),
       passwordResetTokens := filter (\<lambda>t. cutoff ExpiredPasswordResetTokens \<le> tok_expiresAt t) (passwordResetTokens d),
       pendingRegistrations := filter (\<lambda>r. cutoff ExpiredPendingRegistrations \<le> preg_expiresAt r)
         (pendingRegistrations d)\<rparr>)"

lemma run_category_applied:
  assumes "ro_mode opts = Apply"
    and "runApplyCategory c (retentionCutoff c (ro_windows opts) (ro_now opts)) opts (ro_maxBatches opts) 0 0 w = (Inr out, w')"
  shows "run_category message opts c w = (Inr (result_of opts c None out None), w')"
  using assms by (simp add: run_category_def prog_simps)

lemma run_categories_Cons:
  "run_category message opts c w = (Inr r, w') \<Longrightarrow> run_categories message opts cs w' = (Inr rs, w'') \<Longrightarrow>
    run_categories message opts (c # cs) w = (Inr (r # rs), w'')"
  by (simp add: prog_simps)

lemma run_categories_Nil: "run_categories message opts [] w = (Inr [], w)"
  by simp

text \<open>Deleting aged referrers does not make another session deletable.\<close>

lemma deletable_after_referrers:
  "deletable_session (retentionCutoff ExpiredSessions windows now) windows now
     (d\<lparr>securityEvents := filter (\<lambda>e. fromDate (retentionCutoff SecurityEvents windows now) \<le> se_createdAt e) (securityEvents d),
        refreshTokens := filter (\<lambda>t. fromDate (retentionCutoff ExpiredRefreshTokens windows now) \<le> rt_expiresAt t) (refreshTokens d)\<rparr>)
   = deletable_session (retentionCutoff ExpiredSessions windows now) windows now d"
  by (auto simp: fun_eq_iff deletable_session_def retentionCutoff_def Let_def list_ex_iff)

text \<open>Enough batches for every table.\<close>

definition enough_batches :: "retention_run \<Rightarrow> database \<Rightarrow> bool" where
  "enough_batches opts d =
    (\<forall>n\<in>{length (securityEvents d), length (refreshTokens d), length (sessions d), length (emailVerificationTokens d),
      length (passwordResetTokens d), length (pendingRegistrations d)}. n < ro_maxBatches opts * ro_batchSize opts)"

lemma count_where_fits: "length rs < m \<Longrightarrow> count_where p rs < m"
  by (metis count_where_def length_filter_le le_less_trans)

lemma drained_categories:
  assumes ok: "db_ok (db w)" and mode: "ro_mode opts = Apply" and pos: "0 < ro_batchSize opts"
    and fit: "enough_batches opts (db w)"
  shows "\<exists>b1 b2 b3 b4 b5 b6. run_categories message opts RETENTION_CATEGORIES w =
    (Inr (map (\<lambda>(c, b). result_of opts c None
        (countEligible c (retentionCutoff c (ro_windows opts) (ro_now opts)) (ro_windows opts) (ro_now opts) (db w), b, False) None)
      (zip RETENTION_CATEGORIES [b1, b2, b3, b4, b5, b6])),
     w\<lparr>db := purged (ro_windows opts) (ro_now opts) (db w)\<rparr>)"
proof -
  let ?w = "ro_windows opts" and ?now = "ro_now opts" and ?d = "db w"
  let ?c = "\<lambda>c. retentionCutoff c ?w ?now"
  note fits = fit [unfolded enough_batches_def, simplified]
  define d1 where "d1 = ?d\<lparr>securityEvents := filter (\<lambda>e. fromDate (?c SecurityEvents) \<le> se_createdAt e) (securityEvents ?d)\<rparr>"
  define d2 where "d2 = d1\<lparr>refreshTokens := filter (\<lambda>t. fromDate (?c ExpiredRefreshTokens) \<le> rt_expiresAt t) (refreshTokens ?d)\<rparr>"
  define d3 where "d3 = d2\<lparr>sessions := filter (\<lambda>s. \<not> deletable_session (?c ExpiredSessions) ?w ?now ?d s) (sessions ?d)\<rparr>"
  define d4 where "d4 = d3\<lparr>emailVerificationTokens :=
    filter (\<lambda>t. fromDate (?c ExpiredEmailVerificationTokens) \<le> tok_expiresAt t) (emailVerificationTokens ?d)\<rparr>"
  define d5 where "d5 = d4\<lparr>passwordResetTokens :=
    filter (\<lambda>t. fromDate (?c ExpiredPasswordResetTokens) \<le> tok_expiresAt t) (passwordResetTokens ?d)\<rparr>"
  have del: "deletable_session (?c ExpiredSessions) ?w ?now d2 = deletable_session (?c ExpiredSessions) ?w ?now ?d"
    unfolding d2_def d1_def using deletable_after_referrers [of ?w ?now ?d] by simp
  have refs: "no_aged_referrers (?c ExpiredSessions) ?w ?now d2"
    by (simp add: no_aged_referrers_def d2_def d1_def list_all_iff session_cutoff)
  have ok1: "db_ok d1" unfolding d1_def by (rule events.ok_filter [OF ok])
  have ok2: "db_ok d2" using refresh_tokens.ok_filter [OF ok1] by (simp add: d2_def d1_def)
  have ok3: "db_ok d3"
    using db_ok_drop_sessions [OF ok2, of "\<lambda>s. \<not> deletable_session (?c ExpiredSessions) ?w ?now ?d s"]
      deletable_unreferenced [OF refs] del
    by (simp add: d3_def d2_def d1_def)
  have ok4: "db_ok d4" using verification_tokens.ok_filter [OF ok3] by (simp add: d4_def d3_def d2_def d1_def)
  have ok5: "db_ok d5" using reset_tokens.ok_filter [OF ok4] by (simp add: d5_def d4_def d3_def d2_def d1_def)
  have same: "emailVerificationTokens d3 = emailVerificationTokens ?d" "passwordResetTokens d4 = passwordResetTokens ?d"
    "pendingRegistrations d5 = pendingRegistrations ?d" "refreshTokens d1 = refreshTokens ?d"
    by (simp_all add: d5_def d4_def d3_def d2_def d1_def)
  obtain b1 where r1: "runApplyCategory SecurityEvents (?c SecurityEvents) opts (ro_maxBatches opts) 0 0 w =
      (Inr (count_where (\<lambda>e. se_createdAt e < fromDate (?c SecurityEvents)) (securityEvents ?d), b1, False), w\<lparr>db := d1\<rparr>)"
    using events.drain [OF ok pos count_where_fits, where c = SecurityEvents] fits unfolding d1_def by fastforce
  obtain b2 where r2: "runApplyCategory ExpiredRefreshTokens (?c ExpiredRefreshTokens) opts (ro_maxBatches opts) 0 0 (w\<lparr>db := d1\<rparr>) =
      (Inr (count_where (\<lambda>t. rt_expiresAt t < fromDate (?c ExpiredRefreshTokens)) (refreshTokens ?d), b2, False), w\<lparr>db := d2\<rparr>)"
    using refresh_tokens.drain [of "w\<lparr>db := d1\<rparr>" opts rt_expiresAt "?c ExpiredRefreshTokens" "ro_maxBatches opts" ExpiredRefreshTokens]
      ok1 pos count_where_fits [of "refreshTokens ?d" "ro_maxBatches opts * ro_batchSize opts"] fits
    by (auto simp: same simp flip: d2_def)
  obtain b3 where r3: "runApplyCategory ExpiredSessions (?c ExpiredSessions) opts (ro_maxBatches opts) 0 0 (w\<lparr>db := d2\<rparr>) =
      (Inr (count_where (deletable_session (?c ExpiredSessions) ?w ?now ?d) (sessions ?d), b3, False), w\<lparr>db := d3\<rparr>)"
    using drain_sessions [of "w\<lparr>db := d2\<rparr>" opts "?c ExpiredSessions" "ro_maxBatches opts"] ok2 pos refs
      count_where_fits [of "sessions ?d" "ro_maxBatches opts * ro_batchSize opts"] fits
    by (auto simp: del d3_def simp flip: d1_def d2_def) (auto simp: d2_def d1_def)
  obtain b4 where r4: "runApplyCategory ExpiredEmailVerificationTokens (?c ExpiredEmailVerificationTokens) opts
      (ro_maxBatches opts) 0 0 (w\<lparr>db := d3\<rparr>) =
      (Inr (count_where (\<lambda>t. tok_expiresAt t < fromDate (?c ExpiredEmailVerificationTokens)) (emailVerificationTokens ?d), b4, False),
       w\<lparr>db := d4\<rparr>)"
    using verification_tokens.drain [of "w\<lparr>db := d3\<rparr>" opts tok_expiresAt "?c ExpiredEmailVerificationTokens"
        "ro_maxBatches opts" ExpiredEmailVerificationTokens]
      ok3 pos count_where_fits [of "emailVerificationTokens ?d" "ro_maxBatches opts * ro_batchSize opts"] fits
    by (auto simp: same simp flip: d4_def)
  obtain b5 where r5: "runApplyCategory ExpiredPasswordResetTokens (?c ExpiredPasswordResetTokens) opts
      (ro_maxBatches opts) 0 0 (w\<lparr>db := d4\<rparr>) =
      (Inr (count_where (\<lambda>t. tok_expiresAt t < fromDate (?c ExpiredPasswordResetTokens)) (passwordResetTokens ?d), b5, False),
       w\<lparr>db := d5\<rparr>)"
    using reset_tokens.drain [of "w\<lparr>db := d4\<rparr>" opts tok_expiresAt "?c ExpiredPasswordResetTokens"
        "ro_maxBatches opts" ExpiredPasswordResetTokens]
      ok4 pos count_where_fits [of "passwordResetTokens ?d" "ro_maxBatches opts * ro_batchSize opts"] fits
    by (auto simp: same simp flip: d5_def)
  have last: "d5\<lparr>pendingRegistrations := filter (\<lambda>r. fromDate (?c ExpiredPendingRegistrations) \<le> preg_expiresAt r)
      (pendingRegistrations ?d)\<rparr> = purged ?w ?now ?d"
    by (simp add: purged_def Let_def d5_def d4_def d3_def d2_def d1_def)
  obtain b6 where r6: "runApplyCategory ExpiredPendingRegistrations (?c ExpiredPendingRegistrations) opts
      (ro_maxBatches opts) 0 0 (w\<lparr>db := d5\<rparr>) =
      (Inr (count_where (\<lambda>r. preg_expiresAt r < fromDate (?c ExpiredPendingRegistrations)) (pendingRegistrations ?d), b6, False),
       w\<lparr>db := purged ?w ?now ?d\<rparr>)"
    using registrations.drain [of "w\<lparr>db := d5\<rparr>" opts preg_expiresAt "?c ExpiredPendingRegistrations"
        "ro_maxBatches opts" ExpiredPendingRegistrations]
      ok5 pos count_where_fits [of "pendingRegistrations ?d" "ro_maxBatches opts * ro_batchSize opts"] fits
    by (auto simp: same last)
  note steps = run_category_applied [OF mode r1] run_category_applied [OF mode r2] run_category_applied [OF mode r3]
    run_category_applied [OF mode r4] run_category_applied [OF mode r5] run_category_applied [OF mode r6]
  note run = run_categories_Cons [OF steps(1) run_categories_Cons [OF steps(2) run_categories_Cons [OF steps(3)
    run_categories_Cons [OF steps(4) run_categories_Cons [OF steps(5) run_categories_Cons [OF steps(6) run_categories_Nil]]]]]]
  show ?thesis
    by (intro exI [of _ b1] exI [of _ b2] exI [of _ b3] exI [of _ b4] exI [of _ b5] exI [of _ b6])
      (simp only: RETENTION_CATEGORIES_def run zip.simps list.case list.map prod.case countEligible.simps)
qed

end
