(* ===== verification/RetentionRuns.thy ===== *)
theory RetentionRuns
  imports Retention AccountSamples
begin

text \<open>
  What a retention run does to the tables, when it fails, and what its command line can ask for.
\<close>

section \<open>Aged events block sessions\<close>

lemma unique_after_sessions:
  "db_ok d \<Longrightarrow> list_all (\<lambda>(n, p). p (d\<lparr>refreshTokens := filter q (refreshTokens d), sessions := filter r (sessions d)\<rparr>))
    unique_constraints"
  unfolding db_ok_def unique_constraints_def by (auto intro: distinct_map_filter)

text \<open>A refused delete is a foreign key violation.\<close>

lemma failed_delete_code:
  assumes "db_ok d" and "\<not> db_ok (d\<lparr>refreshTokens := filter q (refreshTokens d), sessions := filter r (sessions d)\<rparr>)"
  shows "failureCode (the (db_violation (d\<lparr>refreshTokens := filter q (refreshTokens d), sessions := filter r (sessions d)\<rparr>)))
    = Some ''23503''"
proof -
  let ?d = "d\<lparr>refreshTokens := filter q (refreshTokens d), sessions := filter r (sessions d)\<rparr>"
  have u: "List.find (\<lambda>(n, p). \<not> p ?d) unique_constraints = None"
    using unique_after_sessions [OF assms(1), where q = q and r = r] by (auto simp: find_None_iff list_all_iff)
  have "db_violation ?d \<noteq> None" using assms(2) db_violation_None by blast
  then obtain n p where "List.find (\<lambda>(n, p). \<not> p ?d) foreign_keys = Some (n, p)"
    using u by (auto simp: db_violation_def split: option.splits)
  then show ?thesis using u by (simp add: db_violation_def foreignKeyViolation_def)
qed

text \<open>When a batch would delete a session an event still names, the batch fails and changes nothing.\<close>

lemma sessions_batch_refused:
  assumes "db_ok (db w)"
    and "e \<in> set (securityEvents (db w))" and "se_sessionId e = Some (s_id s)"
    and "s_id s \<in> set (oldest_ids s_id s_expiresAt (deletable_session cutoff windows now (db w)) n (sessions (db w)))"
  shows "\<exists>x. transaction (deleteSessions cutoff n windows now) w = (Inl x, w) \<and> failureCode x = Some ''23503''"
proof -
  define ids where
    "ids = oldest_ids s_id s_expiresAt (deletable_session cutoff windows now (db w)) n (sessions (db w))"
  let ?d = "(db w)\<lparr>refreshTokens := filter (\<lambda>t. rt_sessionId t \<notin> set ids) (refreshTokens (db w)),
    sessions := filter (\<lambda>s. s_id s \<notin> set ids) (sessions (db w))\<rparr>"
  have mem: "s_id s \<in> set ids" using assms(4) by (simp add: ids_def)
  have "s_id s \<in> set (somes (map se_sessionId (securityEvents ?d)))"
    using assms(2,3) by (force simp: in_somes)
  moreover have "s_id s \<notin> s_id ` set (sessions ?d)" using mem by auto
  moreover have "set (somes (map se_sessionId (securityEvents ?d))) \<subseteq> s_id ` set (sessions ?d)" if "db_ok ?d"
    using that by (simp only: db_ok_iff)
  ultimately have bad: "\<not> db_ok ?d" by blast
  have ok: "db_ok ((db w)\<lparr>refreshTokens := filter (\<lambda>t. rt_sessionId t \<notin> set ids) (refreshTokens (db w))\<rparr>)"
    by (rule refresh_tokens.ok_filter [OF assms(1)])
  have ne: "ids \<noteq> []" using mem by auto
  have "deleteSessions cutoff n windows now w = (Inl (the (db_violation ?d)),
      w\<lparr>db := (db w)\<lparr>refreshTokens := filter (\<lambda>t. rt_sessionId t \<notin> set ids) (refreshTokens (db w))\<rparr>\<rparr>)"
    unfolding deleteSessions_def bindP_apply select_apply prod.case sum.case ids_def [symmetric] delete_where_def delete_ids_def
    using ne ok bad by (simp add: sql_apply thenP_apply bindP_apply select_apply)
  then have "transaction (deleteSessions cutoff n windows now) w = (Inl (the (db_violation ?d)), w)"
    by (simp add: transaction_def)
  then show ?thesis using failed_delete_code [OF assms(1) bad] by blast
qed

section \<open>The command line\<close>

lemma read_flag_modes [simp]:
  "fl_apply (read_flag a f) = fl_apply f" "fl_dryRun (read_flag a f) = fl_dryRun f" "fl_json (read_flag a f) = fl_json f"
  by (simp_all add: read_flag_def split: option.split sum.split)

lemma parse_bounds: "parseBoundedInteger raw flag m = Inr n \<Longrightarrow> 1 \<le> n \<and> n \<le> m"
  by (auto simp: parseBoundedInteger_def Let_def split: if_splits)

definition flags_ok :: "retention_flags \<Rightarrow> bool" where
  "flags_ok f = ((\<forall>n. fl_batchSize f = Some n \<longrightarrow> 1 \<le> n \<and> n \<le> RETENTION_MAX_BATCH_SIZE) \<and>
    1 \<le> fl_maxBatches f \<and> fl_maxBatches f \<le> DEFAULT_MAX_BATCHES_PER_CATEGORY)"

lemma flags_ok_read_flag: "flags_ok f \<Longrightarrow> flags_ok (read_flag a f)"
  by (auto simp: flags_ok_def read_flag_def dest: parse_bounds split: option.splits sum.splits)

lemma read_flags_spec:
  "read_flags argv f = Some g \<Longrightarrow> fl_apply g = (fl_apply f \<or> ''--apply'' \<in> set argv) \<and>
    fl_dryRun g = (fl_dryRun f \<or> ''--dry-run'' \<in> set argv) \<and> (flags_ok f \<longrightarrow> flags_ok g)"
proof (induction argv f rule: read_flags.induct)
  case (2 a as f)
  then show ?case
    by (auto simp: flags_ok_read_flag split: if_splits) (simp_all add: flags_ok_def)
qed simp

section \<open>Properties\<close>

text \<open>
  C32. A retention run always returns a summary, whatever fails inside it; it keeps every
  constraint of the schema, and removes only rows of the chosen categories that are past their cutoff:
  every unexpired session, token and registration and every event within its window stays, and no
  other table changes. A dry run changes nothing.
\<close>

theorem retention_safe:
  assumes "db_ok (db w)"
  shows "\<exists>summary w'. runRetentionCleanup message opts w = (Inr summary, w') \<and> db_ok (db w') \<and>
    retained (ro_categories opts) (ro_windows opts) (ro_now opts) (db w) (db w') \<and>
    (if ro_mode opts = DryRun then w' = w else True)"
proof -
  obtain rs w' where run: "run_categories message opts (ro_categories opts) w = (Inr rs, w')"
    using run_categories_returns by blast
  have "kept (ro_categories opts) (ro_windows opts) (ro_now opts) (db w) (db w')"
    using preserves_run [OF keeps_run_categories [OF subset_refl, where before = "db w"] run] assms by simp
  moreover have "ro_mode opts = DryRun \<Longrightarrow> w' = w" by (rule dry_run_reads [OF _ run])
  ultimately show ?thesis by (auto simp: runRetentionCleanup_def prog_simps run)
qed

text \<open>
  C33. A full applied run with enough batches ends with no failure and no truncation,
  deletes exactly as many rows as a dry run at that moment counts, and leaves nothing eligible: the
  events, tokens and registrations past their cutoff, and the expired sessions that no retained row
  refers to, are gone and all else is as it was.
\<close>

theorem retention_drains:
  assumes "db_ok (db w)" and "ro_mode opts = Apply" and "ro_categories opts = RETENTION_CATEGORIES"
    and "0 < ro_batchSize opts" and "enough_batches opts (db w)"
  shows "\<exists>summary. runRetentionCleanup message opts w =
      (Inr summary, w\<lparr>db := purged (ro_windows opts) (ro_now opts) (db w)\<rparr>) \<and>
    sm_failedCategories summary = 0 \<and> list_all (\<lambda>r. \<not> cr_truncated r) (sm_results summary) \<and>
    map cr_deleted (sm_results summary) = map (\<lambda>c. countEligible c (retentionCutoff c (ro_windows opts) (ro_now opts))
      (ro_windows opts) (ro_now opts) (db w)) RETENTION_CATEGORIES"
proof -
  obtain b1 b2 b3 b4 b5 b6 where run: "run_categories message opts RETENTION_CATEGORIES w =
    (Inr (map (\<lambda>(c, b). result_of opts c None
        (countEligible c (retentionCutoff c (ro_windows opts) (ro_now opts)) (ro_windows opts) (ro_now opts) (db w), b, False) None)
      (zip RETENTION_CATEGORIES [b1, b2, b3, b4, b5, b6])),
     w\<lparr>db := purged (ro_windows opts) (ro_now opts) (db w)\<rparr>)"
    using drained_categories [OF assms(1,2,4,5)] by blast
  show ?thesis
    by (simp add: runRetentionCleanup_def prog_simps assms(3) run)
      (simp add: RETENTION_CATEGORIES_def result_of_def count_where_def)
qed


text \<open>
  C36. The command deletes only when asked to with \<open>--apply\<close>; whatever it is asked, a run
  has at least one category, in the order of the catalogue, at most 1000 batches per category and a
  batch size between 1 and 50000 or the configured one.
\<close>

theorem retention_asked:
  assumes "parseRetentionArgs argv = Run r"
  shows "(rr_mode r = Apply) = (''--apply'' \<in> set argv) \<and> rr_categories r \<noteq> [] \<and>
    (\<exists>q. rr_categories r = filter q RETENTION_CATEGORIES) \<and>
    rr_maxBatches r \<in> {1..DEFAULT_MAX_BATCHES_PER_CATEGORY} \<and>
    (case rr_batchSize r of None \<Rightarrow> True | Some n \<Rightarrow> n \<in> {1..RETENTION_MAX_BATCH_SIZE})"
proof -
  let ?f0 = "\<lparr>fl_apply = False, fl_dryRun = False, fl_json = False, fl_selected = [],
        fl_batchSize = None, fl_maxBatches = DEFAULT_MAX_BATCHES_PER_CATEGORY, fl_errors = []\<rparr>"
  obtain f where f: "read_flags argv ?f0 = Some f"
    and r: "r = \<lparr>rr_mode = (if fl_apply f then Apply else DryRun),
           rr_categories = (if fl_selected f \<noteq> [] then filter (\<lambda>c. c \<in> set (fl_selected f)) RETENTION_CATEGORIES
             else RETENTION_CATEGORIES),
           rr_batchSize = fl_batchSize f, rr_maxBatches = fl_maxBatches f, rr_json = fl_json f\<rparr>"
    using assms by (auto simp: parseRetentionArgs_def Let_def split: option.splits if_splits)
  have "flags_ok ?f0" by (simp add: flags_ok_def DEFAULT_MAX_BATCHES_PER_CATEGORY_def)
  then have spec: "fl_apply f = (''--apply'' \<in> set argv)" "flags_ok f" using read_flags_spec [OF f] by simp_all
  have all: "c \<in> set RETENTION_CATEGORIES" for c by (cases c) (simp_all add: RETENTION_CATEGORIES_def)
  have "\<exists>c\<in>set RETENTION_CATEGORIES. c \<in> set (fl_selected f)" if "fl_selected f \<noteq> []"
    using that all by (cases "fl_selected f") auto
  moreover have "RETENTION_CATEGORIES \<noteq> []" by (simp add: RETENTION_CATEGORIES_def)
  ultimately have "rr_categories r \<noteq> []" "\<exists>q. rr_categories r = filter q RETENTION_CATEGORIES"
    by (auto simp: r filter_empty_conv intro: exI [of _ "\<lambda>_. True"])
  moreover have "rr_maxBatches r \<in> {1..DEFAULT_MAX_BATCHES_PER_CATEGORY}" using spec(2) by (simp add: r flags_ok_def)
  ultimately show ?thesis using spec by (auto simp: r flags_ok_def split: option.splits)
qed

section \<open>Witnesses\<close>

text \<open>Four hundred days after the sample accounts were used, in batches of two.\<close>

definition cleanup :: "retention_mode \<Rightarrow> retention_category list \<Rightarrow> nat \<Rightarrow> retention_run" where
  "cleanup mode categories n =
    \<lparr>ro_mode = mode, ro_windows = \<lparr>securityEventDays = 180, expiredAuthTokenDays = 30, endedSessionDays = 90\<rparr>,
     ro_batchSize = n, ro_maxBatches = 10, ro_categories = categories, ro_now = 400 * MILLISECONDS_PER_DAY\<rparr>"

lemma cleanup_simps [simp]:
  "ro_mode (cleanup m cs n) = m" "ro_categories (cleanup m cs n) = cs" "ro_batchSize (cleanup m cs n) = n"
  "ro_maxBatches (cleanup m cs n) = 10" "ro_now (cleanup m cs n) = 400 * MILLISECONDS_PER_DAY"
  by (simp_all add: cleanup_def)

text \<open>An event of Ann's second session, a few milliseconds after the epoch.\<close>

definition stale_db :: database where
  "stale_db = account_db\<lparr>securityEvents :=
    [\<lparr>se_id = ''e1'', se_userId = Some ''ann'', se_sessionId = Some ''s2'', se_organizationId = None, se_actorType = UserActor,
      se_eventType = ''auth.login_succeeded'', se_metadata = [], se_ipAddress = None, se_userAgent = None,
      se_requestId = None, se_createdAt = 5000\<rparr>]\<rparr>"

definition stale_world :: world where
  "stale_world = account_world\<lparr>db := stale_db\<rparr>"

lemma stale_world_simps [simp]: "db stale_world = stale_db"
  by (simp add: stale_world_def)

lemma stale_ok: "db_ok stale_db"
proof -
  have "list_all (\<lambda>(n, p). p stale_db) unique_constraints" "list_all (\<lambda>(n, p). p stale_db) foreign_keys"
    by code_simp+
  then show ?thesis by (simp add: db_ok_def)
qed

definition sample_message :: "error \<Rightarrow> string" where
  "sample_message e = ''Failed query''"

lemma retention_safe_witness:
  "\<exists>summary w'. runRetentionCleanup sample_message (cleanup Apply [SecurityEvents] 2) account_world = (Inr summary, w') \<and>
    sessions (db w') = sessions account_db"
  using retention_safe [of account_world sample_message "cleanup Apply [SecurityEvents] 2"]
  by (auto simp: retained_def Let_def)

lemma retention_drains_witness:
  "\<exists>summary w'. runRetentionCleanup sample_message (cleanup Apply RETENTION_CATEGORIES 2) stale_world = (Inr summary, w') \<and>
    sm_failedCategories summary = 0 \<and> sessions (db w') = []"
proof -
  have "enough_batches (cleanup Apply RETENTION_CATEGORIES 2) stale_db"
    by code_simp
  moreover have "sessions (purged (ro_windows (cleanup Apply RETENTION_CATEGORIES 2)) (400 * MILLISECONDS_PER_DAY) stale_db) = []"
    by code_simp
  ultimately show ?thesis
    using retention_drains [of stale_world "cleanup Apply RETENTION_CATEGORIES 2" sample_message] stale_ok by auto
qed


lemma retention_asked_witness:
  "\<exists>r. parseRetentionArgs [''--batch-size=10'', ''--category=expired_sessions''] = Run r \<and> rr_mode r = DryRun"
proof -
  have p: "parseRetentionArgs [''--batch-size=10'', ''--category=expired_sessions''] =
    Run \<lparr>rr_mode = DryRun, rr_categories = [ExpiredSessions], rr_batchSize = Some 10, rr_maxBatches = 1000, rr_json = False\<rparr>"
    by code_simp
  show ?thesis using retention_asked [OF p] p by auto
qed

section \<open>What a failed category reports\<close>

definition halfway_db :: database where
  "halfway_db = stale_db\<lparr>refreshTokens := filter (\<lambda>t. rt_sessionId t \<noteq> ''s1'') (refreshTokens stale_db),
    sessions := filter (\<lambda>s. s_id s \<noteq> ''s1'') (sessions stale_db)\<rparr>"

lemma halfway_ok: "db_ok halfway_db" "db_ok (stale_db\<lparr>refreshTokens := filter (\<lambda>t. rt_sessionId t \<noteq> ''s1'') (refreshTokens stale_db)\<rparr>)"
proof -
  have "list_all (\<lambda>(n, p). p halfway_db) unique_constraints" "list_all (\<lambda>(n, p). p halfway_db) foreign_keys"
    by code_simp+
  then show "db_ok halfway_db" by (simp add: db_ok_def)
qed (rule refresh_tokens.ok_filter [OF stale_ok])

lemma first_batch:
  fixes windows :: retention_windows and c now :: date
  assumes "oldest_ids s_id s_expiresAt (deletable_session c windows now stale_db) 1 (sessions stale_db) = [''s1'']"
  shows "transaction (deleteSessions c 1 windows now) stale_world = (Inr 1, stale_world\<lparr>db := halfway_db\<rparr>)"
proof -
  have "count_where (\<lambda>s. s_id s = ''s1'') (sessions stale_db) = 1" by code_simp
  then show ?thesis
    using halfway_ok by (simp add: deleteSessions_def prog_simps assms [simplified] delete_ids_def delete_where_def halfway_db_def)
qed

lemma second_batch:
  fixes windows :: retention_windows and c now :: date
  assumes "oldest_ids s_id s_expiresAt (deletable_session c windows now halfway_db) 1 (sessions halfway_db) = [''s2'']"
  shows "\<exists>x. transaction (deleteSessions c 1 windows now) (stale_world\<lparr>db := halfway_db\<rparr>) = (Inl x, stale_world\<lparr>db := halfway_db\<rparr>)"
proof -
  obtain e where "e \<in> set (securityEvents halfway_db)" "se_sessionId e = Some (s_id (sample_session ''s2'' ''ann''))"
    by (simp add: halfway_db_def stale_db_def sample_session_def)
  then show ?thesis
    using sessions_batch_refused [of "stale_world\<lparr>db := halfway_db\<rparr>" e "sample_session ''s2'' ''ann''" c windows now 1]
      halfway_ok(1) assms by (auto simp: sample_session_def)
qed


end
