(* ===== verification/Spec2Isabelle.thy ===== *)
theory Spec2Isabelle
  imports SystemSamples Enumeration RetentionRuns
begin

text \<open>
  Orgistry: a verification development of the multi-tenant organization API
  (\<^verbatim>\<open>apps/api\<close>, \<^verbatim>\<open>packages/auth-core\<close>, \<^verbatim>\<open>packages/contracts\<close>, \<^verbatim>\<open>packages/db\<close>, \<^verbatim>\<open>packages/shared\<close>).

  The program. A Fastify server validates a request against a zod schema, resolves the caller (an
  access token, a refresh cookie or an API key), and calls one operation of a service. Services check
  rate limits, membership and permissions, read and write PostgreSQL through repositories, send mail
  and append to the security event log. The model follows that structure: a route is a definition
  \<open>route_x\<close>, a service operation and a repository method have the name they have in the code, and a
  table is a list of row records.

  State and effects. Every operation is a program of type \<open>'a api\<close> (Prelude: the state and error
  monad; Database: the world). The world holds the tables, the clock, a stream of random bytes, the
  state of the rate limiters, the outbox of delivered mail and whether the mailer and Redis answer.
  A raise is the \<open>Inl\<close> of the program's own errors (Contracts: \<open>AppError\<close> with its code and status, a
  refused schema, a driver error, any other exception); every early return and every catch of the
  code is a branch. A statement on the tables fails with the constraint PostgreSQL would name when
  the tables it would leave violate the schema (\<open>sql\<close>, \<open>db_ok\<close>); a transaction restores the tables
  when its body fails.

  Operations run one after the other. The code serialises what must be atomic itself: membership
  changes, quotas and plan changes hold an advisory lock of the organization
  (\<^verbatim>\<open>entitlements/quota-lock.ts\<close>, \<^verbatim>\<open>organization/member.repo\<close>), token rotation and completion lock their
  row with \<^verbatim>\<open>FOR UPDATE\<close>. Between two requests the clock may advance and everything outside the tables
  may change (\<open>run_idle\<close> of SystemRuns); what interleavings of unlocked steps inside one request can do
  is not modelled.

  Theories, in the order of the program.
    Prelude: rows (\<open>select_first\<close>, \<open>update_where\<close>), the program monad, its weakest preconditions \<open>wp\<close> and
      the collections \<open>wp_simps\<close> and \<open>preserve_intros\<close> that carry the component proofs.
    Contracts, Primitives, SecurityMetadata, Codec, Pagination: error codes, identifiers, opaque tokens,
      address normalisation, JSON, base64url and UTF-8, cursors, the metadata sanitiser.
    Database: the schema (\<^verbatim>\<open>packages/db\<close>), its constraints as data, transactions and the world.
    RateLimit: the in-memory and the Redis limiter, one locale with one interpretation for each.
    AccessControl, Rbac, Organizations, Slugs, Members: organizations, roles, memberships, the matrix.
    Entitlements, Projects, ApiKeys, AuditLog, Invitations, Joining: plans and quotas, projects, keys,
      the audit log, invitations and what accepting one does.
    AuthCommon, AuthSessions, AuthService, EmailVerification, PasswordRecovery, Registration, Mail:
      accounts, sessions, one-time tokens and the mail they send.
    Tenancy, AccountChanges, SystemChanges: one relation for every way the tables can change, with the
      locales that carry an invariant of one step through every service operation.
    SessionProtocol: the abstract automaton of a session and the refinement of the refresh endpoint.
    Requests, Http, Routes: the request schemas, the HTTP edge and one definition per route.
    SystemRuns, Authorization, OneTime, Enumeration: runs of the whole program and what holds along them.
    Retention, RetentionRuns: the cleanup command of \<^verbatim>\<open>apps/api/src/maintenance\<close>, its bounded batches (the locale
      \<open>purgeable\<close>, interpreted on every table it deletes from by age) and what a run leaves behind.
    Samples, AccountSamples, SystemSamples: concrete worlds for the witnesses.

  What the lemmas show. Per component: the decision of an operation on every branch
  (\<open>change_verdict\<close>, \<open>remove_verdict\<close>, \<open>invite_verdict\<close>, \<open>join_verdict\<close>), its exact effect on the tables,
  and that a refusal changes nothing but the event log. Across components: the invariant of the
  tables (\<open>system_ok\<close>), authorization of every organization route, the end of a session, the single use
  of tokens and the uniform answer of the requests that must not tell whether an account exists. Of the
  cleanup: it deletes only rows past their cutoff, a full run drains every category, and two ways in
  which it fails or misreports.

  Parameters. Code that is not in the repository is an argument: argon2, SHA-256 and JWT (the record
  \<open>crypto\<close>; \<open>jwt_sound\<close> says that a signed token verifies under its own key alone, until it expires),
  zod's address and instant formats and \<open>Date\<close> parsing (the record \<open>validators\<close>), the effect of the
  Redis commands (\<open>redisCommand\<close>). Text is a list of code units up to U+00FF; a character beyond is the
  substitute of the codec.

  Bounds. No definition uses fuel for a loop of the code: the slug search recurses on the attempts left
  (its own bound), the cleanup on the batches left (its own bound; \<open>enough_batches\<close> says when that many
  drain every table), the JSON parser and the codecs on the text left, lists elsewhere.

  Not modelled. Fastify's parsing and URL matching, CORS, logging, the SMTP connection and the
  PostgreSQL driver are library or I/O code; response schemas only give types. The
  configuration loader (a table of environment variables with zod defaults), the operator scripts around
  pg_dump, object stores and release files, and the web demo (a browser client) are not modelled; the
  in-memory repositories are test doubles of the modelled ones.
\<close>

end
